(* ===== verification/Eco2_Prelude.thy ===== *)
theory Eco2_Prelude
  imports Main "HOL-Library.Word"
begin

text \<open>
  Shared vocabulary of the development: the integer widths and byte strings of the Rust code,
  storage maps as \<open>decl_storage!\<close> declares them, the results a dispatchable returns,
  64-bit arithmetic as the release profile compiles it (wrap-around), and the sums over all
  accounts in which the conservation laws of the two asset pallets are stated.
\<close>

section \<open>Types\<close>

type_synonym u8 = "8 word"
type_synonym u16 = "16 word"
type_synonym u32 = "32 word"
type_synonym u64 = "64 word"
type_synonym u128 = "128 word"

text \<open>
  The runtime fixes \<open>Hash = H256\<close> and a 32-byte \<open>AccountId\<close>; both are 256-bit words here, so
  the zero hash \<open>T::Hash::default()\<close> is \<open>0\<close> and a sum over all accounts is finite.
  \<open>Vec<u8>\<close> is a list of bytes.
\<close>

type_synonym hash = "256 word"
type_synonym account = "256 word"
type_synonym bytes = "u8 list"

section \<open>Storage maps\<close>

text \<open>
  \<open>map K => Option<V>\<close> is a partial function; \<open>map K => u64\<close> is a partial function read through
  its default value \<open>0\<close>, with \<open>get\<close>, \<open>insert\<close> (map update) and \<open>mutate\<close>.
\<close>

definition vget :: "('k \<rightharpoonup> u64) \<Rightarrow> 'k \<Rightarrow> u64" where
  "vget m k = (case m k of None \<Rightarrow> 0 | Some v \<Rightarrow> v)"

definition vmutate :: "('k \<rightharpoonup> u64) \<Rightarrow> 'k \<Rightarrow> (u64 \<Rightarrow> u64) \<Rightarrow> ('k \<rightharpoonup> u64)" where
  "vmutate m k f = m(k \<mapsto> f (vget m k))"

lemma vget_empty [simp]: "vget Map.empty k = 0"
  by (simp add: vget_def)

lemma vget_update [simp]: "vget (m(k \<mapsto> v)) k' = (if k' = k then v else vget m k')"
  by (simp add: vget_def)

lemma vget_vmutate [simp]:
  "vget (vmutate m k f) k' = (if k' = k then f (vget m k) else vget m k')"
  by (simp add: vmutate_def)

section \<open>Dispatch results\<close>

text \<open>
  A dispatchable returns \<open>DispatchResult\<close>; the framework version in use (2.0.1) does not roll
  storage back when a call fails, so a call maps a state to its result \<^emph>\<open>and\<close> the state it left
  behind, on the error paths too.
\<close>

datatype 'e dispatch_error = BadOrigin | Module_error 'e

type_synonym 'e dispatch_result = "'e dispatch_error + unit"

abbreviation Ok :: "'e + unit" where
  "Ok \<equiv> Inr ()"

abbreviation Err :: "'e \<Rightarrow> 'e dispatch_error + 'b" where
  "Err e \<equiv> Inl (Module_error e)"

lemma sum_unit_exhaust: "(r :: 'e + unit) = Ok \<or> (\<exists>e. r = Inl e)"
  by (cases r) auto

section \<open>Arithmetic on 64-bit words\<close>

text \<open>
  \<open>+\<close>, \<open>-\<close> on \<open>u64\<close> wrap in the release profile (the workspace \<open>Cargo.toml\<close> does not switch
  overflow checks on), as \<open>+\<close>, \<open>-\<close> on \<^typ>\<open>u64\<close> do. \<open>saturating_mul\<close> clamps at the maximum.
\<close>

definition saturating_mul :: "u64 \<Rightarrow> u64 \<Rightarrow> u64" where
  "saturating_mul a b = (if unat a * unat b < 2 ^ 64 then a * b else - 1)"

lemma unat_u64_bound [simp]: "unat (x :: u64) < 18446744073709551616"
  using unsigned_less [of x] by simp

lemma unat_add_u64: "unat a + unat b < 2 ^ 64 \<Longrightarrow> unat (a + b :: u64) = unat a + unat b"
  by (simp add: unat_word_ariths)

lemma unat_sub_u64: "b \<le> a \<Longrightarrow> unat (a - b :: u64) = unat a - unat b"
  by (rule unat_sub)

lemma u64_less_plus_1: "x \<noteq> - 1 \<Longrightarrow> x < x + (1 :: u64)"
proof -
  assume "x \<noteq> - 1"
  then have "unat x \<noteq> unat (- 1 :: u64)" by (metis unsigned_word_eqI)
  then have "unat x \<noteq> 18446744073709551615"
    by (simp add: unsigned_minus_1_eq_mask mask_eq_exp_minus_1)
  then have "unat x < 18446744073709551615" using unat_u64_bound [of x] by linarith
  then have "unat (x + 1) = unat x + 1" by (subst unat_add_u64) simp_all
  then show ?thesis by (simp add: word_less_nat_alt)
qed

lemma unat_saturating_mul:
  "unat (saturating_mul a b) = min (unat a * unat b) (2 ^ 64 - 1)"
proof (cases "unat a * unat b < 2 ^ 64")
  case True
  then show ?thesis by (simp add: saturating_mul_def unat_word_ariths)
next
  case False
  then show ?thesis by (simp add: saturating_mul_def unsigned_minus_1_eq_mask mask_eq_exp_minus_1)
qed

lemma saturating_mul_exact:
  "unat a * unat b < 2 ^ 64 \<Longrightarrow> unat (saturating_mul a b) = unat a * unat b"
  by (simp add: unat_saturating_mul)

lemma saturating_mul_0 [simp]: "saturating_mul 0 b = 0"
  by (simp add: saturating_mul_def)

lemma of_nat_unat_sum:
  "(of_nat (\<Sum>x\<in>A. unat (f x)) :: u64) = (\<Sum>x\<in>A. f x)"
  by simp

section \<open>Sums with one entry changed\<close>

text \<open>Over a finite type, a sum changes by exactly the change of the one entry that changed.\<close>

lemma sum_fun_upd_word:
  fixes f :: "'a :: finite \<Rightarrow> 'b :: ab_group_add"
  shows "(\<Sum>x\<in>UNIV. (f(a := v)) x) = (\<Sum>x\<in>UNIV. f x) - f a + v"
proof -
  have "(\<Sum>x\<in>UNIV. (f(a := v)) x) = v + (\<Sum>x\<in>UNIV - {a}. f x)"
    by (subst sum.remove [of UNIV a]) auto
  moreover have "(\<Sum>x\<in>UNIV. f x) = f a + (\<Sum>x\<in>UNIV - {a}. f x)"
    by (rule sum.remove) auto
  ultimately show ?thesis by simp
qed

lemma sum_fun_upd_nat:
  fixes f :: "'a :: finite \<Rightarrow> nat"
  shows "(\<Sum>x\<in>UNIV. (f(a := v)) x) + f a = (\<Sum>x\<in>UNIV. f x) + v"
proof -
  have "(\<Sum>x\<in>UNIV. (f(a := v)) x) = v + (\<Sum>x\<in>UNIV - {a}. f x)"
    by (subst sum.remove [of UNIV a]) auto
  moreover have "(\<Sum>x\<in>UNIV. f x) = f a + (\<Sum>x\<in>UNIV - {a}. f x)"
    by (rule sum.remove) auto
  ultimately show ?thesis by simp
qed

lemma sum_upd_word:
  fixes f g :: "'a :: finite \<Rightarrow> 'b :: ab_group_add"
  assumes "\<And>x. x \<noteq> a \<Longrightarrow> g x = f x"
  shows "(\<Sum>x\<in>UNIV. g x) = (\<Sum>x\<in>UNIV. f x) - f a + g a"
proof -
  have "g = f(a := g a)" using assms by auto
  then have "(\<Sum>x\<in>UNIV. g x) = (\<Sum>x\<in>UNIV. (f(a := g a)) x)" by simp
  then show ?thesis by (simp only: sum_fun_upd_word)
qed

lemma sum_upd_nat:
  fixes f g :: "'a :: finite \<Rightarrow> nat"
  assumes "\<And>x. x \<noteq> a \<Longrightarrow> g x = f x"
  shows "(\<Sum>x\<in>UNIV. g x) + f a = (\<Sum>x\<in>UNIV. f x) + g a"
proof -
  have "g = f(a := g a)" using assms by auto
  then have "(\<Sum>x\<in>UNIV. g x) = (\<Sum>x\<in>UNIV. (f(a := g a)) x)" by simp
  then show ?thesis by (simp only: sum_fun_upd_nat)
qed

lemma member_le_sum_UNIV:
  fixes f :: "'a :: finite \<Rightarrow> nat"
  shows "f a \<le> (\<Sum>x\<in>UNIV. f x)"
  by (rule member_le_sum) auto

lemma two_members_le_sum_UNIV:
  fixes f :: "'a :: finite \<Rightarrow> nat"
  assumes "a \<noteq> b"
  shows "f a + f b \<le> (\<Sum>x\<in>UNIV. f x)"
proof -
  have "f a + f b = sum f {a, b}" using assms by simp
  also have "\<dots> \<le> (\<Sum>x\<in>UNIV. f x)" by (rule sum_mono2) auto
  finally show ?thesis .
qed

section \<open>Sums over the entries of a storage map\<close>

definition map_sum :: "('v \<Rightarrow> 'n :: comm_monoid_add) \<Rightarrow> ('k :: finite \<rightharpoonup> 'v) \<Rightarrow> 'n" where
  "map_sum f m = (\<Sum>k\<in>UNIV. case m k of None \<Rightarrow> 0 | Some v \<Rightarrow> f v)"

lemma map_sum_empty [simp]: "map_sum f Map.empty = 0"
  by (simp add: map_sum_def)

lemma map_sum_insert:
  fixes f :: "'v \<Rightarrow> 'n :: ab_group_add"
  assumes "m k = None"
  shows "map_sum f (m(k \<mapsto> v)) = map_sum f m + f v"
  unfolding map_sum_def
  using assms sum_upd_word [of k "\<lambda>x. case (m(k \<mapsto> v)) x of None \<Rightarrow> 0 | Some v \<Rightarrow> f v"
      "\<lambda>x. case m x of None \<Rightarrow> 0 | Some v \<Rightarrow> f v"] by simp

lemma map_sum_replace:
  fixes f :: "'v \<Rightarrow> 'n :: ab_group_add"
  assumes "m k = Some w"
  shows "map_sum f (m(k \<mapsto> v)) = map_sum f m - f w + f v"
  unfolding map_sum_def
  using assms sum_upd_word [of k "\<lambda>x. case (m(k \<mapsto> v)) x of None \<Rightarrow> 0 | Some v \<Rightarrow> f v"
      "\<lambda>x. case m x of None \<Rightarrow> 0 | Some v \<Rightarrow> f v"] by simp

lemma map_sum_insert_nat:
  fixes f :: "'v \<Rightarrow> nat"
  assumes "m k = None"
  shows "map_sum f (m(k \<mapsto> v)) = map_sum f m + f v"
  unfolding map_sum_def
  using assms sum_upd_nat [of k "\<lambda>x. case (m(k \<mapsto> v)) x of None \<Rightarrow> 0 | Some v \<Rightarrow> f v"
      "\<lambda>x. case m x of None \<Rightarrow> 0 | Some v \<Rightarrow> f v"] by simp

lemma map_sum_replace_nat:
  fixes f :: "'v \<Rightarrow> nat"
  assumes "m k = Some w"
  shows "map_sum f (m(k \<mapsto> v)) + f w = map_sum f m + f v"
  unfolding map_sum_def
  using assms sum_upd_nat [of k "\<lambda>x. case (m(k \<mapsto> v)) x of None \<Rightarrow> 0 | Some v \<Rightarrow> f v"
      "\<lambda>x. case m x of None \<Rightarrow> 0 | Some v \<Rightarrow> f v"] by simp

lemma map_sum_remove_nat:
  fixes f :: "'v \<Rightarrow> nat"
  assumes "m k = Some w"
  shows "map_sum f (m(k := None)) + f w = map_sum f m"
  unfolding map_sum_def
  using assms sum_upd_nat [of k "\<lambda>x. case (m(k := None)) x of None \<Rightarrow> 0 | Some v \<Rightarrow> f v"
      "\<lambda>x. case m x of None \<Rightarrow> 0 | Some v \<Rightarrow> f v"] by simp

lemma map_sum_member_nat:
  fixes f :: "'v \<Rightarrow> nat"
  assumes "m k = Some v"
  shows "f v \<le> map_sum f m"
  using map_sum_remove_nat [of m k v f] assms by simp

lemma map_sum_all_0: "(\<And>k v. m k = Some v \<Longrightarrow> f v = 0) \<Longrightarrow> map_sum f m = 0"
  unfolding map_sum_def by (intro sum.neutral) (auto split: option.split)

section \<open>The units of one asset\<close>

text \<open>
  Both asset pallets keep \<open>Balances: map (Hash, AccountId) => u64\<close>. \<open>units\<close> is the sum of an
  asset's balances modulo \<open>2 ^ 64\<close>, the ring the code computes in; \<open>holdings\<close> is the true sum.
\<close>

definition units :: "(hash \<times> account \<rightharpoonup> u64) \<Rightarrow> hash \<Rightarrow> u64" where
  "units m i = (\<Sum>a\<in>UNIV. vget m (i, a))"

definition holdings :: "(hash \<times> account \<rightharpoonup> u64) \<Rightarrow> hash \<Rightarrow> nat" where
  "holdings m i = (\<Sum>a\<in>UNIV. unat (vget m (i, a)))"

lemma units_empty [simp]: "units Map.empty i = 0"
  by (simp add: units_def)

lemma holdings_empty [simp]: "holdings Map.empty i = 0"
  by (simp add: holdings_def)

lemma units_of_nat_holdings: "units m i = of_nat (holdings m i)"
  by (simp add: units_def holdings_def)

lemma units_update [simp]:
  "units (m((j, a) \<mapsto> v)) i =
     (if i = j then units m i - vget m (i, a) + v else units m i)"
proof (cases "i = j")
  case True
  then show ?thesis
    unfolding units_def
    using sum_upd_word [of a "\<lambda>x. vget (m((j, a) \<mapsto> v)) (i, x)" "\<lambda>x. vget m (i, x)"]
    by simp
qed (simp add: units_def)

lemma units_vmutate [simp]:
  "units (vmutate m (j, a) f) i =
     (if i = j then units m i - vget m (i, a) + f (vget m (i, a)) else units m i)"
  by (simp add: vmutate_def)

lemma holdings_update:
  "holdings (m((i, a) \<mapsto> v)) i + unat (vget m (i, a)) = holdings m i + unat v"
  unfolding holdings_def
  using sum_upd_nat
    [of a "\<lambda>x. unat (vget (m((i, a) \<mapsto> v)) (i, x))" "\<lambda>x. unat (vget m (i, x))"]
  by simp

lemma holdings_update_other [simp]:
  "j \<noteq> i \<Longrightarrow> holdings (m((j, a) \<mapsto> v)) i = holdings m i"
  by (simp add: holdings_def)

lemma holdings_vmutate_other [simp]:
  "j \<noteq> i \<Longrightarrow> holdings (vmutate m (j, a) f) i = holdings m i"
  by (simp add: vmutate_def)

lemma balance_le_holdings: "unat (vget m (i, a)) \<le> holdings m i"
  unfolding holdings_def by (rule member_le_sum_UNIV)

lemma two_balances_le_holdings:
  "a \<noteq> b \<Longrightarrow> unat (vget m (i, a)) + unat (vget m (i, b)) \<le> holdings m i"
  unfolding holdings_def by (rule two_members_le_sum_UNIV)

lemma holdings_0_iff: "holdings m i = 0 \<longleftrightarrow> (\<forall>a. vget m (i, a) = 0)"
  by (simp add: holdings_def unat_eq_0)

section \<open>Runs of calls\<close>

text \<open>
  A block executes a list of calls one after the other; a failing call does not stop the next
  one and leaves whatever it wrote.
\<close>

fun run_calls :: "('call \<Rightarrow> 'st \<Rightarrow> 'res \<times> 'st) \<Rightarrow> 'call list \<Rightarrow> 'st \<Rightarrow> 'st" where
  "run_calls step [] s = s"
| "run_calls step (c # cs) s = run_calls step cs (snd (step c s))"

lemma run_calls_append: "run_calls step (cs @ ds) s = run_calls step ds (run_calls step cs s)"
  by (induction cs arbitrary: s) auto

end
