(* ===== verification/Frame.thy ===== *)
theory Frame
  imports Eco2_Prelude
begin

text \<open>
  What the pallets see of the framework: the origin of a call, the hash function, the clock, the
  approval origin of the configuration, the account of the exchange pot, and the native currency
  of \<open>pallet_balances\<close>. None of this is code of the repository, so the hash, the clock, the
  approval origin, the pot's account and the currency's \<open>transfer\<close> are parameters (the record
  \<open>env\<close> and explicit arguments), and what the exchange relies on is a named hypothesis,
  \<open>currency_laws\<close>.
\<close>

section \<open>Origins\<close>

text \<open>
  \<open>construct_runtime!\<close> builds the runtime's \<open>Origin\<close> from the system origin and the origins of
  the two collectives (the council and the carbon committee), whose own type is opaque here.
  \<open>ensure_signed\<close> returns the account of a signed origin and fails with \<open>BadOrigin\<close> otherwise.
\<close>

typedecl collective_origin

datatype origin =
    Root
  | Signed account
  | Unsigned
  | Council_origin collective_origin
  | Carbon_committee_origin collective_origin

fun ensure_signed :: "origin \<Rightarrow> account option" where
  "ensure_signed (Signed who) = Some who"
| "ensure_signed _ = None"

lemma ensure_signed_Some [simp]: "ensure_signed og = Some who \<longleftrightarrow> og = Signed who"
  by (cases og) auto

lemma ensure_signed_None: "ensure_signed og = None \<longleftrightarrow> (\<forall>who. og \<noteq> Signed who)"
  by (cases og) auto

section \<open>Hash preimages\<close>

text \<open>
  Every identifier is \<open>T::Hashing::hash_of\<close> of a tuple that starts with a tag (\<open>b"ECRC10"\<close>,
  \<open>b"project"\<close>, \<dots>). One constructor per tuple; the SCALE encoding and BLAKE2 together are the
  parameter \<open>hash_of\<close>, about which nothing is assumed unless a theorem says so.
\<close>

datatype preimage =
    Pre_ECRC10 account bytes bytes u8 u64 u64
  | Pre_project account bytes u64 bytes
  | Pre_asset account hash bytes u64 bytes
  | Pre_issue account hash u64 bytes
  | Pre_burn account hash u64 bytes
  | Pre_order account hash hash u64 u64 u8 u64

section \<open>The environment of a call\<close>

record env =
  hash_of :: "preimage \<Rightarrow> hash"
  now :: u64
  approve_origin :: "origin \<Rightarrow> bool"
  pot_account_id :: account

section \<open>The native currency\<close>

text \<open>
  \<open>pallet_balances::Module::transfer (origin, dest, value)\<close> over a currency state \<open>'c\<close>, with an
  error type \<open>'x\<close>.
\<close>

type_synonym ('c, 'x) currency_transfer =
  "origin \<Rightarrow> account \<Rightarrow> u128 \<Rightarrow> 'c \<Rightarrow> ('x + unit) \<times> 'c"

text \<open>
  Documented behaviour of \<open>transfer\<close>, for a free balance \<open>free\<close> and an existential deposit \<open>ed\<close>:
  a failed transfer writes nothing; a successful one comes from a signed origin, moves nothing
  when the value is zero or the account pays itself, and otherwise moves the value from the
  sender, who has it, to the destination, touching no other account. The sender keeps the exact
  remainder unless that falls below the existential deposit: then the account is reaped, and the
  remainder (dust) may be lost.
\<close>

definition moves :: "nat \<Rightarrow> ('c \<Rightarrow> account \<Rightarrow> nat) \<Rightarrow> account \<Rightarrow> account \<Rightarrow> nat \<Rightarrow> 'c \<Rightarrow> 'c \<Rightarrow> bool" where
  "moves ed free a b v c c' \<longleftrightarrow>
     v \<le> free c a \<and> free c' b = free c b + v
     \<and> free c' a \<le> free c a - v
     \<and> (ed \<le> free c a - v \<longrightarrow> free c' a = free c a - v)
     \<and> (\<forall>x. x \<noteq> a \<longrightarrow> x \<noteq> b \<longrightarrow> free c' x = free c x)"

definition currency_laws ::
    "nat \<Rightarrow> ('c \<Rightarrow> account \<Rightarrow> nat) \<Rightarrow> ('c, 'x) currency_transfer \<Rightarrow> bool" where
  "currency_laws ed free transfer \<longleftrightarrow>
     (\<forall>og b v c e c'. transfer og b v c = (Inl e, c') \<longrightarrow> c' = c) \<and>
     (\<forall>og b v c c'. transfer og b v c = (Inr (), c') \<longrightarrow> (\<exists>a. og = Signed a)) \<and>
     (\<forall>a b v c c'. transfer (Signed a) b v c = (Inr (), c') \<longrightarrow>
        (if a = b \<or> v = 0 then free c' = free c else moves ed free a b (unat v) c c'))"

lemma currency_fail:
  "currency_laws ed free transfer \<Longrightarrow> transfer og b v c = (Inl e, c') \<Longrightarrow> c' = c"
  unfolding currency_laws_def by blast

lemma currency_self:
  "currency_laws ed free transfer \<Longrightarrow> transfer (Signed a) a v c = (Inr (), c') \<Longrightarrow>
     free c' = free c"
proof -
  assume "currency_laws ed free transfer" and "transfer (Signed a) a v c = (Inr (), c')"
  then have "if a = a \<or> v = 0 then free c' = free c else moves ed free a a (unat v) c c'"
    unfolding currency_laws_def by blast
  then show ?thesis by simp
qed

lemma currency_moves:
  assumes "currency_laws ed free transfer" and "transfer (Signed a) b v c = (Inr (), c')"
    and "a \<noteq> b"
  shows "(v = 0 \<and> free c' = free c) \<or> (v \<noteq> 0 \<and> moves ed free a b (unat v) c c')"
proof -
  have "if a = b \<or> v = 0 then free c' = free c else moves ed free a b (unat v) c c'"
    using assms(1,2) unfolding currency_laws_def by blast
  with assms(3) show ?thesis by (cases "v = 0") simp_all
qed

text \<open>The two facts the exchange's escrow needs: what a payment does to an account \<open>p\<close>.\<close>

lemma currency_receives:
  assumes "currency_laws ed free transfer" and "transfer (Signed a) p v c = (Inr (), c')"
    and "a \<noteq> p"
  shows "free c' p = free c p + unat v"
  using currency_moves [OF assms] by (auto simp: moves_def)

lemma currency_pays:
  assumes "currency_laws ed free transfer" and "transfer (Signed p) b v c = (Inr (), c')"
    and "ed + unat v \<le> free c p"
  shows "if b = p then free c' p = free c p else free c' p = free c p - unat v"
proof (cases "b = p")
  case True
  with assms currency_self show ?thesis by metis
next
  case False
  then have "(v = 0 \<and> free c' = free c) \<or> (v \<noteq> 0 \<and> moves ed free p b (unat v) c c')"
    using currency_moves [OF assms(1,2)] by simp
  with False assms(3) show ?thesis by (auto simp: moves_def)
qed

lemma currency_others:
  assumes "currency_laws ed free transfer" and "transfer (Signed a) b v c = (Inr (), c')"
    and "p \<noteq> a" and "p \<noteq> b"
  shows "free c' p = free c p"
proof (cases "a = b")
  case True
  with assms currency_self show ?thesis by metis
next
  case False
  with currency_moves [OF assms(1,2)] assms(3,4) show ?thesis by (auto simp: moves_def)
qed

section \<open>A sample environment\<close>

text \<open>
  An instance of the parameters for concrete runs: a hash that tells the tuples of a small
  scenario apart by tag and by the length of their last byte string, the root as the approval
  origin, and account \<open>99\<close> as the pot.
\<close>

fun sample_hash :: "preimage \<Rightarrow> hash" where
  "sample_hash (Pre_ECRC10 who symbol name decimals max_supply first_supply) =
     1000 + of_nat (length symbol)"
| "sample_hash (Pre_project who symbol max_supply additional) =
     2000 + of_nat (length additional)"
| "sample_hash (Pre_asset who project vintage supply additional) =
     3000 + of_nat (length additional)"
| "sample_hash (Pre_issue who asset amount additional) = 4000 + of_nat (length additional)"
| "sample_hash (Pre_burn who asset amount additional) = 5000 + of_nat (length additional)"
| "sample_hash (Pre_order who asset money price amount direction salt) = 6000 + ucast salt"

definition sample_env :: env where
  "sample_env = \<lparr>hash_of = sample_hash, now = 0, approve_origin = (\<lambda>og. og = Root),
     pot_account_id = 99\<rparr>"

lemma sample_env_simps [simp]:
  "hash_of sample_env = sample_hash" "now sample_env = 0"
  "approve_origin sample_env og = (og = Root)" "pot_account_id sample_env = 99"
  by (simp_all add: sample_env_def)

end
