(* ===== verification/Interfaces.thy ===== *)
theory Interfaces
  imports Frame
begin

text \<open>
  The contracts the pallets share, as locales. \<open>ledger\<close> is a table of balances with an unchecked
  move (\<open>make_transfer\<close> of both asset pallets, used by the exchange); \<open>approval\<close> is the
  submit/approve life cycle of projects, assets, issues and burns; \<open>checked_dispatch\<close> is the
  ``verify first, write last'' discipline of a pallet whose failing calls write nothing;
  \<open>invariant_run\<close> lifts an invariant of one call to a run of calls. Each is interpreted on the
  pallets' own definitions in the theory of the pallet.
\<close>

section \<open>Ledgers\<close>

locale ledger =
  fixes bal :: "'s \<Rightarrow> hash \<Rightarrow> account \<Rightarrow> u64"
    and move :: "'s \<Rightarrow> hash \<Rightarrow> account \<Rightarrow> account \<Rightarrow> u64 \<Rightarrow> 's"
  assumes bal_move:
    "bal (move s k a b v) j x =
       (if j = k \<and> a \<noteq> b
        then (if x = a then bal s k a - v else if x = b then bal s k b + v else bal s j x)
        else bal s j x)"
begin

lemma move_self: "bal (move s k a a v) = bal s"
  by (intro ext) (simp add: bal_move)

lemma move_other_asset: "j \<noteq> k \<Longrightarrow> bal (move s k a b v) j = bal s j"
  by (intro ext) (simp add: bal_move)

text \<open>Moving units keeps their sum modulo \<open>2 ^ 64\<close>, whatever wraps.\<close>

lemma move_units: "(\<Sum>x\<in>UNIV. bal (move s k a b v) j x) = (\<Sum>x\<in>UNIV. bal s j x)"
proof (cases "j = k \<and> a \<noteq> b")
  case True
  let ?f = "bal s k" and ?g = "bal (move s k a b v) k"
  let ?h = "?f(a := ?f a - v)"
  have "(\<Sum>x\<in>UNIV. ?g x) = (\<Sum>x\<in>UNIV. ?h x) - ?h b + ?g b"
    using True by (intro sum_upd_word) (auto simp: bal_move)
  also have "(\<Sum>x\<in>UNIV. ?h x) = (\<Sum>x\<in>UNIV. ?f x) - ?f a + (?f a - v)"
    by (rule sum_fun_upd_word)
  finally show ?thesis using True by (auto simp: bal_move)
qed (auto simp: bal_move)

text \<open>When the sender has the amount and the true sum fits in 64 bits, nothing wraps.\<close>

lemma move_exact:
  assumes "v \<le> bal s k a" and "(\<Sum>x\<in>UNIV. unat (bal s k x)) < 2 ^ 64" and "a \<noteq> b"
  shows "unat (bal (move s k a b v) k a) = unat (bal s k a) - unat v"
    and "unat (bal (move s k a b v) k b) = unat (bal s k b) + unat v"
proof -
  have "unat (bal s k a) + unat (bal s k b) < 2 ^ 64"
    using two_members_le_sum_UNIV [OF assms(3), of "\<lambda>x. unat (bal s k x)"] assms(2) by simp
  moreover have "unat v \<le> unat (bal s k a)" using assms(1) by (simp add: word_le_nat_alt)
  ultimately show "unat (bal (move s k a b v) k b) = unat (bal s k b) + unat v"
    using assms(3) by (simp add: bal_move unat_add_u64)
  show "unat (bal (move s k a b v) k a) = unat (bal s k a) - unat v"
    using assms(1,3) by (simp add: bal_move unat_sub_u64)
qed

lemma move_holdings:
  assumes "a = b \<or> v \<le> bal s k a" and "(\<Sum>x\<in>UNIV. unat (bal s k x)) < 2 ^ 64"
  shows "(\<Sum>x\<in>UNIV. unat (bal (move s k a b v) j x)) = (\<Sum>x\<in>UNIV. unat (bal s j x))"
proof (cases "j = k \<and> a \<noteq> b")
  case True
  let ?f = "\<lambda>x. unat (bal s k x)" and ?g = "\<lambda>x. unat (bal (move s k a b v) k x)"
  let ?h = "?f(a := ?f a - unat v)"
  have le: "v \<le> bal s k a" and ab: "a \<noteq> b" using True assms(1) by auto
  have g: "?g a = ?f a - unat v" "?g b = ?f b + unat v"
    using move_exact [OF le assms(2) ab] by auto
  have "(\<Sum>x\<in>UNIV. ?g x) + ?h b = (\<Sum>x\<in>UNIV. ?h x) + ?g b"
    using ab g(1) by (intro sum_upd_nat) (auto simp: bal_move)
  moreover have "(\<Sum>x\<in>UNIV. ?h x) + ?f a = (\<Sum>x\<in>UNIV. ?f x) + (?f a - unat v)"
    by (rule sum_fun_upd_nat)
  moreover have "unat v \<le> ?f a" using le by (simp add: word_le_nat_alt)
  ultimately show ?thesis using True ab g(2) by simp
qed (auto simp: bal_move)

text \<open>Moving back undoes a move, even one that wrapped.\<close>

lemma move_back: "bal (move (move s k a b v) k b a v) = bal s"
  by (intro ext) (auto simp: bal_move)

end

section \<open>Submission and approval\<close>

locale approval =
  fixes authorised :: "origin \<Rightarrow> bool"
    and status :: "'s \<Rightarrow> hash \<Rightarrow> u8 option"
    and approve :: "origin \<Rightarrow> hash \<Rightarrow> 's \<Rightarrow> 'e dispatch_result \<times> 's"
  assumes approve_Ok:
    "approve og h s = (Ok, s') \<Longrightarrow>
       authorised og \<and> status s h = Some 0 \<and> status s' = (status s)(h \<mapsto> 1)"
    and approve_Err: "approve og h s = (Inl e, s') \<Longrightarrow> s' = s"
begin

lemma approve_needs_authority: "\<not> authorised og \<Longrightarrow> \<exists>e. approve og h s = (Inl e, s)"
  by (cases "approve og h s"; cases "fst (approve og h s)")
    (auto dest: approve_Ok approve_Err)

lemma approve_once:
  assumes "approve og h s = (Ok, s')"
  shows "\<exists>e. approve og' h s' = (Inl e, s')"
proof -
  have "status s' h = Some 1" using approve_Ok [OF assms] by simp
  then show ?thesis
    by (cases "approve og' h s'"; cases "fst (approve og' h s')")
      (auto dest: approve_Ok approve_Err)
qed

lemma approve_keeps_approved:
  "status s k = Some 1 \<Longrightarrow> status (snd (approve og h s)) k = Some 1"
  by (cases "approve og h s"; cases "fst (approve og h s)")
    (auto dest: approve_Ok approve_Err)

end

section \<open>Failing calls write nothing\<close>

locale checked_dispatch =
  fixes step :: "'call \<Rightarrow> 's \<Rightarrow> 'e dispatch_result \<times> 's"
  assumes fail_unchanged: "step c s = (Inl e, s') \<Longrightarrow> s' = s"
begin

lemma changed_iff_Ok: "snd (step c s) \<noteq> s \<Longrightarrow> fst (step c s) = Ok"
  using fail_unchanged [of c s _ "snd (step c s)"] sum_unit_exhaust [of "fst (step c s)"]
  by (metis prod.collapse)

lemma snd_step_cases:
  assumes "P s" and "\<And>s'. step c s = (Ok, s') \<Longrightarrow> P s'"
  shows "P (snd (step c s))"
proof (cases "step c s")
  case (Pair r s')
  with assms fail_unchanged show ?thesis by (cases r) auto
qed

lemma run_failing:
  "(\<And>c. c \<in> set cs \<Longrightarrow> \<exists>e. fst (step c s) = Inl e) \<Longrightarrow> run_calls step cs s = s"
proof (induction cs)
  case (Cons c cs)
  then obtain e where "fst (step c s) = Inl e" by auto
  then have "snd (step c s) = s" using fail_unchanged by (metis prod.collapse)
  with Cons show ?case by simp
qed simp

end

section \<open>Invariants of runs\<close>

text \<open>\<open>ok_run ok step cs s\<close>: every call of the run meets the side condition \<open>ok\<close> where it is made.\<close>

fun ok_run :: "('call \<Rightarrow> 's \<Rightarrow> bool) \<Rightarrow> ('call \<Rightarrow> 's \<Rightarrow> 'r \<times> 's) \<Rightarrow> 'call list \<Rightarrow> 's \<Rightarrow> bool" where
  "ok_run ok step [] s = True"
| "ok_run ok step (c # cs) s = (ok c s \<and> ok_run ok step cs (snd (step c s)))"

lemma ok_run_trivial [simp]: "ok_run (\<lambda>_ _. True) step cs s"
  by (induction cs arbitrary: s) auto

lemma ok_run_append:
  "ok_run ok step (cs @ ds) s \<longleftrightarrow> ok_run ok step cs s \<and> ok_run ok step ds (run_calls step cs s)"
  by (induction cs arbitrary: s) simp_all

lemma ok_run_list_all: "list_all P cs \<Longrightarrow> ok_run (\<lambda>c _. P c) step cs s"
  by (induction cs arbitrary: s) auto

locale invariant_run =
  fixes step :: "'call \<Rightarrow> 's \<Rightarrow> 'r \<times> 's"
    and ok :: "'call \<Rightarrow> 's \<Rightarrow> bool"
    and inv :: "'s \<Rightarrow> bool"
  assumes step_inv: "inv s \<Longrightarrow> ok c s \<Longrightarrow> inv (snd (step c s))"
begin

lemma run_inv: "inv s \<Longrightarrow> ok_run ok step cs s \<Longrightarrow> inv (run_calls step cs s)"
  by (induction cs arbitrary: s) (auto intro: step_inv)

end

section \<open>Refinement of a specification\<close>

text \<open>
  A pallet refines a specification of its calls when, in the states of an invariant and for the
  calls of a side condition, both give the same result and the states stay related by an
  abstraction function. Then whole runs agree: every result, and the abstraction of the final state.
\<close>

fun run_results :: "('call \<Rightarrow> 's \<Rightarrow> 'r \<times> 's) \<Rightarrow> 'call list \<Rightarrow> 's \<Rightarrow> 'r list" where
  "run_results step [] s = []"
| "run_results step (c # cs) s = fst (step c s) # run_results step cs (snd (step c s))"

locale refinement_run = invariant_run step ok inv
  for step :: "'call \<Rightarrow> 's \<Rightarrow> 'r \<times> 's"
    and ok :: "'call \<Rightarrow> 's \<Rightarrow> bool"
    and inv :: "'s \<Rightarrow> bool" +
  fixes spec :: "'call \<Rightarrow> 'a \<Rightarrow> 'r \<times> 'a"
    and abs :: "'s \<Rightarrow> 'a"
  assumes step_refines:
    "inv s \<Longrightarrow> ok c s \<Longrightarrow> spec c (abs s) = (fst (step c s), abs (snd (step c s)))"
begin

lemma run_refines:
  "inv s \<Longrightarrow> ok_run ok step cs s \<Longrightarrow>
     run_results spec cs (abs s) = run_results step cs s \<and>
     run_calls spec cs (abs s) = abs (run_calls step cs s)"
proof (induction cs arbitrary: s)
  case (Cons c cs)
  then have "spec c (abs s) = (fst (step c s), abs (snd (step c s)))"
    by (simp add: step_refines)
  with Cons step_inv [of s c] show ?case by simp
qed simp

end

end
