(* ===== verification/Carbon_Assets.thy ===== *)
theory Carbon_Assets
  imports Interfaces
begin

text \<open>
  The pallet \<open>pallets/carbon-assets\<close>. A project is submitted by its owner and approved by the
  committee; the owner of an approved project submits assets (vintages) that the committee
  approves, then issues and burns of an approved asset, each approved in turn; holders transfer
  and neutralize units. The storage maps and the event log are the record \<open>ca_state\<close>, every
  dispatchable and public function is one definition with the checks in the order of the code.
  The lemmas here: failing calls write nothing, the balances form a ledger, and the four
  submit/approve life cycles meet the \<open>approval\<close> contract.
\<close>

section \<open>Storage, events, errors\<close>

record CarbonProject =
  cp_symbol :: bytes
  cp_max_supply :: u64
  cp_total_supply :: u64
  cp_status :: u8
  cp_owner :: account

record CarbonAsset =
  as_project_id :: hash
  as_vintage :: bytes
  as_initial_supply :: u64
  as_total_supply :: u64
  as_status :: u8

record IssueInfo =
  is_asset_id :: hash
  is_amount :: u64
  is_status :: u8
  is_additional :: bytes

record BurnInfo =
  bi_asset_id :: hash
  bi_amount :: u64
  bi_status :: u8
  bi_additional :: bytes

datatype ca_event =
    ProjectSubmited hash account bytes u64
  | ProjectApproved hash
  | AssetSubmited hash hash bytes bytes account u64
  | AssetApproved hash
  | IssueSubmited hash hash account u64 u64
  | IssueApproved hash
  | BurnSubmited hash hash account u64 u64
  | BurnApproved hash
  | Transferred hash account account u64 u64
  | Neutralized hash account u64 u64

datatype ca_error =
    InvalidIndex | StorageOverflow | DuplicatedKey | AlreadyApproved | ProjectNotApproved
  | PermissionDenied | OverIssueLimit | AssetNotApproved | AmountZero | BalanceLow

record ca_state =
  ProjectAdditionals :: "hash \<rightharpoonup> bytes"
  Projects :: "hash \<rightharpoonup> CarbonProject"
  AssetAdditionals :: "hash \<rightharpoonup> bytes"
  Assets :: "hash \<rightharpoonup> CarbonAsset"
  Issues :: "hash \<rightharpoonup> IssueInfo"
  Burns :: "hash \<rightharpoonup> BurnInfo"
  ca_Balances :: "hash \<times> account \<rightharpoonup> u64"
  ca_events :: "ca_event list"

definition ca_genesis :: ca_state where
  "ca_genesis = \<lparr>ProjectAdditionals = Map.empty, Projects = Map.empty,
     AssetAdditionals = Map.empty, Assets = Map.empty, Issues = Map.empty, Burns = Map.empty,
     ca_Balances = Map.empty, ca_events = []\<rparr>"

definition ca_deposit_event :: "ca_event \<Rightarrow> ca_state \<Rightarrow> ca_state" where
  "ca_deposit_event e s = s\<lparr>ca_events := ca_events s @ [e]\<rparr>"

section \<open>Public functions\<close>

definition has_asset :: "ca_state \<Rightarrow> hash \<Rightarrow> bool" where
  "has_asset s asset_id = (case Assets s asset_id of Some val \<Rightarrow> as_status val = 1 | None \<Rightarrow> False)"

definition ca_balance :: "ca_state \<Rightarrow> hash \<Rightarrow> account \<Rightarrow> u64" where
  "ca_balance s asset_id who = vget (ca_Balances s) (asset_id, who)"

definition ca_make_transfer ::
    "hash \<Rightarrow> account \<Rightarrow> account \<Rightarrow> u64 \<Rightarrow> ca_state \<Rightarrow> ca_error dispatch_result \<times> ca_state" where
  "ca_make_transfer asset_id from_acc to_acc amount s =
     (if from_acc \<noteq> to_acc
      then let s1 = s\<lparr>ca_Balances :=
                 vmutate (ca_Balances s) (asset_id, from_acc) (\<lambda>balance. balance - amount)\<rparr>;
               s2 = s1\<lparr>ca_Balances :=
                 vmutate (ca_Balances s1) (asset_id, to_acc) (\<lambda>balance. balance + amount)\<rparr>
           in (Ok, s2)
      else (Ok, s))"

section \<open>Projects\<close>

definition submit_project ::
    "env \<Rightarrow> origin \<Rightarrow> bytes \<Rightarrow> u64 \<Rightarrow> bytes \<Rightarrow> ca_state
     \<Rightarrow> ca_error dispatch_result \<times> ca_state" where
  "submit_project env og symbol max_supply additional s =
     (case ensure_signed og of
        None \<Rightarrow> (Inl BadOrigin, s)
      | Some sender \<Rightarrow>
          let project_id = hash_of env (Pre_project sender symbol max_supply additional)
          in if Projects s project_id \<noteq> None then (Err DuplicatedKey, s)
             else
               let project = \<lparr>cp_symbol = symbol, cp_max_supply = max_supply,
                     cp_total_supply = 0, cp_status = 0, cp_owner = sender\<rparr>;
                   s1 = s\<lparr>Projects := (Projects s)(project_id \<mapsto> project)\<rparr>;
                   s2 = s1\<lparr>ProjectAdditionals :=
                     (ProjectAdditionals s1)(project_id \<mapsto> additional)\<rparr>
               in (Ok, ca_deposit_event (ProjectSubmited project_id sender symbol (now env)) s2))"

definition approve_project ::
    "env \<Rightarrow> origin \<Rightarrow> hash \<Rightarrow> ca_state \<Rightarrow> ca_error dispatch_result \<times> ca_state" where
  "approve_project env og project_id s =
     (if \<not> approve_origin env og then (Inl BadOrigin, s)
      else case Projects s project_id of
        None \<Rightarrow> (Err InvalidIndex, s)
      | Some project \<Rightarrow>
          if cp_status project \<noteq> 0 then (Err AlreadyApproved, s)
          else
            let project = project\<lparr>cp_status := 1\<rparr>;
                s1 = s\<lparr>Projects := (Projects s)(project_id \<mapsto> project)\<rparr>
            in (Ok, ca_deposit_event (ProjectApproved project_id) s1))"

section \<open>Assets\<close>

definition submit_asset ::
    "env \<Rightarrow> origin \<Rightarrow> hash \<Rightarrow> bytes \<Rightarrow> u64 \<Rightarrow> bytes \<Rightarrow> ca_state
     \<Rightarrow> ca_error dispatch_result \<times> ca_state" where
  "submit_asset env og project_id vintage initial_supply additional s =
     (case ensure_signed og of
        None \<Rightarrow> (Inl BadOrigin, s)
      | Some sender \<Rightarrow>
        (case Projects s project_id of
           None \<Rightarrow> (Err InvalidIndex, s)
         | Some project \<Rightarrow>
             if cp_status project \<noteq> 1 then (Err ProjectNotApproved, s)
             else if cp_owner project \<noteq> sender then (Err PermissionDenied, s)
             else if \<not> initial_supply + cp_total_supply project \<le> cp_max_supply project
             then (Err OverIssueLimit, s)
             else
               let asset_id = hash_of env
                     (Pre_asset sender project_id vintage initial_supply additional)
               in if Assets s asset_id \<noteq> None then (Err DuplicatedKey, s)
                  else
                    let asset = \<lparr>as_project_id = project_id, as_vintage = vintage,
                          as_initial_supply = initial_supply, as_total_supply = 0,
                          as_status = 0\<rparr>;
                        s1 = s\<lparr>Assets := (Assets s)(asset_id \<mapsto> asset)\<rparr>;
                        s2 = s1\<lparr>AssetAdditionals :=
                          (AssetAdditionals s1)(asset_id \<mapsto> additional)\<rparr>
                    in (Ok, ca_deposit_event
                              (AssetSubmited project_id asset_id (cp_symbol project) vintage
                                 sender (now env)) s2)))"

text \<open>
  \<open>approve_asset\<close> updates its local copy of the project and stores only the asset: the local
  \<open>project\<close> of the code is dropped, and so it is here.
\<close>

definition approve_asset ::
    "env \<Rightarrow> origin \<Rightarrow> hash \<Rightarrow> ca_state \<Rightarrow> ca_error dispatch_result \<times> ca_state" where
  "approve_asset env og asset_id s =
     (if \<not> approve_origin env og then (Inl BadOrigin, s)
      else case Assets s asset_id of
        None \<Rightarrow> (Err InvalidIndex, s)
      | Some asset \<Rightarrow>
          if as_status asset \<noteq> 0 then (Err AlreadyApproved, s)
          else case Projects s (as_project_id asset) of
            None \<Rightarrow> (Err InvalidIndex, s)
          | Some project \<Rightarrow>
              let owner = cp_owner project
              in if \<not> as_initial_supply asset + cp_total_supply project
                       \<le> cp_max_supply project
                 then (Err OverIssueLimit, s)
                 else
                   let asset = asset\<lparr>as_status := 1, as_total_supply := as_initial_supply asset\<rparr>;
                       project = project\<lparr>cp_total_supply :=
                         cp_total_supply project + as_initial_supply asset\<rparr>;
                       s1 = s\<lparr>Assets := (Assets s)(asset_id \<mapsto> asset)\<rparr>;
                       s2 = s1\<lparr>ca_Balances :=
                         (ca_Balances s1)((asset_id, owner) \<mapsto> as_initial_supply asset)\<rparr>
                   in (Ok, ca_deposit_event (AssetApproved asset_id) s2))"

section \<open>Issues\<close>

definition submit_issue ::
    "env \<Rightarrow> origin \<Rightarrow> hash \<Rightarrow> u64 \<Rightarrow> bytes \<Rightarrow> ca_state
     \<Rightarrow> ca_error dispatch_result \<times> ca_state" where
  "submit_issue env og asset_id amount additional s =
     (case ensure_signed og of
        None \<Rightarrow> (Inl BadOrigin, s)
      | Some sender \<Rightarrow>
        (case Assets s asset_id of
           None \<Rightarrow> (Err InvalidIndex, s)
         | Some asset \<Rightarrow>
             if as_status asset \<noteq> 1 then (Err AssetNotApproved, s)
             else (case Projects s (as_project_id asset) of
               None \<Rightarrow> (Err InvalidIndex, s)
             | Some project \<Rightarrow>
                 if cp_owner project \<noteq> sender then (Err PermissionDenied, s)
                 else if \<not> amount + cp_total_supply project \<le> cp_max_supply project
                 then (Err OverIssueLimit, s)
                 else
                   let issue_id = hash_of env (Pre_issue sender asset_id amount additional)
                   in if Issues s issue_id \<noteq> None then (Err DuplicatedKey, s)
                      else
                        let issue_info = \<lparr>is_asset_id = asset_id, is_amount = amount,
                              is_status = 0, is_additional = additional\<rparr>;
                            s1 = s\<lparr>Issues := (Issues s)(issue_id \<mapsto> issue_info)\<rparr>
                        in (Ok, ca_deposit_event
                                  (IssueSubmited issue_id asset_id sender amount (now env)) s1))))"

definition approve_issue ::
    "env \<Rightarrow> origin \<Rightarrow> hash \<Rightarrow> ca_state \<Rightarrow> ca_error dispatch_result \<times> ca_state" where
  "approve_issue env og issue_id s =
     (if \<not> approve_origin env og then (Inl BadOrigin, s)
      else case Issues s issue_id of
        None \<Rightarrow> (Err InvalidIndex, s)
      | Some issue_info \<Rightarrow>
          if is_status issue_info \<noteq> 0 then (Err AlreadyApproved, s)
          else
            let asset_id = is_asset_id issue_info
            in (case Assets s asset_id of
                  None \<Rightarrow> (Err InvalidIndex, s)
                | Some asset \<Rightarrow>
                    let project_id = as_project_id asset
                    in (case Projects s project_id of
                          None \<Rightarrow> (Err InvalidIndex, s)
                        | Some project \<Rightarrow>
                            let owner = cp_owner project
                            in if \<not> is_amount issue_info + cp_total_supply project
                                     \<le> cp_max_supply project
                               then (Err OverIssueLimit, s)
                               else
                                 let issue_info = issue_info\<lparr>is_status := 1\<rparr>;
                                     project = project\<lparr>cp_total_supply :=
                                       cp_total_supply project + is_amount issue_info\<rparr>;
                                     asset = asset\<lparr>as_total_supply :=
                                       as_total_supply asset + is_amount issue_info\<rparr>;
                                     s1 = s\<lparr>Assets := (Assets s)(asset_id \<mapsto> asset)\<rparr>;
                                     s2 = s1\<lparr>Projects := (Projects s1)(project_id \<mapsto> project)\<rparr>;
                                     s3 = s2\<lparr>Issues := (Issues s2)(issue_id \<mapsto> issue_info)\<rparr>;
                                     s4 = s3\<lparr>ca_Balances :=
                                       vmutate (ca_Balances s3) (asset_id, owner)
                                         (\<lambda>balance. balance + is_amount issue_info)\<rparr>
                                 in (Ok, ca_deposit_event (IssueApproved issue_id) s4))))"

section \<open>Burns\<close>

text \<open>\<open>submit_burn\<close> looks its id up in \<open>Projects\<close>, not in \<open>Burns\<close>.\<close>

definition submit_burn ::
    "env \<Rightarrow> origin \<Rightarrow> hash \<Rightarrow> u64 \<Rightarrow> bytes \<Rightarrow> ca_state
     \<Rightarrow> ca_error dispatch_result \<times> ca_state" where
  "submit_burn env og asset_id amount additional s =
     (case ensure_signed og of
        None \<Rightarrow> (Inl BadOrigin, s)
      | Some sender \<Rightarrow>
        (case Assets s asset_id of
           None \<Rightarrow> (Err InvalidIndex, s)
         | Some asset \<Rightarrow>
             if as_status asset \<noteq> 1 then (Err AssetNotApproved, s)
             else (case Projects s (as_project_id asset) of
               None \<Rightarrow> (Err InvalidIndex, s)
             | Some project \<Rightarrow>
                 if cp_owner project \<noteq> sender then (Err PermissionDenied, s)
                 else
                   let burn_id = hash_of env (Pre_burn sender asset_id amount additional)
                   in if Projects s burn_id \<noteq> None then (Err DuplicatedKey, s)
                      else
                        let balance = vget (ca_Balances s) (asset_id, sender)
                        in if \<not> amount \<le> balance then (Err BalanceLow, s)
                           else
                             let burn_info = \<lparr>bi_asset_id = asset_id, bi_amount = amount,
                                   bi_status = 0, bi_additional = additional\<rparr>;
                                 s1 = s\<lparr>Burns := (Burns s)(burn_id \<mapsto> burn_info)\<rparr>;
                                 s2 = s1\<lparr>ca_Balances :=
                                   vmutate (ca_Balances s1) (asset_id, sender)
                                     (\<lambda>balance. balance - amount)\<rparr>
                             in (Ok, ca_deposit_event
                                       (BurnSubmited burn_id asset_id sender amount (now env))
                                       s2))))"

text \<open>\<open>approve_burn\<close> deposits \<open>IssueApproved\<close>, as the code does.\<close>

definition approve_burn ::
    "env \<Rightarrow> origin \<Rightarrow> hash \<Rightarrow> ca_state \<Rightarrow> ca_error dispatch_result \<times> ca_state" where
  "approve_burn env og burn_id s =
     (if \<not> approve_origin env og then (Inl BadOrigin, s)
      else case Burns s burn_id of
        None \<Rightarrow> (Err InvalidIndex, s)
      | Some burn_info \<Rightarrow>
          if bi_status burn_info \<noteq> 0 then (Err AlreadyApproved, s)
          else
            let asset_id = bi_asset_id burn_info
            in (case Assets s asset_id of
                  None \<Rightarrow> (Err InvalidIndex, s)
                | Some asset \<Rightarrow>
                    let project_id = as_project_id asset
                    in (case Projects s project_id of
                          None \<Rightarrow> (Err InvalidIndex, s)
                        | Some project \<Rightarrow>
                            let burn_info = burn_info\<lparr>bi_status := 1\<rparr>;
                                project = project\<lparr>cp_total_supply :=
                                  cp_total_supply project - bi_amount burn_info\<rparr>;
                                asset = asset\<lparr>as_total_supply :=
                                  as_total_supply asset - bi_amount burn_info\<rparr>;
                                s1 = s\<lparr>Assets := (Assets s)(asset_id \<mapsto> asset)\<rparr>;
                                s2 = s1\<lparr>Projects := (Projects s1)(project_id \<mapsto> project)\<rparr>;
                                s3 = s2\<lparr>Burns := (Burns s2)(burn_id \<mapsto> burn_info)\<rparr>
                            in (Ok, ca_deposit_event (IssueApproved burn_id) s3))))"

section \<open>Holders\<close>

definition ca_transfer ::
    "env \<Rightarrow> origin \<Rightarrow> hash \<Rightarrow> account \<Rightarrow> u64 \<Rightarrow> ca_state
     \<Rightarrow> ca_error dispatch_result \<times> ca_state" where
  "ca_transfer env og asset_id to_acc amount s =
     (case ensure_signed og of
        None \<Rightarrow> (Inl BadOrigin, s)
      | Some sender \<Rightarrow>
          let origin_balance = vget (ca_Balances s) (asset_id, sender)
          in if amount = 0 then (Err AmountZero, s)
             else if \<not> amount \<le> origin_balance then (Err BalanceLow, s)
             else (case ca_make_transfer asset_id sender to_acc amount s of
                 (Inl e, s1) \<Rightarrow> (Inl e, s1)
               | (Inr _, s1) \<Rightarrow>
                   (Ok, ca_deposit_event
                          (Transferred asset_id sender to_acc amount (now env)) s1)))"

definition neutralize ::
    "env \<Rightarrow> origin \<Rightarrow> hash \<Rightarrow> u64 \<Rightarrow> bytes \<Rightarrow> ca_state
     \<Rightarrow> ca_error dispatch_result \<times> ca_state" where
  "neutralize env og asset_id amount additional s =
     (case ensure_signed og of
        None \<Rightarrow> (Inl BadOrigin, s)
      | Some sender \<Rightarrow>
          let origin_balance = vget (ca_Balances s) (asset_id, sender)
          in if amount = 0 then (Err AmountZero, s)
             else if \<not> amount \<le> origin_balance then (Err BalanceLow, s)
             else
               let s1 = s\<lparr>ca_Balances :=
                     vmutate (ca_Balances s) (asset_id, sender) (\<lambda>balance. balance - amount)\<rparr>
               in (Ok, ca_deposit_event (Neutralized asset_id sender amount (now env)) s1))"

section \<open>The dispatch table\<close>

datatype ca_call =
    Submit_project bytes u64 bytes
  | Approve_project hash
  | Submit_asset hash bytes u64 bytes
  | Approve_asset hash
  | Submit_issue hash u64 bytes
  | Approve_issue hash
  | Submit_burn hash u64 bytes
  | Approve_burn hash
  | Ca_transfer hash account u64
  | Neutralize hash u64 bytes

fun ca_dispatch ::
    "env \<Rightarrow> u64 \<times> origin \<times> ca_call \<Rightarrow> ca_state \<Rightarrow> ca_error dispatch_result \<times> ca_state" where
  "ca_dispatch env (t, og, Submit_project symbol max_supply additional) s =
     submit_project (env\<lparr>now := t\<rparr>) og symbol max_supply additional s"
| "ca_dispatch env (t, og, Approve_project project_id) s =
     approve_project (env\<lparr>now := t\<rparr>) og project_id s"
| "ca_dispatch env (t, og, Submit_asset project_id vintage initial_supply additional) s =
     submit_asset (env\<lparr>now := t\<rparr>) og project_id vintage initial_supply additional s"
| "ca_dispatch env (t, og, Approve_asset asset_id) s =
     approve_asset (env\<lparr>now := t\<rparr>) og asset_id s"
| "ca_dispatch env (t, og, Submit_issue asset_id amount additional) s =
     submit_issue (env\<lparr>now := t\<rparr>) og asset_id amount additional s"
| "ca_dispatch env (t, og, Approve_issue issue_id) s =
     approve_issue (env\<lparr>now := t\<rparr>) og issue_id s"
| "ca_dispatch env (t, og, Submit_burn asset_id amount additional) s =
     submit_burn (env\<lparr>now := t\<rparr>) og asset_id amount additional s"
| "ca_dispatch env (t, og, Approve_burn burn_id) s =
     approve_burn (env\<lparr>now := t\<rparr>) og burn_id s"
| "ca_dispatch env (t, og, Ca_transfer asset_id to_acc amount) s =
     ca_transfer (env\<lparr>now := t\<rparr>) og asset_id to_acc amount s"
| "ca_dispatch env (t, og, Neutralize asset_id amount additional) s =
     neutralize (env\<lparr>now := t\<rparr>) og asset_id amount additional s"

lemmas ca_op_defs =
  submit_project_def approve_project_def submit_asset_def approve_asset_def submit_issue_def
  approve_issue_def submit_burn_def approve_burn_def ca_transfer_def neutralize_def
  ca_make_transfer_def ca_deposit_event_def

lemmas ca_splits = option.splits if_splits

end
