(* ===== verification/Carbon_Lifecycle.thy ===== *)
theory Carbon_Lifecycle
  imports Carbon_Assets
begin

text \<open>
  What a successful call of \<open>pallets/carbon-assets\<close> has checked and written, one rule per
  dispatchable; failing calls write nothing; the balances are a ledger; and projects, assets,
  issues and burns go through the same approval life cycle, so the \<open>approval\<close> contract holds of
  all four.
\<close>

section \<open>Successful calls\<close>

lemma submit_project_Ok:
  assumes "submit_project env og symbol max_supply additional s = (Ok, s')"
  obtains sender pid where "og = Signed sender"
    "pid = hash_of env (Pre_project sender symbol max_supply additional)"
    "Projects s pid = None"
    "s' = s\<lparr>Projects := (Projects s)(pid \<mapsto> \<lparr>cp_symbol = symbol, cp_max_supply = max_supply,
              cp_total_supply = 0, cp_status = 0, cp_owner = sender\<rparr>),
            ProjectAdditionals := (ProjectAdditionals s)(pid \<mapsto> additional),
            ca_events := ca_events s @ [ProjectSubmited pid sender symbol (now env)]\<rparr>"
  using assms by (auto simp: ca_op_defs Let_def split: ca_splits)

lemma approve_project_Ok:
  assumes "approve_project env og pid s = (Ok, s')"
  obtains project where "approve_origin env og" "Projects s pid = Some project"
    "cp_status project = 0"
    "s' = s\<lparr>Projects := (Projects s)(pid \<mapsto> project\<lparr>cp_status := 1\<rparr>),
            ca_events := ca_events s @ [ProjectApproved pid]\<rparr>"
  using assms by (auto simp: ca_op_defs Let_def split: ca_splits)

lemma submit_asset_Ok:
  assumes "submit_asset env og pid vintage initial_supply additional s = (Ok, s')"
  obtains sender project aid where "og = Signed sender" "Projects s pid = Some project"
    "cp_status project = 1" "cp_owner project = sender"
    "initial_supply + cp_total_supply project \<le> cp_max_supply project"
    "aid = hash_of env (Pre_asset sender pid vintage initial_supply additional)"
    "Assets s aid = None"
    "s' = s\<lparr>Assets := (Assets s)(aid \<mapsto> \<lparr>as_project_id = pid, as_vintage = vintage,
              as_initial_supply = initial_supply, as_total_supply = 0, as_status = 0\<rparr>),
            AssetAdditionals := (AssetAdditionals s)(aid \<mapsto> additional),
            ca_events := ca_events s
              @ [AssetSubmited pid aid (cp_symbol project) vintage sender (now env)]\<rparr>"
  using assms by (auto simp: ca_op_defs Let_def split: ca_splits)

lemma approve_asset_Ok:
  assumes "approve_asset env og aid s = (Ok, s')"
  obtains asset project where "approve_origin env og" "Assets s aid = Some asset"
    "as_status asset = 0" "Projects s (as_project_id asset) = Some project"
    "as_initial_supply asset + cp_total_supply project \<le> cp_max_supply project"
    "s' = s\<lparr>Assets := (Assets s)(aid \<mapsto>
              asset\<lparr>as_status := 1, as_total_supply := as_initial_supply asset\<rparr>),
            ca_Balances := (ca_Balances s)((aid, cp_owner project) \<mapsto> as_initial_supply asset),
            ca_events := ca_events s @ [AssetApproved aid]\<rparr>"
  using assms by (auto simp: ca_op_defs Let_def split: ca_splits)

lemma submit_issue_Ok:
  assumes "submit_issue env og aid amount additional s = (Ok, s')"
  obtains sender asset project iid where "og = Signed sender" "Assets s aid = Some asset"
    "as_status asset = 1" "Projects s (as_project_id asset) = Some project"
    "cp_owner project = sender" "amount + cp_total_supply project \<le> cp_max_supply project"
    "iid = hash_of env (Pre_issue sender aid amount additional)" "Issues s iid = None"
    "s' = s\<lparr>Issues := (Issues s)(iid \<mapsto> \<lparr>is_asset_id = aid, is_amount = amount, is_status = 0,
              is_additional = additional\<rparr>),
            ca_events := ca_events s @ [IssueSubmited iid aid sender amount (now env)]\<rparr>"
  using assms by (auto simp: ca_op_defs Let_def split: ca_splits)

lemma approve_issue_Ok:
  assumes "approve_issue env og iid s = (Ok, s')"
  obtains info aid asset pid project where "approve_origin env og" "Issues s iid = Some info"
    "is_status info = 0" "aid = is_asset_id info" "Assets s aid = Some asset"
    "pid = as_project_id asset" "Projects s pid = Some project"
    "is_amount info + cp_total_supply project \<le> cp_max_supply project"
    "s' = s\<lparr>Assets := (Assets s)(aid \<mapsto>
              asset\<lparr>as_total_supply := as_total_supply asset + is_amount info\<rparr>),
            Projects := (Projects s)(pid \<mapsto>
              project\<lparr>cp_total_supply := cp_total_supply project + is_amount info\<rparr>),
            Issues := (Issues s)(iid \<mapsto> info\<lparr>is_status := 1\<rparr>),
            ca_Balances := vmutate (ca_Balances s) (aid, cp_owner project)
              (\<lambda>balance. balance + is_amount info),
            ca_events := ca_events s @ [IssueApproved iid]\<rparr>"
  using assms by (auto simp: ca_op_defs Let_def split: ca_splits)

lemma submit_burn_Ok:
  assumes "submit_burn env og aid amount additional s = (Ok, s')"
  obtains sender asset project bid where "og = Signed sender" "Assets s aid = Some asset"
    "as_status asset = 1" "Projects s (as_project_id asset) = Some project"
    "cp_owner project = sender"
    "bid = hash_of env (Pre_burn sender aid amount additional)" "Projects s bid = None"
    "amount \<le> vget (ca_Balances s) (aid, sender)"
    "s' = s\<lparr>Burns := (Burns s)(bid \<mapsto> \<lparr>bi_asset_id = aid, bi_amount = amount, bi_status = 0,
              bi_additional = additional\<rparr>),
            ca_Balances := vmutate (ca_Balances s) (aid, sender) (\<lambda>balance. balance - amount),
            ca_events := ca_events s @ [BurnSubmited bid aid sender amount (now env)]\<rparr>"
  using assms by (auto simp: ca_op_defs Let_def split: ca_splits)

lemma approve_burn_Ok:
  assumes "approve_burn env og bid s = (Ok, s')"
  obtains info aid asset pid project where "approve_origin env og" "Burns s bid = Some info"
    "bi_status info = 0" "aid = bi_asset_id info" "Assets s aid = Some asset"
    "pid = as_project_id asset" "Projects s pid = Some project"
    "s' = s\<lparr>Assets := (Assets s)(aid \<mapsto>
              asset\<lparr>as_total_supply := as_total_supply asset - bi_amount info\<rparr>),
            Projects := (Projects s)(pid \<mapsto>
              project\<lparr>cp_total_supply := cp_total_supply project - bi_amount info\<rparr>),
            Burns := (Burns s)(bid \<mapsto> info\<lparr>bi_status := 1\<rparr>),
            ca_events := ca_events s @ [IssueApproved bid]\<rparr>"
  using assms by (auto simp: ca_op_defs Let_def split: ca_splits)

lemma ca_transfer_Ok:
  assumes "ca_transfer env og aid b v s = (Ok, s')"
  obtains a where "og = Signed a" "v \<noteq> 0" "v \<le> ca_balance s aid a"
    "s' = (snd (ca_make_transfer aid a b v s))
            \<lparr>ca_events := ca_events s @ [Transferred aid a b v (now env)]\<rparr>"
  using assms by (auto simp: ca_op_defs ca_balance_def Let_def split: ca_splits)

lemma neutralize_Ok:
  assumes "neutralize env og aid v additional s = (Ok, s')"
  obtains a where "og = Signed a" "v \<noteq> 0" "v \<le> ca_balance s aid a"
    "s' = s\<lparr>ca_Balances := vmutate (ca_Balances s) (aid, a) (\<lambda>balance. balance - v),
            ca_events := ca_events s @ [Neutralized aid a v (now env)]\<rparr>"
  using assms by (auto simp: ca_op_defs ca_balance_def Let_def split: ca_splits)

lemmas ca_Ok_elims =
  submit_project_Ok approve_project_Ok submit_asset_Ok approve_asset_Ok submit_issue_Ok
  approve_issue_Ok submit_burn_Ok approve_burn_Ok ca_transfer_Ok neutralize_Ok

section \<open>Failing calls write nothing\<close>

interpretation ca_checked: checked_dispatch "ca_dispatch env" for env
proof
  fix c :: "u64 \<times> origin \<times> ca_call" and s s' :: ca_state and e
  assume a: "ca_dispatch env c s = (Inl e, s')"
  obtain t og k where c: "c = (t, og, k)" by (cases c)
  show "s' = s"
    using a unfolding c by (cases k) (auto simp: ca_op_defs Let_def split: ca_splits)
qed

section \<open>The ledger\<close>

interpretation ca_ledger: ledger ca_balance "\<lambda>s k a b v. snd (ca_make_transfer k a b v s)"
  by unfold_locales (auto simp: ca_balance_def ca_make_transfer_def Let_def)

lemma ca_make_transfer_Ok [simp]: "fst (ca_make_transfer k a b v s) = Ok"
  by (simp add: ca_make_transfer_def Let_def)

lemma ca_make_transfer_frame [simp]:
  "Projects (snd (ca_make_transfer k a b v s)) = Projects s"
  "Assets (snd (ca_make_transfer k a b v s)) = Assets s"
  "Issues (snd (ca_make_transfer k a b v s)) = Issues s"
  "Burns (snd (ca_make_transfer k a b v s)) = Burns s"
  "ProjectAdditionals (snd (ca_make_transfer k a b v s)) = ProjectAdditionals s"
  "AssetAdditionals (snd (ca_make_transfer k a b v s)) = AssetAdditionals s"
  "ca_events (snd (ca_make_transfer k a b v s)) = ca_events s"
  by (simp_all add: ca_make_transfer_def Let_def)

lemma units_ca_balance: "units (ca_Balances s) aid = (\<Sum>x\<in>UNIV. ca_balance s aid x)"
  by (simp add: units_def ca_balance_def)

lemma holdings_ca_balance:
  "holdings (ca_Balances s) aid = (\<Sum>x\<in>UNIV. unat (ca_balance s aid x))"
  by (simp add: holdings_def ca_balance_def)

lemma units_ca_make_transfer [simp]:
  "units (ca_Balances (snd (ca_make_transfer k a b v s))) aid = units (ca_Balances s) aid"
  unfolding units_ca_balance by (rule ca_ledger.move_units)

section \<open>The four approval life cycles\<close>

definition project_status :: "ca_state \<Rightarrow> hash \<Rightarrow> u8 option" where
  "project_status s h = map_option cp_status (Projects s h)"

definition asset_status :: "ca_state \<Rightarrow> hash \<Rightarrow> u8 option" where
  "asset_status s h = map_option as_status (Assets s h)"

definition issue_status :: "ca_state \<Rightarrow> hash \<Rightarrow> u8 option" where
  "issue_status s h = map_option is_status (Issues s h)"

definition burn_status :: "ca_state \<Rightarrow> hash \<Rightarrow> u8 option" where
  "burn_status s h = map_option bi_status (Burns s h)"

lemmas ca_status_defs =
  project_status_def asset_status_def issue_status_def burn_status_def

interpretation project_approval:
  approval "approve_origin env" project_status "approve_project env" for env
proof
  show "s' = s" if "approve_project env og h s = (Inl e, s')" for og h s e s'
    using that ca_checked.fail_unchanged [of "env" "(now env, og, Approve_project h)"] by simp
qed (auto elim!: approve_project_Ok simp: ca_status_defs fun_eq_iff)

interpretation asset_approval:
  approval "approve_origin env" asset_status "approve_asset env" for env
proof
  show "s' = s" if "approve_asset env og h s = (Inl e, s')" for og h s e s'
    using that ca_checked.fail_unchanged [of "env" "(now env, og, Approve_asset h)"] by simp
qed (auto elim!: approve_asset_Ok simp: ca_status_defs fun_eq_iff)

interpretation issue_approval:
  approval "approve_origin env" issue_status "approve_issue env" for env
proof
  show "s' = s" if "approve_issue env og h s = (Inl e, s')" for og h s e s'
    using that ca_checked.fail_unchanged [of "env" "(now env, og, Approve_issue h)"] by simp
qed (auto elim!: approve_issue_Ok simp: ca_status_defs fun_eq_iff)

interpretation burn_approval:
  approval "approve_origin env" burn_status "approve_burn env" for env
proof
  show "s' = s" if "approve_burn env og h s = (Inl e, s')" for og h s e s'
    using that ca_checked.fail_unchanged [of "env" "(now env, og, Approve_burn h)"] by simp
qed (auto elim!: approve_burn_Ok simp: ca_status_defs fun_eq_iff)

end
