(* ===== verification/Carbon_Invariants.thy ===== *)
theory Carbon_Invariants
  imports Carbon_Lifecycle
begin

text \<open>
  Referential integrity of the storage of \<open>pallets/carbon-assets\<close> (\<open>ca_wf\<close>), kept by every call:
  how an entry of each storage map can evolve in one call, and what follows for the whole storage.
\<close>

section \<open>Referential integrity\<close>

definition wf_projects :: "ca_state \<Rightarrow> bool" where
  "wf_projects s \<longleftrightarrow>
     (\<forall>h p. Projects s h = Some p \<longrightarrow> cp_status p = 0 \<and> cp_total_supply p = 0 \<or> cp_status p = 1)"

definition wf_assets :: "ca_state \<Rightarrow> bool" where
  "wf_assets s \<longleftrightarrow>
     (\<forall>h a. Assets s h = Some a \<longrightarrow>
        (as_status a = 0 \<and> as_total_supply a = 0 \<or> as_status a = 1) \<and>
        project_status s (as_project_id a) = Some 1)"

definition wf_issues :: "ca_state \<Rightarrow> bool" where
  "wf_issues s \<longleftrightarrow>
     (\<forall>h i. Issues s h = Some i \<longrightarrow>
        (is_status i = 0 \<or> is_status i = 1) \<and> asset_status s (is_asset_id i) = Some 1)"

definition wf_burns :: "ca_state \<Rightarrow> bool" where
  "wf_burns s \<longleftrightarrow>
     (\<forall>h b. Burns s h = Some b \<longrightarrow>
        (bi_status b = 0 \<or> bi_status b = 1) \<and> asset_status s (bi_asset_id b) = Some 1)"

definition wf_additionals :: "ca_state \<Rightarrow> bool" where
  "wf_additionals s \<longleftrightarrow>
     (\<forall>h. (ProjectAdditionals s h = None) = (Projects s h = None) \<and>
          (AssetAdditionals s h = None) = (Assets s h = None))"

definition wf_balances :: "ca_state \<Rightarrow> bool" where
  "wf_balances s \<longleftrightarrow>
     (\<forall>h. asset_status s h \<noteq> Some 1 \<longrightarrow> (\<forall>x. vget (ca_Balances s) (h, x) = 0))"

definition ca_wf :: "ca_state \<Rightarrow> bool" where
  "ca_wf s \<longleftrightarrow> wf_projects s \<and> wf_assets s \<and> wf_issues s \<and> wf_burns s \<and> wf_additionals s
     \<and> wf_balances s"

lemmas wf_defs = wf_projects_def wf_assets_def wf_issues_def wf_burns_def wf_additionals_def
  wf_balances_def

lemma ca_wf_genesis: "ca_wf ca_genesis"
  by (simp add: ca_wf_def wf_defs ca_genesis_def)

section \<open>How one entry evolves\<close>

text \<open>
  Each storage map, one call: an entry of the new state is an unchanged entry, a fresh one, or an
  old one whose status or supply moved, and these are the only ways.
\<close>

inductive project_evolves :: "ca_state \<Rightarrow> hash \<Rightarrow> CarbonProject \<Rightarrow> bool" for s h where
  project_fresh: "Projects s h = None \<Longrightarrow>
    project_evolves s h \<lparr>cp_symbol = y, cp_max_supply = m, cp_total_supply = 0, cp_status = 0,
      cp_owner = w\<rparr>"
| project_same: "Projects s h = Some p \<Longrightarrow> project_evolves s h p"
| project_approved: "Projects s h = Some p \<Longrightarrow> cp_status p = 0 \<Longrightarrow>
    project_evolves s h (p\<lparr>cp_status := 1\<rparr>)"
| project_resupplied: "Projects s h = Some p \<Longrightarrow> Assets s j = Some a \<Longrightarrow> as_project_id a = h \<Longrightarrow>
    project_evolves s h (p\<lparr>cp_total_supply := v\<rparr>)"

inductive asset_evolves :: "ca_state \<Rightarrow> hash \<Rightarrow> CarbonAsset \<Rightarrow> bool" for s h where
  asset_fresh: "Assets s h = None \<Longrightarrow> project_status s pid = Some 1 \<Longrightarrow>
    asset_evolves s h \<lparr>as_project_id = pid, as_vintage = y, as_initial_supply = v,
      as_total_supply = 0, as_status = 0\<rparr>"
| asset_same: "Assets s h = Some a \<Longrightarrow> asset_evolves s h a"
| asset_approved: "Assets s h = Some a \<Longrightarrow> as_status a = 0 \<Longrightarrow>
    asset_evolves s h (a\<lparr>as_status := 1, as_total_supply := as_initial_supply a\<rparr>)"
| asset_issued: "Assets s h = Some a \<Longrightarrow> Issues s j = Some i \<Longrightarrow> is_asset_id i = h \<Longrightarrow>
    asset_evolves s h (a\<lparr>as_total_supply := v\<rparr>)"
| asset_burned: "Assets s h = Some a \<Longrightarrow> Burns s j = Some b \<Longrightarrow> bi_asset_id b = h \<Longrightarrow>
    asset_evolves s h (a\<lparr>as_total_supply := v\<rparr>)"

inductive issue_evolves :: "ca_state \<Rightarrow> hash \<Rightarrow> IssueInfo \<Rightarrow> bool" for s h where
  issue_fresh: "Issues s h = None \<Longrightarrow> asset_status s aid = Some 1 \<Longrightarrow>
    issue_evolves s h \<lparr>is_asset_id = aid, is_amount = v, is_status = 0, is_additional = z\<rparr>"
| issue_same: "Issues s h = Some i \<Longrightarrow> issue_evolves s h i"
| issue_approved: "Issues s h = Some i \<Longrightarrow> is_status i = 0 \<Longrightarrow>
    issue_evolves s h (i\<lparr>is_status := 1\<rparr>)"

text \<open>A burn entry may be overwritten by a resubmission; the others are never.\<close>

inductive burn_evolves :: "ca_state \<Rightarrow> hash \<Rightarrow> BurnInfo \<Rightarrow> bool" for s h where
  burn_submitted: "asset_status s aid = Some 1 \<Longrightarrow>
    burn_evolves s h \<lparr>bi_asset_id = aid, bi_amount = v, bi_status = 0, bi_additional = z\<rparr>"
| burn_same: "Burns s h = Some b \<Longrightarrow> burn_evolves s h b"
| burn_approved: "Burns s h = Some b \<Longrightarrow> bi_status b = 0 \<Longrightarrow>
    burn_evolves s h (b\<lparr>bi_status := 1\<rparr>)"

lemma asset_statusI: "Assets s h = Some a \<Longrightarrow> as_status a = v \<Longrightarrow> asset_status s h = Some v"
  by (simp add: asset_status_def)

lemma project_statusI:
  "Projects s h = Some p \<Longrightarrow> cp_status p = v \<Longrightarrow> project_status s h = Some v"
  by (simp add: project_status_def)

lemma Projects_evolve:
  assumes "ca_dispatch env c s = (Ok, s')" and "Projects s' h = Some p'"
  shows "project_evolves s h p'"
proof -
  obtain t og k where "c = (t, og, k)" by (cases c)
  with assms show ?thesis
    by (cases k) (auto elim!: ca_Ok_elims split: if_splits intro: project_evolves.intros)
qed

lemma Assets_evolve:
  assumes "ca_dispatch env c s = (Ok, s')" and "Assets s' h = Some a'"
  shows "asset_evolves s h a'"
proof -
  obtain t og k where "c = (t, og, k)" by (cases c)
  with assms show ?thesis
    by (cases k)
      (auto elim!: ca_Ok_elims split: if_splits intro: asset_evolves.intros
        asset_fresh [OF _ project_statusI])
qed

lemma Issues_evolve:
  assumes "ca_dispatch env c s = (Ok, s')" and "Issues s' h = Some i'"
  shows "issue_evolves s h i'"
proof -
  obtain t og k where "c = (t, og, k)" by (cases c)
  with assms show ?thesis
    by (cases k)
      (auto elim!: ca_Ok_elims split: if_splits intro: issue_evolves.intros
        issue_fresh [OF _ asset_statusI])
qed

lemma Burns_evolve:
  assumes "ca_dispatch env c s = (Ok, s')" and "Burns s' h = Some b'"
  shows "burn_evolves s h b'"
proof -
  obtain t og k where "c = (t, og, k)" by (cases c)
  with assms show ?thesis
    by (cases k)
      (auto elim!: ca_Ok_elims split: if_splits intro: burn_evolves.intros
        burn_submitted [OF asset_statusI])
qed

text \<open>Entries of \<open>Projects\<close>, \<open>Assets\<close> and \<open>Issues\<close> are never removed.\<close>

lemma ca_doms_grow:
  assumes "ca_dispatch env c s = (Ok, s')"
  shows "dom (Projects s) \<subseteq> dom (Projects s') \<and> dom (Assets s) \<subseteq> dom (Assets s') \<and>
    dom (Issues s) \<subseteq> dom (Issues s') \<and> dom (Burns s) \<subseteq> dom (Burns s')"
proof -
  obtain t og k where "c = (t, og, k)" by (cases c)
  with assms show ?thesis by (cases k) (auto elim!: ca_Ok_elims)
qed

lemma project_status_kept_Ok:
  assumes "ca_dispatch env c s = (Ok, s')" and "project_status s h = Some 1"
  shows "project_status s' h = Some 1"
proof -
  obtain p where p: "Projects s h = Some p" "cp_status p = 1"
    using assms(2) by (auto simp: project_status_def)
  then obtain p' where "Projects s' h = Some p'" using ca_doms_grow [OF assms(1)] by blast
  with p Projects_evolve [OF assms(1), of h p'] show ?thesis
    by (auto simp: project_status_def elim: project_evolves.cases)
qed

lemma asset_status_kept_Ok:
  assumes "ca_dispatch env c s = (Ok, s')" and "asset_status s h = Some 1"
  shows "asset_status s' h = Some 1"
proof -
  obtain a where a: "Assets s h = Some a" "as_status a = 1"
    using assms(2) by (auto simp: asset_status_def)
  then obtain a' where "Assets s' h = Some a'" using ca_doms_grow [OF assms(1)] by blast
  with a Assets_evolve [OF assms(1), of h a'] show ?thesis
    by (auto simp: asset_status_def elim: asset_evolves.cases)
qed

section \<open>Every call keeps the storage well-formed\<close>

lemma wf_projects_step:
  assumes "ca_dispatch env c s = (Ok, s')" and "wf_projects s" "wf_assets s"
  shows "wf_projects s'"
  unfolding wf_projects_def
proof (intro allI impI)
  fix h p' assume "Projects s' h = Some p'"
  with assms(1) have "project_evolves s h p'" by (rule Projects_evolve)
  then show "cp_status p' = 0 \<and> cp_total_supply p' = 0 \<or> cp_status p' = 1"
  proof cases
    case (project_resupplied p j a v)
    with assms(3) have "project_status s h = Some 1" unfolding wf_assets_def by blast
    with project_resupplied have "cp_status p = 1" by (simp add: project_status_def)
    with project_resupplied show ?thesis by simp
  qed (use assms(2) in \<open>auto simp: wf_projects_def\<close>)
qed

lemma wf_assets_step:
  assumes ok: "ca_dispatch env c s = (Ok, s')" and "wf_assets s" "wf_issues s" "wf_burns s"
  shows "wf_assets s'"
  unfolding wf_assets_def
proof (intro allI impI)
  fix h a' assume "Assets s' h = Some a'"
  with ok have "asset_evolves s h a'" by (rule Assets_evolve)
  then have "(as_status a' = 0 \<and> as_total_supply a' = 0 \<or> as_status a' = 1) \<and>
      project_status s (as_project_id a') = Some 1"
  proof cases
    case (asset_issued a j i v)
    with assms(3) have "asset_status s h = Some 1" unfolding wf_issues_def by blast
    with asset_issued have "as_status a = 1" by (simp add: asset_status_def)
    with asset_issued assms(2) show ?thesis by (auto simp: wf_assets_def)
  next
    case (asset_burned a j b v)
    with assms(4) have "asset_status s h = Some 1" unfolding wf_burns_def by blast
    with asset_burned have "as_status a = 1" by (simp add: asset_status_def)
    with asset_burned assms(2) show ?thesis by (auto simp: wf_assets_def)
  qed (use assms(2) in \<open>auto simp: wf_assets_def\<close>)
  with project_status_kept_Ok [OF ok]
  show "(as_status a' = 0 \<and> as_total_supply a' = 0 \<or> as_status a' = 1) \<and>
      project_status s' (as_project_id a') = Some 1" by blast
qed

lemma wf_issues_step:
  assumes ok: "ca_dispatch env c s = (Ok, s')" and "wf_issues s"
  shows "wf_issues s'"
  unfolding wf_issues_def
proof (intro allI impI)
  fix h i' assume "Issues s' h = Some i'"
  with ok have "issue_evolves s h i'" by (rule Issues_evolve)
  then have "(is_status i' = 0 \<or> is_status i' = 1) \<and> asset_status s (is_asset_id i') = Some 1"
    by cases (use assms(2) in \<open>auto simp: wf_issues_def\<close>)
  with asset_status_kept_Ok [OF ok]
  show "(is_status i' = 0 \<or> is_status i' = 1) \<and> asset_status s' (is_asset_id i') = Some 1"
    by blast
qed

lemma wf_burns_step:
  assumes ok: "ca_dispatch env c s = (Ok, s')" and "wf_burns s"
  shows "wf_burns s'"
  unfolding wf_burns_def
proof (intro allI impI)
  fix h b' assume "Burns s' h = Some b'"
  with ok have "burn_evolves s h b'" by (rule Burns_evolve)
  then have "(bi_status b' = 0 \<or> bi_status b' = 1) \<and> asset_status s (bi_asset_id b') = Some 1"
    by cases (use assms(2) in \<open>auto simp: wf_burns_def\<close>)
  with asset_status_kept_Ok [OF ok]
  show "(bi_status b' = 0 \<or> bi_status b' = 1) \<and> asset_status s' (bi_asset_id b') = Some 1"
    by blast
qed

lemma wf_additionals_step:
  assumes "ca_dispatch env c s = (Ok, s')" and "wf_additionals s"
  shows "wf_additionals s'"
  unfolding wf_additionals_def
proof
  fix h
  have "(ProjectAdditionals s h = None) = (Projects s h = None) \<and>
      (AssetAdditionals s h = None) = (Assets s h = None)"
    using assms(2) by (simp add: wf_additionals_def)
  moreover obtain t og k where "c = (t, og, k)" by (cases c)
  ultimately show "(ProjectAdditionals s' h = None) = (Projects s' h = None) \<and>
      (AssetAdditionals s' h = None) = (Assets s' h = None)"
    using assms(1) by (cases k; simp; elim ca_Ok_elims; force)
qed

text \<open>Units appear only on assets that are approved after the call.\<close>

lemma wf_balances_step:
  assumes ok: "ca_dispatch env c s = (Ok, s')" and "wf_balances s" "wf_issues s"
  shows "wf_balances s'"
  unfolding wf_balances_def
proof (intro allI impI)
  fix h x assume n: "asset_status s' h \<noteq> Some 1"
  then have n0: "asset_status s h \<noteq> Some 1" using asset_status_kept_Ok [OF ok] by blast
  with assms(2) have z: "vget (ca_Balances s) (h, y) = 0" for y
    by (auto simp: wf_balances_def)
  have i: "is_asset_id i \<noteq> h" if "Issues s j = Some i" for i j
    using that assms(3) n0 by (auto simp: wf_issues_def)
  obtain t og k where "c = (t, og, k)" by (cases c)
  with ok n z show "vget (ca_Balances s') (h, x) = 0"
    by (cases k) (auto simp: asset_status_def ca_balance_def ca_make_transfer_def Let_def
        elim!: ca_Ok_elims dest: i)
qed

lemma ca_wf_step: "ca_wf s \<Longrightarrow> ca_wf (snd (ca_dispatch env c s))"
  by (rule ca_checked.snd_step_cases [where P = ca_wf])
    (auto simp: ca_wf_def intro: wf_projects_step wf_assets_step wf_issues_step wf_burns_step
      wf_additionals_step wf_balances_step)

interpretation ca_wf_run: invariant_run "ca_dispatch env" "\<lambda>_ _. True" ca_wf for env
  by unfold_locales (rule ca_wf_step)

end
