(* ===== verification/Carbon_Accounting.thy ===== *)
theory Carbon_Accounting
  imports Carbon_Invariants
begin

text \<open>
  Accounting of \<open>pallets/carbon-assets\<close>, in the arithmetic of the code (modulo \<open>2 ^ 64\<close>). Where the
  units of an asset are (\<open>ca_accounted\<close>): held, neutralized, or taken out by a burn not yet
  approved. What a project's supply counter counts (\<open>ca_drift\<close>): its assets' supplies less the
  initial supplies, which \<open>approve_asset\<close> does not store.
\<close>

section \<open>Where the units of an asset are\<close>

definition neutralized_by :: "hash \<Rightarrow> ca_event \<Rightarrow> u64" where
  "neutralized_by aid e = (case e of Neutralized a _ v _ \<Rightarrow> if a = aid then v else 0 | _ \<Rightarrow> 0)"

definition neutralized :: "ca_state \<Rightarrow> hash \<Rightarrow> u64" where
  "neutralized s aid = sum_list (map (neutralized_by aid) (ca_events s))"

definition pending_amount :: "hash \<Rightarrow> BurnInfo \<Rightarrow> u64" where
  "pending_amount aid b = (if bi_asset_id b = aid \<and> bi_status b = 0 then bi_amount b else 0)"

definition pending_burns :: "ca_state \<Rightarrow> hash \<Rightarrow> u64" where
  "pending_burns s aid = map_sum (pending_amount aid) (Burns s)"

definition recorded_supply :: "ca_state \<Rightarrow> hash \<Rightarrow> u64" where
  "recorded_supply s aid = (case Assets s aid of None \<Rightarrow> 0 | Some a \<Rightarrow> as_total_supply a)"

definition ca_accounted :: "ca_state \<Rightarrow> bool" where
  "ca_accounted s \<longleftrightarrow>
     (\<forall>aid. units (ca_Balances s) aid + neutralized s aid + pending_burns s aid
            = recorded_supply s aid)"

text \<open>
  The side condition: nobody submits a burn whose id is that of a burn still pending, which
  \<open>submit_burn\<close> accepts and which overwrites the pending one.
\<close>

fun burn_id_free :: "env \<Rightarrow> u64 \<times> origin \<times> ca_call \<Rightarrow> ca_state \<Rightarrow> bool" where
  "burn_id_free env (t, Signed who, Submit_burn aid amount additional) s =
     (case Burns s (hash_of env (Pre_burn who aid amount additional)) of
        None \<Rightarrow> True
      | Some b \<Rightarrow> bi_status b \<noteq> 0)"
| "burn_id_free env _ s = True"

lemmas accounting_defs = neutralized_def neutralized_by_def pending_burns_def recorded_supply_def

lemma pending_amount_put:
  assumes "case m bid of None \<Rightarrow> True | Some b \<Rightarrow> pending_amount aid b = 0"
  shows "map_sum (pending_amount aid) (m(bid \<mapsto> b')) =
    map_sum (pending_amount aid) m + pending_amount aid b'"
proof (cases "m bid")
  case None
  then show ?thesis by (simp add: map_sum_insert)
next
  case (Some b)
  with assms show ?thesis by (simp add: map_sum_replace)
qed

lemma ca_accounted_genesis: "ca_accounted ca_genesis"
  by (simp add: ca_accounted_def accounting_defs ca_genesis_def)

lemma submit_project_accounted:
  "submit_project env og symbol max_supply additional s = (Ok, s') \<Longrightarrow> ca_accounted s \<Longrightarrow>
     ca_accounted s'"
  by (elim submit_project_Ok) (simp add: ca_accounted_def accounting_defs)

lemma approve_project_accounted:
  "approve_project env og pid s = (Ok, s') \<Longrightarrow> ca_accounted s \<Longrightarrow> ca_accounted s'"
  by (elim approve_project_Ok) (simp add: ca_accounted_def accounting_defs)

lemma submit_asset_accounted:
  assumes "submit_asset env og pid vintage v additional s = (Ok, s')" and "ca_accounted s"
  shows "ca_accounted s'"
  using assms(1)
proof (rule submit_asset_Ok)
  fix sender project aid
  assume a: "Assets s aid = None"
    and s': "s' = s\<lparr>Assets := (Assets s)(aid \<mapsto> \<lparr>as_project_id = pid, as_vintage = vintage,
              as_initial_supply = v, as_total_supply = 0, as_status = 0\<rparr>),
            AssetAdditionals := (AssetAdditionals s)(aid \<mapsto> additional),
            ca_events := ca_events s
              @ [AssetSubmited pid aid (cp_symbol project) vintage sender (now env)]\<rparr>"
  have "recorded_supply s' j = recorded_supply s j" for j
    using a by (simp add: s' recorded_supply_def)
  with assms(2) show ?thesis
    by (simp add: ca_accounted_def s' neutralized_def neutralized_by_def pending_burns_def)
qed

lemma approve_asset_accounted:
  assumes "approve_asset env og aid s = (Ok, s')" and "ca_accounted s" and "ca_wf s"
  shows "ca_accounted s'"
  using assms(1)
proof (rule approve_asset_Ok)
  fix asset project
  assume a: "Assets s aid = Some asset" "as_status asset = 0"
    and s': "s' = s\<lparr>Assets := (Assets s)(aid \<mapsto>
              asset\<lparr>as_status := 1, as_total_supply := as_initial_supply asset\<rparr>),
            ca_Balances := (ca_Balances s)((aid, cp_owner project) \<mapsto> as_initial_supply asset),
            ca_events := ca_events s @ [AssetApproved aid]\<rparr>"
  have "as_total_supply asset = 0"
    using a assms(3) unfolding ca_wf_def wf_assets_def by fastforce
  then have r0: "recorded_supply s aid = 0" using a by (simp add: recorded_supply_def)
  have u0: "vget (ca_Balances s) (aid, x) = 0" for x
    using a assms(3) by (simp add: ca_wf_def wf_balances_def asset_status_def)
  have same: "neutralized s' j = neutralized s j" "pending_burns s' j = pending_burns s j"
    "recorded_supply s' j = (if j = aid then as_initial_supply asset else recorded_supply s j)"
    for j by (simp_all add: s' accounting_defs)
  show ?thesis
    unfolding ca_accounted_def
  proof
    fix j
    have "units (ca_Balances s) j + neutralized s j + pending_burns s j = recorded_supply s j"
      using assms(2) by (simp add: ca_accounted_def)
    with r0 u0 same [of j]
    show "units (ca_Balances s') j + neutralized s' j + pending_burns s' j = recorded_supply s' j"
      by (auto simp: s' algebra_simps)
  qed
qed

lemma submit_issue_accounted:
  "submit_issue env og aid amount additional s = (Ok, s') \<Longrightarrow> ca_accounted s \<Longrightarrow> ca_accounted s'"
  by (elim submit_issue_Ok) (simp add: ca_accounted_def accounting_defs)

lemma approve_issue_accounted:
  "approve_issue env og iid s = (Ok, s') \<Longrightarrow> ca_accounted s \<Longrightarrow> ca_accounted s'"
  by (elim approve_issue_Ok) (simp add: ca_accounted_def accounting_defs algebra_simps)

lemma submit_burn_accounted:
  assumes "submit_burn env og aid amount additional s = (Ok, s')" and "ca_accounted s"
    and "burn_id_free env (t, og, Submit_burn aid amount additional) s"
  shows "ca_accounted s'"
  using assms(1)
proof (rule submit_burn_Ok)
  fix sender asset project bid
  assume og: "og = Signed sender"
    and bid: "bid = hash_of env (Pre_burn sender aid amount additional)"
    and s': "s' = s\<lparr>Burns := (Burns s)(bid \<mapsto> \<lparr>bi_asset_id = aid, bi_amount = amount,
              bi_status = 0, bi_additional = additional\<rparr>),
            ca_Balances := vmutate (ca_Balances s) (aid, sender) (\<lambda>balance. balance - amount),
            ca_events := ca_events s @ [BurnSubmited bid aid sender amount (now env)]\<rparr>"
  have "case Burns s bid of None \<Rightarrow> True | Some b \<Rightarrow> pending_amount j b = 0" for j
    using assms(3) og bid by (auto simp: pending_amount_def split: option.splits)
  then have "pending_burns s' j = pending_burns s j + (if j = aid then amount else 0)" for j
    by (simp add: s' pending_burns_def pending_amount_put) (simp add: pending_amount_def)
  then show ?thesis
    using assms(2)
    by (simp add: ca_accounted_def s' neutralized_def neutralized_by_def recorded_supply_def
        algebra_simps)
qed

lemma approve_burn_accounted:
  assumes "approve_burn env og bid s = (Ok, s')" and "ca_accounted s"
  shows "ca_accounted s'"
  using assms(1)
proof (rule approve_burn_Ok)
  fix info aid asset pid project
  assume b: "Burns s bid = Some info" "bi_status info = 0" "aid = bi_asset_id info"
    and a: "Assets s aid = Some asset"
    and s': "s' = s\<lparr>Assets := (Assets s)(aid \<mapsto>
              asset\<lparr>as_total_supply := as_total_supply asset - bi_amount info\<rparr>),
            Projects := (Projects s)(pid \<mapsto>
              project\<lparr>cp_total_supply := cp_total_supply project - bi_amount info\<rparr>),
            Burns := (Burns s)(bid \<mapsto> info\<lparr>bi_status := 1\<rparr>),
            ca_events := ca_events s @ [IssueApproved bid]\<rparr>"
  have "pending_burns s' j = pending_burns s j - (if j = aid then bi_amount info else 0)" for j
    using b by (simp add: s' pending_burns_def map_sum_replace) (simp add: pending_amount_def)
  moreover have "recorded_supply s' j =
      recorded_supply s j - (if j = aid then bi_amount info else 0)" for j
    using a by (simp add: s' recorded_supply_def)
  moreover have "ca_Balances s' = ca_Balances s" and "neutralized s' j = neutralized s j" for j
    by (simp_all add: s' neutralized_def neutralized_by_def)
  moreover have "units (ca_Balances s) j + neutralized s j + pending_burns s j
      = recorded_supply s j" for j
    using assms(2) by (simp add: ca_accounted_def)
  ultimately show ?thesis
    by (simp add: ca_accounted_def add_diff_eq)
qed

lemma ca_transfer_accounted:
  "ca_transfer env og aid b v s = (Ok, s') \<Longrightarrow> ca_accounted s \<Longrightarrow> ca_accounted s'"
  by (elim ca_transfer_Ok) (simp add: ca_accounted_def accounting_defs)

lemma neutralize_accounted:
  "neutralize env og aid v additional s = (Ok, s') \<Longrightarrow> ca_accounted s \<Longrightarrow> ca_accounted s'"
  by (elim neutralize_Ok) (simp add: ca_accounted_def accounting_defs algebra_simps)

lemmas ca_accounted_ops =
  submit_project_accounted approve_project_accounted submit_asset_accounted
  approve_asset_accounted submit_issue_accounted approve_issue_accounted approve_burn_accounted
  ca_transfer_accounted neutralize_accounted

lemma ca_accounted_step:
  assumes "ca_wf s \<and> ca_accounted s" and "burn_id_free env c s"
  shows "ca_wf (snd (ca_dispatch env c s)) \<and> ca_accounted (snd (ca_dispatch env c s))"
proof
  show "ca_wf (snd (ca_dispatch env c s))" using assms(1) by (simp add: ca_wf_step)
  obtain t og k where c: "c = (t, og, k)" by (cases c)
  have "burn_id_free (env\<lparr>now := t\<rparr>) c s"
    using assms(2) unfolding c by (cases k; cases og) simp_all
  with assms(1) have "ca_accounted s'" if "ca_dispatch env c s = (Ok, s')" for s'
    using that unfolding c by (cases k) (auto intro: ca_accounted_ops submit_burn_accounted)
  with assms(1) show "ca_accounted (snd (ca_dispatch env c s))"
    by (intro ca_checked.snd_step_cases [where P = ca_accounted]) auto
qed

interpretation ca_accounting: invariant_run "ca_dispatch env" "burn_id_free env"
    "\<lambda>s. ca_wf s \<and> ca_accounted s" for env
  by unfold_locales (rule ca_accounted_step)

section \<open>What the supply counter of a project counts\<close>

definition project_supply :: "ca_state \<Rightarrow> hash \<Rightarrow> u64" where
  "project_supply s pid = (case Projects s pid of None \<Rightarrow> 0 | Some p \<Rightarrow> cp_total_supply p)"

definition supply_in :: "hash \<Rightarrow> CarbonAsset \<Rightarrow> u64" where
  "supply_in pid a = (if as_project_id a = pid then as_total_supply a else 0)"

definition initial_in :: "hash \<Rightarrow> CarbonAsset \<Rightarrow> u64" where
  "initial_in pid a =
     (if as_project_id a = pid \<and> as_status a = 1 then as_initial_supply a else 0)"

definition asset_supplies :: "ca_state \<Rightarrow> hash \<Rightarrow> u64" where
  "asset_supplies s pid = map_sum (supply_in pid) (Assets s)"

definition initial_supplies :: "ca_state \<Rightarrow> hash \<Rightarrow> u64" where
  "initial_supplies s pid = map_sum (initial_in pid) (Assets s)"

definition ca_drift :: "ca_state \<Rightarrow> bool" where
  "ca_drift s \<longleftrightarrow>
     (\<forall>pid. project_supply s pid + initial_supplies s pid = asset_supplies s pid)"

lemmas drift_defs = project_supply_def asset_supplies_def initial_supplies_def

lemma ca_driftD:
  "ca_drift s \<Longrightarrow> project_supply s pid + initial_supplies s pid = asset_supplies s pid"
  by (simp add: ca_drift_def)

lemma ca_drift_genesis: "ca_drift ca_genesis"
  by (simp add: ca_drift_def drift_defs ca_genesis_def)

lemma ca_drift_change:
  assumes "ca_drift s"
    and "\<And>j. project_supply s' j = project_supply s j + dp j"
    and "\<And>j. initial_supplies s' j = initial_supplies s j + di j"
    and "\<And>j. asset_supplies s' j = asset_supplies s j + (dp j + di j)"
  shows "ca_drift s'"
  unfolding ca_drift_def
proof
  fix j
  have "project_supply s' j + initial_supplies s' j =
      project_supply s j + initial_supplies s j + (dp j + di j)"
    unfolding assms(2,3) by (simp only: ac_simps)
  also have "\<dots> = asset_supplies s j + (dp j + di j)"
    by (simp only: ca_driftD [OF assms(1)])
  finally show "project_supply s' j + initial_supplies s' j = asset_supplies s' j"
    by (simp only: assms(4))
qed

lemma ca_drift_same:
  assumes "ca_drift s"
    and "\<And>j. project_supply s' j = project_supply s j"
    and "\<And>j. initial_supplies s' j = initial_supplies s j"
    and "\<And>j. asset_supplies s' j = asset_supplies s j"
  shows "ca_drift s'"
  using assms by (simp add: ca_drift_def)

lemma submit_project_drift:
  assumes "submit_project env og symbol max_supply additional s = (Ok, s')" and "ca_drift s"
  shows "ca_drift s'"
  using assms(1) by (rule submit_project_Ok) (rule ca_drift_same [OF assms(2)]; simp add: drift_defs)

lemma approve_project_drift:
  assumes "approve_project env og pid s = (Ok, s')" and "ca_drift s"
  shows "ca_drift s'"
  using assms(1) by (rule approve_project_Ok) (rule ca_drift_same [OF assms(2)]; simp add: drift_defs)

lemma submit_asset_drift:
  assumes "submit_asset env og pid vintage v additional s = (Ok, s')" and "ca_drift s"
  shows "ca_drift s'"
  using assms(1) by (rule submit_asset_Ok)
    (rule ca_drift_same [OF assms(2)];
      simp add: drift_defs map_sum_insert supply_in_def initial_in_def)

lemma approve_asset_drift:
  assumes "approve_asset env og aid s = (Ok, s')" and "ca_drift s" and "ca_wf s"
  shows "ca_drift s'"
  using assms(1)
proof (rule approve_asset_Ok)
  fix asset project
  assume a: "Assets s aid = Some asset" "as_status asset = 0"
    and s': "s' = s\<lparr>Assets := (Assets s)(aid \<mapsto>
              asset\<lparr>as_status := 1, as_total_supply := as_initial_supply asset\<rparr>),
            ca_Balances := (ca_Balances s)((aid, cp_owner project) \<mapsto> as_initial_supply asset),
            ca_events := ca_events s @ [AssetApproved aid]\<rparr>"
  have "as_total_supply asset = 0"
    using a assms(3) unfolding ca_wf_def wf_assets_def by fastforce
  with a show ?thesis
    by (intro ca_drift_change [OF assms(2), where dp = "\<lambda>_. 0"
          and di = "\<lambda>j. if as_project_id asset = j then as_initial_supply asset else 0"])
      (simp_all add: s' drift_defs map_sum_replace supply_in_def initial_in_def)
qed

lemma resupplied_drift:
  assumes "ca_drift s" and "Assets s aid = Some asset"
    and "Projects s (as_project_id asset) = Some project"
    and "Assets s' = (Assets s)(aid \<mapsto>
           asset\<lparr>as_total_supply := as_total_supply asset + d\<rparr>)"
    and "Projects s' = (Projects s)(as_project_id asset \<mapsto>
           project\<lparr>cp_total_supply := cp_total_supply project + d\<rparr>)"
  shows "ca_drift s'"
  using assms(2-)
  by (intro ca_drift_change [OF assms(1), where di = "\<lambda>_. 0"
        and dp = "\<lambda>j. if as_project_id asset = j then d else 0"])
    (auto simp: drift_defs map_sum_replace supply_in_def initial_in_def)

lemma approve_issue_drift:
  assumes "approve_issue env og iid s = (Ok, s')" and "ca_drift s"
  shows "ca_drift s'"
  using assms(1)
proof (rule approve_issue_Ok)
  fix info aid asset pid project
  assume "Assets s aid = Some asset" "pid = as_project_id asset" "Projects s pid = Some project"
    "s' = s\<lparr>Assets := (Assets s)(aid \<mapsto>
              asset\<lparr>as_total_supply := as_total_supply asset + is_amount info\<rparr>),
            Projects := (Projects s)(pid \<mapsto>
              project\<lparr>cp_total_supply := cp_total_supply project + is_amount info\<rparr>),
            Issues := (Issues s)(iid \<mapsto> info\<lparr>is_status := 1\<rparr>),
            ca_Balances := vmutate (ca_Balances s) (aid, cp_owner project)
              (\<lambda>balance. balance + is_amount info),
            ca_events := ca_events s @ [IssueApproved iid]\<rparr>"
  then show ?thesis
    by (intro resupplied_drift [OF assms(2), where asset = asset and aid = aid
          and project = project and d = "is_amount info"]) simp_all
qed

lemma approve_burn_drift:
  assumes "approve_burn env og bid s = (Ok, s')" and "ca_drift s"
  shows "ca_drift s'"
  using assms(1)
proof (rule approve_burn_Ok)
  fix info aid asset pid project
  assume "Assets s aid = Some asset" "pid = as_project_id asset" "Projects s pid = Some project"
    "s' = s\<lparr>Assets := (Assets s)(aid \<mapsto>
              asset\<lparr>as_total_supply := as_total_supply asset - bi_amount info\<rparr>),
            Projects := (Projects s)(pid \<mapsto>
              project\<lparr>cp_total_supply := cp_total_supply project - bi_amount info\<rparr>),
            Burns := (Burns s)(bid \<mapsto> info\<lparr>bi_status := 1\<rparr>),
            ca_events := ca_events s @ [IssueApproved bid]\<rparr>"
  then show ?thesis
    by (intro resupplied_drift [OF assms(2), where asset = asset and aid = aid
          and project = project and d = "- bi_amount info"]) simp_all
qed

lemma unsupplied_drift:
  assumes "ca_drift s"
  shows "submit_issue env og h v x s = (Ok, s') \<Longrightarrow> ca_drift s'"
    and "submit_burn env og h v x s = (Ok, s') \<Longrightarrow> ca_drift s'"
    and "ca_transfer env og h b v s = (Ok, s') \<Longrightarrow> ca_drift s'"
    and "neutralize env og h v x s = (Ok, s') \<Longrightarrow> ca_drift s'"
  using assms
  by (auto simp: ca_drift_def drift_defs
      elim!: submit_issue_Ok submit_burn_Ok ca_transfer_Ok neutralize_Ok)

lemma ca_drift_step:
  assumes "ca_wf s \<and> ca_drift s"
  shows "ca_wf (snd (ca_dispatch env c s)) \<and> ca_drift (snd (ca_dispatch env c s))"
proof
  show "ca_wf (snd (ca_dispatch env c s))" using assms(1) by (simp add: ca_wf_step)
  obtain t og k where c: "c = (t, og, k)" by (cases c)
  from assms have "ca_drift s'" if "ca_dispatch env c s = (Ok, s')" for s'
    using that unfolding c
    by (cases k)
      (auto intro: submit_project_drift approve_project_drift submit_asset_drift
        approve_asset_drift approve_issue_drift approve_burn_drift
        unsupplied_drift)
  with assms show "ca_drift (snd (ca_dispatch env c s))"
    by (intro ca_checked.snd_step_cases [where P = ca_drift]) auto
qed

interpretation ca_drifting: invariant_run "ca_dispatch env" "\<lambda>_ _. True"
    "\<lambda>s. ca_wf s \<and> ca_drift s" for env
  by unfold_locales (rule ca_drift_step)

end
