(* ===== verification/Carbon_Properties.thy ===== *)
theory Carbon_Properties
  imports Carbon_Accounting
begin

text \<open>
  The properties of \<open>pallets/carbon-assets\<close>, each with an instance on a concrete run: what holds
  of every run of its calls, what one call does to balances, who may do what, and the places
  where the code does not do what it means to.
\<close>

section \<open>A sample life cycle\<close>

text \<open>
  Account \<open>1\<close> submits a project of at most 100 units (id \<open>2001\<close>), an asset of 40 units (id
  \<open>3001\<close>), an issue of 30 (id \<open>4001\<close>) and a burn of 10 (id \<open>5001\<close>), all approved by the root;
  then it pays 5 units to account \<open>2\<close>, who neutralizes one.
\<close>

definition carbon_setup :: "(u64 \<times> origin \<times> ca_call) list" where
  "carbon_setup =
     [(10, Signed 1, Submit_project [80] 100 [0]), (11, Root, Approve_project 2001),
      (12, Signed 1, Submit_asset 2001 [50] 40 [0]), (13, Root, Approve_asset 3001)]"

definition carbon_life :: "(u64 \<times> origin \<times> ca_call) list" where
  "carbon_life = carbon_setup @
     [(14, Signed 1, Submit_issue 3001 30 [0]), (15, Root, Approve_issue 4001),
      (16, Signed 1, Submit_burn 3001 10 [0]), (17, Root, Approve_burn 5001),
      (18, Signed 1, Ca_transfer 3001 2 5), (19, Signed 2, Neutralize 3001 1 [])]"

lemmas ca_eval = ca_op_defs vget_def vmutate_def ca_genesis_def ca_balance_def Let_def

section \<open>Every run\<close>

text \<open>
  C6. Whatever calls are made in whatever order from genesis, the storage stays well-formed: a
  status is 0 or 1; a project not approved has supply 0; an asset belongs to an approved project
  and has supply 0 until it is approved; issues and burns belong to approved assets; projects and
  assets have their additionals; and nobody holds units of an asset that is not approved.
\<close>

theorem ca_storage_well_formed: "ca_wf (run_calls (ca_dispatch env) cs ca_genesis)"
  by (rule ca_wf_run.run_inv [OF ca_wf_genesis]) simp

text \<open>
  Units of carbon credit are accounted for: after any run from genesis in which nobody
  resubmits a burn that is still pending, the units of each asset that are held, those neutralized
  and those taken out by pending burns add up to the asset's recorded total supply (in the 64-bit
  arithmetic of the code).
\<close>

theorem ca_units_accounted:
  assumes "ok_run (burn_id_free env) (ca_dispatch env) cs ca_genesis"
  shows "let s = run_calls (ca_dispatch env) cs ca_genesis
    in units (ca_Balances s) aid + neutralized s aid + pending_burns s aid = recorded_supply s aid"
proof -
  have "ca_wf (run_calls (ca_dispatch env) cs ca_genesis) \<and>
      ca_accounted (run_calls (ca_dispatch env) cs ca_genesis)"
    by (rule ca_accounting.run_inv [OF _ assms]) (simp add: ca_wf_genesis ca_accounted_genesis)
  then show ?thesis by (simp add: Let_def ca_accounted_def)
qed

theorem ca_units_accounted_witness:
  "let s = run_calls (ca_dispatch sample_env) carbon_life ca_genesis
   in units (ca_Balances s) 3001 + neutralized s 3001 + pending_burns s 3001 = 60
      \<and> neutralized s 3001 = 1 \<and> ca_balance s 3001 1 = 55 \<and> ca_balance s 3001 2 = 4"
proof -
  have ok: "ok_run (burn_id_free sample_env) (ca_dispatch sample_env) carbon_life ca_genesis"
    by (simp add: carbon_life_def carbon_setup_def ca_eval)
  show ?thesis
    using ca_units_accounted [OF ok, of 3001]
    by (simp add: Let_def)
      (simp add: carbon_life_def carbon_setup_def ca_eval recorded_supply_def neutralized_def
        neutralized_by_def)
qed

text \<open>
  C8. The supply counter of a project is its assets' total supplies less their initial supplies:
  after any run from genesis, counter and initial supplies of the approved assets add up to the
  assets' total supplies (64-bit). \<open>approve_asset\<close> computes the increased counter and does not
  store it, so the \<open>OverIssueLimit\<close> checks never see an initial supply.
\<close>

theorem ca_project_counter:
  "let s = run_calls (ca_dispatch env) cs ca_genesis
   in project_supply s pid + initial_supplies s pid = asset_supplies s pid"
proof -
  have "ca_wf (run_calls (ca_dispatch env) cs ca_genesis) \<and>
      ca_drift (run_calls (ca_dispatch env) cs ca_genesis)"
    by (rule ca_drifting.run_inv) (simp_all add: ca_wf_genesis ca_drift_genesis)
  then show ?thesis by (simp add: Let_def ca_drift_def)
qed

text \<open>
  A carbon-assets call that fails leaves storage and events as they were: every dispatchable
  of the pallet does all its checks before its first write.
\<close>

theorem ca_failing_call_writes_nothing:
  "snd (ca_dispatch env c s) = s \<or> fst (ca_dispatch env c s) = Ok"
  using ca_checked.changed_iff_Ok by blast

section \<open>Who may change what\<close>

text \<open>What a call by its signer spends: units of the asset named in the call.\<close>

fun ca_spends :: "ca_call \<Rightarrow> hash \<Rightarrow> bool" where
  "ca_spends (Submit_burn aid _ _) j = (j = aid)"
| "ca_spends (Ca_transfer aid _ _) j = (j = aid)"
| "ca_spends (Neutralize aid _ _) j = (j = aid)"
| "ca_spends _ _ = False"

text \<open>The owner of the project an asset belongs to.\<close>

definition asset_owner :: "ca_state \<Rightarrow> hash \<Rightarrow> account option" where
  "asset_owner s aid =
     (case Assets s aid of None \<Rightarrow> None
      | Some a \<Rightarrow> map_option cp_owner (Projects s (as_project_id a)))"

text \<open>What a call credits: an incoming transfer, an approved asset, an approved issue.\<close>

fun ca_credits :: "ca_state \<Rightarrow> ca_call \<Rightarrow> hash \<Rightarrow> account \<Rightarrow> bool" where
  "ca_credits s (Ca_transfer aid b _) j x = (j = aid \<and> x = b)"
| "ca_credits s (Approve_asset aid) j x = (j = aid \<and> asset_owner s aid = Some x)"
| "ca_credits s (Approve_issue iid) j x =
     (map_option is_asset_id (Issues s iid) = Some j \<and> asset_owner s j = Some x)"
| "ca_credits s _ j x = False"

fun is_approval :: "ca_call \<Rightarrow> bool" where
  "is_approval (Approve_project _) = True"
| "is_approval (Approve_asset _) = True"
| "is_approval (Approve_issue _) = True"
| "is_approval (Approve_burn _) = True"
| "is_approval _ = False"

text \<open>
  C9. A balance changes for a reason: when a call changes what account \<open>x\<close> holds of asset \<open>j\<close>,
  either \<open>x\<close> signed a transfer, neutralization or burn of \<open>j\<close>, or the call credits \<open>x\<close>: a signed
  transfer of \<open>j\<close> to it, or an approval, from the authorised origin, of an asset or issue of \<open>j\<close>
  when \<open>x\<close> owns its project.
\<close>

theorem ca_balance_changes_for_a_reason:
  assumes "ca_balance (snd (ca_dispatch env (t, og, k) s)) j x \<noteq> ca_balance s j x"
  shows "(og = Signed x \<and> ca_spends k j) \<or>
    (ca_credits s k j x \<and> (if is_approval k then approve_origin env og else \<exists>a. og = Signed a))"
proof -
  obtain s' where s': "ca_dispatch env (t, og, k) s = (Ok, s')"
    using assms ca_checked.changed_iff_Ok by (metis prod.collapse)
  with assms have "ca_balance s' j x \<noteq> ca_balance s j x" by simp
  with s' show ?thesis
    by (cases k) (auto simp: ca_balance_def ca_make_transfer_def asset_owner_def Let_def
        elim!: ca_Ok_elims split: if_splits)
qed

theorem ca_balance_changes_for_a_reason_witness:
  "let s = run_calls (ca_dispatch sample_env) carbon_setup ca_genesis
   in ca_balance (snd (ca_dispatch sample_env (14, Signed 1, Ca_transfer 3001 2 5) s)) 3001 2 = 5
      \<and> ca_credits s (Ca_transfer 3001 2 5) 3001 2"
proof -
  let ?s = "run_calls (ca_dispatch sample_env) carbon_setup ca_genesis"
  have b: "ca_balance (snd (ca_dispatch sample_env (14, Signed 1, Ca_transfer 3001 2 5) ?s)) 3001 2
      = 5" "ca_balance ?s 3001 2 = 0"
    by (simp_all add: carbon_setup_def ca_eval)
  with ca_balance_changes_for_a_reason [of sample_env 14 "Signed 1" "Ca_transfer 3001 2 5" ?s 3001 2]
  show ?thesis by (simp add: Let_def)
qed

text \<open>
  C10. Only the committee approves, and only what was submitted: if a call turns the status of a
  project, asset, issue or burn into 1, it is the approval of that very entry, from the authorised
  origin, and the entry was pending.
\<close>

theorem ca_only_authorised_approvals:
  assumes "(status, call) \<in> set [(project_status, Approve_project), (asset_status, Approve_asset),
      (issue_status, Approve_issue), (burn_status, Approve_burn)]"
    and "status (snd (ca_dispatch env (t, og, k) s)) h = Some 1" and "status s h \<noteq> Some 1"
  shows "k = call h \<and> approve_origin env og \<and> status s h = Some 0"
proof -
  have "snd (ca_dispatch env (t, og, k) s) \<noteq> s" using assms(2,3) by auto
  then obtain s' where s': "ca_dispatch env (t, og, k) s = (Ok, s')"
    using ca_checked.changed_iff_Ok by (metis prod.collapse)
  with assms have "status s' h = Some 1" by simp
  with s' assms(1,3) show ?thesis
    by (cases k) (auto simp: ca_status_defs elim!: ca_Ok_elims split: if_splits)
qed

theorem ca_only_authorised_approvals_witness:
  "let s = run_calls (ca_dispatch sample_env) (take 3 carbon_setup) ca_genesis
   in asset_status s 3001 = Some 0 \<and>
      asset_status (snd (ca_dispatch sample_env (13, Root, Approve_asset 3001) s)) 3001 = Some 1"
proof -
  let ?s = "run_calls (ca_dispatch sample_env) (take 3 carbon_setup) ca_genesis"
  have b: "asset_status (snd (ca_dispatch sample_env (13, Root, Approve_asset 3001) ?s)) 3001
      = Some 1" "asset_status ?s 3001 \<noteq> Some 1"
    by (simp_all add: carbon_setup_def ca_eval asset_status_def)
  with ca_only_authorised_approvals [of asset_status Approve_asset sample_env 13 Root
      "Approve_asset 3001" ?s 3001]
  show ?thesis by (simp add: Let_def)
qed

section \<open>What is permanent\<close>

definition project_successor :: "CarbonProject \<Rightarrow> CarbonProject \<Rightarrow> bool" where
  "project_successor p q \<longleftrightarrow> cp_symbol q = cp_symbol p \<and> cp_max_supply q = cp_max_supply p \<and>
     cp_owner q = cp_owner p \<and> (cp_status q = cp_status p \<or> cp_status q = 1)"

definition asset_successor :: "CarbonAsset \<Rightarrow> CarbonAsset \<Rightarrow> bool" where
  "asset_successor a b \<longleftrightarrow> as_project_id b = as_project_id a \<and> as_vintage b = as_vintage a \<and>
     as_initial_supply b = as_initial_supply a \<and> (as_status b = as_status a \<or> as_status b = 1)"

lemma Projects_successor_step:
  assumes "\<exists>q. Projects s h = Some q \<and> project_successor p q"
  shows "\<exists>q. Projects (snd (ca_dispatch env c s)) h = Some q \<and> project_successor p q"
proof (rule ca_checked.snd_step_cases
    [where P = "\<lambda>s. \<exists>q. Projects s h = Some q \<and> project_successor p q", OF assms])
  fix s' assume ok: "ca_dispatch env c s = (Ok, s')"
  from assms obtain q where q: "Projects s h = Some q" "project_successor p q" by blast
  then obtain q' where q': "Projects s' h = Some q'" using ca_doms_grow [OF ok] by blast
  from Projects_evolve [OF ok q'] q q'
  show "\<exists>q. Projects s' h = Some q \<and> project_successor p q"
    by cases (auto simp: project_successor_def)
qed

lemma Assets_successor_step:
  assumes "\<exists>b. Assets s h = Some b \<and> asset_successor a b"
  shows "\<exists>b. Assets (snd (ca_dispatch env c s)) h = Some b \<and> asset_successor a b"
proof (rule ca_checked.snd_step_cases
    [where P = "\<lambda>s. \<exists>b. Assets s h = Some b \<and> asset_successor a b", OF assms])
  fix s' assume ok: "ca_dispatch env c s = (Ok, s')"
  from assms obtain b where b: "Assets s h = Some b" "asset_successor a b" by blast
  then obtain b' where b': "Assets s' h = Some b'" using ca_doms_grow [OF ok] by blast
  from Assets_evolve [OF ok b'] b b'
  show "\<exists>b. Assets s' h = Some b \<and> asset_successor a b"
    by cases (auto simp: asset_successor_def)
qed

interpretation project_kept: invariant_run "ca_dispatch env" "\<lambda>_ _. True"
    "\<lambda>s. \<exists>q. Projects s h = Some q \<and> project_successor p q" for env h p
  by unfold_locales (rule Projects_successor_step)

interpretation asset_kept: invariant_run "ca_dispatch env" "\<lambda>_ _. True"
    "\<lambda>s. \<exists>b. Assets s h = Some b \<and> asset_successor a b" for env h a
  by unfold_locales (rule Assets_successor_step)

text \<open>
  A submitted project is there for good: no later call removes it or changes its symbol, its
  maximal supply or its owner, and an approved project stays approved.
\<close>

theorem ca_project_permanent:
  assumes "Projects s pid = Some p"
  shows "\<exists>q. Projects (run_calls (ca_dispatch env) cs s) pid = Some q \<and> project_successor p q"
  by (rule project_kept.run_inv) (simp_all add: assms project_successor_def)

theorem ca_project_permanent_witness:
  "\<forall>env cs. \<exists>q. Projects (run_calls (ca_dispatch env) cs
       (run_calls (ca_dispatch sample_env) carbon_setup ca_genesis)) 2001 = Some q
     \<and> cp_owner q = 1 \<and> cp_max_supply q = 100 \<and> cp_status q = 1"
proof (intro allI)
  fix env and cs :: "(u64 \<times> origin \<times> ca_call) list"
  let ?s = "run_calls (ca_dispatch sample_env) carbon_setup ca_genesis"
  have "Projects ?s 2001 = Some \<lparr>cp_symbol = [80], cp_max_supply = 100, cp_total_supply = 0,
      cp_status = 1, cp_owner = 1\<rparr>"
    by (simp add: carbon_setup_def ca_eval)
  from ca_project_permanent [OF this, of env cs]
  show "\<exists>q. Projects (run_calls (ca_dispatch env) cs ?s) 2001 = Some q
     \<and> cp_owner q = 1 \<and> cp_max_supply q = 100 \<and> cp_status q = 1"
    by (auto simp: project_successor_def)
qed

text \<open>
  A submitted asset is there for good: no later call removes it or changes its project, its
  vintage or its initial supply, and an approved asset stays approved.
\<close>

theorem ca_asset_permanent:
  assumes "Assets s aid = Some a"
  shows "\<exists>b. Assets (run_calls (ca_dispatch env) cs s) aid = Some b \<and> asset_successor a b"
  by (rule asset_kept.run_inv) (simp_all add: assms asset_successor_def)

theorem ca_asset_permanent_witness:
  "\<forall>env cs. \<exists>b. Assets (run_calls (ca_dispatch env) cs
       (run_calls (ca_dispatch sample_env) carbon_setup ca_genesis)) 3001 = Some b
     \<and> as_project_id b = 2001 \<and> as_initial_supply b = 40 \<and> as_status b = 1"
proof (intro allI)
  fix env and cs :: "(u64 \<times> origin \<times> ca_call) list"
  let ?s = "run_calls (ca_dispatch sample_env) carbon_setup ca_genesis"
  have "Assets ?s 3001 = Some \<lparr>as_project_id = 2001, as_vintage = [50], as_initial_supply = 40,
      as_total_supply = 40, as_status = 1\<rparr>"
    by (simp add: carbon_setup_def ca_eval)
  from ca_asset_permanent [OF this, of env cs]
  show "\<exists>b. Assets (run_calls (ca_dispatch env) cs ?s) 3001 = Some b
     \<and> as_project_id b = 2001 \<and> as_initial_supply b = 40 \<and> as_status b = 1"
    by (auto simp: asset_successor_def)
qed

section \<open>When an approval succeeds\<close>

text \<open>The limit check of \<open>approve_issue\<close>, read off the storage.\<close>

definition issue_within_limit :: "ca_state \<Rightarrow> hash \<Rightarrow> bool" where
  "issue_within_limit s iid =
     (case Issues s iid of None \<Rightarrow> False | Some i \<Rightarrow>
      case Assets s (is_asset_id i) of None \<Rightarrow> False | Some a \<Rightarrow>
      case Projects s (as_project_id a) of None \<Rightarrow> False | Some p \<Rightarrow>
        is_amount i + cp_total_supply p \<le> cp_max_supply p)"

lemma wf_asset_lookup:
  assumes "ca_wf s" and "asset_status s aid = Some 1"
  obtains a p where "Assets s aid = Some a" "Projects s (as_project_id a) = Some p"
proof -
  obtain a where a: "Assets s aid = Some a" using assms(2) by (auto simp: asset_status_def)
  with assms(1) have "project_status s (as_project_id a) = Some 1"
    by (auto simp: ca_wf_def wf_assets_def)
  with a that show thesis by (auto simp: project_status_def)
qed

text \<open>
  C25. In every state reached from genesis, \<open>approve_burn\<close> and \<open>approve_issue\<close> return exactly what
  the entry's status calls for: no authority fails with \<open>BadOrigin\<close>, an unknown id with
  \<open>InvalidIndex\<close>, a handled one with \<open>AlreadyApproved\<close>; a pending burn is always approved, a
  pending issue unless it is over the limit. The inner asset and project lookups never fail.
\<close>

theorem ca_approval_results:
  "let s = run_calls (ca_dispatch env) cs ca_genesis
   in fst (approve_burn env og h s) =
        (if \<not> approve_origin env og then Inl BadOrigin
         else case burn_status s h of None \<Rightarrow> Err InvalidIndex
              | Some st \<Rightarrow> if st \<noteq> 0 then Err AlreadyApproved else Ok)
      \<and> fst (approve_issue env og h s) =
        (if \<not> approve_origin env og then Inl BadOrigin
         else case issue_status s h of None \<Rightarrow> Err InvalidIndex
              | Some st \<Rightarrow> if st \<noteq> 0 then Err AlreadyApproved
                          else if \<not> issue_within_limit s h then Err OverIssueLimit else Ok)"
proof -
  let ?s = "run_calls (ca_dispatch env) cs ca_genesis"
  have wf: "ca_wf ?s" by (rule ca_wf_run.run_inv [OF ca_wf_genesis]) simp
  have b: "asset_status ?s (bi_asset_id b) = Some 1" if "Burns ?s h = Some b" for b
    using wf that by (auto simp: ca_wf_def wf_burns_def)
  have i: "asset_status ?s (is_asset_id i) = Some 1" if "Issues ?s h = Some i" for i
    using wf that by (auto simp: ca_wf_def wf_issues_def)
  have "fst (approve_burn env og h ?s) =
        (if \<not> approve_origin env og then Inl BadOrigin
         else case burn_status ?s h of None \<Rightarrow> Err InvalidIndex
              | Some st \<Rightarrow> if st \<noteq> 0 then Err AlreadyApproved else Ok)"
  proof (cases "Burns ?s h")
    case (Some b)
    obtain a p where "Assets ?s (bi_asset_id b) = Some a" "Projects ?s (as_project_id a) = Some p"
      by (rule wf_asset_lookup [OF wf b [OF Some]])
    with Some show ?thesis by (simp add: approve_burn_def burn_status_def Let_def)
  qed (simp add: approve_burn_def burn_status_def)
  moreover have "fst (approve_issue env og h ?s) =
        (if \<not> approve_origin env og then Inl BadOrigin
         else case issue_status ?s h of None \<Rightarrow> Err InvalidIndex
              | Some st \<Rightarrow> if st \<noteq> 0 then Err AlreadyApproved
                          else if \<not> issue_within_limit ?s h then Err OverIssueLimit else Ok)"
  proof (cases "Issues ?s h")
    case (Some k)
    obtain a p where "Assets ?s (is_asset_id k) = Some a" "Projects ?s (as_project_id a) = Some p"
      by (rule wf_asset_lookup [OF wf i [OF Some]])
    with Some show ?thesis
      by (simp add: approve_issue_def issue_status_def issue_within_limit_def Let_def)
  qed (simp add: approve_issue_def issue_status_def)
  ultimately show ?thesis by (simp add: Let_def)
qed

section \<open>Transfers\<close>

text \<open>
  C37. While an asset's balances together fit in 64 bits, a successful \<open>transfer\<close> is exact: the
  sender had the non-zero amount and loses exactly it, the recipient gains exactly it, every other
  balance, the true sum of the balances and all other storage stay as they were.
\<close>

theorem ca_transfer_exact:
  assumes "ca_transfer env (Signed a) aid b v s = (Ok, s')"
    and "holdings (ca_Balances s) aid < 2 ^ 64"
  shows "0 < unat v \<and> unat v \<le> unat (ca_balance s aid a) \<and>
    (\<forall>j x. unat (ca_balance s' j x) =
       (if j = aid \<and> a \<noteq> b \<and> x = a then unat (ca_balance s aid a) - unat v
        else if j = aid \<and> a \<noteq> b \<and> x = b then unat (ca_balance s aid b) + unat v
        else unat (ca_balance s j x))) \<and>
    holdings (ca_Balances s') aid = holdings (ca_Balances s) aid \<and>
    Projects s' = Projects s \<and> Assets s' = Assets s \<and> Issues s' = Issues s \<and> Burns s' = Burns s"
  using assms(1)
proof (rule ca_transfer_Ok)
  fix a' assume "Signed a = Signed a'" "v \<noteq> 0" "v \<le> ca_balance s aid a'"
    and s': "s' = (snd (ca_make_transfer aid a' b v s))
      \<lparr>ca_events := ca_events s @ [Transferred aid a' b v (now env)]\<rparr>"
  then have a': "a' = a" and le: "v \<le> ca_balance s aid a" and v: "0 < unat v"
    by (auto simp: unat_gt_0)
  have h: "(\<Sum>x\<in>UNIV. unat (ca_balance s aid x)) < 2 ^ 64"
    using assms(2) by (simp add: holdings_ca_balance)
  have bal: "ca_balance s' j x = ca_balance (snd (ca_make_transfer aid a b v s)) j x" for j x
    by (simp add: s' a' ca_balance_def)
  have "holdings (ca_Balances s') aid = holdings (ca_Balances s) aid"
    unfolding holdings_ca_balance bal by (rule ca_ledger.move_holdings) (use le h in auto)
  moreover have "unat (ca_balance s' j x) =
       (if j = aid \<and> a \<noteq> b \<and> x = a then unat (ca_balance s aid a) - unat v
        else if j = aid \<and> a \<noteq> b \<and> x = b then unat (ca_balance s aid b) + unat v
        else unat (ca_balance s j x))" for j x
    using ca_ledger.move_exact [OF le h, of b] unfolding bal
    by (auto simp: ca_ledger.bal_move)
  ultimately show ?thesis
    using v le by (simp add: word_le_nat_alt s')
qed

theorem ca_transfer_exact_witness:
  "let s = run_calls (ca_dispatch sample_env) carbon_setup ca_genesis
   in unat (ca_balance (snd (ca_transfer sample_env (Signed 1) 3001 2 5 s)) 3001 1) = 35"
proof -
  let ?s = "run_calls (ca_dispatch sample_env) carbon_setup ca_genesis"
  have b: "ca_Balances ?s = [(3001, 1) \<mapsto> 40]"
    by (simp add: carbon_setup_def ca_eval)
  have "holdings (ca_Balances ?s) 3001 = 40"
    using holdings_update [of Map.empty 3001 1 40] by (simp add: b)
  then have h: "holdings (ca_Balances ?s) 3001 < 2 ^ 64" by simp
  have t: "ca_transfer sample_env (Signed 1) 3001 2 5 ?s
      = (Ok, snd (ca_transfer sample_env (Signed 1) 3001 2 5 ?s))"
    by (simp add: ca_op_defs b vget_def Let_def)
  from ca_transfer_exact [OF t h] show ?thesis by (simp add: Let_def ca_balance_def b)
qed

section \<open>Limits\<close>

fun burn_covered :: "u64 \<times> origin \<times> ca_call \<Rightarrow> ca_state \<Rightarrow> bool" where
  "burn_covered (t, og, Approve_burn bid) s =
     (case Burns s bid of None \<Rightarrow> True | Some b \<Rightarrow>
      case Assets s (bi_asset_id b) of None \<Rightarrow> True | Some a \<Rightarrow>
      case Projects s (as_project_id a) of None \<Rightarrow> True | Some p \<Rightarrow>
        bi_amount b \<le> cp_total_supply p)"
| "burn_covered c s = True"

definition within_max :: "ca_state \<Rightarrow> bool" where
  "within_max s \<longleftrightarrow>
     (\<forall>pid p. Projects s pid = Some p \<longrightarrow> cp_total_supply p \<le> cp_max_supply p)"

lemma within_max_step:
  assumes "within_max s" and "burn_covered c s"
  shows "within_max (snd (ca_dispatch env c s))"
proof (rule ca_checked.snd_step_cases [where P = within_max, OF assms(1)])
  fix s' assume ok: "ca_dispatch env c s = (Ok, s')"
  obtain t og k where c: "c = (t, og, k)" by (cases c)
  show "within_max s'"
  proof (cases "\<exists>bid. k = Approve_burn bid")
    case True
    then obtain bid where k: "k = Approve_burn bid" by blast
    from ok [unfolded c k ca_dispatch.simps] show ?thesis
    proof (rule approve_burn_Ok)
      fix info aid asset pid project
      assume a: "Burns s bid = Some info" "aid = bi_asset_id info" "Assets s aid = Some asset"
        "pid = as_project_id asset" "Projects s pid = Some project"
        and s': "s' = s\<lparr>Assets := (Assets s)(aid \<mapsto>
              asset\<lparr>as_total_supply := as_total_supply asset - bi_amount info\<rparr>),
            Projects := (Projects s)(pid \<mapsto>
              project\<lparr>cp_total_supply := cp_total_supply project - bi_amount info\<rparr>),
            Burns := (Burns s)(bid \<mapsto> info\<lparr>bi_status := 1\<rparr>),
            ca_events := ca_events s @ [IssueApproved bid]\<rparr>"
      have "bi_amount info \<le> cp_total_supply project" using assms(2) a by (simp add: c k)
      then have "cp_total_supply project - bi_amount info \<le> cp_total_supply project"
        by (simp add: word_le_nat_alt unat_sub_u64)
      moreover have "cp_total_supply project \<le> cp_max_supply project"
        using assms(1) a by (simp add: within_max_def)
      ultimately show "within_max s'"
        using assms(1) by (auto simp: s' within_max_def intro: order_trans)
    qed
  next
    case False
    with ok assms(1) show ?thesis unfolding c
      by (cases k) (auto simp: within_max_def add.commute elim!: ca_Ok_elims split: if_splits)
  qed
qed

interpretation counter_limit: invariant_run "ca_dispatch env" burn_covered within_max for env
  by unfold_locales (rule within_max_step)

text \<open>
  C38. The recorded supply of a project never exceeds its maximal supply, after any run from
  genesis in which no approved burn takes more out of a project than its counter holds.
\<close>

theorem ca_counter_within_max:
  assumes "ok_run burn_covered (ca_dispatch env) cs ca_genesis"
  shows "within_max (run_calls (ca_dispatch env) cs ca_genesis)"
  by (rule counter_limit.run_inv [OF _ assms]) (simp add: within_max_def ca_genesis_def)

theorem ca_counter_within_max_witness:
  "let s = run_calls (ca_dispatch sample_env) carbon_life ca_genesis
   in within_max s \<and> project_supply s 2001 = 20"
proof -
  have ok: "ok_run burn_covered (ca_dispatch sample_env) carbon_life ca_genesis"
    by (simp add: carbon_life_def carbon_setup_def ca_eval)
  show ?thesis
    using ca_counter_within_max [OF ok]
    by (simp add: Let_def) (simp add: carbon_life_def carbon_setup_def ca_eval project_supply_def)
qed

section \<open>Where the code departs from its intent\<close>

lemma approve_asset_succeeds:
  assumes "approve_origin env og" and "Assets s aid = Some a" and "as_status a = 0"
    and "Projects s (as_project_id a) = Some p"
    and "as_initial_supply a + cp_total_supply p \<le> cp_max_supply p"
  shows "approve_asset env og aid s =
    (Ok, s\<lparr>Assets := (Assets s)(aid \<mapsto> a\<lparr>as_status := 1, as_total_supply := as_initial_supply a\<rparr>),
           ca_Balances := (ca_Balances s)((aid, cp_owner p) \<mapsto> as_initial_supply a),
           ca_events := ca_events s @ [AssetApproved aid]\<rparr>)"
  using assms by (simp add: approve_asset_def ca_deposit_event_def Let_def)

definition pending_asset_of :: "hash \<Rightarrow> CarbonProject \<Rightarrow> ca_state \<Rightarrow> hash \<Rightarrow> bool" where
  "pending_asset_of pid p s aid =
     (case Assets s aid of None \<Rightarrow> False
      | Some a \<Rightarrow> as_status a = 0 \<and> as_project_id a = pid
          \<and> as_initial_supply a + cp_total_supply p \<le> cp_max_supply p)"

lemma approve_assets_run:
  assumes "approve_origin env og" and "Projects s pid = Some p" and "distinct aids"
    and "list_all (pending_asset_of pid p s) aids"
  shows "let s' = run_calls (ca_dispatch env) (map (\<lambda>aid. (t, og, Approve_asset aid)) aids) s
    in Projects s' = Projects s \<and>
      (\<forall>j. Assets s' j = (if j \<in> set aids
           then map_option (\<lambda>a. a\<lparr>as_status := 1, as_total_supply := as_initial_supply a\<rparr>)
                  (Assets s j)
           else Assets s j)) \<and>
      (\<forall>j. j \<notin> set aids \<longrightarrow> (\<forall>x. ca_balance s' j x = ca_balance s j x)) \<and>
      (\<forall>j\<in>set aids. \<forall>a. Assets s j = Some a \<longrightarrow> ca_balance s' j (cp_owner p) = as_initial_supply a)"
  using assms(2-4)
proof (induction aids arbitrary: s)
  case Nil
  then show ?case by simp
next
  case (Cons aid aids)
  let ?c = "(t, og, Approve_asset aid)"
  obtain a where a: "Assets s aid = Some a" "as_status a = 0" "as_project_id a = pid"
      "as_initial_supply a + cp_total_supply p \<le> cp_max_supply p"
    using Cons.prems(3) by (auto simp: pending_asset_of_def split: option.splits)
  define s1 where "s1 = snd (ca_dispatch env ?c s)"
  have s1: "Projects s1 = Projects s"
      "Assets s1 = (Assets s)(aid \<mapsto> a\<lparr>as_status := 1, as_total_supply := as_initial_supply a\<rparr>)"
      "ca_Balances s1 = (ca_Balances s)((aid, cp_owner p) \<mapsto> as_initial_supply a)"
    using approve_asset_succeeds [of "env\<lparr>now := t\<rparr>" og s aid a p] assms(1) a Cons.prems(1)
    by (simp_all add: s1_def)
  have "list_all (pending_asset_of pid p s1) aids"
    using Cons.prems(2,3) by (auto simp: list_all_iff pending_asset_of_def s1)
  with Cons.IH [of s1] Cons.prems(1,2) s1(1)
  have ih: "let s' = run_calls (ca_dispatch env) (map (\<lambda>aid. (t, og, Approve_asset aid)) aids) s1
    in Projects s' = Projects s1 \<and>
      (\<forall>j. Assets s' j = (if j \<in> set aids
           then map_option (\<lambda>a. a\<lparr>as_status := 1, as_total_supply := as_initial_supply a\<rparr>)
                  (Assets s1 j)
           else Assets s1 j)) \<and>
      (\<forall>j. j \<notin> set aids \<longrightarrow> (\<forall>x. ca_balance s' j x = ca_balance s1 j x)) \<and>
      (\<forall>j\<in>set aids. \<forall>a. Assets s1 j = Some a \<longrightarrow>
         ca_balance s' j (cp_owner p) = as_initial_supply a)"
    by simp
  have run: "run_calls (ca_dispatch env) (map (\<lambda>aid. (t, og, Approve_asset aid)) (aid # aids)) s =
      run_calls (ca_dispatch env) (map (\<lambda>aid. (t, og, Approve_asset aid)) aids) s1"
    by (simp add: s1_def)
  show ?case
    using ih Cons.prems(2) a(1) unfolding run Let_def
    by (auto simp: s1 ca_balance_def split: if_splits)
qed

text \<open>
  C31. Over-issuance through initial supplies: whatever the maximal supply of a project, any number
  of its pending assets, each within the maximum on its own, can all be approved one after the
  other. Each becomes an approved asset whose whole initial supply is credited to the owner, and
  the project's recorded supply does not move.
\<close>

theorem ca_initial_supplies_not_counted:
  assumes "approve_origin env og" and "Projects s pid = Some p" and "distinct aids"
    and "list_all (pending_asset_of pid p s) aids"
  shows "let s' = run_calls (ca_dispatch env) (map (\<lambda>aid. (t, og, Approve_asset aid)) aids) s
    in Projects s' pid = Some p \<and>
      (\<forall>aid\<in>set aids. \<exists>a. Assets s' aid = Some a \<and> as_status a = 1 \<and>
         as_total_supply a = as_initial_supply a \<and>
         ca_balance s' aid (cp_owner p) = as_initial_supply a)"
proof -
  have "\<exists>a. Assets s j = Some a" if "j \<in> set aids" for j
    using assms(4) that by (auto simp: list_all_iff pending_asset_of_def split: option.splits)
  with approve_assets_run [OF assms, of t] assms(2)
  show ?thesis by (fastforce simp: Let_def)
qed

definition two_assets :: "(u64 \<times> origin \<times> ca_call) list" where
  "two_assets =
     [(10, Signed 1, Submit_project [80] 100 [0]), (11, Root, Approve_project 2001),
      (12, Signed 1, Submit_asset 2001 [50] 100 [0]),
      (13, Signed 1, Submit_asset 2001 [51] 100 [0, 0])]"

theorem ca_initial_supplies_not_counted_witness:
  "let s = run_calls (ca_dispatch sample_env) two_assets ca_genesis;
       s' = run_calls (ca_dispatch sample_env)
              [(20, Root, Approve_asset 3001), (20, Root, Approve_asset 3002)] s
   in ca_balance s' 3001 1 = 100 \<and> ca_balance s' 3002 1 = 100 \<and>
      (\<exists>p. Projects s' 2001 = Some p \<and> cp_max_supply p = 100 \<and> cp_total_supply p = 0)"
proof -
  let ?s = "run_calls (ca_dispatch sample_env) two_assets ca_genesis"
  let ?p = "\<lparr>cp_symbol = [80], cp_max_supply = 100, cp_total_supply = 0, cp_status = 1,
    cp_owner = 1\<rparr>"
  have p: "Projects ?s 2001 = Some ?p" by (simp add: two_assets_def ca_eval)
  have l: "list_all (pending_asset_of 2001 ?p ?s) [3001, 3002]"
    by (simp add: two_assets_def ca_eval pending_asset_of_def)
  have i: "Assets ?s 3001 = Some \<lparr>as_project_id = 2001, as_vintage = [50], as_initial_supply = 100,
      as_total_supply = 0, as_status = 0\<rparr>"
    "Assets ?s 3002 = Some \<lparr>as_project_id = 2001, as_vintage = [51], as_initial_supply = 100,
      as_total_supply = 0, as_status = 0\<rparr>"
    by (simp_all add: two_assets_def ca_eval)
  let ?s' = "run_calls (ca_dispatch sample_env)
      [(20, Root, Approve_asset 3001), (20, Root, Approve_asset 3002)] ?s"
  have "map_option as_initial_supply (Assets ?s' 3001) = Some 100"
    "map_option as_initial_supply (Assets ?s' 3002) = Some 100"
    by (simp_all add: two_assets_def ca_eval)
  with ca_initial_supplies_not_counted [of sample_env Root, OF _ p _ l, of 20]
  show ?thesis by (auto simp: Let_def)
qed

text \<open>
  \<open>approve_burn\<close> does not check that the project's counter covers the burn: approving a burn
  of more than the counter holds (units of an initial supply are never in it) wraps the counter
  around to \<open>2 ^ 64 + counter - amount\<close>, above any amount that was issued.
\<close>

theorem ca_burn_wraps_counter:
  assumes "approve_burn env og bid s = (Ok, s')" and "Burns s bid = Some b"
    and "Assets s (bi_asset_id b) = Some a" and "cp_total_supply p < bi_amount b"
    and "Projects s (as_project_id a) = Some p"
  shows "unat (project_supply s' (as_project_id a)) =
      2 ^ 64 + unat (cp_total_supply p) - unat (bi_amount b) \<and>
    project_supply s (as_project_id a) < project_supply s' (as_project_id a)"
proof -
  have "project_supply s' (as_project_id a) = cp_total_supply p - bi_amount b"
    using assms(1) by (rule approve_burn_Ok) (use assms in \<open>simp add: project_supply_def\<close>)
  moreover have "project_supply s (as_project_id a) = cp_total_supply p"
    using assms(5) by (simp add: project_supply_def)
  moreover have lt: "unat (cp_total_supply p) < unat (bi_amount b)"
    using assms(4) by (simp add: word_less_nat_alt)
  then have "unat (cp_total_supply p - bi_amount b) =
      2 ^ 64 + unat (cp_total_supply p) - unat (bi_amount b)"
    using unat_sub_if_size [of "cp_total_supply p" "bi_amount b"]
    by (simp add: word_size not_le)
  moreover have "unat (cp_total_supply p) < 2 ^ 64 + unat (cp_total_supply p) - unat (bi_amount b)"
    using lt unat_u64_bound [of "bi_amount b"] by (simp del: unat_u64_bound)
  ultimately show ?thesis unfolding word_less_nat_alt by simp
qed

theorem ca_burn_wraps_counter_witness:
  "let s = run_calls (ca_dispatch sample_env)
         (carbon_setup @ [(16, Signed 1, Submit_burn 3001 10 [0])]) ca_genesis;
       s' = snd (approve_burn sample_env Root 5001 s)
   in unat (project_supply s' 2001) = 2 ^ 64 - 10 \<and>
      fst (submit_issue sample_env (Signed 1) 3001 5 [0] s') = Err OverIssueLimit"
proof -
  let ?s = "run_calls (ca_dispatch sample_env)
         (carbon_setup @ [(16, Signed 1, Submit_burn 3001 10 [0])]) ca_genesis"
  let ?s' = "snd (approve_burn sample_env Root 5001 ?s)"
  have ok: "approve_burn sample_env Root 5001 ?s = (Ok, ?s')"
    and b: "Burns ?s 5001 = Some \<lparr>bi_asset_id = 3001, bi_amount = 10, bi_status = 0,
        bi_additional = [0]\<rparr>"
    and a: "Assets ?s 3001 = Some \<lparr>as_project_id = 2001, as_vintage = [50],
        as_initial_supply = 40, as_total_supply = 40, as_status = 1\<rparr>"
    and p: "Projects ?s 2001 = Some \<lparr>cp_symbol = [80], cp_max_supply = 100,
        cp_total_supply = 0, cp_status = 1, cp_owner = 1\<rparr>"
    by (simp_all add: carbon_setup_def ca_eval)
  have "unat (project_supply ?s' 2001) = 2 ^ 64 - 10"
    using ca_burn_wraps_counter [OF ok b, of _ "\<lparr>cp_symbol = [80], cp_max_supply = 100,
        cp_total_supply = 0, cp_status = 1, cp_owner = 1\<rparr>"] a p by simp
  moreover have "fst (submit_issue sample_env (Signed 1) 3001 5 [0] ?s') = Err OverIssueLimit"
    by (simp add: carbon_setup_def ca_eval)
  ultimately show ?thesis by (simp add: Let_def)
qed

text \<open>
  C32. A burn can be submitted twice: \<open>submit_burn\<close> looks for its id in \<open>Projects\<close>, so resubmitting
  a pending burn is accepted. The owner's balance is debited again and the pending entry is
  overwritten, so the first amount is in no balance and no pending burn any more, while the
  recorded total supply still counts it.
\<close>

theorem ca_resubmitted_burn_loses_units:
  assumes "ca_accounted s" and "submit_burn env (Signed a) aid amount additional s = (Ok, s')"
    and "Burns s (hash_of env (Pre_burn a aid amount additional)) = Some b"
    and "bi_asset_id b = aid" and "bi_status b = 0"
  shows "units (ca_Balances s') aid + neutralized s' aid + pending_burns s' aid + bi_amount b
      = recorded_supply s' aid \<and>
    ca_balance s' aid a = ca_balance s aid a - amount"
  using assms(2)
proof (rule submit_burn_Ok)
  fix sender asset project bid
  assume og: "Signed a = Signed sender"
    and bid: "bid = hash_of env (Pre_burn sender aid amount additional)"
    and s': "s' = s\<lparr>Burns := (Burns s)(bid \<mapsto> \<lparr>bi_asset_id = aid, bi_amount = amount,
              bi_status = 0, bi_additional = additional\<rparr>),
            ca_Balances := vmutate (ca_Balances s) (aid, sender) (\<lambda>balance. balance - amount),
            ca_events := ca_events s @ [BurnSubmited bid aid sender amount (now env)]\<rparr>"
  have "Burns s bid = Some b" using assms(3) og bid by simp
  then have "pending_burns s' aid = pending_burns s aid - bi_amount b + amount"
    using assms(4,5) by (simp add: s' pending_burns_def map_sum_replace pending_amount_def)
  moreover have "units (ca_Balances s) aid + neutralized s aid + pending_burns s aid
      = recorded_supply s aid"
    using assms(1) by (simp add: ca_accounted_def)
  moreover have "units (ca_Balances s') aid = units (ca_Balances s) aid - amount"
    "neutralized s' aid = neutralized s aid" "recorded_supply s' aid = recorded_supply s aid"
    "ca_balance s' aid a = ca_balance s aid a - amount"
    using og by (simp_all add: s' neutralized_def neutralized_by_def recorded_supply_def
        ca_balance_def)
  ultimately show ?thesis by (simp add: add.assoc)
qed

theorem ca_resubmitted_burn_loses_units_witness:
  "let s = run_calls (ca_dispatch sample_env)
         (carbon_setup @ [(16, Signed 1, Submit_burn 3001 10 [0])]) ca_genesis;
       s' = snd (submit_burn sample_env (Signed 1) 3001 10 [0] s)
   in units (ca_Balances s') 3001 + neutralized s' 3001 + pending_burns s' 3001 = 30 \<and>
      recorded_supply s' 3001 = 40"
proof -
  let ?cs = "carbon_setup @ [(16, Signed 1, Submit_burn 3001 10 [0])]"
  let ?s = "run_calls (ca_dispatch sample_env) ?cs ca_genesis"
  let ?s' = "snd (submit_burn sample_env (Signed 1) 3001 10 [0] ?s)"
  have "ok_run (burn_id_free sample_env) (ca_dispatch sample_env) ?cs ca_genesis"
    by (simp add: carbon_setup_def ca_eval)
  from ca_accounting.run_inv [OF _ this] have acc: "ca_accounted ?s"
    by (simp add: ca_wf_genesis ca_accounted_genesis)
  have ok: "submit_burn sample_env (Signed 1) 3001 10 [0] ?s = (Ok, ?s')"
    and b: "Burns ?s (hash_of sample_env (Pre_burn 1 3001 10 [0])) =
        Some \<lparr>bi_asset_id = 3001, bi_amount = 10, bi_status = 0, bi_additional = [0]\<rparr>"
    and r: "recorded_supply ?s' 3001 = 40"
    by (simp_all add: carbon_setup_def ca_eval recorded_supply_def)
  have "units (ca_Balances ?s') 3001 + neutralized ?s' 3001 + pending_burns ?s' 3001 + 10 = 40"
    using ca_resubmitted_burn_loses_units [OF acc ok b] r by simp
  then have "units (ca_Balances ?s') 3001 + neutralized ?s' 3001 + pending_burns ?s' 3001 = 40 - 10"
    by (metis add_diff_cancel_right')
  with r show ?thesis by (simp add: Let_def)
qed

text \<open>
  The limit check of \<open>approve_issue\<close> adds in 64 bits: an issue whose amount and the counter
  add up to \<open>2 ^ 64 + w\<close> passes whenever \<open>w\<close> is within the maximum, records the whole amount in
  the asset's supply and sets the project's counter to \<open>w\<close>.
\<close>

theorem ca_issue_limit_wraps:
  assumes "approve_origin env og" and "Issues s iid = Some i" and "is_status i = 0"
    and "Assets s (is_asset_id i) = Some a" and "Projects s (as_project_id a) = Some p"
    and "unat (is_amount i) + unat (cp_total_supply p) = 2 ^ 64 + w"
    and "w \<le> unat (cp_max_supply p)"
  shows "\<exists>s'. approve_issue env og iid s = (Ok, s') \<and>
    unat (project_supply s' (as_project_id a)) = w \<and>
    recorded_supply s' (is_asset_id i) = as_total_supply a + is_amount i \<and>
    ca_balance s' (is_asset_id i) (cp_owner p) =
      ca_balance s (is_asset_id i) (cp_owner p) + is_amount i"
proof -
  have "w < 2 ^ 64" using assms(6) unat_u64_bound [of "is_amount i"]
      unat_u64_bound [of "cp_total_supply p"] by (simp del: unat_u64_bound)
  then have w: "unat (is_amount i + cp_total_supply p) = w"
    using assms(6) by (simp add: unat_word_ariths)
  then have le: "is_amount i + cp_total_supply p \<le> cp_max_supply p"
    using assms(7) by (simp add: word_le_nat_alt)
  show ?thesis
    using assms(1-5) le w
    by (simp add: approve_issue_def ca_deposit_event_def Let_def project_supply_def
        recorded_supply_def ca_balance_def add.commute)
qed

theorem ca_issue_limit_wraps_witness:
  "let s = run_calls (ca_dispatch sample_env) (carbon_setup @
         [(14, Signed 1, Submit_issue 3001 30 [0]), (15, Root, Approve_issue 4001),
          (16, Signed 1, Submit_issue 3001 (- 30) [0, 0])]) ca_genesis
   in \<exists>s'. approve_issue sample_env Root 4002 s = (Ok, s') \<and>
        project_supply s' 2001 = 0 \<and> recorded_supply s' 3001 = 40"
proof -
  let ?s = "run_calls (ca_dispatch sample_env) (carbon_setup @
         [(14, Signed 1, Submit_issue 3001 30 [0]), (15, Root, Approve_issue 4001),
          (16, Signed 1, Submit_issue 3001 (- 30) [0, 0])]) ca_genesis"
  have i: "Issues ?s 4002 = Some \<lparr>is_asset_id = 3001, is_amount = - 30, is_status = 0,
        is_additional = [0, 0]\<rparr>"
    and a: "Assets ?s 3001 = Some \<lparr>as_project_id = 2001, as_vintage = [50],
        as_initial_supply = 40, as_total_supply = 70, as_status = 1\<rparr>"
    and p: "Projects ?s 2001 = Some \<lparr>cp_symbol = [80], cp_max_supply = 100,
        cp_total_supply = 30, cp_status = 1, cp_owner = 1\<rparr>"
    by (simp_all add: carbon_setup_def ca_eval)
  show ?thesis
    using ca_issue_limit_wraps [of sample_env Root, OF _ i, of _ _ 0, simplified, OF a, simplified,
        OF p] a p
    by (auto simp: Let_def unat_eq_0 word_size)
qed

end
