(* ===== verification/Carbon_Exchange.thy ===== *)
theory Carbon_Exchange
  imports Carbon_Properties
begin

text \<open>
  The pallet \<open>pallets/carbon-exchange\<close>: an order book on top of \<open>carbon-assets\<close> and the native
  currency. An ASK order escrows units of a carbon asset in the pot account, a BID order escrows
  currency; takers deal with an order in parts, makers cancel. The currency is the parameter
  \<open>transfer\<close> over a state \<open>'c\<close>. The framework does not roll a failing call back, so the state a
  failing call leaves behind is part of its result.
\<close>

section \<open>Storage, events, errors\<close>

record Order =
  or_asset_id :: hash
  or_money_id :: hash
  or_maker :: account
  or_amount :: u64
  or_price :: u64
  or_left_amount :: u64
  or_direction :: u8
  or_locked_balance :: u64
  or_salt :: u64

datatype Direction = ASK | BID

fun direction_u8 :: "Direction \<Rightarrow> u8" where
  "direction_u8 ASK = 0"
| "direction_u8 BID = 1"

datatype cx_event =
    NewOrder hash account hash hash u8 u64
  | NewDeal hash hash hash account account u64 u64 u8 u64
  | OrderFinished hash
  | OrderCanceled hash

datatype cx_error =
    InvalidIndex | AssetNotExist | InvalidMoneyID | InvalidDirection | DuplicatedKey
  | StorageOverflow | InsuffientMoney | InsuffientAsset | InsuffientPotAsset | PriceZero
  | InvalidAmount | AmountZero | AmountHigh | PermissionDenied

text \<open>
  A call of the exchange fails with an error of its own, or passes on one of the carbon pallet or
  of the currency. Its state is the exchange's storage together with what it calls.
\<close>

datatype 'x cx_failure =
    Exchange_error cx_error
  | Carbon_error "ca_error dispatch_error"
  | Currency_error 'x

abbreviation cx_err :: "cx_error \<Rightarrow> 'x cx_failure dispatch_error + 'b" where
  "cx_err e \<equiv> Err (Exchange_error e)"

record 'c cx_state =
  carbon :: ca_state
  currency :: 'c
  Orders :: "hash \<rightharpoonup> Order"
  cx_events :: "cx_event list"

definition cx_deposit_event :: "cx_event \<Rightarrow> 'c cx_state \<Rightarrow> 'c cx_state" where
  "cx_deposit_event e w = w\<lparr>cx_events := cx_events w @ [e]\<rparr>"

section \<open>Calls into the other pallets\<close>

text \<open>
  A call of \<open>make_transfer\<close> and of the currency's \<open>transfer\<close> followed by \<open>?\<close>: the error is passed
  on with the state the callee left, which \<open>saturated_into\<close> widens the 64-bit value for.
\<close>

definition carbon_make_transfer ::
    "hash \<Rightarrow> account \<Rightarrow> account \<Rightarrow> u64 \<Rightarrow> 'c cx_state
     \<Rightarrow> 'x cx_failure dispatch_result \<times> 'c cx_state" where
  "carbon_make_transfer asset_id a b amount w =
     (case ca_make_transfer asset_id a b amount (carbon w) of
        (Inl e, s) \<Rightarrow> (Err (Carbon_error e), w\<lparr>carbon := s\<rparr>)
      | (Inr _, s) \<Rightarrow> (Ok, w\<lparr>carbon := s\<rparr>))"

definition currency_pay ::
    "('c, 'x) currency_transfer \<Rightarrow> origin \<Rightarrow> account \<Rightarrow> u64 \<Rightarrow> 'c cx_state
     \<Rightarrow> 'x cx_failure dispatch_result \<times> 'c cx_state" where
  "currency_pay transfer og dest amount w =
     (case transfer og dest (ucast amount) (currency w) of
        (Inl e, c) \<Rightarrow> (Err (Currency_error e), w\<lparr>currency := c\<rparr>)
      | (Inr _, c) \<Rightarrow> (Ok, w\<lparr>currency := c\<rparr>))"

section \<open>Making an order\<close>

text \<open>The branch of \<open>make_order\<close> on the direction: escrow, and the balance locked.\<close>

definition make_order_lock ::
    "env \<Rightarrow> ('c, 'x) currency_transfer \<Rightarrow> origin \<Rightarrow> account \<Rightarrow> hash \<Rightarrow> u64 \<Rightarrow> u64 \<Rightarrow> u8
     \<Rightarrow> 'c cx_state \<Rightarrow> ('x cx_failure dispatch_error + u64) \<times> 'c cx_state" where
  "make_order_lock env transfer og maker asset_id price amount direction w =
     (let pot_account = pot_account_id env
      in if direction = direction_u8 ASK then
           let asset_balance = ca_balance (carbon w) asset_id maker
           in if \<not> amount \<le> asset_balance then (cx_err InsuffientAsset, w)
              else (case carbon_make_transfer asset_id maker pot_account amount w of
                  (Inl e, w1) \<Rightarrow> (Inl e, w1)
                | (Inr _, w1) \<Rightarrow> (Inr 0, w1))
         else if direction = direction_u8 BID then
           let locked_balance = saturating_mul amount price
           in (case currency_pay transfer og pot_account locked_balance w of
                 (Inl e, w1) \<Rightarrow> (Inl e, w1)
               | (Inr _, w1) \<Rightarrow> (Inr locked_balance, w1))
         else (cx_err InvalidDirection, w))"

definition make_order ::
    "env \<Rightarrow> ('c, 'x) currency_transfer \<Rightarrow> origin \<Rightarrow> hash \<Rightarrow> hash \<Rightarrow> u64 \<Rightarrow> u64 \<Rightarrow> u8 \<Rightarrow> u64
     \<Rightarrow> 'c cx_state \<Rightarrow> 'x cx_failure dispatch_result \<times> 'c cx_state" where
  "make_order env transfer og asset_id money_id price amount direction salt w =
     (case ensure_signed og of
        None \<Rightarrow> (Inl BadOrigin, w)
      | Some maker \<Rightarrow>
          if money_id \<noteq> 0 then (cx_err InvalidMoneyID, w)
          else if \<not> 0 < price then (cx_err PriceZero, w)
          else if \<not> 0 < amount then (cx_err AmountZero, w)
          else if \<not> has_asset (carbon w) asset_id then (cx_err AssetNotExist, w)
          else
            let order_id =
                  hash_of env (Pre_order maker asset_id money_id price amount direction salt)
            in if Orders w order_id \<noteq> None then (cx_err DuplicatedKey, w)
               else (case make_order_lock env transfer og maker asset_id price amount direction w of
                   (Inl e, w1) \<Rightarrow> (Inl e, w1)
                 | (Inr locked_balance, w1) \<Rightarrow>
                     let order = \<lparr>or_asset_id = asset_id, or_money_id = money_id,
                           or_maker = maker, or_amount = amount, or_price = price,
                           or_left_amount = amount, or_direction = direction,
                           or_locked_balance = locked_balance, or_salt = salt\<rparr>;
                         w2 = w1\<lparr>Orders := (Orders w1)(order_id \<mapsto> order)\<rparr>
                     in (Ok, cx_deposit_event
                               (NewOrder order_id maker asset_id money_id direction (now env)) w2)))"

section \<open>Taking an order\<close>

text \<open>
  The branch of \<open>take_order\<close> on the direction: payment and delivery, in the order of the code, and
  the order with its locked balance reduced (\<open>-=\<close> wraps).
\<close>

definition take_order_settle ::
    "env \<Rightarrow> ('c, 'x) currency_transfer \<Rightarrow> origin \<Rightarrow> account \<Rightarrow> Order \<Rightarrow> u64
     \<Rightarrow> 'c cx_state \<Rightarrow> ('x cx_failure dispatch_error + Order) \<times> 'c cx_state" where
  "take_order_settle env transfer og taker order amount w =
     (let asset_id = or_asset_id order;
          maker = or_maker order;
          money_amount = saturating_mul amount (or_price order);
          pot_account = pot_account_id env
      in if or_direction order = direction_u8 ASK then
           let pot_asset_balance = ca_balance (carbon w) asset_id pot_account
           in if \<not> amount \<le> pot_asset_balance then (cx_err InsuffientPotAsset, w)
              else (case currency_pay transfer og maker money_amount w of
                  (Inl e, w1) \<Rightarrow> (Inl e, w1)
                | (Inr _, w1) \<Rightarrow>
                    (case carbon_make_transfer asset_id pot_account taker amount w1 of
                       (Inl e, w2) \<Rightarrow> (Inl e, w2)
                     | (Inr _, w2) \<Rightarrow> (Inr order, w2)))
         else
           let asset_balance = ca_balance (carbon w) asset_id taker
           in if \<not> amount \<le> asset_balance then (cx_err InsuffientAsset, w)
              else (case carbon_make_transfer asset_id taker maker amount w of
                  (Inl e, w1) \<Rightarrow> (Inl e, w1)
                | (Inr _, w1) \<Rightarrow>
                    (case currency_pay transfer (Signed pot_account) taker money_amount w1 of
                       (Inl e, w2) \<Rightarrow> (Inl e, w2)
                     | (Inr _, w2) \<Rightarrow>
                         (Inr (order\<lparr>or_locked_balance := or_locked_balance order - money_amount\<rparr>),
                          w2))))"

definition take_order ::
    "env \<Rightarrow> ('c, 'x) currency_transfer \<Rightarrow> origin \<Rightarrow> hash \<Rightarrow> u64
     \<Rightarrow> 'c cx_state \<Rightarrow> 'x cx_failure dispatch_result \<times> 'c cx_state" where
  "take_order env transfer og order_id amount w =
     (case ensure_signed og of
        None \<Rightarrow> (Inl BadOrigin, w)
      | Some taker \<Rightarrow>
        (case Orders w order_id of
           None \<Rightarrow> (cx_err InvalidIndex, w)
         | Some order \<Rightarrow>
             if \<not> amount \<le> or_left_amount order then (cx_err AmountHigh, w)
             else (case take_order_settle env transfer og taker order amount w of
                 (Inl e, w1) \<Rightarrow> (Inl e, w1)
               | (Inr order1, w1) \<Rightarrow>
                   let order2 = order1\<lparr>or_left_amount := or_left_amount order1 - amount\<rparr>;
                       w2 = (if 0 < or_left_amount order2
                             then w1\<lparr>Orders := (Orders w1)(order_id \<mapsto> order2)\<rparr>
                             else cx_deposit_event (OrderFinished order_id)
                                    (w1\<lparr>Orders := (Orders w1)(order_id := None)\<rparr>))
                   in (Ok, cx_deposit_event
                             (NewDeal order_id (or_asset_id order) (or_money_id order)
                                (or_maker order) taker (or_price order) amount
                                (or_direction order) (now env)) w2))))"

section \<open>Cancelling an order\<close>

definition cancel_order_refund ::
    "env \<Rightarrow> ('c, 'x) currency_transfer \<Rightarrow> account \<Rightarrow> Order \<Rightarrow> 'c cx_state
     \<Rightarrow> 'x cx_failure dispatch_result \<times> 'c cx_state" where
  "cancel_order_refund env transfer sender order w =
     (let pot_account = pot_account_id env
      in if or_direction order = direction_u8 ASK
         then carbon_make_transfer (or_asset_id order) pot_account sender (or_left_amount order) w
         else currency_pay transfer (Signed pot_account) sender (or_locked_balance order) w)"

definition cancel_order ::
    "env \<Rightarrow> ('c, 'x) currency_transfer \<Rightarrow> origin \<Rightarrow> hash
     \<Rightarrow> 'c cx_state \<Rightarrow> 'x cx_failure dispatch_result \<times> 'c cx_state" where
  "cancel_order env transfer og order_id w =
     (case ensure_signed og of
        None \<Rightarrow> (Inl BadOrigin, w)
      | Some sender \<Rightarrow>
        (case Orders w order_id of
           None \<Rightarrow> (cx_err InvalidIndex, w)
         | Some order \<Rightarrow>
             if or_maker order \<noteq> sender then (cx_err PermissionDenied, w)
             else (case cancel_order_refund env transfer sender order w of
                 (Inl e, w1) \<Rightarrow> (Inl e, w1)
               | (Inr _, w1) \<Rightarrow>
                   let w2 = w1\<lparr>Orders := (Orders w1)(order_id := None)\<rparr>
                   in (Ok, cx_deposit_event (OrderCanceled order_id) w2))))"

section \<open>The dispatch table\<close>

datatype cx_call =
    Make_order hash hash u64 u64 u8 u64
  | Take_order hash u64
  | Cancel_order hash

fun cx_dispatch ::
    "env \<Rightarrow> ('c, 'x) currency_transfer \<Rightarrow> u64 \<times> origin \<times> cx_call \<Rightarrow> 'c cx_state
     \<Rightarrow> 'x cx_failure dispatch_result \<times> 'c cx_state" where
  "cx_dispatch env transfer (t, og, Make_order asset_id money_id price amount direction salt) w =
     make_order (env\<lparr>now := t\<rparr>) transfer og asset_id money_id price amount direction salt w"
| "cx_dispatch env transfer (t, og, Take_order order_id amount) w =
     take_order (env\<lparr>now := t\<rparr>) transfer og order_id amount w"
| "cx_dispatch env transfer (t, og, Cancel_order order_id) w =
     cancel_order (env\<lparr>now := t\<rparr>) transfer og order_id w"

lemmas cx_op_defs =
  make_order_def make_order_lock_def take_order_def take_order_settle_def cancel_order_def
  cancel_order_refund_def carbon_make_transfer_def currency_pay_def cx_deposit_event_def

end
