(* ===== verification/Exchange_Escrow.thy ===== *)
theory Exchange_Escrow
  imports Carbon_Exchange
begin

text \<open>
  The exchange's escrow. \<open>cx_step\<close> lists the seven ways a call can change the state when the
  currency behaves as documented (one of them a failing call); over it, the escrow invariants:
  every order is well-formed, the pot holds the units of all ASK orders, and it holds the locked
  balances of all BID orders above the existential deposit.
\<close>

section \<open>The steps of the exchange\<close>

definition remaining_orders :: "hash \<Rightarrow> Order \<Rightarrow> u64 \<Rightarrow> (hash \<rightharpoonup> Order) \<Rightarrow> hash \<rightharpoonup> Order" where
  "remaining_orders oid order amount m =
     (if 0 < or_left_amount order - amount
      then m(oid \<mapsto> order\<lparr>or_left_amount := or_left_amount order - amount\<rparr>)
      else m(oid := None))"

definition new_order :: "hash \<Rightarrow> account \<Rightarrow> u64 \<Rightarrow> u64 \<Rightarrow> u8 \<Rightarrow> u64 \<Rightarrow> u64 \<Rightarrow> Order" where
  "new_order asset_id maker price amount direction locked salt =
     \<lparr>or_asset_id = asset_id, or_money_id = 0, or_maker = maker, or_amount = amount,
      or_price = price, or_left_amount = amount, or_direction = direction,
      or_locked_balance = locked, or_salt = salt\<rparr>"

abbreviation moved :: "hash \<Rightarrow> account \<Rightarrow> account \<Rightarrow> u64 \<Rightarrow> 'c cx_state \<Rightarrow> ca_state" where
  "moved aid a b v w \<equiv> snd (ca_make_transfer aid a b v (carbon w))"

inductive cx_step ::
    "env \<Rightarrow> ('c, 'x) currency_transfer \<Rightarrow> origin \<Rightarrow> cx_call \<Rightarrow> 'c cx_state \<Rightarrow> 'c cx_state \<Rightarrow> bool"
  for env transfer og k w where
  step_none: "cx_step env transfer og k w w"
| step_make_ask:
    "og = Signed a \<Longrightarrow> k = Make_order aid 0 price amount 0 salt \<Longrightarrow> 0 < price \<Longrightarrow> 0 < amount \<Longrightarrow>
     has_asset (carbon w) aid \<Longrightarrow> Orders w oid = None \<Longrightarrow>
     oid = hash_of env (Pre_order a aid 0 price amount 0 salt) \<Longrightarrow>
     amount \<le> ca_balance (carbon w) aid a \<Longrightarrow>
     cx_step env transfer og k w (w\<lparr>carbon := moved aid a (pot_account_id env) amount w,
       Orders := (Orders w)(oid \<mapsto> new_order aid a price amount 0 0 salt), cx_events := es\<rparr>)"
| step_make_bid:
    "og = Signed a \<Longrightarrow> k = Make_order aid 0 price amount 1 salt \<Longrightarrow> 0 < price \<Longrightarrow> 0 < amount \<Longrightarrow>
     has_asset (carbon w) aid \<Longrightarrow> Orders w oid = None \<Longrightarrow>
     oid = hash_of env (Pre_order a aid 0 price amount 1 salt) \<Longrightarrow>
     locked = saturating_mul amount price \<Longrightarrow>
     transfer (Signed a) (pot_account_id env) (ucast locked) (currency w) = (Ok, c') \<Longrightarrow>
     cx_step env transfer og k w (w\<lparr>currency := c',
       Orders := (Orders w)(oid \<mapsto> new_order aid a price amount 1 locked salt), cx_events := es\<rparr>)"
| step_take_ask:
    "og = Signed a \<Longrightarrow> k = Take_order oid amount \<Longrightarrow> Orders w oid = Some order \<Longrightarrow>
     amount \<le> or_left_amount order \<Longrightarrow> or_direction order = 0 \<Longrightarrow>
     amount \<le> ca_balance (carbon w) (or_asset_id order) (pot_account_id env) \<Longrightarrow>
     transfer (Signed a) (or_maker order) (ucast (saturating_mul amount (or_price order)))
       (currency w) = (Ok, c') \<Longrightarrow>
     cx_step env transfer og k w (w\<lparr>
       carbon := moved (or_asset_id order) (pot_account_id env) a amount w, currency := c',
       Orders := remaining_orders oid order amount (Orders w), cx_events := es\<rparr>)"
| step_take_bid:
    "og = Signed a \<Longrightarrow> k = Take_order oid amount \<Longrightarrow> Orders w oid = Some order \<Longrightarrow>
     amount \<le> or_left_amount order \<Longrightarrow> or_direction order \<noteq> 0 \<Longrightarrow>
     amount \<le> ca_balance (carbon w) (or_asset_id order) a \<Longrightarrow>
     money = saturating_mul amount (or_price order) \<Longrightarrow>
     transfer (Signed (pot_account_id env)) a (ucast money) (currency w) = (Ok, c') \<Longrightarrow>
     cx_step env transfer og k w (w\<lparr>
       carbon := moved (or_asset_id order) a (or_maker order) amount w, currency := c',
       Orders := remaining_orders oid
         (order\<lparr>or_locked_balance := or_locked_balance order - money\<rparr>) amount (Orders w),
       cx_events := es\<rparr>)"
| step_take_bid_unpaid:
    "og = Signed a \<Longrightarrow> k = Take_order oid amount \<Longrightarrow> Orders w oid = Some order \<Longrightarrow>
     amount \<le> or_left_amount order \<Longrightarrow> or_direction order \<noteq> 0 \<Longrightarrow>
     amount \<le> ca_balance (carbon w) (or_asset_id order) a \<Longrightarrow>
     transfer (Signed (pot_account_id env)) a
       (ucast (saturating_mul amount (or_price order))) (currency w) = (Inl x, currency w) \<Longrightarrow>
     cx_step env transfer og k w
       (w\<lparr>carbon := moved (or_asset_id order) a (or_maker order) amount w\<rparr>)"
| step_cancel_ask:
    "og = Signed a \<Longrightarrow> k = Cancel_order oid \<Longrightarrow> Orders w oid = Some order \<Longrightarrow>
     or_maker order = a \<Longrightarrow> or_direction order = 0 \<Longrightarrow>
     cx_step env transfer og k w (w\<lparr>
       carbon := moved (or_asset_id order) (pot_account_id env) a (or_left_amount order) w,
       Orders := (Orders w)(oid := None), cx_events := es\<rparr>)"
| step_cancel_bid:
    "og = Signed a \<Longrightarrow> k = Cancel_order oid \<Longrightarrow> Orders w oid = Some order \<Longrightarrow>
     or_maker order = a \<Longrightarrow> or_direction order \<noteq> 0 \<Longrightarrow>
     transfer (Signed (pot_account_id env)) a (ucast (or_locked_balance order)) (currency w)
       = (Ok, c') \<Longrightarrow>
     cx_step env transfer og k w (w\<lparr>currency := c',
       Orders := (Orders w)(oid := None), cx_events := es\<rparr>)"

lemma pair_make_transfer:
  "ca_make_transfer aid a b v s = (r, s') \<longleftrightarrow> r = Ok \<and> s' = snd (ca_make_transfer aid a b v s)"
  by (metis ca_make_transfer_Ok fst_conv prod.collapse snd_conv)

lemma carbon_make_transfer_eq [simp]:
  "carbon_make_transfer aid a b v w = (Ok, w\<lparr>carbon := moved aid a b v w\<rparr>)"
  by (simp add: carbon_make_transfer_def split: prod.split sum.split)
    (auto simp: pair_make_transfer)

text \<open>The result of a call, by cases.\<close>

lemma currency_pay_cases [consumes 1, case_names paid failed]:
  assumes "currency_laws ed free transfer"
  obtains (paid) c' where "currency_pay transfer og b v w = (Ok, w\<lparr>currency := c'\<rparr>)"
      "transfer og b (ucast v) (currency w) = (Ok, c')"
  | (failed) e where "currency_pay transfer og b v w = (Err (Currency_error e), w)"
      "transfer og b (ucast v) (currency w) = (Inl e, currency w)"
proof (cases "transfer og b (ucast v) (currency w)")
  case (Pair r c')
  show thesis
  proof (cases r)
    case (Inl e)
    with Pair have "c' = currency w" using currency_fail [OF assms] by blast
    with Pair Inl show thesis by (intro failed) (simp_all add: currency_pay_def)
  next
    case (Inr u)
    with Pair show thesis by (intro paid) (simp_all add: currency_pay_def)
  qed
qed

lemma make_order_step:
  assumes "currency_laws ed free transfer"
  shows "cx_step env transfer og (Make_order aid mid price amount d salt) w
    (snd (make_order env transfer og aid mid price amount d salt w))"
proof -
  consider "snd (make_order env transfer og aid mid price amount d salt w) = w"
    | a where "og = Signed a" "mid = 0" "0 < price" "0 < amount" "has_asset (carbon w) aid"
      "Orders w (hash_of env (Pre_order a aid 0 price amount d salt)) = None" "d = 0"
      "amount \<le> ca_balance (carbon w) aid a"
    | a where "og = Signed a" "mid = 0" "0 < price" "0 < amount" "has_asset (carbon w) aid"
      "Orders w (hash_of env (Pre_order a aid 0 price amount d salt)) = None" "d = 1"
    by (cases og) (fastforce simp: make_order_def make_order_lock_def Let_def)+
  then show ?thesis
  proof cases
    case 1
    then show ?thesis by (simp add: step_none)
  next
    case (2 a)
    then have "snd (make_order env transfer og aid mid price amount d salt w) =
      w\<lparr>carbon := moved aid a (pot_account_id env) amount w,
        Orders := (Orders w)(hash_of env (Pre_order a aid 0 price amount 0 salt) \<mapsto>
          new_order aid a price amount 0 0 salt),
        cx_events := cx_events w @ [NewOrder (hash_of env (Pre_order a aid 0 price amount 0 salt))
          a aid 0 0 (now env)]\<rparr>"
      by (simp add: make_order_def make_order_lock_def cx_deposit_event_def new_order_def Let_def)
    with 2 show ?thesis by (auto intro: step_make_ask)
  next
    case (3 a)
    from assms show ?thesis
    proof (cases rule: currency_pay_cases [where og = og and b = "pot_account_id env"
          and v = "saturating_mul amount price" and w = w])
      case (paid c')
      with 3 have "snd (make_order env transfer og aid mid price amount d salt w) =
        w\<lparr>currency := c',
          Orders := (Orders w)(hash_of env (Pre_order a aid 0 price amount 1 salt) \<mapsto>
            new_order aid a price amount 1 (saturating_mul amount price) salt),
          cx_events := cx_events w @ [NewOrder (hash_of env (Pre_order a aid 0 price amount 1 salt))
            a aid 0 1 (now env)]\<rparr>"
        by (simp add: make_order_def make_order_lock_def cx_deposit_event_def new_order_def Let_def)
      with 3 paid show ?thesis by (auto intro: step_make_bid)
    next
      case (failed e)
      with 3 have "snd (make_order env transfer og aid mid price amount d salt w) = w"
        by (simp add: make_order_def make_order_lock_def Let_def)
      then show ?thesis by (simp add: step_none)
    qed
  qed
qed

lemma take_order_step:
  assumes laws: "currency_laws ed free transfer"
  shows "cx_step env transfer og (Take_order oid amount) w
    (snd (take_order env transfer og oid amount w))"
proof -
  consider "snd (take_order env transfer og oid amount w) = w"
    | a order where "og = Signed a" "Orders w oid = Some order" "amount \<le> or_left_amount order"
      "or_direction order = 0"
      "amount \<le> ca_balance (carbon w) (or_asset_id order) (pot_account_id env)"
    | a order where "og = Signed a" "Orders w oid = Some order" "amount \<le> or_left_amount order"
      "or_direction order \<noteq> 0" "amount \<le> ca_balance (carbon w) (or_asset_id order) a"
    by (cases og; cases "Orders w oid")
      (fastforce simp: take_order_def take_order_settle_def Let_def)+
  then show ?thesis
  proof cases
    case 1
    then show ?thesis by (simp add: step_none)
  next
    case (2 a order)
    from laws show ?thesis
    proof (cases rule: currency_pay_cases [where og = og and b = "or_maker order"
          and v = "saturating_mul amount (or_price order)" and w = w])
      case (paid c')
      with 2 obtain es where "snd (take_order env transfer og oid amount w) =
        w\<lparr>carbon := moved (or_asset_id order) (pot_account_id env) a amount w, currency := c',
          Orders := remaining_orders oid order amount (Orders w), cx_events := es\<rparr>"
        by (cases w; cases "0 < or_left_amount order - amount")
          (auto simp: take_order_def take_order_settle_def cx_deposit_event_def
            remaining_orders_def Let_def intro: that)
      with 2 paid show ?thesis by (auto intro!: step_take_ask)
    next
      case (failed e)
      with 2 have "snd (take_order env transfer og oid amount w) = w"
        by (simp add: take_order_def take_order_settle_def Let_def)
      then show ?thesis by (simp add: step_none)
    qed
  next
    case (3 a order)
    let ?w1 = "w\<lparr>carbon := moved (or_asset_id order) a (or_maker order) amount w\<rparr>"
    from laws show ?thesis
    proof (cases rule: currency_pay_cases [where og = "Signed (pot_account_id env)" and b = a
          and v = "saturating_mul amount (or_price order)" and w = ?w1])
      case (paid c')
      with 3 obtain es where "snd (take_order env transfer og oid amount w) =
        w\<lparr>carbon := moved (or_asset_id order) a (or_maker order) amount w, currency := c',
          Orders := remaining_orders oid (order\<lparr>or_locked_balance := or_locked_balance order
            - saturating_mul amount (or_price order)\<rparr>) amount (Orders w), cx_events := es\<rparr>"
        by (cases w; cases "0 < or_left_amount order - amount")
          (auto simp: take_order_def take_order_settle_def cx_deposit_event_def
            remaining_orders_def Let_def intro: that)
      with 3 paid show ?thesis by (auto intro!: step_take_bid)
    next
      case (failed e)
      with 3 have "snd (take_order env transfer og oid amount w) = ?w1"
        by (simp add: take_order_def take_order_settle_def Let_def)
      with 3 failed show ?thesis by (auto intro!: step_take_bid_unpaid)
    qed
  qed
qed

lemma cancel_order_step:
  assumes laws: "currency_laws ed free transfer"
  shows "cx_step env transfer og (Cancel_order oid) w
    (snd (cancel_order env transfer og oid w))"
proof -
  consider "snd (cancel_order env transfer og oid w) = w"
    | order where "og = Signed (or_maker order)" "Orders w oid = Some order"
      "or_direction order = 0"
    | order where "og = Signed (or_maker order)" "Orders w oid = Some order"
      "or_direction order \<noteq> 0"
    by (cases og; cases "Orders w oid") (fastforce simp: cancel_order_def)+
  then show ?thesis
  proof cases
    case 1
    then show ?thesis by (simp add: step_none)
  next
    case (2 order)
    then have "snd (cancel_order env transfer og oid w) =
      w\<lparr>carbon := moved (or_asset_id order) (pot_account_id env) (or_maker order)
            (or_left_amount order) w,
        Orders := (Orders w)(oid := None), cx_events := cx_events w @ [OrderCanceled oid]\<rparr>"
      by (simp add: cancel_order_def cancel_order_refund_def cx_deposit_event_def Let_def)
    with 2 show ?thesis by (auto intro: step_cancel_ask)
  next
    case (3 order)
    from laws show ?thesis
    proof (cases rule: currency_pay_cases [where og = "Signed (pot_account_id env)"
          and b = "or_maker order" and v = "or_locked_balance order" and w = w])
      case (paid c')
      with 3 have "snd (cancel_order env transfer og oid w) =
        w\<lparr>currency := c', Orders := (Orders w)(oid := None),
          cx_events := cx_events w @ [OrderCanceled oid]\<rparr>"
        by (simp add: cancel_order_def cancel_order_refund_def cx_deposit_event_def Let_def)
      with 3 paid show ?thesis by (auto intro: step_cancel_bid)
    next
      case (failed e)
      with 3 have "snd (cancel_order env transfer og oid w) = w"
        by (simp add: cancel_order_def cancel_order_refund_def Let_def)
      then show ?thesis by (simp add: step_none)
    qed
  qed
qed

lemma cx_dispatch_step:
  assumes "currency_laws ed free transfer"
  shows "cx_step (env\<lparr>now := t\<rparr>) transfer og k w (snd (cx_dispatch env transfer (t, og, k) w))"
  using assms by (cases k) (simp_all add: make_order_step take_order_step cancel_order_step)

section \<open>What the pot owes\<close>

definition ask_left :: "hash \<Rightarrow> Order \<Rightarrow> nat" where
  "ask_left aid order =
     (if or_direction order = 0 \<and> or_asset_id order = aid then unat (or_left_amount order) else 0)"

definition asks_left :: "hash \<Rightarrow> 'c cx_state \<Rightarrow> nat" where
  "asks_left aid w = map_sum (ask_left aid) (Orders w)"

definition bid_locked :: "Order \<Rightarrow> nat" where
  "bid_locked order = unat (or_locked_balance order)"

definition bids_locked :: "'c cx_state \<Rightarrow> nat" where
  "bids_locked w = map_sum bid_locked (Orders w)"

definition order_wf :: "account \<Rightarrow> ca_state \<Rightarrow> Order \<Rightarrow> bool" where
  "order_wf pot s order \<longleftrightarrow>
     or_maker order \<noteq> pot \<and> or_money_id order = 0 \<and> 0 < or_price order \<and>
     0 < or_left_amount order \<and> or_left_amount order \<le> or_amount order \<and>
     has_asset s (or_asset_id order) \<and>
     (or_direction order = 0 \<and> or_locked_balance order = 0 \<or>
      or_direction order = 1 \<and>
        unat (or_locked_balance order) = unat (or_left_amount order) * unat (or_price order))"

definition orders_wf :: "account \<Rightarrow> 'c cx_state \<Rightarrow> bool" where
  "orders_wf pot w \<longleftrightarrow> (\<forall>oid order. Orders w oid = Some order \<longrightarrow> order_wf pot (carbon w) order)"

definition asks_backed :: "account \<Rightarrow> 'c cx_state \<Rightarrow> bool" where
  "asks_backed pot w \<longleftrightarrow>
     (\<forall>aid. asks_left aid w \<le> unat (ca_balance (carbon w) aid pot)
        \<and> holdings (ca_Balances (carbon w)) aid < 2 ^ 64)"

definition bids_backed :: "nat \<Rightarrow> ('c \<Rightarrow> account \<Rightarrow> nat) \<Rightarrow> account \<Rightarrow> 'c cx_state \<Rightarrow> bool" where
  "bids_backed ed free pot w \<longleftrightarrow> ed + bids_locked w \<le> free (currency w) pot"

definition escrowed :: "nat \<Rightarrow> ('c \<Rightarrow> account \<Rightarrow> nat) \<Rightarrow> account \<Rightarrow> 'c cx_state \<Rightarrow> bool" where
  "escrowed ed free pot w \<longleftrightarrow> orders_wf pot w \<and> asks_backed pot w \<and> bids_backed ed free pot w"

text \<open>
  The side condition of a call: the pot itself signs nothing (no key belongs to it), and the
  product of amount and price of a BID order fits in 64 bits, so the lock is not saturated.
\<close>

fun lock_exact :: "cx_call \<Rightarrow> bool" where
  "lock_exact (Make_order _ _ price amount direction _) =
     (direction = 1 \<longrightarrow> unat amount * unat price < 2 ^ 64)"
| "lock_exact _ = True"

definition cx_ok :: "env \<Rightarrow> u64 \<times> origin \<times> cx_call \<Rightarrow> 'c cx_state \<Rightarrow> bool" where
  "cx_ok env c w \<longleftrightarrow> fst (snd c) \<noteq> Signed (pot_account_id env) \<and> lock_exact (snd (snd c))"

lemma left_minus: "amount \<le> left \<Longrightarrow> \<not> 0 < left - amount \<Longrightarrow> left = (amount :: u64)"
  by (metis eq_iff_diff_eq_0 word_gt_0)

lemma asks_left_remaining:
  assumes "m oid = Some order" and "amount \<le> or_left_amount order"
    and "ask_left aid order' = ask_left aid order"
    and "or_left_amount order' = or_left_amount order"
    and "or_direction order' = or_direction order" "or_asset_id order' = or_asset_id order"
  shows "map_sum (ask_left aid) (remaining_orders oid order' amount m)
      + (if or_direction order = 0 \<and> or_asset_id order = aid then unat amount else 0)
    = map_sum (ask_left aid) m"
proof (cases "0 < or_left_amount order - amount")
  case True
  have "unat amount \<le> unat (or_left_amount order)" using assms(2) by (simp add: word_le_nat_alt)
  with True map_sum_replace_nat [of m oid order "ask_left aid"
      "order'\<lparr>or_left_amount := or_left_amount order - amount\<rparr>"] assms(1,2,4-6)
  show ?thesis by (auto simp: remaining_orders_def ask_left_def unat_sub_u64 split: if_splits)
next
  case False
  with assms(2) have "or_left_amount order = amount" by (rule left_minus)
  with False map_sum_remove_nat [of m oid order "ask_left aid"] assms(1,3,4)
  show ?thesis by (auto simp: remaining_orders_def ask_left_def split: if_splits)
qed

lemma exact_part:
  assumes "unat locked = unat left * unat price" and "amount \<le> left"
  shows "unat (saturating_mul amount price) = unat amount * unat price"
    and "saturating_mul amount price \<le> locked"
    and "unat (locked - saturating_mul amount price) = unat (left - amount) * unat price"
proof -
  have le: "unat amount * unat price \<le> unat locked"
    using assms by (simp add: word_le_nat_alt mult_le_mono1)
  also have "unat locked < 2 ^ 64" by simp
  finally show m: "unat (saturating_mul amount price) = unat amount * unat price"
    by (rule saturating_mul_exact)
  with le show l: "saturating_mul amount price \<le> locked" by (simp add: word_le_nat_alt)
  from m assms show "unat (locked - saturating_mul amount price) = unat (left - amount) * unat price"
    by (simp add: unat_sub_u64 [OF l] unat_sub_u64 [OF assms(2)] diff_mult_distrib)
qed

lemma bids_locked_remaining_ask:
  assumes "m oid = Some order" and "or_locked_balance order = 0"
  shows "map_sum bid_locked (remaining_orders oid order amount m) = map_sum bid_locked m"
  using assms map_sum_replace_nat [of m oid order bid_locked
      "order\<lparr>or_left_amount := or_left_amount order - amount\<rparr>"]
    map_sum_remove_nat [of m oid order bid_locked]
  by (simp add: remaining_orders_def bid_locked_def)

lemma bids_locked_remaining_bid:
  assumes "m oid = Some order" and "amount \<le> or_left_amount order"
    and lock: "unat (or_locked_balance order) = unat (or_left_amount order) * unat (or_price order)"
    and money: "money = saturating_mul amount (or_price order)"
  shows "map_sum bid_locked (remaining_orders oid
        (order\<lparr>or_locked_balance := or_locked_balance order - money\<rparr>) amount m) + unat money
    = map_sum bid_locked m"
proof (cases "0 < or_left_amount order - amount")
  case True
  have "unat (or_locked_balance order - money) + unat money = unat (or_locked_balance order)"
    using exact_part(2) [OF lock assms(2)] money
    by (simp add: unat_sub_u64 word_le_nat_alt)
  with True map_sum_replace_nat [of m oid order bid_locked
      "order\<lparr>or_locked_balance := or_locked_balance order - money,
        or_left_amount := or_left_amount order - amount\<rparr>"] assms(1)
  show ?thesis by (simp add: remaining_orders_def bid_locked_def)
next
  case False
  with assms(2) have "or_left_amount order = amount" by (rule left_minus)
  with lock money exact_part(1) [OF lock assms(2)]
  have "unat money = unat (or_locked_balance order)" by simp
  with False map_sum_remove_nat [of m oid order bid_locked] assms(1)
  show ?thesis by (simp add: remaining_orders_def bid_locked_def)
qed

section \<open>Every step keeps the escrow\<close>

lemma has_asset_moved [simp]: "has_asset (snd (ca_make_transfer aid a b v s)) j = has_asset s j"
  by (simp add: has_asset_def)

lemma order_wf_moved [simp]:
  "order_wf pot (snd (ca_make_transfer aid a b v s)) order = order_wf pot s order"
  by (simp add: order_wf_def)

lemma holdings_moved:
  assumes "a = b \<or> v \<le> ca_balance s aid a" and "holdings (ca_Balances s) aid < 2 ^ 64"
  shows "holdings (ca_Balances (snd (ca_make_transfer aid a b v s))) j = holdings (ca_Balances s) j"
  using assms unfolding holdings_ca_balance by (rule ca_ledger.move_holdings)

lemma orders_wfD:
  "orders_wf pot w \<Longrightarrow> Orders w oid = Some order \<Longrightarrow> order_wf pot (carbon w) order"
  by (simp add: orders_wf_def)

lemma asks_backedD:
  assumes "asks_backed pot w"
  shows "asks_left aid w \<le> unat (ca_balance (carbon w) aid pot)"
    and "holdings (ca_Balances (carbon w)) aid < 2 ^ 64"
  using assms by (simp_all add: asks_backed_def)

text \<open>Well-formedness of the orders.\<close>

lemma order_wf_remaining:
  assumes "order_wf pot s order" and "amount \<le> or_left_amount order"
    and "0 < or_left_amount order - amount"
    and "or_direction order = 0 \<and> locked = or_locked_balance order \<or>
      or_direction order \<noteq> 0 \<and>
        locked = or_locked_balance order - saturating_mul amount (or_price order)"
  shows "order_wf pot s (order\<lparr>or_locked_balance := locked,
    or_left_amount := or_left_amount order - amount\<rparr>)"
proof -
  have "or_left_amount order - amount \<le> or_left_amount order"
    using assms(2) by (simp add: word_le_nat_alt unat_sub_u64)
  also have "\<dots> \<le> or_amount order" using assms(1) by (simp add: order_wf_def)
  finally show ?thesis
    using assms exact_part(3) [OF _ assms(2)] by (auto simp: order_wf_def)
qed

lemma orders_wf_step:
  assumes "cx_step env transfer og k w w'" and "orders_wf (pot_account_id env) w"
    and "og \<noteq> Signed (pot_account_id env)" and "lock_exact k"
  shows "orders_wf (pot_account_id env) w'"
  using assms(1)
proof cases
  case step_none
  with assms(2) show ?thesis by simp
next
  case (step_make_ask a aid price amount salt oid es)
  with assms(2,3) show ?thesis
    by (auto simp: orders_wf_def order_wf_def new_order_def)
next
  case (step_make_bid a aid price amount salt oid locked c' es)
  then have "unat locked = unat amount * unat price"
    using assms(4) by (simp add: saturating_mul_exact)
  with step_make_bid assms(2,3) show ?thesis
    by (auto simp: orders_wf_def order_wf_def new_order_def)
next
  case (step_take_ask a oid amount order c' es)
  with orders_wfD [OF assms(2)] order_wf_remaining [of "pot_account_id env" "carbon w" order amount]
    assms(2)
  show ?thesis
    by (auto simp: orders_wf_def remaining_orders_def
        dest: order_wf_remaining [of _ _ _ _ "or_locked_balance order"])
next
  case (step_take_bid a oid amount order money c' es)
  with orders_wfD [OF assms(2)] order_wf_remaining [of "pot_account_id env" "carbon w" order amount]
    assms(2)
  show ?thesis by (auto simp: orders_wf_def remaining_orders_def)
next
  case step_take_bid_unpaid
  with assms(2) show ?thesis by (simp add: orders_wf_def)
next
  case step_cancel_ask
  with assms(2) show ?thesis by (auto simp: orders_wf_def split: if_splits)
next
  case step_cancel_bid
  with assms(2) show ?thesis by (auto simp: orders_wf_def split: if_splits)
qed

text \<open>The units of the ASK orders.\<close>

lemma pot_receives:
  assumes "a \<noteq> pot" and "v \<le> ca_balance s aid a" and "holdings (ca_Balances s) aid < 2 ^ 64"
  shows "unat (ca_balance (snd (ca_make_transfer aid a pot v s)) j pot) =
    unat (ca_balance s j pot) + (if j = aid then unat v else 0)"
  using ca_ledger.move_exact(2) [of v s aid a pot] assms
  by (auto simp: holdings_ca_balance ca_ledger.bal_move)

lemma pot_delivers:
  assumes "a \<noteq> pot" and "v \<le> ca_balance s aid pot"
  shows "unat (ca_balance (snd (ca_make_transfer aid pot a v s)) j pot) =
    unat (ca_balance s j pot) - (if j = aid then unat v else 0)"
  using assms by (auto simp: ca_ledger.bal_move unat_sub_u64)

lemma pot_untouched:
  "a \<noteq> pot \<Longrightarrow> b \<noteq> pot \<Longrightarrow>
     ca_balance (snd (ca_make_transfer aid a b v s)) j pot = ca_balance s j pot"
  by (auto simp: ca_ledger.bal_move)

lemma asks_left_new:
  assumes "Orders w oid = None"
  shows "map_sum (ask_left j) ((Orders w)(oid \<mapsto> order)) = asks_left j w + ask_left j order"
  unfolding asks_left_def using assms by (rule map_sum_insert_nat)

lemma asks_left_cancelled:
  assumes "Orders w oid = Some order"
  shows "map_sum (ask_left j) ((Orders w)(oid := None)) = asks_left j w - ask_left j order"
  using map_sum_remove_nat [of "Orders w" oid order "ask_left j"] assms
  by (simp add: asks_left_def)

lemma ask_left_le:
  assumes "asks_backed pot w" and "Orders w oid = Some order" and "or_direction order = 0"
  shows "or_left_amount order \<le> ca_balance (carbon w) (or_asset_id order) pot"
proof -
  have "ask_left (or_asset_id order) order \<le> asks_left (or_asset_id order) w"
    unfolding asks_left_def using assms(2) by (rule map_sum_member_nat)
  also have "\<dots> \<le> unat (ca_balance (carbon w) (or_asset_id order) pot)"
    using assms(1) by (rule asks_backedD)
  finally show ?thesis using assms(3) by (simp add: ask_left_def word_le_nat_alt)
qed

text \<open>
  A call moves as many units into the pot as it adds to the ASK orders, and out of it as it takes
  from them.
\<close>

lemma pot_units_step:
  assumes "cx_step env transfer og k w w'" and wf: "orders_wf (pot_account_id env) w"
    and b: "asks_backed (pot_account_id env) w" and og: "og \<noteq> Signed (pot_account_id env)"
  shows "unat (ca_balance (carbon w') j (pot_account_id env)) + asks_left j w =
    unat (ca_balance (carbon w) j (pot_account_id env)) + asks_left j w'"
  using assms(1)
proof cases
  case (step_make_ask a aid price amount salt oid es)
  with og have "a \<noteq> pot_account_id env" by auto
  from pot_receives [OF this step_make_ask(9) asks_backedD(2) [OF b], of j]
    asks_left_new [OF step_make_ask(7)]
  show ?thesis by (simp add: step_make_ask(1) asks_left_def ask_left_def new_order_def)
next
  case (step_make_bid a aid price amount salt oid locked c' es)
  from asks_left_new [OF step_make_bid(7)] show ?thesis
    by (simp add: step_make_bid(1) asks_left_def ask_left_def new_order_def)
next
  case (step_take_ask a oid amount order c' es)
  with og have a: "a \<noteq> pot_account_id env" by auto
  have "unat amount \<le> unat (ca_balance (carbon w) (or_asset_id order) (pot_account_id env))"
    using step_take_ask(7) by (simp add: word_le_nat_alt)
  with pot_delivers [OF a step_take_ask(7), of j] step_take_ask(6)
    asks_left_remaining [where m = "Orders w", OF step_take_ask(4,5), of j order]
  show ?thesis by (auto simp: step_take_ask(1) asks_left_def split: if_splits)
next
  case (step_take_bid a oid amount order money c' es)
  have "a \<noteq> pot_account_id env" "or_maker order \<noteq> pot_account_id env"
    using og orders_wfD [OF wf step_take_bid(4)] step_take_bid by (auto simp: order_wf_def)
  with asks_left_remaining [where m = "Orders w", OF step_take_bid(4,5), of j
      "order\<lparr>or_locked_balance := or_locked_balance order - money\<rparr>"] step_take_bid(6)
  show ?thesis by (simp add: step_take_bid(1) asks_left_def ask_left_def pot_untouched)
next
  case (step_take_bid_unpaid a oid amount order x)
  have "a \<noteq> pot_account_id env" "or_maker order \<noteq> pot_account_id env"
    using og orders_wfD [OF wf step_take_bid_unpaid(4)] step_take_bid_unpaid
    by (auto simp: order_wf_def)
  then show ?thesis by (simp add: step_take_bid_unpaid(1) asks_left_def pot_untouched)
next
  case (step_cancel_ask a oid order es)
  have a: "a \<noteq> pot_account_id env" using og step_cancel_ask by auto
  note le = ask_left_le [OF b step_cancel_ask(4,6)]
  then have "unat (or_left_amount order) \<le>
      unat (ca_balance (carbon w) (or_asset_id order) (pot_account_id env))"
    by (simp add: word_le_nat_alt)
  with pot_delivers [OF a le, of j] step_cancel_ask(6)
    map_sum_remove_nat [of "Orders w" oid order "ask_left j", OF step_cancel_ask(4)]
  show ?thesis by (auto simp: step_cancel_ask(1) asks_left_def ask_left_def split: if_splits)
next
  case (step_cancel_bid a oid order c' es)
  with asks_left_cancelled [OF step_cancel_bid(4)] show ?thesis
    by (simp add: asks_left_def ask_left_def)
qed simp

lemma holdings_step:
  assumes "cx_step env transfer og k w w'" and b: "asks_backed (pot_account_id env) w"
  shows "holdings (ca_Balances (carbon w')) j < 2 ^ 64"
  using assms(1)
proof cases
  case (step_cancel_ask a oid order es)
  with asks_backedD(2) [OF b] ask_left_le [OF b] show ?thesis by (simp add: holdings_moved)
qed (use asks_backedD(2) [OF b] in \<open>simp_all add: holdings_moved\<close>)

lemma asks_backed_step:
  assumes "cx_step env transfer og k w w'" and "orders_wf (pot_account_id env) w"
    and "asks_backed (pot_account_id env) w" and "og \<noteq> Signed (pot_account_id env)"
  shows "asks_backed (pot_account_id env) w'"
  unfolding asks_backed_def
proof (intro allI conjI)
  fix j
  from pot_units_step [OF assms, of j] asks_backedD(1) [OF assms(3), of j]
  show "asks_left j w' \<le> unat (ca_balance (carbon w') j (pot_account_id env))" by simp
  from assms(1,3) show "holdings (ca_Balances (carbon w')) j < 2 ^ 64" by (rule holdings_step)
qed

text \<open>The balances locked for the BID orders.\<close>

lemma bids_locked_new:
  assumes "Orders w oid = None"
  shows "map_sum bid_locked ((Orders w)(oid \<mapsto> order)) = bids_locked w + bid_locked order"
  unfolding bids_locked_def using assms by (rule map_sum_insert_nat)

lemma bids_locked_cancelled:
  assumes "Orders w oid = Some order"
  shows "map_sum bid_locked ((Orders w)(oid := None)) + bid_locked order = bids_locked w"
  unfolding bids_locked_def using assms by (rule map_sum_remove_nat)

lemma unat_ucast_u128 [simp]: "unat (ucast (v :: u64) :: u128) = unat v"
  by (simp add: unsigned_ucast_eq take_bit_nat_eq_self unat_u64_bound [THEN order_less_trans])

text \<open>A call moves as much money into the pot as it locks, and out of it as it unlocks.\<close>

lemma pot_money_step:
  assumes "cx_step env transfer og k w w'" and laws: "currency_laws ed free transfer"
    and wf: "orders_wf (pot_account_id env) w" and b: "bids_backed ed free (pot_account_id env) w"
    and og: "og \<noteq> Signed (pot_account_id env)"
  shows "free (currency w') (pot_account_id env) + bids_locked w =
    free (currency w) (pot_account_id env) + bids_locked w'"
  using assms(1)
proof cases
  case (step_make_ask a aid price amount salt oid es)
  with bids_locked_new [OF step_make_ask(7)] show ?thesis
    by (simp add: bids_locked_def bid_locked_def new_order_def)
next
  case (step_make_bid a aid price amount salt oid locked c' es)
  with og have "a \<noteq> pot_account_id env" by auto
  with currency_receives [OF laws step_make_bid(10)] bids_locked_new [OF step_make_bid(7)]
  show ?thesis by (simp add: step_make_bid(1) bids_locked_def bid_locked_def new_order_def)
next
  case (step_take_ask a oid amount order c' es)
  note owf = orders_wfD [OF wf step_take_ask(4)]
  have "pot_account_id env \<noteq> a" "pot_account_id env \<noteq> or_maker order"
    using og owf step_take_ask(2) by (auto simp: order_wf_def)
  with currency_others [OF laws step_take_ask(8)]
  have "free c' (pot_account_id env) = free (currency w) (pot_account_id env)" by blast
  moreover have "or_locked_balance order = 0" using owf step_take_ask(6) by (simp add: order_wf_def)
  ultimately show ?thesis
    using bids_locked_remaining_ask [of "Orders w" oid order, OF step_take_ask(4)]
    by (simp add: step_take_ask(1) bids_locked_def)
next
  case (step_take_bid a oid amount order money c' es)
  have lock: "unat (or_locked_balance order) = unat (or_left_amount order) * unat (or_price order)"
    using orders_wfD [OF wf step_take_bid(4)] step_take_bid(6) by (simp add: order_wf_def)
  from bids_locked_remaining_bid [of "Orders w" oid order, OF step_take_bid(4,5) lock step_take_bid(8)]
  have sum: "map_sum bid_locked (remaining_orders oid
      (order\<lparr>or_locked_balance := or_locked_balance order - money\<rparr>) amount (Orders w)) + unat money
    = bids_locked w" by (simp add: bids_locked_def)
  have le: "ed + unat (ucast money :: u128) \<le> free (currency w) (pot_account_id env)"
    using b sum by (simp add: bids_backed_def)
  have "a \<noteq> pot_account_id env" using og step_take_bid(2) by auto
  with currency_pays [OF laws step_take_bid(9) le] le sum show ?thesis
    by (simp add: step_take_bid(1) bids_locked_def)
next
  case (step_cancel_ask a oid order es)
  with bids_locked_cancelled [OF step_cancel_ask(4)] orders_wfD [OF wf step_cancel_ask(4)]
  show ?thesis by (simp add: bids_locked_def bid_locked_def order_wf_def)
next
  case (step_cancel_bid a oid order c' es)
  note sum = bids_locked_cancelled [OF step_cancel_bid(4)]
  have le: "ed + unat (ucast (or_locked_balance order) :: u128)
      \<le> free (currency w) (pot_account_id env)"
    using b sum by (simp add: bids_backed_def bid_locked_def)
  have "a \<noteq> pot_account_id env" using og step_cancel_bid(2) by auto
  with currency_pays [OF laws step_cancel_bid(7) le] le sum show ?thesis
    by (simp add: step_cancel_bid(1) bids_locked_def bid_locked_def)
qed (simp_all add: bids_locked_def)

lemma bids_backed_step:
  assumes "cx_step env transfer og k w w'" and "currency_laws ed free transfer"
    and "orders_wf (pot_account_id env) w" and "bids_backed ed free (pot_account_id env) w"
    and "og \<noteq> Signed (pot_account_id env)"
  shows "bids_backed ed free (pot_account_id env) w'"
  using pot_money_step [OF assms] assms(4) by (simp add: bids_backed_def)

lemma escrowed_step:
  assumes laws: "currency_laws ed free transfer"
    and "escrowed ed free (pot_account_id env) w" and "cx_ok env c w"
  shows "escrowed ed free (pot_account_id env) (snd (cx_dispatch env transfer c w))"
proof -
  obtain t og k where c: "c = (t, og, k)" by (cases c)
  let ?env = "env\<lparr>now := t\<rparr>"
  have pot: "pot_account_id ?env = pot_account_id env" by simp
  from laws have "cx_step ?env transfer og k w (snd (cx_dispatch env transfer c w))"
    unfolding c by (rule cx_dispatch_step)
  from orders_wf_step [OF this] asks_backed_step [OF this] bids_backed_step [OF this laws] assms(2,3)
  show ?thesis unfolding pot by (simp add: escrowed_def cx_ok_def c)
qed

interpretation cx_escrow: invariant_run "cx_dispatch env transfer" "cx_ok env"
    "\<lambda>w. currency_laws ed free transfer \<and> escrowed ed free (pot_account_id env) w"
    for env transfer ed free
  by unfold_locales (simp add: escrowed_step)

end
