(* ===== verification/Standard_Assets.thy ===== *)
theory Standard_Assets
  imports Interfaces
begin

text \<open>
  The pallet \<open>pallets/standard-assets\<close>: fungible assets that anybody may issue. Its storage
  (\<open>AssetInfos\<close>, \<open>Balances\<close>, \<open>TotalSupply\<close>) and its events are the record \<open>sa_state\<close>; the four
  dispatchables \<open>issue\<close>, \<open>transfer\<close>, \<open>mint\<close>, \<open>burn\<close> and the public functions \<open>balance\<close>,
  \<open>total_supply\<close>, \<open>make_transfer\<close> are one definition each. The lemmas: what every branch does,
  failing calls write nothing, \<open>transfer\<close> agrees with the unchecked \<open>make_transfer\<close>, and the
  backing invariant (an asset's balances add up to its total supply), with the two ways in which
  \<open>mint\<close> leaves it.
\<close>

section \<open>Storage, events, errors\<close>

record ECRC10 =
  ec_symbol :: bytes
  ec_name :: bytes
  ec_decimals :: u8
  ec_max_supply :: u64

datatype sa_event =
    NewAsset hash bytes account u64 u8 u64
  | Transferred hash account account u64 u64
  | Minted hash account u64
  | Burned hash account u64

datatype sa_error = AmountZero | BalanceLow | BalanceZero | DuplicatedKey

record sa_state =
  AssetInfos :: "hash \<rightharpoonup> ECRC10"
  sa_Balances :: "hash \<times> account \<rightharpoonup> u64"
  sa_TotalSupply :: "hash \<rightharpoonup> u64"
  sa_events :: "sa_event list"

definition sa_genesis :: sa_state where
  "sa_genesis = \<lparr>AssetInfos = Map.empty, sa_Balances = Map.empty, sa_TotalSupply = Map.empty,
     sa_events = []\<rparr>"

definition sa_deposit_event :: "sa_event \<Rightarrow> sa_state \<Rightarrow> sa_state" where
  "sa_deposit_event e s = s\<lparr>sa_events := sa_events s @ [e]\<rparr>"

section \<open>Dispatchables\<close>

definition sa_issue ::
    "env \<Rightarrow> origin \<Rightarrow> bytes \<Rightarrow> bytes \<Rightarrow> u8 \<Rightarrow> u64 \<Rightarrow> u64 \<Rightarrow> sa_state
     \<Rightarrow> sa_error dispatch_result \<times> sa_state" where
  "sa_issue env og symbol name decimals max_supply first_supply s =
     (case ensure_signed og of
        None \<Rightarrow> (Inl BadOrigin, s)
      | Some who \<Rightarrow>
          let asset_id =
            hash_of env (Pre_ECRC10 who symbol name decimals max_supply first_supply)
          in if AssetInfos s asset_id \<noteq> None then (Err DuplicatedKey, s)
             else
               let asset_info = \<lparr>ec_symbol = symbol, ec_name = name, ec_decimals = decimals,
                     ec_max_supply = max_supply\<rparr>;
                   s1 = s\<lparr>AssetInfos := (AssetInfos s)(asset_id \<mapsto> asset_info)\<rparr>;
                   s2 = s1\<lparr>sa_Balances := (sa_Balances s1)((asset_id, who) \<mapsto> first_supply)\<rparr>;
                   s3 = s2\<lparr>sa_TotalSupply := (sa_TotalSupply s2)(asset_id \<mapsto> first_supply)\<rparr>
               in (Ok, sa_deposit_event
                         (NewAsset asset_id symbol who first_supply decimals (now env)) s3))"

definition sa_transfer ::
    "env \<Rightarrow> origin \<Rightarrow> hash \<Rightarrow> account \<Rightarrow> u64 \<Rightarrow> sa_state
     \<Rightarrow> sa_error dispatch_result \<times> sa_state" where
  "sa_transfer env og aid target amount s =
     (case ensure_signed og of
        None \<Rightarrow> (Inl BadOrigin, s)
      | Some who \<Rightarrow>
          let origin_balance = vget (sa_Balances s) (aid, who)
          in if amount = 0 then (Err AmountZero, s)
             else if \<not> amount \<le> origin_balance then (Err BalanceLow, s)
             else
               let s1 = s\<lparr>sa_Balances :=
                     (sa_Balances s)((aid, who) \<mapsto> origin_balance - amount)\<rparr>;
                   s2 = s1\<lparr>sa_Balances :=
                     vmutate (sa_Balances s1) (aid, target) (\<lambda>balance. balance + amount)\<rparr>
               in (Ok, sa_deposit_event (Transferred aid who target amount (now env)) s2))"

definition sa_mint ::
    "origin \<Rightarrow> hash \<Rightarrow> u64 \<Rightarrow> sa_state \<Rightarrow> sa_error dispatch_result \<times> sa_state" where
  "sa_mint og aid amount s =
     (case ensure_signed og of
        None \<Rightarrow> (Inl BadOrigin, s)
      | Some who \<Rightarrow>
          let s1 = s\<lparr>sa_Balances :=
                vmutate (sa_Balances s) (aid, who) (\<lambda>balance. balance + amount)\<rparr>;
              s2 = s1\<lparr>sa_TotalSupply :=
                vmutate (sa_TotalSupply s1) aid (\<lambda>total_supply. total_supply + amount)\<rparr>
          in (Ok, sa_deposit_event (Minted aid who amount) s2))"

definition sa_burn ::
    "origin \<Rightarrow> hash \<Rightarrow> u64 \<Rightarrow> sa_state \<Rightarrow> sa_error dispatch_result \<times> sa_state" where
  "sa_burn og aid amount s =
     (if \<not> amount > 0 then (Err AmountZero, s)
      else case ensure_signed og of
        None \<Rightarrow> (Inl BadOrigin, s)
      | Some who \<Rightarrow>
          let origin_balance = vget (sa_Balances s) (aid, who)
          in if \<not> amount \<le> origin_balance then (Err BalanceLow, s)
             else
               let s1 = s\<lparr>sa_Balances :=
                     (sa_Balances s)((aid, who) \<mapsto> origin_balance - amount)\<rparr>;
                   s2 = s1\<lparr>sa_TotalSupply :=
                     vmutate (sa_TotalSupply s1) aid (\<lambda>total_supply. total_supply - amount)\<rparr>
               in (Ok, sa_deposit_event (Burned aid who amount) s2))"

section \<open>Public functions\<close>

definition sa_balance :: "sa_state \<Rightarrow> hash \<Rightarrow> account \<Rightarrow> u64" where
  "sa_balance s aid who = vget (sa_Balances s) (aid, who)"

definition sa_total_supply :: "sa_state \<Rightarrow> hash \<Rightarrow> u64" where
  "sa_total_supply s aid = vget (sa_TotalSupply s) aid"

definition sa_make_transfer ::
    "hash \<Rightarrow> account \<Rightarrow> account \<Rightarrow> u64 \<Rightarrow> sa_state \<Rightarrow> sa_error dispatch_result \<times> sa_state" where
  "sa_make_transfer asset_id from_acc to_acc amount s =
     (if from_acc \<noteq> to_acc
      then let s1 = s\<lparr>sa_Balances :=
                 vmutate (sa_Balances s) (asset_id, from_acc) (\<lambda>balance. balance - amount)\<rparr>;
               s2 = s1\<lparr>sa_Balances :=
                 vmutate (sa_Balances s1) (asset_id, to_acc) (\<lambda>balance. balance + amount)\<rparr>
           in (Ok, s2)
      else (Ok, s))"

section \<open>The dispatch table\<close>

datatype sa_call =
    Sa_issue bytes bytes u8 u64 u64
  | Sa_transfer hash account u64
  | Sa_mint hash u64
  | Sa_burn hash u64

text \<open>A call is dispatched at a time, from an origin.\<close>

fun sa_dispatch ::
    "env \<Rightarrow> u64 \<times> origin \<times> sa_call \<Rightarrow> sa_state \<Rightarrow> sa_error dispatch_result \<times> sa_state" where
  "sa_dispatch env (t, og, Sa_issue symbol name decimals max_supply first_supply) s =
     sa_issue (env\<lparr>now := t\<rparr>) og symbol name decimals max_supply first_supply s"
| "sa_dispatch env (t, og, Sa_transfer aid target amount) s =
     sa_transfer (env\<lparr>now := t\<rparr>) og aid target amount s"
| "sa_dispatch env (t, og, Sa_mint aid amount) s = sa_mint og aid amount s"
| "sa_dispatch env (t, og, Sa_burn aid amount) s = sa_burn og aid amount s"

lemmas sa_op_defs = sa_issue_def sa_transfer_def sa_mint_def sa_burn_def sa_deposit_event_def

section \<open>Failing calls write nothing\<close>

interpretation sa_checked: checked_dispatch "sa_dispatch env" for env
proof
  fix c :: "u64 \<times> origin \<times> sa_call" and s s' :: sa_state and e
  assume a: "sa_dispatch env c s = (Inl e, s')"
  obtain t og k where c: "c = (t, og, k)" by (cases c)
  show "s' = s"
    using a unfolding c
    by (cases k) (auto simp: sa_op_defs Let_def split: option.splits if_splits)
qed

section \<open>The ledger\<close>

interpretation sa_ledger: ledger sa_balance "\<lambda>s k a b v. snd (sa_make_transfer k a b v s)"
  by unfold_locales (auto simp: sa_balance_def sa_make_transfer_def Let_def)

lemma holdings_sa_balance:
  "holdings (sa_Balances s) aid = (\<Sum>x\<in>UNIV. unat (sa_balance s aid x))"
  by (simp add: holdings_def sa_balance_def)

lemma sa_transfer_Ok:
  assumes "sa_transfer env og aid b v s = (Ok, s')"
  obtains a where "og = Signed a" "v \<noteq> 0" "v \<le> sa_balance s aid a"
    "sa_balance s' = sa_balance (snd (sa_make_transfer aid a b v s))"
    "AssetInfos s' = AssetInfos s" "sa_TotalSupply s' = sa_TotalSupply s"
    "sa_events s' = sa_events s @ [Transferred aid a b v (now env)]"
  using assms
  by (fastforce simp: sa_transfer_def sa_deposit_event_def sa_make_transfer_def sa_balance_def
      Let_def fun_eq_iff split: option.splits if_splits)

section \<open>Backing\<close>

text \<open>
  An asset is backed when the true sum of its balances is its recorded total supply; an id that
  was never issued holds nothing.
\<close>

definition sa_backed :: "sa_state \<Rightarrow> bool" where
  "sa_backed s \<longleftrightarrow>
     (\<forall>aid. holdings (sa_Balances s) aid = unat (sa_total_supply s aid)) \<and>
     (\<forall>aid. AssetInfos s aid = None \<longrightarrow> sa_total_supply s aid = 0)"

text \<open>
  \<open>mint\<close> checks neither that the asset exists nor that the supply fits; the invariant holds for
  the runs in which its callers do.
\<close>

fun sa_mint_ok :: "u64 \<times> origin \<times> sa_call \<Rightarrow> sa_state \<Rightarrow> bool" where
  "sa_mint_ok (t, og, Sa_mint aid amount) s \<longleftrightarrow>
     AssetInfos s aid \<noteq> None \<and> unat (sa_total_supply s aid) + unat amount < 2 ^ 64"
| "sa_mint_ok _ s \<longleftrightarrow> True"

lemma sa_backed_genesis: "sa_backed sa_genesis"
  by (simp add: sa_backed_def sa_genesis_def sa_total_supply_def)

lemma sa_backed_balance_le:
  "sa_backed s \<Longrightarrow> unat (sa_balance s aid a) \<le> unat (sa_total_supply s aid)"
  using balance_le_holdings [of "sa_Balances s" aid a]
  by (simp add: sa_backed_def sa_balance_def)

lemma sa_backed_fits: "sa_backed s \<Longrightarrow> (\<Sum>x\<in>UNIV. unat (sa_balance s aid x)) < 2 ^ 64"
  by (simp add: sa_backed_def flip: holdings_sa_balance)

lemma sa_backed_unissued:
  "sa_backed s \<Longrightarrow> AssetInfos s aid = None \<Longrightarrow> vget (sa_Balances s) (aid, a) = 0"
  using sa_backed_balance_le [of s aid a] by (simp add: sa_backed_def sa_balance_def unat_eq_0)

lemma sa_issue_backed:
  assumes "sa_backed s"
  shows "sa_backed (snd (sa_issue env og symbol name decimals max_supply first_supply s))"
proof -
  have "holdings ((sa_Balances s)((j, a) \<mapsto> first_supply)) j = unat first_supply"
    if "AssetInfos s j = None" for j a
    using that assms sa_backed_unissued [OF assms that, of a]
      holdings_update [of "sa_Balances s" j a first_supply]
    by (simp add: sa_backed_def)
  then show ?thesis
    using assms
    by (auto simp: sa_issue_def sa_deposit_event_def sa_backed_def sa_total_supply_def Let_def
        split: option.splits)
qed

lemma sa_transfer_backed:
  assumes "sa_backed s"
  shows "sa_backed (snd (sa_transfer env og aid b v s))"
proof (cases "sa_transfer env og aid b v s")
  case (Pair r s')
  show ?thesis
  proof (cases r)
    case (Inl e)
    then have "s' = s"
      using Pair sa_checked.fail_unchanged [of env "(now env, og, Sa_transfer aid b v)" s e s']
      by simp
    with Pair assms show ?thesis by simp
  next
    case (Inr u)
    then obtain a where "v \<le> sa_balance s aid a"
      and bal: "sa_balance s' = sa_balance (snd (sa_make_transfer aid a b v s))"
      and "AssetInfos s' = AssetInfos s" "sa_TotalSupply s' = sa_TotalSupply s"
      using Pair by (auto elim: sa_transfer_Ok)
    moreover have "holdings (sa_Balances s') j = holdings (sa_Balances s) j" for j
      unfolding holdings_sa_balance bal
      by (rule sa_ledger.move_holdings) (use calculation sa_backed_fits [OF assms] in auto)
    ultimately show ?thesis
      using Pair assms by (simp add: sa_backed_def sa_total_supply_def)
  qed
qed

lemma sa_mint_backed:
  assumes "sa_backed s" and "sa_mint_ok (t, og, Sa_mint aid amount) s"
  shows "sa_backed (snd (sa_mint og aid amount s))"
proof -
  have fits: "unat (sa_total_supply s aid) + unat amount < 2 ^ 64" using assms(2) by simp
  have "unat (vget (sa_Balances s) (aid, a)) + unat amount < 2 ^ 64" for a
    using fits sa_backed_balance_le [OF assms(1), of aid a] by (simp add: sa_balance_def)
  then have "unat (vget (sa_Balances s) (aid, a) + amount)
      = unat (vget (sa_Balances s) (aid, a)) + unat amount" for a
    by (rule unat_add_u64)
  then have "holdings (vmutate (sa_Balances s) (aid, a) (\<lambda>balance. balance + amount)) aid
      = holdings (sa_Balances s) aid + unat amount" for a
    using holdings_update [of "sa_Balances s" aid a "vget (sa_Balances s) (aid, a) + amount"]
    by (simp add: vmutate_def)
  moreover have "unat (vget (sa_TotalSupply s) aid + amount)
      = unat (vget (sa_TotalSupply s) aid) + unat amount"
    using fits by (intro unat_add_u64) (simp add: sa_total_supply_def)
  ultimately show ?thesis
    using assms
    by (auto simp: sa_mint_def sa_deposit_event_def sa_backed_def sa_total_supply_def Let_def
        split: option.splits)
qed

lemma sa_burn_backed:
  assumes "sa_backed s"
  shows "sa_backed (snd (sa_burn og aid amount s))"
proof -
  have "holdings ((sa_Balances s)((aid, a) \<mapsto> vget (sa_Balances s) (aid, a) - amount)) aid
      = unat (vget (sa_TotalSupply s) aid - amount)"
    if le: "amount \<le> vget (sa_Balances s) (aid, a)" for a
  proof -
    have le': "amount \<le> vget (sa_TotalSupply s) aid"
      using le sa_backed_balance_le [OF assms, of aid a]
      by (simp add: sa_balance_def sa_total_supply_def word_le_nat_alt)
    have "holdings (sa_Balances s) aid = unat (vget (sa_TotalSupply s) aid)"
      using assms by (simp add: sa_backed_def sa_total_supply_def)
    then show ?thesis
      using holdings_update [of "sa_Balances s" aid a "vget (sa_Balances s) (aid, a) - amount"]
        le le' by (simp add: unat_sub_u64 word_le_nat_alt)
  qed
  then show ?thesis
    using assms sa_backed_unissued [OF assms]
    by (auto simp: sa_burn_def sa_deposit_event_def sa_backed_def sa_total_supply_def Let_def
        split: option.splits)
qed

interpretation sa_backing: invariant_run "sa_dispatch env" sa_mint_ok sa_backed for env
proof
  fix s :: sa_state and c :: "u64 \<times> origin \<times> sa_call"
  assume "sa_backed s" and "sa_mint_ok c s"
  moreover obtain t og k where "c = (t, og, k)" by (cases c)
  ultimately show "sa_backed (snd (sa_dispatch env c s))"
    by (cases k) (auto intro: sa_issue_backed sa_transfer_backed sa_burn_backed
        sa_mint_backed [where t = t])
qed

section \<open>Properties\<close>

text \<open>
  From genesis, after any run of dispatched calls in which \<open>mint\<close> is only used on issued
  assets and within 64 bits, every asset is backed: the true sum of its balances is its recorded
  total supply, and ids never issued hold nothing.
\<close>

theorem sa_run_backed:
  assumes "ok_run sa_mint_ok (sa_dispatch env) cs sa_genesis"
  shows "sa_backed (run_calls (sa_dispatch env) cs sa_genesis)"
  using sa_backed_genesis assms by (rule sa_backing.run_inv)

definition sa_sample_run :: "(u64 \<times> origin \<times> sa_call) list" where
  "sa_sample_run = [(10, Signed 1, Sa_issue [65] [66] 8 1000 100), (11, Signed 1, Sa_transfer 1001 2 30),
     (12, Signed 2, Sa_mint 1001 5), (13, Signed 2, Sa_burn 1001 35), (14, Signed 3, Sa_transfer 1001 2 1)]"

lemmas sa_eval = sa_op_defs vget_def vmutate_def sa_genesis_def sa_total_supply_def sa_balance_def
  Let_def

theorem sa_run_backed_witness:
  "sa_backed (run_calls (sa_dispatch sample_env) sa_sample_run sa_genesis) \<and>
   sa_total_supply (run_calls (sa_dispatch sample_env) sa_sample_run sa_genesis) 1001 = 70"
proof -
  have ok: "ok_run sa_mint_ok (sa_dispatch sample_env) sa_sample_run sa_genesis"
    by (simp add: sa_sample_run_def sa_eval)
  show ?thesis
    using sa_run_backed [OF ok] by (simp add: sa_sample_run_def sa_eval)
qed

text \<open>
  In a backed state a successful \<open>transfer\<close> is exact, with no 64-bit wrap: the sender had the
  amount and loses exactly it, the recipient gains exactly it, nobody else's balance of any asset
  changes, paying oneself changes nothing, and supplies and asset infos are untouched.
\<close>

theorem sa_transfer_exact:
  assumes "sa_backed s" and "sa_transfer env (Signed a) aid b v s = (Ok, s')"
  shows "unat v \<le> unat (sa_balance s aid a) \<and>
    (\<forall>j x. unat (sa_balance s' j x) =
       (if j = aid \<and> a \<noteq> b \<and> x = a then unat (sa_balance s aid a) - unat v
        else if j = aid \<and> a \<noteq> b \<and> x = b then unat (sa_balance s aid b) + unat v
        else unat (sa_balance s j x))) \<and>
    AssetInfos s' = AssetInfos s \<and> sa_TotalSupply s' = sa_TotalSupply s"
proof -
  obtain le: "v \<le> sa_balance s aid a"
    and bal: "sa_balance s' = sa_balance (snd (sa_make_transfer aid a b v s))"
    and rest: "AssetInfos s' = AssetInfos s" "sa_TotalSupply s' = sa_TotalSupply s"
    using assms(2) by (auto elim: sa_transfer_Ok)
  have "unat (sa_balance s' j x) =
       (if j = aid \<and> a \<noteq> b \<and> x = a then unat (sa_balance s aid a) - unat v
        else if j = aid \<and> a \<noteq> b \<and> x = b then unat (sa_balance s aid b) + unat v
        else unat (sa_balance s j x))" for j x
    using sa_ledger.move_exact [OF le sa_backed_fits [OF assms(1)], of b]
    by (auto simp: bal sa_ledger.bal_move)
  with le rest show ?thesis by (simp add: word_le_nat_alt)
qed

theorem sa_transfer_exact_witness:
  "let s = run_calls (sa_dispatch sample_env) [(10, Signed 1, Sa_issue [65] [66] 8 1000 100)] sa_genesis;
       s' = snd (sa_transfer sample_env (Signed 1) 1001 2 30 s)
   in unat (sa_balance s' 1001 1) = 70 \<and> unat (sa_balance s' 1001 2) = 30"
proof -
  let ?s = "run_calls (sa_dispatch sample_env) [(10, Signed 1, Sa_issue [65] [66] 8 1000 100)] sa_genesis"
  let ?s' = "snd (sa_transfer sample_env (Signed 1) 1001 2 30 ?s)"
  have b: "sa_backed ?s"
    by (rule sa_backing.run_inv [OF sa_backed_genesis]) simp
  have t: "sa_transfer sample_env (Signed 1) 1001 2 30 ?s = (Ok, ?s')"
    by (simp add: sa_eval)
  have h: "sa_balance ?s 1001 1 = 100" "sa_balance ?s 1001 2 = 0"
    by (simp_all add: sa_eval)
  show ?thesis
    using sa_transfer_exact [OF b t] h by simp
qed

text \<open>
  The checked \<open>transfer\<close> and the unchecked \<open>make_transfer\<close> that other pallets call agree:
  for a signed sender with a non-zero amount that it holds, \<open>transfer\<close> succeeds and leaves the
  balances that \<open>make_transfer\<close> leaves; otherwise it fails with the matching error and writes
  nothing.
\<close>

theorem sa_transfer_refines_make_transfer:
  "case sa_transfer env og aid b v s of (r, s') \<Rightarrow>
     (case og of
        Signed a \<Rightarrow>
          if v = 0 then r = Err AmountZero \<and> s' = s
          else if sa_balance s aid a < v then r = Err BalanceLow \<and> s' = s
          else r = Ok \<and> sa_balance s' = sa_balance (snd (sa_make_transfer aid a b v s))
      | _ \<Rightarrow> r = Inl BadOrigin \<and> s' = s)"
  by (cases og)
    (auto simp: sa_transfer_def sa_make_transfer_def sa_deposit_event_def sa_balance_def Let_def
      fun_eq_iff not_le)

text \<open>
  A standard-assets call that fails, for whatever reason, leaves storage and events as they
  were: every dispatchable of the pallet checks before it writes.
\<close>

theorem sa_failing_call_writes_nothing:
  "snd (sa_dispatch env c s) = s \<or> fst (sa_dispatch env c s) = Ok"
  using sa_checked.changed_iff_Ok by blast

lemma sa_info_kept_step:
  "AssetInfos s aid = Some info \<Longrightarrow> AssetInfos (snd (sa_dispatch env c s)) aid = Some info"
proof -
  assume a: "AssetInfos s aid = Some info"
  obtain t og k where "c = (t, og, k)" by (cases c)
  with a show ?thesis
    by (cases k) (auto simp: sa_op_defs Let_def split: option.splits)
qed

interpretation sa_info_kept: invariant_run "sa_dispatch env" "\<lambda>_ _. True"
    "\<lambda>s. AssetInfos s aid = Some info" for env aid info
  by unfold_locales (rule sa_info_kept_step)

text \<open>
  An issued asset is issued for good: whatever calls follow, its symbol, name, decimals and
  maximal supply stay what \<open>issue\<close> recorded.
\<close>

theorem sa_issued_info_permanent:
  assumes "AssetInfos s aid = Some info"
  shows "AssetInfos (run_calls (sa_dispatch env) cs s) aid = Some info"
  using assms by (rule sa_info_kept.run_inv) simp

theorem sa_issued_info_permanent_witness:
  "\<forall>env cs. AssetInfos (run_calls (sa_dispatch env) cs
       (sa_genesis\<lparr>AssetInfos := [7 \<mapsto> \<lparr>ec_symbol = [65], ec_name = [66], ec_decimals = 8,
          ec_max_supply = 10\<rparr>]\<rparr>)) 7
     = Some \<lparr>ec_symbol = [65], ec_name = [66], ec_decimals = 8, ec_max_supply = 10\<rparr>"
proof (intro allI)
  fix env and cs :: "(u64 \<times> origin \<times> sa_call) list"
  show "AssetInfos (run_calls (sa_dispatch env) cs
       (sa_genesis\<lparr>AssetInfos := [7 \<mapsto> \<lparr>ec_symbol = [65], ec_name = [66], ec_decimals = 8,
          ec_max_supply = 10\<rparr>]\<rparr>)) 7
     = Some \<lparr>ec_symbol = [65], ec_name = [66], ec_decimals = 8, ec_max_supply = 10\<rparr>"
    by (rule sa_issued_info_permanent) simp
qed

text \<open>
  \<open>mint\<close> does not look at \<open>max_supply\<close> or at who calls it: for every issued asset whose
  maximal supply is below the largest \<open>u64\<close> and not yet exceeded, any signed account has an
  amount that it can mint to itself and that takes the total supply above the maximum.
\<close>

theorem sa_mint_ignores_max_supply:
  assumes "AssetInfos s aid = Some info" and "ec_max_supply info \<noteq> - 1"
    and "sa_total_supply s aid \<le> ec_max_supply info"
  shows "\<exists>amount s'. sa_mint (Signed who) aid amount s = (Ok, s') \<and>
    sa_balance s' aid who = sa_balance s aid who + amount \<and>
    ec_max_supply info < sa_total_supply s' aid"
proof -
  let ?amount = "ec_max_supply info - sa_total_supply s aid + 1"
  obtain s' where s': "sa_mint (Signed who) aid ?amount s = (Ok, s')"
    by (simp add: sa_mint_def Let_def)
  then have "sa_total_supply s' aid = ec_max_supply info + 1"
    and "sa_balance s' aid who = sa_balance s aid who + ?amount"
    by (auto simp: sa_mint_def sa_deposit_event_def sa_total_supply_def sa_balance_def Let_def)
  moreover have "ec_max_supply info < ec_max_supply info + 1"
    using assms(2) by (rule u64_less_plus_1)
  ultimately show ?thesis
    using s' by (intro exI [of _ ?amount] exI [of _ s']) simp
qed

text \<open>
  C36. Asset ids are hashes of public data, and \<open>mint\<close> accepts ids that were never issued: if
  somebody mints on an id before its issuer issues it, the pre-minted units stay spendable while
  the total supply is overwritten with the first supply, so the asset is not backed.
\<close>

theorem sa_premint_breaks_backing:
  assumes "a \<noteq> b" and "amount \<noteq> 0"
  shows "let aid = hash_of env (Pre_ECRC10 a symbol name decimals max_supply first_supply);
             s = run_calls (sa_dispatch env)
               [(t, Signed b, Sa_mint aid amount),
                (u, Signed a, Sa_issue symbol name decimals max_supply first_supply)] sa_genesis
    in sa_total_supply s aid = first_supply \<and> sa_balance s aid a = first_supply
       \<and> sa_balance s aid b = amount \<and> \<not> sa_backed s"
proof -
  let ?aid = "hash_of env (Pre_ECRC10 a symbol name decimals max_supply first_supply)"
  let ?s = "run_calls (sa_dispatch env)
      [(t, Signed b, Sa_mint ?aid amount),
       (u, Signed a, Sa_issue symbol name decimals max_supply first_supply)] sa_genesis"
  have eqs: "sa_total_supply ?s ?aid = first_supply" "sa_balance ?s ?aid a = first_supply"
    "sa_balance ?s ?aid b = amount"
    using assms(1) by (auto simp: sa_eval)
  have "\<not> sa_backed ?s"
  proof
    assume "sa_backed ?s"
    then have "unat first_supply + unat amount \<le> unat first_supply"
      using two_balances_le_holdings [OF assms(1), of "sa_Balances ?s" ?aid] eqs
      by (simp add: sa_backed_def sa_balance_def)
    with assms(2) show False by (simp add: unat_eq_0)
  qed
  with eqs show ?thesis by (simp only: Let_def) simp
qed

theorem sa_premint_breaks_backing_witness:
  "\<not> sa_backed (run_calls (sa_dispatch sample_env)
     [(1, Signed 2, Sa_mint 1001 5), (2, Signed 1, Sa_issue [65] [66] 8 1000 100)] sa_genesis)"
  using sa_premint_breaks_backing [of 1 2 5 sample_env "[65]" "[66]" 8 1000 100 1 2]
  by (simp add: Let_def del: run_calls.simps)

theorem sa_mint_ignores_max_supply_witness:
  "\<exists>amount s'. sa_mint (Signed 3) 7 amount
       (sa_genesis\<lparr>AssetInfos := [7 \<mapsto> \<lparr>ec_symbol = [65], ec_name = [66], ec_decimals = 8,
          ec_max_supply = 10\<rparr>]\<rparr>) = (Ok, s') \<and> 10 < sa_total_supply s' 7"
  using sa_mint_ignores_max_supply
    [of "sa_genesis\<lparr>AssetInfos := [7 \<mapsto> \<lparr>ec_symbol = [65], ec_name = [66], ec_decimals = 8,
       ec_max_supply = 10\<rparr>]\<rparr>" 7 "\<lparr>ec_symbol = [65], ec_name = [66], ec_decimals = 8,
       ec_max_supply = 10\<rparr>" 3]
  by (auto simp: sa_total_supply_def sa_genesis_def)

section \<open>The pallet's own test\<close>

text \<open>\<open>b"USD1"\<close> and \<open>b"First USD Stable coin"\<close>.\<close>

definition usd1_symbol :: bytes where
  "usd1_symbol = [0x55, 0x53, 0x44, 0x31]"

definition usd1_name :: bytes where
  "usd1_name = [0x46, 0x69, 0x72, 0x73, 0x74, 0x20, 0x55, 0x53, 0x44, 0x20, 0x53, 0x74, 0x61,
     0x62, 0x6c, 0x65, 0x20, 0x63, 0x6f, 0x69, 0x6e]"

definition issue_asset1 ::
    "env \<Rightarrow> account \<Rightarrow> u64 \<Rightarrow> sa_state \<Rightarrow> hash \<times> sa_error dispatch_result \<times> sa_state" where
  "issue_asset1 env issuer amount s =
     (hash_of env (Pre_ECRC10 issuer usd1_symbol usd1_name 8 (amount * 10) amount),
      sa_issue env (Signed issuer) usd1_symbol usd1_name 8 (amount * 10) amount s)"

text \<open>
  The scenario of the test \<open>querying_total_supply_should_work\<close>, for every hash function and
  not only BLAKE2: issuing 100 units to account 1, moving 50 to account 2 and 31 on to account 3,
  who burns them, succeeds at every step and leaves 50, 19, 0 and a total supply of 69.
\<close>

theorem sa_querying_total_supply_should_work:
  "let (aid, r0, s0) = issue_asset1 env 1 100 sa_genesis;
       (r1, s1) = sa_transfer env (Signed 1) aid 2 50 s0;
       (r2, s2) = sa_transfer env (Signed 2) aid 3 31 s1;
       (r3, s3) = sa_burn (Signed 3) aid 31 s2
   in r0 = Ok \<and> sa_balance s0 aid 1 = 100 \<and>
      r1 = Ok \<and> sa_balance s1 aid 1 = 50 \<and> sa_balance s1 aid 2 = 50 \<and>
      r2 = Ok \<and> sa_balance s2 aid 1 = 50 \<and> sa_balance s2 aid 2 = 19 \<and> sa_balance s2 aid 3 = 31 \<and>
      r3 = Ok \<and> sa_total_supply s3 aid = 69"
  by (simp add: issue_asset1_def sa_eval)

end
