(* ===== verification/Runtime_Calls.thy ===== *)
theory Runtime_Calls
  imports Exchange_Escrow Standard_Assets
begin

text \<open>
  The calls of the runtime and what runs them: the outer call enum of \<open>construct_runtime!\<close>, the
  proxy filter over it, and the dispatch of the three pallets of the repository over their joint
  state. The calls of the other pallets are opaque (\<open>'k\<close>), apart from the ones the proxy filter
  names.
\<close>

section \<open>The outer call\<close>

datatype 'k indices_call = Indices_claim 'k | Indices_free 'k | Indices_freeze 'k | Indices_other 'k

datatype 'k identity_call = Provide_judgement 'k | Identity_other 'k

datatype 'k runtime_call =
    Call_System 'k | Call_Utility 'k | Call_Timestamp 'k | Call_Authorship 'k
  | Call_Indices "'k indices_call" | Call_Balances 'k | Call_Staking 'k | Call_Session 'k
  | Call_Democracy 'k | Call_Council 'k | Call_Elections 'k | Call_Grandpa 'k | Call_Treasury 'k
  | Call_Sudo 'k | Call_ImOnline 'k | Call_AuthorityDiscovery 'k | Call_Offences 'k
  | Call_RandomnessCollectiveFlip 'k | Call_Identity "'k identity_call" | Call_Recovery 'k
  | Call_Scheduler 'k | Call_Proxy 'k | Call_Multisig 'k | Call_CarbonCommittee 'k
  | Call_CarbonMembership 'k | Call_CarbonAssets ca_call | Call_StandardAssets sa_call
  | Call_CarbonExchange cx_call

text \<open>The index of the pallet a call belongs to, which is the first byte of its encoding.\<close>

fun pallet_index :: "'k runtime_call \<Rightarrow> u8" where
  "pallet_index (Call_System _) = 0"
| "pallet_index (Call_Utility _) = 1"
| "pallet_index (Call_Timestamp _) = 3"
| "pallet_index (Call_Authorship _) = 4"
| "pallet_index (Call_Indices _) = 5"
| "pallet_index (Call_Balances _) = 6"
| "pallet_index (Call_Staking _) = 8"
| "pallet_index (Call_Session _) = 9"
| "pallet_index (Call_Democracy _) = 10"
| "pallet_index (Call_Council _) = 11"
| "pallet_index (Call_Elections _) = 12"
| "pallet_index (Call_Grandpa _) = 13"
| "pallet_index (Call_Treasury _) = 14"
| "pallet_index (Call_Sudo _) = 15"
| "pallet_index (Call_ImOnline _) = 16"
| "pallet_index (Call_AuthorityDiscovery _) = 17"
| "pallet_index (Call_Offences _) = 18"
| "pallet_index (Call_RandomnessCollectiveFlip _) = 20"
| "pallet_index (Call_Identity _) = 21"
| "pallet_index (Call_Recovery _) = 22"
| "pallet_index (Call_Scheduler _) = 24"
| "pallet_index (Call_Proxy _) = 25"
| "pallet_index (Call_Multisig _) = 26"
| "pallet_index (Call_CarbonCommittee _) = 27"
| "pallet_index (Call_CarbonMembership _) = 28"
| "pallet_index (Call_CarbonAssets _) = 29"
| "pallet_index (Call_StandardAssets _) = 30"
| "pallet_index (Call_CarbonExchange _) = 31"

section \<open>Proxies\<close>

datatype ProxyType = Any | NonTransfer | Governance | Staking | IdentityJudgement

fun proxy_discriminant :: "ProxyType \<Rightarrow> nat" where
  "proxy_discriminant Any = 0"
| "proxy_discriminant NonTransfer = 1"
| "proxy_discriminant Governance = 2"
| "proxy_discriminant Staking = 3"
| "proxy_discriminant IdentityJudgement = 5"

lemma proxy_discriminant_inj: "proxy_discriminant x = proxy_discriminant y \<Longrightarrow> x = y"
  by (cases x; cases y) simp_all

text \<open>The derived \<open>Ord\<close> of the code: by position, which is by discriminant.\<close>

instantiation ProxyType :: linorder
begin

definition less_eq_ProxyType :: "ProxyType \<Rightarrow> ProxyType \<Rightarrow> bool" where
  "less_eq_ProxyType x y = (proxy_discriminant x \<le> proxy_discriminant y)"

definition less_ProxyType :: "ProxyType \<Rightarrow> ProxyType \<Rightarrow> bool" where
  "less_ProxyType x y = (proxy_discriminant x < proxy_discriminant y)"

instance
  by intro_classes
    (auto simp: less_eq_ProxyType_def less_ProxyType_def dest: proxy_discriminant_inj)

end

definition proxy_default :: ProxyType where "proxy_default = Any"

fun non_transfer_call :: "'k runtime_call \<Rightarrow> bool" where
  "non_transfer_call (Call_System _) = True"
| "non_transfer_call (Call_Scheduler _) = True"
| "non_transfer_call (Call_Timestamp _) = True"
| "non_transfer_call (Call_Indices (Indices_claim _)) = True"
| "non_transfer_call (Call_Indices (Indices_free _)) = True"
| "non_transfer_call (Call_Indices (Indices_freeze _)) = True"
| "non_transfer_call (Call_Authorship _) = True"
| "non_transfer_call (Call_Staking _) = True"
| "non_transfer_call (Call_Offences _) = True"
| "non_transfer_call (Call_Session _) = True"
| "non_transfer_call (Call_Grandpa _) = True"
| "non_transfer_call (Call_ImOnline _) = True"
| "non_transfer_call (Call_AuthorityDiscovery _) = True"
| "non_transfer_call (Call_Democracy _) = True"
| "non_transfer_call (Call_Council _) = True"
| "non_transfer_call (Call_Treasury _) = True"
| "non_transfer_call (Call_Utility _) = True"
| "non_transfer_call (Call_Identity _) = True"
| "non_transfer_call (Call_Proxy _) = True"
| "non_transfer_call (Call_Multisig _) = True"
| "non_transfer_call _ = False"

fun governance_call :: "'k runtime_call \<Rightarrow> bool" where
  "governance_call (Call_Democracy _) = True"
| "governance_call (Call_Council _) = True"
| "governance_call (Call_Treasury _) = True"
| "governance_call (Call_Utility _) = True"
| "governance_call _ = False"

fun staking_call :: "'k runtime_call \<Rightarrow> bool" where
  "staking_call (Call_Staking _) = True"
| "staking_call (Call_Session _) = True"
| "staking_call (Call_Utility _) = True"
| "staking_call _ = False"

fun judgement_call :: "'k runtime_call \<Rightarrow> bool" where
  "judgement_call (Call_Identity (Provide_judgement _)) = True"
| "judgement_call (Call_Utility _) = True"
| "judgement_call _ = False"

fun proxy_filter :: "ProxyType \<Rightarrow> 'k runtime_call \<Rightarrow> bool" where
  "proxy_filter Any c = True"
| "proxy_filter NonTransfer c = non_transfer_call c"
| "proxy_filter Governance c = governance_call c"
| "proxy_filter Staking c = staking_call c"
| "proxy_filter IdentityJudgement c = judgement_call c"

definition is_superset :: "ProxyType \<Rightarrow> ProxyType \<Rightarrow> bool" where
  "is_superset x y =
     (if x = y then True
      else case (x, y) of
        (Any, _) \<Rightarrow> True
      | (_, Any) \<Rightarrow> False
      | (NonTransfer, _) \<Rightarrow> True
      | _ \<Rightarrow> False)"

text \<open>One call of each kind, to tell the filters apart.\<close>

lemma governance_in_non_transfer: "governance_call c \<Longrightarrow> non_transfer_call c"
  by (cases c rule: governance_call.cases) simp_all

lemma staking_in_non_transfer: "staking_call c \<Longrightarrow> non_transfer_call c"
  by (cases c rule: staking_call.cases) simp_all

lemma judgement_in_non_transfer: "judgement_call c \<Longrightarrow> non_transfer_call c"
  by (cases c rule: judgement_call.cases) simp_all

lemmas filters_in_non_transfer =
  governance_in_non_transfer staking_in_non_transfer judgement_in_non_transfer

text \<open>
  C40. The order on proxy types that the proxy pallet relies on is the inclusion of what they may
  do: \<open>is_superset x y\<close> holds exactly when every call \<open>y\<close> lets through \<open>x\<close> lets through too.
\<close>

theorem proxy_superset_is_inclusion:
  "is_superset x y \<longleftrightarrow> {c :: 'k runtime_call. proxy_filter y c} \<subseteq> {c. proxy_filter x c}"
proof -
  have neq: "\<exists>c :: 'k runtime_call. proxy_filter y c \<and> \<not> proxy_filter x c"
    if "\<not> is_superset x y"
  proof -
    let ?k = "undefined :: 'k"
    have "proxy_filter y c \<and> \<not> proxy_filter x c"
      if "c = (case y of Any \<Rightarrow> Call_Balances ?k
          | NonTransfer \<Rightarrow> Call_System ?k | Governance \<Rightarrow> Call_Democracy ?k
          | Staking \<Rightarrow> Call_Staking ?k | IdentityJudgement \<Rightarrow> Call_Identity (Provide_judgement ?k))"
      for c
      using that \<open>\<not> is_superset x y\<close> by (cases x; cases y) (simp_all add: is_superset_def)
    then show ?thesis by blast
  qed
  have "proxy_filter x c" if "is_superset x y" and "proxy_filter y c" for c :: "'k runtime_call"
    using that by (cases x; cases y) (auto simp: is_superset_def filters_in_non_transfer)
  with neq show ?thesis by blast
qed

text \<open>
  The filter of any restricted proxy type lets no call of the carbon assets, standard assets,
  exchange, balances or sudo pallet through, and no \<open>transfer\<close> of an index. (Calls that spend money
  otherwise, such as those of staking and the treasury, pass some of the filters.)
\<close>

theorem restricted_proxies_cannot_transfer:
  assumes "p \<noteq> Any" and "proxy_filter p c"
  shows "pallet_index c \<notin> {6, 15, 29, 30, 31} \<and> (\<forall>k. c \<noteq> Call_Indices (Indices_other k))"
proof -
  have "non_transfer_call c"
    using assms by (cases p) (auto intro: filters_in_non_transfer)
  then show ?thesis by (cases c rule: non_transfer_call.cases) simp_all
qed

theorem restricted_proxies_cannot_transfer_witness:
  "proxy_filter NonTransfer (Call_Staking ()) \<and> pallet_index (Call_Staking ()) \<notin> {6, 15, 29, 30, 31}"
  using restricted_proxies_cannot_transfer [of NonTransfer "Call_Staking ()"] by simp

end
