(* ===== verification/Runtime_Config.thy ===== *)
theory Runtime_Config
  imports Interfaces
begin

text \<open>
  The configuration of the runtime (\<open>runtime/src\<close>): currency and time constants, the constants of
  the staking, session and governance pallets that depend on them, the conversion between balances
  and votes, and the approval origin of the carbon pallet. Values are words of the Rust type.
\<close>

section \<open>constants.rs\<close>

definition DOTS :: u128 where "DOTS = 1000000000000"
definition DOLLARS :: u128 where "DOLLARS = DOTS"
definition CENTS :: u128 where "CENTS = DOLLARS div 100"
definition MILLICENTS :: u128 where "MILLICENTS = CENTS div 1000"

definition deposit :: "u32 \<Rightarrow> u32 \<Rightarrow> u128" where
  "deposit items size_bytes = ucast items * 15 * CENTS + ucast size_bytes * 6 * CENTS"

definition time_MILLISECS_PER_BLOCK :: u64 where "time_MILLISECS_PER_BLOCK = 6000"
definition SECS_PER_BLOCK :: u64 where "SECS_PER_BLOCK = time_MILLISECS_PER_BLOCK div 1000"
definition time_SLOT_DURATION :: u64 where "time_SLOT_DURATION = time_MILLISECS_PER_BLOCK"
definition time_MINUTES :: u32 where "time_MINUTES = 60 div ucast SECS_PER_BLOCK"
definition time_HOURS :: u32 where "time_HOURS = time_MINUTES * 60"
definition time_DAYS :: u32 where "time_DAYS = time_HOURS * 24"
definition EPOCH_DURATION_IN_BLOCKS :: u32 where "EPOCH_DURATION_IN_BLOCKS = 1 * time_HOURS"

text \<open>
  The slot fill rate of the code is the quotient of two equal constants in \<open>f64\<close>; the product with
  a block count is the exact quotient here.
\<close>

definition EPOCH_DURATION_IN_SLOTS :: u64 where
  "EPOCH_DURATION_IN_SLOTS =
     ucast EPOCH_DURATION_IN_BLOCKS * time_MILLISECS_PER_BLOCK div time_SLOT_DURATION"

section \<open>Constants of lib.rs\<close>

definition MILLISECS_PER_BLOCK :: u64 where "MILLISECS_PER_BLOCK = 6000"
definition SLOT_DURATION :: u64 where "SLOT_DURATION = MILLISECS_PER_BLOCK"
definition MINUTES :: u32 where "MINUTES = 60000 div ucast MILLISECS_PER_BLOCK"
definition HOURS :: u32 where "HOURS = MINUTES * 60"
definition DAYS :: u32 where "DAYS = HOURS * 24"

definition DepositBase :: u128 where "DepositBase = deposit 1 88"
definition DepositFactor :: u128 where "DepositFactor = deposit 0 32"
definition ProxyDepositBase :: u128 where "ProxyDepositBase = deposit 1 8"
definition ProxyDepositFactor :: u128 where "ProxyDepositFactor = deposit 0 33"
definition AnnouncementDepositBase :: u128 where "AnnouncementDepositBase = deposit 1 8"
definition AnnouncementDepositFactor :: u128 where "AnnouncementDepositFactor = deposit 0 66"

definition Period :: u32 where "Period = 20 * MINUTES"
definition SessionsPerEra :: u32 where "SessionsPerEra = 4"
definition BondingDuration :: u32 where "BondingDuration = 2 * 4"
definition SlashDeferDuration :: u32 where "SlashDeferDuration = 4"
definition ElectionLookahead :: u32 where "ElectionLookahead = EPOCH_DURATION_IN_BLOCKS div 4"
definition SessionDuration :: u32 where "SessionDuration = ucast EPOCH_DURATION_IN_SLOTS"
definition MinimumPeriod :: u64 where "MinimumPeriod = SLOT_DURATION div 2"
definition ExistentialDeposit :: u128 where "ExistentialDeposit = 500"

lemmas time_defs =
  time_MILLISECS_PER_BLOCK_def SECS_PER_BLOCK_def time_SLOT_DURATION_def time_MINUTES_def
  time_HOURS_def time_DAYS_def EPOCH_DURATION_IN_BLOCKS_def EPOCH_DURATION_IN_SLOTS_def
  MILLISECS_PER_BLOCK_def SLOT_DURATION_def MINUTES_def HOURS_def DAYS_def Period_def
  SessionsPerEra_def BondingDuration_def SlashDeferDuration_def ElectionLookahead_def
  SessionDuration_def MinimumPeriod_def

section \<open>The approval origin of the carbon pallet\<close>

text \<open>
  \<open>EnsureOneOf<EnsureRoot, EnsureProportionMoreThan<1, 2, CarbonCollective>>\<close>: the root, or an
  origin of the carbon committee by more than the given share of it, which is the collective
  pallet's to decide (the parameter \<open>more_than\<close>).
\<close>

definition carbon_approve_origin ::
    "(nat \<Rightarrow> nat \<Rightarrow> collective_origin \<Rightarrow> bool) \<Rightarrow> origin \<Rightarrow> bool" where
  "carbon_approve_origin more_than og =
     (case og of Root \<Rightarrow> True | Carbon_committee_origin c \<Rightarrow> more_than 1 2 c | _ \<Rightarrow> False)"

lemma carbon_approve_origin_signed [simp]: "\<not> carbon_approve_origin more_than (Signed a)"
  by (simp add: carbon_approve_origin_def)

section \<open>Balances as votes\<close>

text \<open>
  \<open>CurrencyToVoteHandler\<close> scales a balance to 64 bits by a factor computed from the total issuance
  of the currency (the argument \<open>issuance\<close>); \<open>as u64\<close> truncates.
\<close>

definition vote_factor :: "u128 \<Rightarrow> u128" where
  "vote_factor issuance = max (issuance div ucast (- 1 :: u64)) 1"

definition balance_to_vote :: "u128 \<Rightarrow> u128 \<Rightarrow> u64" where
  "balance_to_vote issuance x = ucast (x div vote_factor issuance)"

definition vote_to_balance :: "u128 \<Rightarrow> u128 \<Rightarrow> u128" where
  "vote_to_balance issuance x = x * vote_factor issuance"

lemma vote_factor_pos: "0 < unat (vote_factor issuance)"
proof -
  have "1 \<le> vote_factor issuance" by (simp add: vote_factor_def)
  then show ?thesis by (simp add: word_le_nat_alt)
qed

lemma unat_ucast_u64: "unat (x :: u128) < 2 ^ 64 \<Longrightarrow> unat (ucast x :: u64) = unat x"
  by (simp add: unsigned_ucast_eq take_bit_nat_eq_self)



end
