(* ===== verification/Exchange_Properties.thy ===== *)
theory Exchange_Properties
  imports Exchange_Escrow
begin

text \<open>
  The properties of \<open>pallets/carbon-exchange\<close>, each with an instance on a concrete market: the
  escrow is solvent over every run, makers get back what they put in, orders change only by their
  maker's cancellation or a deal, and the exchange neither makes nor loses units; and where the
  code departs from that.
\<close>

section \<open>A sample market\<close>

text \<open>
  A currency of natural-number balances with an existential deposit of 10, which meets the
  hypotheses, and the carbon state in which account \<open>1\<close> has 40 units of asset \<open>3001\<close>.
\<close>

definition sample_transfer :: "(account \<Rightarrow> nat, unit) currency_transfer" where
  "sample_transfer og b v c =
     (case ensure_signed og of
        None \<Rightarrow> (Inl (), c)
      | Some a \<Rightarrow>
          if a = b \<or> v = 0 then (Ok, c)
          else if c a < unat v \<or> c b + unat v < 10 then (Inl (), c)
          else (Ok, c(a := if c a - unat v < 10 then 0 else c a - unat v, b := c b + unat v)))"

lemma sample_transfer_laws: "currency_laws 10 (\<lambda>c. c) sample_transfer"
  unfolding currency_laws_def
proof (intro conjI allI impI)
  fix og b v c e c' assume "sample_transfer og b v c = (Inl e, c')"
  then show "c' = c" by (auto simp: sample_transfer_def split: option.splits if_splits)
next
  fix og b v c c' assume "sample_transfer og b v c = (Ok, c')"
  then show "\<exists>a. og = Signed a"
    by (auto simp: sample_transfer_def split: option.splits if_splits)
next
  fix a b v c c' assume "sample_transfer (Signed a) b v c = (Ok, c')"
  then show "if a = b \<or> v = 0 then c' = c else moves 10 (\<lambda>c. c) a b (unat v) c c'"
    by (auto simp: sample_transfer_def moves_def split: if_splits)
qed

definition sample_market :: "(account \<Rightarrow> nat) cx_state" where
  "sample_market = \<lparr>carbon = run_calls (ca_dispatch sample_env) carbon_setup ca_genesis,
     currency = (\<lambda>_. 1000), Orders = Map.empty, cx_events = []\<rparr>"

lemma sample_market_carbon:
  "ca_Balances (carbon sample_market) = [(3001, 1) \<mapsto> 40]"
  "has_asset (carbon sample_market) aid = (aid = 3001)"
  by (simp_all add: sample_market_def carbon_setup_def ca_eval has_asset_def)

lemma has_asset_balances: "has_asset (s\<lparr>ca_Balances := m\<rparr>) aid = has_asset s aid"
  by (simp add: has_asset_def)

lemma sample_market_fields [simp]:
  "Orders sample_market = Map.empty" "cx_events sample_market = []"
  "currency sample_market = (\<lambda>_. 1000)"
  by (simp_all add: sample_market_def)

lemma sample_market_holdings: "holdings (ca_Balances (carbon sample_market)) aid < 2 ^ 64"
proof (cases "aid = 3001")
  case True
  then show ?thesis
    using holdings_update [of Map.empty 3001 1 40] by (simp add: sample_market_carbon)
next
  case False
  then show ?thesis by (simp add: sample_market_carbon)
qed

lemma escrowed_initially:
  assumes "Orders w = Map.empty" and "ed \<le> free (currency w) pot"
    and "\<forall>aid. holdings (ca_Balances (carbon w)) aid < 2 ^ 64"
  shows "escrowed ed free pot w"
  using assms by (simp add: escrowed_def orders_wf_def asks_backed_def bids_backed_def
      asks_left_def bids_locked_def)

text \<open>Account \<open>1\<close> sells, account \<open>2\<close> bids, each deals with the other, and \<open>2\<close> cancels the rest.\<close>

definition sample_deals :: "(u64 \<times> origin \<times> cx_call) list" where
  "sample_deals =
     [(30, Signed 1, Make_order 3001 0 7 20 0 1), (31, Signed 2, Take_order 6001 5),
      (32, Signed 2, Make_order 3001 0 30 10 1 2), (33, Signed 1, Take_order 6002 4),
      (34, Signed 2, Cancel_order 6002)]"

lemmas cx_eval = cx_op_defs ca_eval has_asset_def ca_make_transfer_def

section \<open>The escrow is solvent\<close>

text \<open>
  C5. From a state without orders, in which the pot holds the existential deposit and every
  asset's balances together fit in 64 bits, any run of exchange calls (none signed by the pot, no
  BID whose value exceeds 64 bits) keeps the exchange solvent: the pot holds the units left in all
  ASK orders of every asset, and the locked balances of all BID orders on top of the existential
  deposit; and the lock of a BID order is what its remaining units cost.
\<close>

theorem cx_escrow_solvent:
  assumes "currency_laws ed free transfer" and "Orders w = Map.empty"
    and "ed \<le> free (currency w) (pot_account_id env)"
    and "\<forall>aid. holdings (ca_Balances (carbon w)) aid < 2 ^ 64"
    and "ok_run (cx_ok env) (cx_dispatch env transfer) cs w"
  shows "let w' = run_calls (cx_dispatch env transfer) cs w; pot = pot_account_id env
    in (\<forall>aid. asks_left aid w' \<le> unat (ca_balance (carbon w') aid pot)) \<and>
       ed + bids_locked w' \<le> free (currency w') pot \<and>
       (\<forall>oid order. Orders w' oid = Some order \<longrightarrow> order_wf pot (carbon w') order)"
proof -
  let ?w = "run_calls (cx_dispatch env transfer) cs w"
  have "currency_laws ed free transfer \<and> escrowed ed free (pot_account_id env) ?w"
    by (rule cx_escrow.run_inv [OF _ assms(5)])
      (intro conjI assms(1) escrowed_initially assms(2-4))
  then show ?thesis
    by (simp add: Let_def escrowed_def orders_wf_def asks_backed_def bids_backed_def)
qed

theorem cx_escrow_solvent_witness:
  "let w = run_calls (cx_dispatch sample_env sample_transfer) sample_deals sample_market
   in unat (ca_balance (carbon w) 3001 99) = 15 \<and> asks_left 3001 w \<le> 15 \<and>
      currency w 99 = 1000"
proof -
  let ?w = "run_calls (cx_dispatch sample_env sample_transfer) sample_deals sample_market"
  have c: "carbon sample_market = run_calls (ca_dispatch sample_env) carbon_setup ca_genesis"
    by (simp add: sample_market_def)
  have ok: "ok_run (cx_ok sample_env) (cx_dispatch sample_env sample_transfer) sample_deals
      sample_market"
    by (simp add: sample_deals_def cx_ok_def)
  have b: "unat (ca_balance (carbon ?w) 3001 99) = 15" "currency ?w 99 = 1000"
    by (simp_all add: sample_deals_def cx_eval sample_transfer_def sample_market_carbon
        saturating_mul_def c carbon_setup_def)
  have "asks_left 3001 ?w \<le> unat (ca_balance (carbon ?w) 3001 (pot_account_id sample_env))"
    using cx_escrow_solvent [OF sample_transfer_laws _ _ _ ok] sample_market_holdings
    by (simp add: Let_def)
  with b show ?thesis by (simp add: Let_def)
qed

section \<open>The pot holds nothing but the escrow\<close>

text \<open>What the pot has beyond the escrow of a state \<open>w0\<close> is what it has beyond that of \<open>w\<close>.\<close>

definition same_surplus ::
    "('c \<Rightarrow> account \<Rightarrow> nat) \<Rightarrow> account \<Rightarrow> 'c cx_state \<Rightarrow> 'c cx_state \<Rightarrow> bool" where
  "same_surplus free pot w0 w \<longleftrightarrow>
     (\<forall>aid. unat (ca_balance (carbon w) aid pot) + asks_left aid w0 =
        unat (ca_balance (carbon w0) aid pot) + asks_left aid w) \<and>
     free (currency w) pot + bids_locked w0 = free (currency w0) pot + bids_locked w"

lemma same_surplus_step:
  assumes laws: "currency_laws ed free transfer"
    and e: "escrowed ed free (pot_account_id env) w" and "cx_ok env c w"
    and "same_surplus free (pot_account_id env) w0 w"
  shows "same_surplus free (pot_account_id env) w0 (snd (cx_dispatch env transfer c w))"
proof -
  obtain t og k where c: "c = (t, og, k)" by (cases c)
  have st: "cx_step (env\<lparr>now := t\<rparr>) transfer og k w (snd (cx_dispatch env transfer c w))"
    using laws unfolding c by (rule cx_dispatch_step)
  have "og \<noteq> Signed (pot_account_id env)" using assms(3) by (simp add: cx_ok_def c)
  with pot_units_step [OF st] pot_money_step [OF st laws] e
  have "same_surplus free (pot_account_id env) w (snd (cx_dispatch env transfer c w))"
    by (simp add: same_surplus_def escrowed_def)
  with assms(4) show ?thesis unfolding same_surplus_def
  proof (elim conjE, intro conjI allI)
    fix aid
    assume "\<forall>aid. unat (ca_balance (carbon w) aid (pot_account_id env)) + asks_left aid w0 =
        unat (ca_balance (carbon w0) aid (pot_account_id env)) + asks_left aid w"
      and "\<forall>aid. unat (ca_balance (carbon (snd (cx_dispatch env transfer c w))) aid (pot_account_id env)) +
          asks_left aid w = unat (ca_balance (carbon w) aid (pot_account_id env)) +
          asks_left aid (snd (cx_dispatch env transfer c w))"
    from this [THEN spec [where x = aid]]
    show "unat (ca_balance (carbon (snd (cx_dispatch env transfer c w))) aid (pot_account_id env)) +
        asks_left aid w0 = unat (ca_balance (carbon w0) aid (pot_account_id env)) +
        asks_left aid (snd (cx_dispatch env transfer c w))" by linarith
  qed linarith
qed

interpretation cx_surplus: invariant_run "cx_dispatch env transfer" "cx_ok env"
    "\<lambda>w. currency_laws ed free transfer \<and> escrowed ed free (pot_account_id env) w \<and>
       same_surplus free (pot_account_id env) w0 w"
    for env transfer ed free w0
  by unfold_locales (blast intro: escrowed_step same_surplus_step)

text \<open>
  C16. Units and money go into the pot and come out of it exactly with the orders: over any run of
  exchange calls from an escrowed state (none signed by the pot, no BID order above 64 bits), the
  pot's balance of every asset changes by what the units left in its ASK orders change by, and the
  pot's money by what the locks of the BID orders change by. No call keeps back or gives away any of
  what is escrowed, and none takes from what the pot has besides.
\<close>

theorem cx_pot_exact:
  assumes "currency_laws ed free transfer" and "escrowed ed free (pot_account_id env) w"
    and "ok_run (cx_ok env) (cx_dispatch env transfer) cs w"
  shows "let w' = run_calls (cx_dispatch env transfer) cs w; pot = pot_account_id env
    in (\<forall>aid. unat (ca_balance (carbon w') aid pot) + asks_left aid w =
          unat (ca_balance (carbon w) aid pot) + asks_left aid w') \<and>
       free (currency w') pot + bids_locked w = free (currency w) pot + bids_locked w'"
proof -
  have "same_surplus free (pot_account_id env) w (run_calls (cx_dispatch env transfer) cs w)"
    using cx_surplus.run_inv [OF _ assms(3), of ed free w] assms(1,2)
    by (simp add: same_surplus_def)
  then show ?thesis by (simp add: same_surplus_def Let_def)
qed

theorem cx_pot_exact_witness:
  "let w = run_calls (cx_dispatch sample_env sample_transfer) (take 4 sample_deals) sample_market
   in asks_left 3001 w = 15 \<and> bids_locked w = 180"
proof -
  let ?w = "run_calls (cx_dispatch sample_env sample_transfer) (take 4 sample_deals) sample_market"
  have e: "escrowed 10 (\<lambda>c. c) (pot_account_id sample_env) sample_market"
    by (rule escrowed_initially) (simp_all only: sample_market_fields sample_env_simps sample_market_holdings, simp_all)
  have ok: "ok_run (cx_ok sample_env) (cx_dispatch sample_env sample_transfer) (take 4 sample_deals)
      sample_market"
    by (simp add: sample_deals_def cx_ok_def)
  have "ca_balance (carbon ?w) 3001 99 = 15" "currency ?w 99 = 1180"
    by (simp_all add: sample_deals_def cx_op_defs sample_market_carbon ca_balance_def vget_def Let_def
        ca_make_transfer_def vmutate_def sample_transfer_def saturating_mul_def has_asset_balances)
  moreover have "ca_balance (carbon sample_market) 3001 99 = 0" "asks_left 3001 sample_market = 0"
    "bids_locked sample_market = 0"
    by (simp_all add: sample_market_carbon ca_balance_def vget_def asks_left_def bids_locked_def)
  moreover note x = cx_pot_exact [OF sample_transfer_laws e ok, unfolded Let_def]
  note conjunct1 [OF x, THEN spec [of _ 3001]] conjunct2 [OF x]
  ultimately show ?thesis by (simp add: Let_def del: run_calls.simps)
qed

section \<open>Getting out what was put in\<close>

text \<open>
  C22. In an escrowed state the maker of an ASK order can always cancel it: the call succeeds,
  returns exactly the units left, debits the pot by them and removes the order.
\<close>

theorem cx_ask_order_cancellable:
  assumes "escrowed ed free (pot_account_id env) w" and "Orders w oid = Some order"
    and "or_direction order = 0"
  shows "\<exists>w'. cancel_order env transfer (Signed (or_maker order)) oid w = (Ok, w') \<and>
    Orders w' = (Orders w)(oid := None) \<and> currency w' = currency w \<and>
    (let aid = or_asset_id order; left = unat (or_left_amount order) in
       unat (ca_balance (carbon w') aid (or_maker order)) =
         unat (ca_balance (carbon w) aid (or_maker order)) + left \<and>
       unat (ca_balance (carbon w') aid (pot_account_id env)) + left =
         unat (ca_balance (carbon w) aid (pot_account_id env)))"
proof -
  let ?pot = "pot_account_id env" and ?aid = "or_asset_id order" and ?m = "or_maker order"
  have b: "asks_backed ?pot w" and wf: "orders_wf ?pot w"
    using assms(1) by (simp_all add: escrowed_def)
  have m: "?pot \<noteq> ?m" using orders_wfD [OF wf assms(2)] by (auto simp: order_wf_def)
  note le = ask_left_le [OF b assms(2,3)]
  have h: "(\<Sum>x\<in>UNIV. unat (ca_balance (carbon w) ?aid x)) < 2 ^ 64"
    using asks_backedD(2) [OF b, of ?aid] by (simp only: holdings_ca_balance)
  note ex = ca_ledger.move_exact [OF le h m]
  have "unat (or_left_amount order) \<le> unat (ca_balance (carbon w) ?aid ?pot)"
    using le by (simp add: word_le_nat_alt)
  with ex assms(2,3) show ?thesis
    by (simp add: cancel_order_def cancel_order_refund_def cx_deposit_event_def Let_def)
qed

theorem cx_ask_order_cancellable_witness:
  "let w = snd (cx_dispatch sample_env sample_transfer
             (30, Signed 1, Make_order 3001 0 7 20 0 1) sample_market)
   in \<exists>w'. cancel_order sample_env sample_transfer (Signed 1) 6001 w = (Ok, w') \<and>
        unat (ca_balance (carbon w') 3001 1) = 40"
proof -
  let ?c = "(30, Signed 1, Make_order 3001 0 7 20 0 1)"
  let ?w = "snd (cx_dispatch sample_env sample_transfer ?c sample_market)"
  let ?o = "new_order 3001 1 7 20 0 0 1"
  have "escrowed 10 (\<lambda>c. c) (pot_account_id sample_env) sample_market"
    using sample_market_holdings by (intro escrowed_initially) simp_all
  then have e: "escrowed 10 (\<lambda>c. c) (pot_account_id sample_env) ?w"
    by (rule escrowed_step [OF sample_transfer_laws]) (simp add: cx_ok_def)
  have o: "Orders ?w 6001 = Some ?o"
    and b: "ca_balance (carbon ?w) 3001 1 = 20"
    by (simp_all add: cx_op_defs sample_market_carbon new_order_def ca_balance_def vget_def Let_def
        ca_make_transfer_def vmutate_def)
  show ?thesis
    using cx_ask_order_cancellable [OF e o, of sample_transfer] b
    by (auto simp: new_order_def Let_def)
qed

text \<open>
  A BID order that is filled pays its lock out: when, in an escrowed state and with the
  documented currency, somebody takes all that is left of a BID order, the pot pays exactly the
  order's locked balance, the taker's units go to the maker, and the order is gone.
\<close>

theorem cx_bid_filled_pays_the_lock:
  assumes "currency_laws ed free transfer" and "escrowed ed free (pot_account_id env) w"
    and "Orders w oid = Some order" and "or_direction order = 1" and "a \<noteq> pot_account_id env"
    and "take_order env transfer (Signed a) oid (or_left_amount order) w = (Ok, w')"
  shows "free (currency w') (pot_account_id env) + unat (or_locked_balance order) =
      free (currency w) (pot_account_id env) \<and>
    Orders w' = (Orders w)(oid := None) \<and>
    carbon w' = moved (or_asset_id order) a (or_maker order) (or_left_amount order) w"
proof -
  let ?pot = "pot_account_id env" and ?left = "or_left_amount order"
  let ?w1 = "w\<lparr>carbon := moved (or_asset_id order) a (or_maker order) ?left w\<rparr>"
  have owf: "order_wf ?pot (carbon w) order" and b: "bids_backed ed free ?pot w"
    using assms(2,3) by (simp_all add: escrowed_def orders_wf_def)
  then have lock: "unat (or_locked_balance order) = unat ?left * unat (or_price order)"
    using assms(4) by (simp add: order_wf_def)
  then have m: "unat (saturating_mul ?left (or_price order)) = unat (or_locked_balance order)"
    using exact_part(1) [OF lock, of ?left] by simp
  then have m: "saturating_mul ?left (or_price order) = or_locked_balance order"
    by (rule unsigned_word_eqI)
  have le: "ed + unat (ucast (or_locked_balance order) :: u128) \<le> free (currency w) ?pot"
    using b bids_locked_cancelled [OF assms(3)] by (simp add: bids_backed_def bid_locked_def)
  from assms(1) show ?thesis
  proof (cases rule: currency_pay_cases [where og = "Signed ?pot" and b = a
        and v = "or_locked_balance order" and w = ?w1])
    case (paid c')
    have "free c' ?pot = free (currency w) ?pot - unat (or_locked_balance order)"
      using currency_pays [OF assms(1) _ le, of a c'] paid(2) assms(5) by simp
    with paid(1) le assms(3-6) m show ?thesis
      by (auto simp: take_order_def take_order_settle_def cx_deposit_event_def Let_def
          split: if_splits)
  next
    case (failed e)
    with assms(3-6) m show ?thesis
      by (auto simp: take_order_def take_order_settle_def Let_def split: if_splits)
  qed
qed

theorem cx_bid_filled_pays_the_lock_witness:
  "let w = snd (cx_dispatch sample_env sample_transfer
             (32, Signed 2, Make_order 3001 0 30 10 1 2) sample_market)
   in \<exists>w'. take_order sample_env sample_transfer (Signed 1) 6002 10 w = (Ok, w') \<and>
        currency w 99 = 1300 \<and> currency w' 99 = 1000 \<and> Orders w' 6002 = None"
proof -
  let ?c = "(32, Signed 2, Make_order 3001 0 30 10 1 2)"
  let ?w = "snd (cx_dispatch sample_env sample_transfer ?c sample_market)"
  let ?o = "new_order 3001 2 30 10 1 300 2"
  let ?w' = "snd (take_order sample_env sample_transfer (Signed 1) 6002 (or_left_amount ?o) ?w)"
  have "escrowed 10 (\<lambda>c. c) (pot_account_id sample_env) sample_market"
    using sample_market_holdings by (intro escrowed_initially) simp_all
  then have e: "escrowed 10 (\<lambda>c. c) (pot_account_id sample_env) ?w"
    by (rule escrowed_step [OF sample_transfer_laws]) (simp add: cx_ok_def)
  have o: "Orders ?w 6002 = Some ?o" and c: "currency ?w 99 = 1300"
    and t: "take_order sample_env sample_transfer (Signed 1) 6002 (or_left_amount ?o) ?w = (Ok, ?w')"
    by (simp_all add: cx_op_defs sample_market_carbon new_order_def ca_balance_def vget_def Let_def
        ca_make_transfer_def vmutate_def sample_transfer_def saturating_mul_def)
  have "currency ?w' 99 + 300 = currency ?w 99 \<and> Orders ?w' = (Orders ?w)(6002 := None)"
    using cx_bid_filled_pays_the_lock [OF sample_transfer_laws e o _ _ t]
    by (simp add: new_order_def)
  with c t show ?thesis by (auto simp: Let_def new_order_def)
qed

section \<open>What a call can change\<close>

definition order_dealt :: "u64 \<Rightarrow> Order \<Rightarrow> Order \<Rightarrow> bool" where
  "order_dealt amount order order' \<longleftrightarrow>
     order' = order\<lparr>or_left_amount := or_left_amount order - amount,
       or_locked_balance := or_locked_balance order -
         (if or_direction order = 0 then 0 else saturating_mul amount (or_price order))\<rparr>"

lemma remaining_at:
  "remaining_orders oid order amount m oid =
     (if amount = or_left_amount order then None
      else Some (order\<lparr>or_left_amount := or_left_amount order - amount\<rparr>))"
  by (auto simp: remaining_orders_def word_gt_0)

lemma remaining_other: "j \<noteq> oid \<Longrightarrow> remaining_orders oid order amount m j = m j"
  by (simp add: remaining_orders_def)

text \<open>
  C18. An order changes for two reasons only. If an entry of the order book is changed or gone
  after a call, then either its own maker cancelled it and it is gone, or somebody took part of it,
  at most what was left: then it is gone if nothing is left, and otherwise only its left amount and
  (for a BID) its lock went down, by the amount taken and its price.
\<close>

theorem cx_order_changes_for_a_reason:
  assumes "currency_laws ed free transfer" and "Orders w oid = Some order"
    and "w' = snd (cx_dispatch env transfer (t, og, k) w)" and "Orders w' oid \<noteq> Some order"
  shows "(k = Cancel_order oid \<and> og = Signed (or_maker order) \<and> Orders w' oid = None) \<or>
    (\<exists>a amount. k = Take_order oid amount \<and> og = Signed a \<and> amount \<le> or_left_amount order \<and>
       (if amount = or_left_amount order then Orders w' oid = None
        else \<exists>order'. Orders w' oid = Some order' \<and> order_dealt amount order order'))"
proof -
  from assms(1) have "cx_step (env\<lparr>now := t\<rparr>) transfer og k w w'"
    unfolding assms(3) by (rule cx_dispatch_step)
  then show ?thesis
  proof cases
    case (step_make_ask a aid price amount salt oid' es)
    with assms(2,4) show ?thesis by (cases "oid' = oid") simp_all
  next
    case (step_make_bid a aid price amount salt oid' locked c' es)
    with assms(2,4) show ?thesis by (cases "oid' = oid") simp_all
  next
    case (step_take_ask a oid' amount order' c' es)
    with assms(2,4) show ?thesis
      by (cases "oid' = oid") (simp_all add: remaining_at remaining_other order_dealt_def)
  next
    case (step_take_bid a oid' amount order' money c' es)
    with assms(2,4) show ?thesis
      by (cases "oid' = oid") (simp_all add: remaining_at remaining_other order_dealt_def)
  next
    case (step_cancel_ask a oid' order' es)
    with assms(2,4) show ?thesis by (cases "oid' = oid") simp_all
  next
    case (step_cancel_bid a oid' order' c' es)
    with assms(2,4) show ?thesis by (cases "oid' = oid") simp_all
  qed (use assms(2,4) in simp_all)
qed

theorem cx_order_changes_for_a_reason_witness:
  "let w = run_calls (cx_dispatch sample_env sample_transfer) (take 3 sample_deals) sample_market;
       w' = snd (cx_dispatch sample_env sample_transfer (33, Signed 1, Take_order 6002 4) w)
   in \<exists>order'. Orders w' 6002 = Some order' \<and>
        order_dealt 4 (new_order 3001 2 30 10 1 300 2) order'"
proof -
  let ?w = "run_calls (cx_dispatch sample_env sample_transfer) (take 3 sample_deals) sample_market"
  let ?w' = "snd (cx_dispatch sample_env sample_transfer (33, Signed 1, Take_order 6002 4) ?w)"
  have o: "Orders ?w 6002 = Some (new_order 3001 2 30 10 1 300 2)"
    and d: "Orders ?w' 6002 \<noteq> Some (new_order 3001 2 30 10 1 300 2)"
    by (simp_all add: sample_deals_def cx_op_defs sample_market_carbon new_order_def ca_balance_def
        vget_def Let_def ca_make_transfer_def vmutate_def sample_transfer_def saturating_mul_def
        has_asset_balances)
  from cx_order_changes_for_a_reason [OF sample_transfer_laws o refl d]
  show ?thesis by (simp add: Let_def new_order_def)
qed

lemma carbon_after_pay: "currency_pay transfer og b v w = (r, w') \<Longrightarrow> carbon w' = carbon w"
  by (auto simp: currency_pay_def split: prod.splits sum.splits)

text \<open>
  The exchange neither makes nor loses carbon units and touches no other storage of the carbon
  pallet: whatever a call does, succeeding or failing and however the currency behaves, the sum of
  every asset's balances (modulo \<open>2 ^ 64\<close>), all projects, assets, issues, burns and carbon events
  are what they were.
\<close>

theorem cx_units_conserved:
  "let s = carbon w; s' = carbon (snd (cx_dispatch env transfer c w))
   in units (ca_Balances s') aid = units (ca_Balances s) aid \<and> Projects s' = Projects s \<and>
      Assets s' = Assets s \<and> Issues s' = Issues s \<and> Burns s' = Burns s \<and>
      ca_events s' = ca_events s"
proof -
  obtain t og k where c: "c = (t, og, k)" by (cases c)
  show ?thesis
    unfolding c
    by (cases k; cases "ensure_signed og")
      (auto simp: make_order_def make_order_lock_def take_order_def take_order_settle_def
        cancel_order_def cancel_order_refund_def cx_deposit_event_def Let_def
        split: option.splits prod.splits sum.splits if_splits dest!: carbon_after_pay)
qed

section \<open>Failing calls\<close>

lemma currency_pay_fails:
  assumes "currency_pay transfer og b v w = (Inl e, w')" and "currency_laws ed free transfer"
  shows "w' = w \<and> (\<exists>x. e = Module_error (Currency_error x) \<and>
    transfer og b (ucast v) (currency w) = (Inl x, currency w))"
  using assms(2)
  by (cases rule: currency_pay_cases [where og = og and b = b and v = v and w = w])
    (use assms(1) in auto)

text \<open>
  A failing exchange call leaves the state as it was, with one exception: a \<open>take_order\<close> of a
  BID order that the currency refuses to pay, which leaves the units with the maker.
\<close>

theorem cx_failing_calls:
  assumes "currency_laws ed free transfer"
    and "cx_dispatch env transfer (t, og, k) w = (Inl e, w')"
  shows "w' = w \<or>
    (\<exists>oid amount order a x. k = Take_order oid amount \<and> og = Signed a \<and>
       Orders w oid = Some order \<and> or_direction order \<noteq> 0 \<and>
       e = Module_error (Currency_error x) \<and>
       w' = w\<lparr>carbon := moved (or_asset_id order) a (or_maker order) amount w\<rparr>)"
proof -
  note fails = currency_pay_fails [OF _ assms(1)]
  show ?thesis
    using assms(2)
    by (cases k; cases "ensure_signed og")
      (auto simp: make_order_def make_order_lock_def take_order_def take_order_settle_def
        cancel_order_def cancel_order_refund_def Let_def
        split: option.splits prod.splits sum.splits if_splits dest!: fails)
qed

theorem cx_failing_calls_witness:
  "cx_dispatch sample_env sample_transfer (40, Signed 5, Make_order 3001 0 7 20 0 1) sample_market
     = (cx_err InsuffientAsset, sample_market)"
proof -
  let ?r = "cx_dispatch sample_env sample_transfer (40, Signed 5, Make_order 3001 0 7 20 0 1)
    sample_market"
  have f: "?r = (cx_err InsuffientAsset, snd ?r)"
    by (simp add: make_order_def make_order_lock_def sample_market_carbon ca_balance_def vget_def
        Let_def)
  have "snd ?r = sample_market"
    using cx_failing_calls [OF sample_transfer_laws f] by simp
  with f show ?thesis by (simp add: prod_eq_iff)
qed

text \<open>
  C33. Taking a BID order is not atomic: the units move to the maker before the pot pays, and when
  the currency refuses (for instance because the payment would leave the taker below the
  existential deposit) the call fails with the units gone: the taker has lost the amount, the maker
  has it, nobody was paid, and the order still offers to buy as much as before.
\<close>

theorem cx_bid_take_not_atomic:
  assumes "Orders w oid = Some order" and "or_direction order \<noteq> 0"
    and "amount \<le> or_left_amount order" and "amount \<le> ca_balance (carbon w) (or_asset_id order) a"
    and "a \<noteq> or_maker order"
    and "transfer (Signed (pot_account_id env)) a
      (ucast (saturating_mul amount (or_price order))) (currency w) = (Inl x, currency w)"
  shows "\<exists>w'. take_order env transfer (Signed a) oid amount w = (Err (Currency_error x), w') \<and>
    (let aid = or_asset_id order; m = or_maker order in
       ca_balance (carbon w') aid a = ca_balance (carbon w) aid a - amount \<and>
       ca_balance (carbon w') aid m = ca_balance (carbon w) aid m + amount) \<and>
    Orders w' = Orders w \<and> currency w' = currency w"
proof -
  let ?w' = "w\<lparr>carbon := moved (or_asset_id order) a (or_maker order) amount w\<rparr>"
  have "take_order env transfer (Signed a) oid amount w = (Err (Currency_error x), ?w')"
    using assms by (simp add: take_order_def take_order_settle_def currency_pay_def Let_def)
  with assms(5) show ?thesis by (simp add: Let_def ca_ledger.bal_move)
qed

theorem cx_bid_take_not_atomic_witness:
  "let w = snd (cx_dispatch sample_env sample_transfer
             (32, Signed 2, Make_order 3001 0 1 4 1 2) (sample_market\<lparr>currency := (\<lambda>_. 1000)(1 := 0)\<rparr>))
   in \<exists>w'. take_order sample_env sample_transfer (Signed 1) 6002 4 w = (Err (Currency_error ()), w')
        \<and> ca_balance (carbon w') 3001 1 = 36 \<and> ca_balance (carbon w') 3001 2 = 4 \<and>
        currency w' 1 = 0 \<and> Orders w' 6002 = Some (new_order 3001 2 1 4 1 4 2)"
proof -
  let ?w = "snd (cx_dispatch sample_env sample_transfer (32, Signed 2, Make_order 3001 0 1 4 1 2)
    (sample_market\<lparr>currency := (\<lambda>_. 1000)(1 := 0)\<rparr>))"
  let ?o = "new_order 3001 2 1 4 1 4 2"
  have o: "Orders ?w 6002 = Some ?o" and c: "currency ?w = (\<lambda>_. 1000)(1 := 0, 2 := 996, 99 := 1004)"
    and b: "ca_balance (carbon ?w) 3001 1 = 40" "ca_balance (carbon ?w) 3001 2 = 0"
    by (simp_all add: cx_op_defs sample_market_carbon new_order_def ca_balance_def vget_def Let_def
        sample_transfer_def saturating_mul_def fun_upd_twist fun_eq_iff)
  have x: "sample_transfer (Signed (pot_account_id sample_env)) 1
      (ucast (saturating_mul 4 (or_price ?o))) (currency ?w) = (Inl (), currency ?w)"
    unfolding c by (simp add: sample_transfer_def new_order_def saturating_mul_def)
  show ?thesis
    using cx_bid_take_not_atomic [where w = ?w and oid = 6002 and order = ?o and a = 1
        and amount = 4 and env = sample_env and transfer = sample_transfer and x = "()",
        OF o _ _ _ _ x] o b c
    by (auto simp: new_order_def Let_def)
qed

lemma ucast_u128_0 [simp]: "(ucast (v :: u64) :: u128) = 0 \<longleftrightarrow> v = 0"
  by (metis unat_eq_0 unat_ucast_u128)

text \<open>
  C34. A BID order whose value exceeds 64 bits locks \<open>2 ^ 64 - 1\<close> only (the multiplication
  saturates), and \<open>take_order\<close> does not check the lock: when a part that costs more than what is
  still locked is taken, the pot pays the full price, out of what it holds for other orders, and
  the order's lock wraps around to a huge value that its maker can then cancel for.
\<close>

theorem cx_saturated_lock_overdrawn:
  assumes "currency_laws ed free transfer" and "Orders w oid = Some order"
    and "or_direction order = 1" and "amount < or_left_amount order" and "a \<noteq> pot_account_id env"
    and "or_locked_balance order < saturating_mul amount (or_price order)"
    and "take_order env transfer (Signed a) oid amount w = (Ok, w')"
  shows "free (currency w') (pot_account_id env) + unat (or_locked_balance order) <
      free (currency w) (pot_account_id env) \<and>
    (\<exists>order'. Orders w' oid = Some order' \<and>
       unat (or_locked_balance order') =
         2 ^ 64 + unat (or_locked_balance order) - unat (saturating_mul amount (or_price order)))"
proof -
  let ?pot = "pot_account_id env" and ?money = "saturating_mul amount (or_price order)"
  let ?w1 = "w\<lparr>carbon := moved (or_asset_id order) a (or_maker order) amount w\<rparr>"
  have lt: "unat (or_locked_balance order) < unat ?money"
    using assms(6) by (simp add: word_less_nat_alt)
  have left: "0 < or_left_amount order - amount"
    using assms(4) by (simp add: word_gt_0)
  from assms(1) show ?thesis
  proof (cases rule: currency_pay_cases [where og = "Signed ?pot" and b = a and v = ?money
        and w = ?w1])
    case (paid c')
    have "?money \<noteq> 0" using lt by auto
    then have "moves ed free ?pot a (unat ?money) (currency w) c'"
      using currency_moves [OF assms(1) paid(2)] assms(5) by auto
    then have "unat ?money \<le> free (currency w) ?pot" "free c' ?pot \<le> free (currency w) ?pot - unat ?money"
      by (simp_all add: moves_def)
    with lt have pot: "free c' ?pot + unat (or_locked_balance order) < free (currency w) ?pot"
      by linarith
    have "unat (or_locked_balance order - ?money) =
        2 ^ 64 + unat (or_locked_balance order) - unat ?money"
      using unat_sub_if_size [of "or_locked_balance order" ?money] lt
      by (simp add: word_size not_le)
    with pot paid(1) assms(2,3,4,7) left show ?thesis
      by (auto simp: take_order_def take_order_settle_def cx_deposit_event_def Let_def
          split: if_splits)
  next
    case (failed e)
    with assms(2,3,7) show ?thesis
      by (auto simp: take_order_def take_order_settle_def Let_def split: if_splits)
  qed
qed

theorem cx_saturated_lock_overdrawn_witness:
  "let w = run_calls (cx_dispatch sample_env sample_transfer)
         [(50, Signed 2, Make_order 3001 0 (2 ^ 63) 4 1 2), (51, Signed 1, Take_order 6002 1)]
         (sample_market\<lparr>currency := \<lambda>_. 2 ^ 70\<rparr>);
       w' = snd (take_order sample_env sample_transfer (Signed 1) 6002 1 w)
   in map_option or_locked_balance (Orders w 6002) = Some (2 ^ 63 - 1) \<and>
      map_option or_locked_balance (Orders w' 6002) = Some (- 1) \<and>
      currency w' 99 + (2 ^ 63 - 1) < currency w 99"
proof -
  let ?w = "run_calls (cx_dispatch sample_env sample_transfer)
         [(50, Signed 2, Make_order 3001 0 (2 ^ 63) 4 1 2), (51, Signed 1, Take_order 6002 1)]
         (sample_market\<lparr>currency := \<lambda>_. 2 ^ 70\<rparr>)"
  let ?w' = "snd (take_order sample_env sample_transfer (Signed 1) 6002 1 ?w)"
  let ?o = "(new_order 3001 2 (2 ^ 63) 4 1 (2 ^ 63 - 1) 2)\<lparr>or_left_amount := 3\<rparr>"
  have o: "Orders ?w 6002 = Some ?o"
    and t: "take_order sample_env sample_transfer (Signed 1) 6002 1 ?w = (Ok, ?w')"
    and l: "map_option or_locked_balance (Orders ?w' 6002) = Some (- 1)"
    by (simp_all add: cx_op_defs sample_market_carbon new_order_def ca_balance_def vget_def Let_def
        ca_make_transfer_def vmutate_def sample_transfer_def saturating_mul_def
        unsigned_minus_1_eq_mask mask_eq_exp_minus_1)
  have "currency ?w' 99 + unat (or_locked_balance ?o) < currency ?w 99"
    using cx_saturated_lock_overdrawn [where a = 1 and env = sample_env,
        OF sample_transfer_laws o _ _ _ _ t]
    by (simp add: new_order_def saturating_mul_def)
  with o l show ?thesis by (simp add: Let_def new_order_def)
qed

text \<open>
  Making an ASK order, exactly: it succeeds if and only if it is signed, the money is ECO2 (the
  zero hash), price and amount are positive, the asset is approved, its id is free and the maker has
  the units; then the order is stored with everything left and nothing locked and the units are in
  the pot. With a direction that is neither ASK nor BID \<open>make_order\<close> always fails and writes nothing.
\<close>

theorem cx_make_ask_order_exactly:
  "(fst (make_order env transfer og aid mid price amount 0 salt w) = Ok \<longleftrightarrow>
     (case ensure_signed og of None \<Rightarrow> False
      | Some a \<Rightarrow> mid = 0 \<and> price \<noteq> 0 \<and> amount \<noteq> 0 \<and> has_asset (carbon w) aid \<and>
          Orders w (hash_of env (Pre_order a aid 0 price amount 0 salt)) = None \<and>
          amount \<le> ca_balance (carbon w) aid a \<and>
          (let w' = snd (make_order env transfer og aid mid price amount 0 salt w) in
             Orders w' (hash_of env (Pre_order a aid 0 price amount 0 salt))
               = Some (new_order aid a price amount 0 0 salt) \<and>
             carbon w' = moved aid a (pot_account_id env) amount w \<and> currency w' = currency w))) \<and>
   (\<exists>e. direction = 0 \<or> direction = 1 \<or>
      make_order env transfer og aid mid price amount direction salt w = (Inl e, w))"
proof
  show "fst (make_order env transfer og aid mid price amount 0 salt w) = Ok \<longleftrightarrow>
     (case ensure_signed og of None \<Rightarrow> False
      | Some a \<Rightarrow> mid = 0 \<and> price \<noteq> 0 \<and> amount \<noteq> 0 \<and> has_asset (carbon w) aid \<and>
          Orders w (hash_of env (Pre_order a aid 0 price amount 0 salt)) = None \<and>
          amount \<le> ca_balance (carbon w) aid a \<and>
          (let w' = snd (make_order env transfer og aid mid price amount 0 salt w) in
             Orders w' (hash_of env (Pre_order a aid 0 price amount 0 salt))
               = Some (new_order aid a price amount 0 0 salt) \<and>
             carbon w' = moved aid a (pot_account_id env) amount w \<and> currency w' = currency w))"
    by (cases og) (auto simp: make_order_def make_order_lock_def cx_deposit_event_def new_order_def
        Let_def word_gt_0)
  show "\<exists>e. direction = 0 \<or> direction = 1 \<or>
      make_order env transfer og aid mid price amount direction salt w = (Inl e, w)"
    by (cases og) (auto simp: make_order_def make_order_lock_def Let_def)
qed

text \<open>
  Documented of the currency: a payment that leaves its sender with less than the existential deposit
  reaps the account, whose remainder is lost (the pot reserves nothing).
\<close>

definition reaps ::
    "nat \<Rightarrow> ('c \<Rightarrow> account \<Rightarrow> nat) \<Rightarrow> ('c, 'x) currency_transfer \<Rightarrow> account \<Rightarrow> bool" where
  "reaps ed free transfer pot \<longleftrightarrow>
     (\<forall>b v c c'. transfer (Signed pot) b v c = (Ok, c') \<longrightarrow> b \<noteq> pot \<longrightarrow> v \<noteq> 0 \<longrightarrow>
        free c pot < ed + unat v \<longrightarrow> free c' pot = 0)"

lemma sample_reaps: "reaps 10 (\<lambda>c. c) sample_transfer 99"
  by (auto simp: reaps_def sample_transfer_def split: if_splits)

lemma broke_pot_pays_nothing:
  assumes "currency_laws ed free transfer" and "free c pot = 0" and "b \<noteq> pot" and "v \<noteq> 0"
  shows "\<exists>x. transfer (Signed pot) b v c = (Inl x, c)"
proof (cases "transfer (Signed pot) b v c")
  case (Pair r c')
  show ?thesis
  proof (cases r)
    case (Inl x)
    with Pair currency_fail [OF assms(1)] show ?thesis by metis
  next
    case (Inr u)
    with Pair currency_moves [OF assms(1), of pot b v c c'] assms(2-4) have "unat v = 0"
      by (auto simp: moves_def)
    with assms(4) show ?thesis by (simp add: unat_eq_0)
  qed
qed

lemma broke_pot_keeps_locks:
  assumes laws: "currency_laws ed free transfer" and p: "free (currency w) (pot_account_id env) = 0"
    and o: "Orders w oid = Some order" "or_direction order \<noteq> 0"
    and "or_maker order \<noteq> pot_account_id env" and "or_locked_balance order \<noteq> 0"
  shows "\<exists>e. cancel_order env transfer og oid w = (Inl e, w)"
proof (cases "og = Signed (or_maker order)")
  case True
  have "(ucast (or_locked_balance order) :: u128) \<noteq> 0"
    using assms(6) by (metis unat_0 unat_eq_0 unat_ucast_u128)
  from broke_pot_pays_nothing [where free = free, OF laws p assms(5) this]
  show ?thesis
    by (auto simp: True o cancel_order_def cancel_order_refund_def currency_pay_def Let_def)
next
  case False
  then show ?thesis by (cases og) (auto simp: o cancel_order_def)
qed

lemma broke_pot_makes_no_deal:
  assumes laws: "currency_laws ed free transfer" and p: "free (currency w) (pot_account_id env) = 0"
    and o: "Orders w oid = Some order" "or_direction order \<noteq> 0" "or_price order \<noteq> 0"
    and b: "b \<noteq> pot_account_id env" and "n \<noteq> 0"
  shows "\<exists>e. fst (take_order env transfer (Signed b) oid n w) = Inl e"
proof -
  let ?v = "saturating_mul n (or_price order)"
  have "0 < unat n * unat (or_price order)" using o(3) assms(7) by (simp add: unat_gt_0)
  then have "0 < unat ?v" by (simp add: unat_saturating_mul)
  then have "(ucast ?v :: u128) \<noteq> 0" by (metis unat_0 less_irrefl unat_ucast_u128)
  from broke_pot_pays_nothing [where free = free, OF laws p b this] show ?thesis
    by (auto simp: o take_order_def take_order_settle_def currency_pay_def Let_def)
qed

text \<open>
  C35. The pot is an ordinary account and can be reaped with locks in it. With a currency that reaps
  accounts below the existential deposit: whenever a deal on a BID order takes only a part of it and
  the pot would keep less than the existential deposit, the deal empties the pot. The order stays in
  the book with the price of its remaining units recorded as locked, but that money is gone: nobody
  can cancel the order any more, and as long as nobody pays into the pot, every further deal of a
  non-zero amount on it fails.
\<close>

theorem cx_pot_can_be_reaped:
  assumes "currency_laws ed free transfer" and "reaps ed free transfer (pot_account_id env)"
    and "orders_wf (pot_account_id env) w" and "Orders w oid = Some order"
    and "or_direction order = 1" and "amount < or_left_amount order" and "amount \<noteq> 0"
    and "free (currency w) (pot_account_id env) < ed + unat amount * unat (or_price order)"
    and "a \<noteq> pot_account_id env"
    and "take_order env transfer (Signed a) oid amount w = (Ok, w')"
  shows "free (currency w') (pot_account_id env) = 0 \<and>
    (\<exists>order'. Orders w' oid = Some order' \<and>
       unat (or_locked_balance order') = unat (or_left_amount order - amount) * unat (or_price order) \<and>
       0 < unat (or_locked_balance order')) \<and>
    (\<forall>og. \<exists>e. cancel_order env transfer og oid w' = (Inl e, w')) \<and>
    (\<forall>b n. b \<noteq> pot_account_id env \<and> n \<noteq> 0 \<longrightarrow>
       (\<exists>e. fst (take_order env transfer (Signed b) oid n w') = Inl e))"
proof -
  let ?pot = "pot_account_id env" and ?money = "saturating_mul amount (or_price order)"
  have wf: "order_wf ?pot (carbon w) order" using assms(3,4) by (simp add: orders_wf_def)
  then have lock: "unat (or_locked_balance order) = unat (or_left_amount order) * unat (or_price order)"
    and price: "or_price order \<noteq> 0" and maker: "or_maker order \<noteq> ?pot"
    using assms(5) by (auto simp: order_wf_def word_gt_0)
  note le = order.strict_implies_order [OF assms(6)]
  note part = exact_part [OF lock le]
  let ?left = "or_left_amount order - amount" and ?locked = "or_locked_balance order - ?money"
  have left: "0 < ?left" using assms(6) by (metis left_minus [OF le] order_less_irrefl)
  obtain c' where c': "transfer (Signed ?pot) a (ucast ?money) (currency w) = (Ok, c')"
    and w': "currency w' = c'"
      "Orders w' oid = Some (order\<lparr>or_locked_balance := ?locked, or_left_amount := ?left\<rparr>)"
    using assms(4,5,10) le left
    by (auto simp: take_order_def take_order_settle_def currency_pay_def cx_deposit_event_def Let_def
        split: if_splits prod.splits sum.splits)
  have "?money \<noteq> 0" using part(1) price assms(7) by (auto simp: unat_eq_0)
  then have "(ucast ?money :: u128) \<noteq> 0" by (metis unat_0 unat_eq_0 unat_ucast_u128)
  then have broke: "free (currency w') ?pot = 0"
    using assms(2,8,9) c' part(1) unfolding reaps_def w'(1) by (metis unat_ucast_u128)
  have "0 < unat ?left * unat (or_price order)"
    using left price by (metis nat_0_less_mult_iff unat_gt_0 word_gt_0)
  then have "?locked \<noteq> 0" using part(3) by auto
  with broke_pot_keeps_locks [where free = free, OF assms(1) broke w'(2)]
    broke_pot_makes_no_deal [where free = free, OF assms(1) broke w'(2)] broke w'(2) part(3)
    assms(5) maker price
  show ?thesis by (auto simp: unat_gt_0)
qed

theorem cx_pot_can_be_reaped_witness:
  "let w = snd (cx_dispatch sample_env sample_transfer (60, Signed 2, Make_order 3001 0 1 20 1 2)
         (sample_market\<lparr>currency := (\<lambda>_. 1000)(99 := 0)\<rparr>));
       w' = snd (take_order sample_env sample_transfer (Signed 1) 6002 15 w)
   in currency w 99 = 20 \<and> currency w' 99 = 0 \<and>
      (\<exists>order. Orders w' 6002 = Some order \<and> unat (or_locked_balance order) = 5) \<and>
      (\<exists>e. cancel_order sample_env sample_transfer (Signed 2) 6002 w' = (Inl e, w'))"
proof -
  let ?w = "snd (cx_dispatch sample_env sample_transfer (60, Signed 2, Make_order 3001 0 1 20 1 2)
         (sample_market\<lparr>currency := (\<lambda>_. 1000)(99 := 0)\<rparr>))"
  let ?t = "take_order sample_env sample_transfer (Signed 1) 6002 15 ?w"
  note ev = cx_op_defs sample_market_carbon ca_balance_def vget_def Let_def ca_make_transfer_def
    vmutate_def sample_transfer_def saturating_mul_def
  have o: "Orders ?w = [6002 \<mapsto> new_order 3001 2 1 20 1 20 2]"
    and c: "currency ?w 99 = 20"
    and t: "fst ?t = Ok"
    by (simp_all add: ev new_order_def)
  have wf: "orders_wf (pot_account_id sample_env) ?w"
    by (simp add: orders_wf_def order_wf_def o) (simp add: ev new_order_def)
  have "?t = (Ok, snd ?t)" using t by (simp add: prod_eq_iff)
  from cx_pot_can_be_reaped [OF sample_transfer_laws _ wf _ _ _ _ _ _ this, of "new_order 3001 2 1 20 1 20 2"]
  show ?thesis
    using sample_reaps o c by (auto simp: new_order_def Let_def)
qed

end
