(* ===== verification/Runtime.thy ===== *)
theory Runtime
  imports Runtime_Calls Runtime_Config Exchange_Properties
begin

text \<open>
  The three pallets together, as the runtime composes them: one state, calls of the pallets in any
  order, and between them whatever other pallets do to the native currency. The invariants of the
  pallets hold jointly: carbon calls keep the exchange's escrow, exchange calls keep the carbon
  accounting.
\<close>

section \<open>The joint state and its calls\<close>

record 'c runtime_state =
  exchange :: "'c cx_state"
  standard :: sa_state

datatype 'c eco2_call =
    Carbon_assets ca_call
  | Standard_assets sa_call
  | Carbon_exchange cx_call
  | Other_pallet 'c

datatype 'x runtime_error =
    Carbon_assets_error "ca_error dispatch_error"
  | Standard_assets_error "sa_error dispatch_error"
  | Carbon_exchange_error "'x cx_failure dispatch_error"

definition runtime_genesis :: "'c \<Rightarrow> 'c runtime_state" where
  "runtime_genesis c = \<lparr>exchange = \<lparr>carbon = ca_genesis, currency = c, Orders = Map.empty,
     cx_events = []\<rparr>, standard = sa_genesis\<rparr>"

text \<open>The result of a call with its error injected into the runtime's.\<close>

fun in_runtime :: "('e \<Rightarrow> 'f) \<Rightarrow> 'e + unit \<Rightarrow> 'f + unit" where
  "in_runtime f (Inl e) = Inl (f e)"
| "in_runtime f (Inr u) = Inr u"

fun runtime_dispatch ::
    "env \<Rightarrow> ('c, 'x) currency_transfer \<Rightarrow> u64 \<times> origin \<times> 'c eco2_call \<Rightarrow> 'c runtime_state
     \<Rightarrow> ('x runtime_error + unit) \<times> 'c runtime_state" where
  "runtime_dispatch env transfer (t, og, Carbon_assets k) r =
     (case ca_dispatch env (t, og, k) (carbon (exchange r)) of (res, s) \<Rightarrow>
        (in_runtime Carbon_assets_error res, r\<lparr>exchange := (exchange r)\<lparr>carbon := s\<rparr>\<rparr>))"
| "runtime_dispatch env transfer (t, og, Standard_assets k) r =
     (case sa_dispatch env (t, og, k) (standard r) of (res, s) \<Rightarrow>
        (in_runtime Standard_assets_error res, r\<lparr>standard := s\<rparr>))"
| "runtime_dispatch env transfer (t, og, Carbon_exchange k) r =
     (case cx_dispatch env transfer (t, og, k) (exchange r) of (res, w) \<Rightarrow>
        (in_runtime Carbon_exchange_error res, r\<lparr>exchange := w\<rparr>))"
| "runtime_dispatch env transfer (t, og, Other_pallet c) r =
     (Ok, r\<lparr>exchange := (exchange r)\<lparr>currency := c\<rparr>\<rparr>)"

lemma exchange_runtime_dispatch [simp]:
  "exchange (snd (runtime_dispatch env transfer (t, og, Carbon_assets k) r)) =
     (exchange r)\<lparr>carbon := snd (ca_dispatch env (t, og, k) (carbon (exchange r)))\<rparr>"
  "exchange (snd (runtime_dispatch env transfer (t, og, Standard_assets j) r)) = exchange r"
  "exchange (snd (runtime_dispatch env transfer (t, og, Carbon_exchange l) r)) =
     snd (cx_dispatch env transfer (t, og, l) (exchange r))"
  "exchange (snd (runtime_dispatch env transfer (t, og, Other_pallet c) r)) =
     (exchange r)\<lparr>currency := c\<rparr>"
  by (simp_all split: prod.split)

lemma standard_runtime_dispatch [simp]:
  "standard (snd (runtime_dispatch env transfer (t, og, Carbon_assets k) r)) = standard r"
  "standard (snd (runtime_dispatch env transfer (t, og, Standard_assets j) r)) =
     snd (sa_dispatch env (t, og, j) (standard r))"
  "standard (snd (runtime_dispatch env transfer (t, og, Carbon_exchange l) r)) = standard r"
  "standard (snd (runtime_dispatch env transfer (t, og, Other_pallet c) r)) = standard r"
  by (simp_all split: prod.split)

declare runtime_dispatch.simps [simp del]

section \<open>Carbon calls and the escrow\<close>

text \<open>An issue to approve fits when its asset's balances stay within 64 bits.\<close>

fun issue_fits :: "ca_call \<Rightarrow> ca_state \<Rightarrow> bool" where
  "issue_fits (Approve_issue iid) s =
     (case Issues s iid of None \<Rightarrow> True
      | Some i \<Rightarrow> holdings (ca_Balances s) (is_asset_id i) + unat (is_amount i) < 2 ^ 64)"
| "issue_fits k s = True"

lemma has_asset_iff: "has_asset s aid \<longleftrightarrow> asset_status s aid = Some 1"
  by (simp add: has_asset_def asset_status_def split: option.split)

lemma has_asset_kept: "has_asset s aid \<Longrightarrow> has_asset (snd (ca_dispatch env c s)) aid"
  by (rule ca_checked.snd_step_cases [where P = "\<lambda>s. has_asset s aid"])
    (auto simp: has_asset_iff intro: asset_status_kept_Ok)

lemma order_wf_kept:
  "order_wf pot s order \<Longrightarrow> order_wf pot (snd (ca_dispatch env c s)) order"
  by (simp add: order_wf_def has_asset_kept)

lemma holdings_vmutate_add:
  assumes "holdings m aid + unat v < 2 ^ 64"
  shows "holdings (vmutate m (aid, a) (\<lambda>balance. balance + v)) aid = holdings m aid + unat v"
    and "unat (vget m (aid, a) + v) = unat (vget m (aid, a)) + unat v"
proof -
  have "unat (vget m (aid, a)) \<le> holdings m aid" by (rule balance_le_holdings)
  with assms show u: "unat (vget m (aid, a) + v) = unat (vget m (aid, a)) + unat v"
    by (intro unat_add_u64) simp
  show "holdings (vmutate m (aid, a) (\<lambda>balance. balance + v)) aid = holdings m aid + unat v"
    using holdings_update [of m aid a "vget m (aid, a) + v"] u by (simp add: vmutate_def)
qed

lemma holdings_vmutate_sub:
  assumes "v \<le> vget m (aid, a)"
  shows "holdings (vmutate m (aid, a) (\<lambda>balance. balance - v)) j \<le> holdings m j"
proof (cases "j = aid")
  case True
  have "unat (vget m (aid, a) - v) \<le> unat (vget m (aid, a))"
    using assms by (simp add: unat_sub_u64)
  with True holdings_update [of m aid a "vget m (aid, a) - v"] show ?thesis
    by (simp add: vmutate_def)
qed simp

text \<open>What a carbon call not signed by \<open>pot\<close> does to the balances: \<open>pot\<close> loses nothing.\<close>

lemma ca_balances_keep:
  assumes ok: "ca_dispatch env (t, og, k) s = (Ok, s')" and wf: "ca_wf s" and "og \<noteq> Signed pot"
    and fits: "issue_fits k s" and h: "\<And>j. holdings (ca_Balances s) j < 2 ^ 64"
  shows "unat (ca_balance s j pot) \<le> unat (ca_balance s' j pot) \<and>
    holdings (ca_Balances s') j < 2 ^ 64"
proof (cases k)
  case (Approve_asset aid)
  from ok [unfolded Approve_asset ca_dispatch.simps] show ?thesis
  proof (rule approve_asset_Ok)
    fix asset project
    assume a: "Assets s aid = Some asset" "as_status asset = 0"
      and s': "s' = s\<lparr>Assets := (Assets s)(aid \<mapsto>
              asset\<lparr>as_status := 1, as_total_supply := as_initial_supply asset\<rparr>),
            ca_Balances := (ca_Balances s)((aid, cp_owner project) \<mapsto> as_initial_supply asset),
            ca_events := ca_events s @ [AssetApproved aid]\<rparr>"
    have z: "vget (ca_Balances s) (aid, x) = 0" for x
      using a wf by (simp add: ca_wf_def wf_balances_def asset_status_def)
    then have "holdings (ca_Balances s) aid = 0" by (simp add: holdings_0_iff)
    with holdings_update [of "ca_Balances s" aid "cp_owner project" "as_initial_supply asset"] z
    have "holdings ((ca_Balances s)((aid, cp_owner project) \<mapsto> as_initial_supply asset)) aid < 2 ^ 64"
      by simp
    with h z show ?thesis
      by (cases "j = aid") (simp_all add: s' ca_balance_def)
  qed
next
  case (Approve_issue iid)
  from ok [unfolded Approve_issue ca_dispatch.simps] show ?thesis
  proof (rule approve_issue_Ok)
    fix info aid asset pid project
    assume i: "Issues s iid = Some info" "aid = is_asset_id info"
      and s': "s' = s\<lparr>Assets := (Assets s)(aid \<mapsto>
              asset\<lparr>as_total_supply := as_total_supply asset + is_amount info\<rparr>),
            Projects := (Projects s)(pid \<mapsto>
              project\<lparr>cp_total_supply := cp_total_supply project + is_amount info\<rparr>),
            Issues := (Issues s)(iid \<mapsto> info\<lparr>is_status := 1\<rparr>),
            ca_Balances := vmutate (ca_Balances s) (aid, cp_owner project)
              (\<lambda>balance. balance + is_amount info),
            ca_events := ca_events s @ [IssueApproved iid]\<rparr>"
    have f: "holdings (ca_Balances s) aid + unat (is_amount info) < 2 ^ 64"
      using fits i by (simp add: Approve_issue)
    show ?thesis
      using h [of j] f holdings_vmutate_add [OF f, of "cp_owner project"]
      by (cases "j = aid") (auto simp: s' ca_balance_def)
  qed
next
  case (Submit_burn aid v x)
  from ok [unfolded Submit_burn ca_dispatch.simps] show ?thesis
    using assms(3) h [of j] holdings_vmutate_sub [of v "ca_Balances s" aid _ j]
    by (elim submit_burn_Ok) (fastforce simp: ca_balance_def intro: order_le_less_trans)
next
  case (Ca_transfer aid b v)
  from ok [unfolded Ca_transfer ca_dispatch.simps] show ?thesis
  proof (rule ca_transfer_Ok)
    fix a assume a: "og = Signed a" "v \<le> ca_balance s aid a"
      and s': "s' = (snd (ca_make_transfer aid a b v s))
        \<lparr>ca_events := ca_events s @ [ca_event.Transferred aid a b v (now (env\<lparr>now := t\<rparr>))]\<rparr>"
    have ap: "a \<noteq> pot" using a(1) assms(3) by auto
    have b': "ca_balance s' j pot = ca_balance (snd (ca_make_transfer aid a b v s)) j pot"
      by (simp add: s' ca_balance_def)
    have "unat (ca_balance s j pot) \<le> unat (ca_balance s' j pot)"
    proof (cases "b = pot")
      case True
      show ?thesis unfolding b' True pot_receives [OF ap a(2) h] by simp
    next
      case False
      show ?thesis unfolding b' pot_untouched [OF ap False] by simp
    qed
    with h [of j] show ?thesis by (simp add: s' holdings_moved [OF disjI2 [OF a(2)] h])
  qed
next
  case (Neutralize aid v x)
  from ok [unfolded Neutralize ca_dispatch.simps] show ?thesis
    using assms(3) h [of j] holdings_vmutate_sub [of v "ca_Balances s" aid _ j]
    by (elim neutralize_Ok) (fastforce simp: ca_balance_def intro: order_le_less_trans)
qed (use ok h [of j] in \<open>auto simp: ca_balance_def elim!: submit_project_Ok approve_project_Ok
      submit_asset_Ok submit_issue_Ok approve_burn_Ok\<close>)

section \<open>Exchange calls and the carbon invariants\<close>

lemma ca_wf_moved:
  assumes "ca_wf s" and "has_asset s aid"
  shows "ca_wf (snd (ca_make_transfer aid a b v s))"
proof -
  have "wf_balances (snd (ca_make_transfer aid a b v s))"
    unfolding wf_balances_def
  proof (intro allI impI)
    fix h x assume "asset_status (snd (ca_make_transfer aid a b v s)) h \<noteq> Some 1"
    then have n: "asset_status s h \<noteq> Some 1" by (simp add: asset_status_def)
    with assms(2) have "h \<noteq> aid" by (auto simp: has_asset_iff)
    with n assms(1) show "vget (ca_Balances (snd (ca_make_transfer aid a b v s))) (h, x) = 0"
      by (simp add: ca_make_transfer_def Let_def ca_wf_def wf_balances_def)
  qed
  with assms(1) show ?thesis
    by (simp add: ca_wf_def wf_projects_def wf_assets_def wf_issues_def wf_burns_def
        wf_additionals_def project_status_def asset_status_def)
qed

lemma ca_wf_exchange:
  assumes "cx_step env transfer og k w w'" and "ca_wf (carbon w)" and "orders_wf pot w"
  shows "ca_wf (carbon w')"
proof -
  have a: "has_asset (carbon w) (or_asset_id order)" if "Orders w oid = Some order" for oid order
    using assms(3) that by (auto simp: orders_wf_def order_wf_def)
  show ?thesis
    using assms(1) by cases (use assms(2) a in \<open>auto intro!: ca_wf_moved\<close>)
qed

definition carbon_frame :: "ca_state \<Rightarrow> ca_state \<Rightarrow> bool" where
  "carbon_frame s s' \<longleftrightarrow> (\<forall>aid. units (ca_Balances s') aid = units (ca_Balances s) aid) \<and>
     Projects s' = Projects s \<and> Assets s' = Assets s \<and> Issues s' = Issues s \<and>
     Burns s' = Burns s \<and> ca_events s' = ca_events s"

lemma carbon_frame_step: "cx_step env transfer og k w w' \<Longrightarrow> carbon_frame (carbon w) (carbon w')"
  by (erule cx_step.cases) (simp_all add: carbon_frame_def)

lemma carbon_frame_keeps:
  assumes "carbon_frame s s'"
  shows "ca_accounted s \<Longrightarrow> ca_accounted s'" and "ca_drift s \<Longrightarrow> ca_drift s'"
  using assms by (simp_all add: carbon_frame_def ca_accounted_def ca_drift_def accounting_defs
      drift_defs)

section \<open>The joint invariant\<close>

definition carbon_inv :: "ca_state \<Rightarrow> bool" where
  "carbon_inv s \<longleftrightarrow> ca_wf s \<and> ca_accounted s \<and> ca_drift s"

definition runtime_inv :: "nat \<Rightarrow> ('c \<Rightarrow> account \<Rightarrow> nat) \<Rightarrow> account \<Rightarrow> 'c runtime_state \<Rightarrow> bool" where
  "runtime_inv ed free pot r \<longleftrightarrow>
     carbon_inv (carbon (exchange r)) \<and> escrowed ed free pot (exchange r)"

text \<open>
  The side condition of a call: it is not signed by the pot, a burn does not reuse the id of a
  pending one, an approved issue fits, a BID order is not saturated, and other pallets do not take
  currency out of the pot.
\<close>

fun runtime_ok ::
    "env \<Rightarrow> ('c \<Rightarrow> account \<Rightarrow> nat) \<Rightarrow> u64 \<times> origin \<times> 'c eco2_call \<Rightarrow> 'c runtime_state \<Rightarrow> bool" where
  "runtime_ok env free (t, og, Carbon_assets k) r =
     (og \<noteq> Signed (pot_account_id env) \<and> burn_id_free env (t, og, k) (carbon (exchange r))
      \<and> issue_fits k (carbon (exchange r)))"
| "runtime_ok env free (t, og, Standard_assets k) r = True"
| "runtime_ok env free (t, og, Carbon_exchange k) r = cx_ok env (t, og, k) (exchange r)"
| "runtime_ok env free (t, og, Other_pallet c) r =
     (free (currency (exchange r)) (pot_account_id env) \<le> free c (pot_account_id env))"

lemma carbon_inv_step:
  assumes "carbon_inv s" and "burn_id_free env c s"
  shows "carbon_inv (snd (ca_dispatch env c s))"
  using assms ca_accounted_step [of s env c] ca_drift_step [of s env c]
  by (simp add: carbon_inv_def)

lemma escrowed_carbon_step:
  assumes esc: "escrowed ed free pot w" and wf: "ca_wf (carbon w)" and "og \<noteq> Signed pot"
    and "issue_fits k (carbon w)"
  shows "escrowed ed free pot (w\<lparr>carbon := snd (ca_dispatch env (t, og, k) (carbon w))\<rparr>)"
proof (rule ca_checked.snd_step_cases [where P = "\<lambda>s. escrowed ed free pot (w\<lparr>carbon := s\<rparr>)"])
  show "escrowed ed free pot (w\<lparr>carbon := carbon w\<rparr>)" using esc by simp
next
  fix s' assume ok: "ca_dispatch env (t, og, k) (carbon w) = (Ok, s')"
  have b: "asks_backed pot w" using esc by (simp add: escrowed_def)
  note keep = ca_balances_keep [OF ok wf assms(3,4) asks_backedD(2) [OF b]]
  have "asks_backed pot (w\<lparr>carbon := s'\<rparr>)"
    unfolding asks_backed_def
  proof (intro allI conjI)
    fix aid
    have "asks_left aid (w\<lparr>carbon := s'\<rparr>) = asks_left aid w" by (simp add: asks_left_def)
    with keep asks_backedD(1) [OF b, of aid]
    show "asks_left aid (w\<lparr>carbon := s'\<rparr>) \<le> unat (ca_balance (carbon (w\<lparr>carbon := s'\<rparr>)) aid pot)"
      by (simp del: unat_u64_bound) (metis order_trans)
    show "holdings (ca_Balances (carbon (w\<lparr>carbon := s'\<rparr>))) aid < 2 ^ 64"
      using keep [of aid] by simp
  qed
  moreover have "orders_wf pot (w\<lparr>carbon := s'\<rparr>)"
    using esc order_wf_kept [of pot "carbon w" _ env "(t, og, k)"] ok
    by (simp add: escrowed_def orders_wf_def)
  ultimately show "escrowed ed free pot (w\<lparr>carbon := s'\<rparr>)"
    using esc by (simp add: escrowed_def bids_backed_def bids_locked_def)
qed

lemma runtime_inv_step:
  assumes laws: "currency_laws ed free transfer"
    and inv: "runtime_inv ed free (pot_account_id env) r" and "runtime_ok env free c r"
  shows "runtime_inv ed free (pot_account_id env) (snd (runtime_dispatch env transfer c r))"
proof -
  let ?pot = "pot_account_id env"
  obtain t og k where c: "c = (t, og, k)" by (cases c)
  have ci: "carbon_inv (carbon (exchange r))" and esc: "escrowed ed free ?pot (exchange r)"
    using inv by (simp_all add: runtime_inv_def)
  show ?thesis
  proof (cases k)
    case (Carbon_assets j)
    with ci esc assms(3) show ?thesis
      unfolding c by (simp add: runtime_inv_def carbon_inv_step escrowed_carbon_step
          carbon_inv_def [THEN iffD1, OF ci])
  next
    case (Standard_assets j)
    with inv show ?thesis unfolding c by (simp add: runtime_inv_def)
  next
    case (Carbon_exchange j)
    let ?w' = "snd (cx_dispatch env transfer (t, og, j) (exchange r))"
    from laws have st: "cx_step (env\<lparr>now := t\<rparr>) transfer og j (exchange r) ?w'"
      by (rule cx_dispatch_step)
    have "orders_wf ?pot (exchange r)" using esc by (simp add: escrowed_def)
    with ci ca_wf_exchange [OF st] carbon_frame_keeps [OF carbon_frame_step [OF st]]
    have "carbon_inv (carbon ?w')" by (simp add: carbon_inv_def)
    moreover have "escrowed ed free ?pot ?w'"
      using laws esc assms(3) unfolding c Carbon_exchange runtime_ok.simps by (rule escrowed_step)
    ultimately show ?thesis unfolding c Carbon_exchange by (simp add: runtime_inv_def)
  next
    case (Other_pallet x)
    with ci esc assms(3) show ?thesis
      unfolding c by (simp add: runtime_inv_def escrowed_def orders_wf_def asks_backed_def
          asks_left_def bids_backed_def bids_locked_def)
  qed
qed

interpretation runtime_joint: invariant_run "runtime_dispatch env transfer" "runtime_ok env free"
    "\<lambda>r. currency_laws ed free transfer \<and> runtime_inv ed free (pot_account_id env) r"
    for env transfer ed free
  by unfold_locales (simp add: runtime_inv_step)

lemma runtime_inv_genesis:
  assumes "ed \<le> free c pot"
  shows "runtime_inv ed free pot (runtime_genesis c)"
proof -
  have "escrowed ed free pot (exchange (runtime_genesis c))"
    using assms by (intro escrowed_initially) (simp_all add: runtime_genesis_def ca_genesis_def)
  then show ?thesis
    by (simp add: runtime_inv_def carbon_inv_def runtime_genesis_def ca_wf_genesis
        ca_accounted_genesis ca_drift_genesis)
qed

section \<open>Without the committee\<close>

text \<open>Nothing was approved: no project has status 1, and there are no assets and no orders.\<close>

definition nothing_approved :: "'c runtime_state \<Rightarrow> bool" where
  "nothing_approved r \<longleftrightarrow> ca_wf (carbon (exchange r)) \<and>
     (\<forall>h. project_status (carbon (exchange r)) h \<noteq> Some 1) \<and> Orders (exchange r) = Map.empty"

lemma nothing_approved_assets:
  assumes "nothing_approved r"
  shows "Assets (carbon (exchange r)) = Map.empty"
proof
  fix h
  show "Assets (carbon (exchange r)) h = None"
  proof (cases "Assets (carbon (exchange r)) h")
    case (Some a)
    with assms have "project_status (carbon (exchange r)) (as_project_id a) = Some 1"
      by (simp add: nothing_approved_def ca_wf_def wf_assets_def)
    with assms show ?thesis by (simp add: nothing_approved_def)
  qed
qed

lemma nothing_approved_units:
  assumes "nothing_approved r"
  shows "ca_balance (carbon (exchange r)) aid x = 0"
proof -
  have "wf_balances (carbon (exchange r))" using assms by (simp add: nothing_approved_def ca_wf_def)
  moreover have "asset_status (carbon (exchange r)) aid \<noteq> Some 1"
    by (simp add: asset_status_def nothing_approved_assets [OF assms])
  ultimately show ?thesis by (simp add: wf_balances_def ca_balance_def)
qed

lemma project_status_unauthorised:
  assumes "\<not> approve_origin env og" and "project_status s h \<noteq> Some 1"
  shows "project_status (snd (ca_dispatch env (t, og, k) s)) h \<noteq> Some 1"
proof (rule ca_checked.snd_step_cases [where P = "\<lambda>s. project_status s h \<noteq> Some 1", OF assms(2)])
  fix s' assume ok: "ca_dispatch env (t, og, k) s = (Ok, s')"
  show "project_status s' h \<noteq> Some 1"
    using ok assms
    by (cases k) (auto simp: project_status_def elim!: ca_Ok_elims split: if_splits)
qed

lemma nothing_approved_step:
  assumes "nothing_approved r" and "\<not> approve_origin env (fst (snd c))"
  shows "nothing_approved (snd (runtime_dispatch env transfer c r))"
proof -
  obtain t og k where c: "c = (t, og, k)" by (cases c)
  show ?thesis
  proof (cases k)
    case (Carbon_assets j)
    with assms show ?thesis
      unfolding c by (simp add: nothing_approved_def ca_wf_step project_status_unauthorised)
  next
    case (Carbon_exchange j)
    have "\<not> has_asset (carbon (exchange r)) aid" for aid
      using nothing_approved_assets [OF assms(1)] by (simp add: has_asset_def)
    moreover have "Orders (exchange r) = Map.empty" using assms(1) by (simp add: nothing_approved_def)
    ultimately have "snd (cx_dispatch env transfer (t, og, j) (exchange r)) = exchange r"
      by (cases j; cases og)
        (simp_all add: make_order_def take_order_def cancel_order_def Let_def)
    with assms(1) show ?thesis unfolding c Carbon_exchange by (simp add: nothing_approved_def)
  qed (use assms(1) c in \<open>simp_all add: nothing_approved_def\<close>)
qed

interpretation unapproved: invariant_run "runtime_dispatch env transfer"
    "\<lambda>c _. \<not> approve_origin env (fst (snd c))" nothing_approved for env transfer
  by unfold_locales (rule nothing_approved_step)

end
