(* ===== verification/Carbon_Exact.thy ===== *)
theory Carbon_Exact
  imports Carbon_Properties
begin

text \<open>
  The accounting of \<open>pallets/carbon-assets\<close> in natural numbers, where nothing wraps: as long as no
  approved issue takes an asset's recorded supply past 64 bits, the units held, neutralized and in
  pending burns really add up to the supply, so no counter of an asset ever wraps.
\<close>

section \<open>The true amounts\<close>

definition retired_by :: "hash \<Rightarrow> ca_event \<Rightarrow> nat" where
  "retired_by aid e = (case e of Neutralized a _ v _ \<Rightarrow> if a = aid then unat v else 0 | _ \<Rightarrow> 0)"

definition retired :: "ca_state \<Rightarrow> hash \<Rightarrow> nat" where
  "retired s aid = sum_list (map (retired_by aid) (ca_events s))"

definition burning_amount :: "hash \<Rightarrow> BurnInfo \<Rightarrow> nat" where
  "burning_amount aid b = (if bi_asset_id b = aid \<and> bi_status b = 0 then unat (bi_amount b) else 0)"

definition burning :: "ca_state \<Rightarrow> hash \<Rightarrow> nat" where
  "burning s aid = map_sum (burning_amount aid) (Burns s)"

definition ca_exact :: "ca_state \<Rightarrow> bool" where
  "ca_exact s \<longleftrightarrow>
     (\<forall>aid. holdings (ca_Balances s) aid + retired s aid + burning s aid
            = unat (recorded_supply s aid))"

text \<open>An issue to approve keeps the recorded supply of its asset within 64 bits.\<close>

fun supply_fits :: "u64 \<times> origin \<times> ca_call \<Rightarrow> ca_state \<Rightarrow> bool" where
  "supply_fits (t, og, Approve_issue iid) s =
     (case Issues s iid of None \<Rightarrow> True
      | Some i \<Rightarrow> unat (recorded_supply s (is_asset_id i)) + unat (is_amount i) < 2 ^ 64)"
| "supply_fits _ s = True"

lemmas exact_defs = retired_def retired_by_def burning_def recorded_supply_def

lemma ca_exactD:
  "ca_exact s \<Longrightarrow> holdings (ca_Balances s) aid + retired s aid + burning s aid
     = unat (recorded_supply s aid)"
  by (simp add: ca_exact_def)

lemma ca_exact_bounds:
  assumes "ca_exact s"
  shows "holdings (ca_Balances s) aid \<le> unat (recorded_supply s aid)"
    and "holdings (ca_Balances s) aid < 2 ^ 64"
    and "Burns s bid = Some b \<Longrightarrow> bi_status b = 0 \<Longrightarrow>
      bi_amount b \<le> recorded_supply s (bi_asset_id b)"
proof -
  show h: "holdings (ca_Balances s) aid \<le> unat (recorded_supply s aid)"
    using ca_exactD [OF assms, of aid] by simp
  show "holdings (ca_Balances s) aid < 2 ^ 64"
    using h unat_u64_bound [of "recorded_supply s aid"] by (simp del: unat_u64_bound)
  assume b: "Burns s bid = Some b" "bi_status b = 0"
  from b(1) have "burning_amount (bi_asset_id b) b \<le> burning s (bi_asset_id b)"
    unfolding burning_def by (rule map_sum_member_nat)
  with b(2) ca_exactD [OF assms, of "bi_asset_id b"]
  show "bi_amount b \<le> recorded_supply s (bi_asset_id b)"
    by (simp add: burning_amount_def word_le_nat_alt)
qed

lemma ca_exact_genesis: "ca_exact ca_genesis"
  by (simp add: ca_exact_def exact_defs ca_genesis_def)

text \<open>An operation that changes each of the four amounts, by as much in sum on both sides.\<close>

lemma ca_exact_same:
  assumes "ca_exact s"
    and "\<And>j. holdings (ca_Balances s') j = holdings (ca_Balances s) j"
    and "\<And>j. retired s' j = retired s j" and "\<And>j. burning s' j = burning s j"
    and "\<And>j. recorded_supply s' j = recorded_supply s j"
  shows "ca_exact s'"
  using assms by (simp add: ca_exact_def)

lemma ca_exact_change:
  assumes "ca_exact s"
    and "\<And>j. j \<noteq> aid \<Longrightarrow> holdings (ca_Balances s') j = holdings (ca_Balances s) j"
    and "\<And>j. j \<noteq> aid \<Longrightarrow> retired s' j = retired s j"
    and "\<And>j. j \<noteq> aid \<Longrightarrow> burning s' j = burning s j"
    and "\<And>j. j \<noteq> aid \<Longrightarrow> recorded_supply s' j = recorded_supply s j"
    and "holdings (ca_Balances s') aid + retired s' aid + burning s' aid
      = unat (recorded_supply s' aid)"
  shows "ca_exact s'"
  unfolding ca_exact_def
proof
  fix j
  show "holdings (ca_Balances s') j + retired s' j + burning s' j = unat (recorded_supply s' j)"
    using assms ca_exactD [OF assms(1), of j] by (cases "j = aid") simp_all
qed

lemma holdings_spent:
  assumes "v \<le> vget m (aid, a)"
  shows "holdings (vmutate m (aid, a) (\<lambda>balance. balance - v)) aid + unat v = holdings m aid"
  using holdings_update [of m aid a "vget m (aid, a) - v"] assms balance_le_holdings [of m aid a]
  by (simp add: vmutate_def unat_sub_u64 word_le_nat_alt)

section \<open>Every operation keeps them\<close>

lemma submit_project_exact:
  "submit_project env og symbol max_supply additional s = (Ok, s') \<Longrightarrow> ca_exact s \<Longrightarrow> ca_exact s'"
  by (elim submit_project_Ok) (simp add: ca_exact_def exact_defs)

lemma approve_project_exact:
  "approve_project env og pid s = (Ok, s') \<Longrightarrow> ca_exact s \<Longrightarrow> ca_exact s'"
  by (elim approve_project_Ok) (simp add: ca_exact_def exact_defs)

lemma submit_asset_exact:
  "submit_asset env og pid vintage v additional s = (Ok, s') \<Longrightarrow> ca_exact s \<Longrightarrow> ca_exact s'"
  by (elim submit_asset_Ok, rule ca_exact_same [of s]) (auto simp: exact_defs)

lemma submit_issue_exact:
  "submit_issue env og aid amount additional s = (Ok, s') \<Longrightarrow> ca_exact s \<Longrightarrow> ca_exact s'"
  by (elim submit_issue_Ok) (simp add: ca_exact_def exact_defs)

lemma approve_asset_exact:
  assumes "approve_asset env og aid s = (Ok, s')" and "ca_exact s" and "ca_wf s"
  shows "ca_exact s'"
  using assms(1)
proof (rule approve_asset_Ok)
  fix asset project
  assume a: "Assets s aid = Some asset" "as_status asset = 0"
    and s': "s' = s\<lparr>Assets := (Assets s)(aid \<mapsto>
              asset\<lparr>as_status := 1, as_total_supply := as_initial_supply asset\<rparr>),
            ca_Balances := (ca_Balances s)((aid, cp_owner project) \<mapsto> as_initial_supply asset),
            ca_events := ca_events s @ [AssetApproved aid]\<rparr>"
  have "as_total_supply asset = 0"
    using a assms(3) unfolding ca_wf_def wf_assets_def by fastforce
  with a ca_exactD [OF assms(2), of aid] have z: "holdings (ca_Balances s) aid = 0"
    "retired s aid = 0" "burning s aid = 0"
    by (simp_all add: recorded_supply_def)
  then have "vget (ca_Balances s) (aid, cp_owner project) = 0" by (simp add: holdings_0_iff)
  with z holdings_update [of "ca_Balances s" aid "cp_owner project" "as_initial_supply asset"]
  have "holdings (ca_Balances s') aid = unat (as_initial_supply asset)" by (simp add: s')
  with z show ?thesis
    by (intro ca_exact_change [OF assms(2), of aid])
      (simp_all add: s' exact_defs)
qed

lemma approve_issue_exact:
  assumes "approve_issue env og iid s = (Ok, s')" and "ca_exact s"
    and "supply_fits (t, og, Approve_issue iid) s"
  shows "ca_exact s'"
  using assms(1)
proof (rule approve_issue_Ok)
  fix info aid asset pid project
  assume i: "Issues s iid = Some info" "aid = is_asset_id info" and a: "Assets s aid = Some asset"
    and s': "s' = s\<lparr>Assets := (Assets s)(aid \<mapsto>
              asset\<lparr>as_total_supply := as_total_supply asset + is_amount info\<rparr>),
            Projects := (Projects s)(pid \<mapsto>
              project\<lparr>cp_total_supply := cp_total_supply project + is_amount info\<rparr>),
            Issues := (Issues s)(iid \<mapsto> info\<lparr>is_status := 1\<rparr>),
            ca_Balances := vmutate (ca_Balances s) (aid, cp_owner project)
              (\<lambda>balance. balance + is_amount info),
            ca_events := ca_events s @ [IssueApproved iid]\<rparr>"
  let ?m = "ca_Balances s" and ?v = "is_amount info"
  have fits: "unat (as_total_supply asset) + unat ?v < 2 ^ 64"
    using assms(3) i a by (simp add: recorded_supply_def)
  have "unat (vget ?m (aid, cp_owner project)) \<le> unat (recorded_supply s aid)"
    using balance_le_holdings ca_exact_bounds(1) [OF assms(2)] by (rule order_trans)
  with fits a have "unat (vget ?m (aid, cp_owner project)) + unat ?v < 2 ^ 64"
    by (simp add: recorded_supply_def)
  then have "unat (vget ?m (aid, cp_owner project) + ?v) =
      unat (vget ?m (aid, cp_owner project)) + unat ?v" by (rule unat_add_u64)
  with holdings_update [of ?m aid "cp_owner project" "vget ?m (aid, cp_owner project) + ?v"]
  have "holdings (ca_Balances s') aid = holdings ?m aid + unat ?v"
    by (simp add: s' vmutate_def)
  moreover have "unat (as_total_supply asset + ?v) = unat (as_total_supply asset) + unat ?v"
    using fits by (rule unat_add_u64)
  ultimately show ?thesis
    using ca_exactD [OF assms(2), of aid] a
    by (intro ca_exact_change [OF assms(2), of aid])
      (simp_all add: s' exact_defs)
qed

lemma burning_put:
  assumes "case m bid of None \<Rightarrow> True | Some b \<Rightarrow> bi_status b \<noteq> 0"
  shows "map_sum (burning_amount aid) (m(bid \<mapsto> b')) =
    map_sum (burning_amount aid) m + burning_amount aid b'"
proof (cases "m bid")
  case None
  then show ?thesis by (rule map_sum_insert_nat)
next
  case (Some b)
  with assms map_sum_replace_nat [of m bid b "burning_amount aid" b'] show ?thesis
    by (simp add: burning_amount_def)
qed

lemma submit_burn_exact:
  assumes "submit_burn env og aid amount additional s = (Ok, s')" and "ca_exact s"
    and "burn_id_free env (t, og, Submit_burn aid amount additional) s"
  shows "ca_exact s'"
  using assms(1)
proof (rule submit_burn_Ok)
  fix sender asset project bid
  assume og: "og = Signed sender" and le: "amount \<le> vget (ca_Balances s) (aid, sender)"
    and bid: "bid = hash_of env (Pre_burn sender aid amount additional)"
    and s': "s' = s\<lparr>Burns := (Burns s)(bid \<mapsto> \<lparr>bi_asset_id = aid, bi_amount = amount,
              bi_status = 0, bi_additional = additional\<rparr>),
            ca_Balances := vmutate (ca_Balances s) (aid, sender) (\<lambda>balance. balance - amount),
            ca_events := ca_events s @ [BurnSubmited bid aid sender amount (now env)]\<rparr>"
  have "case Burns s bid of None \<Rightarrow> True | Some b \<Rightarrow> bi_status b \<noteq> 0"
    using assms(3) og bid by (simp split: option.splits)
  then have "burning s' j = burning s j + (if j = aid then unat amount else 0)" for j
    by (simp add: s' burning_def burning_put) (simp add: burning_amount_def)
  with holdings_spent [OF le] ca_exactD [OF assms(2), of aid] show ?thesis
    by (intro ca_exact_change [OF assms(2), of aid])
      (simp_all add: s' retired_def retired_by_def recorded_supply_def)
qed

lemma approve_burn_exact:
  assumes "approve_burn env og bid s = (Ok, s')" and "ca_exact s"
  shows "ca_exact s'"
  using assms(1)
proof (rule approve_burn_Ok)
  fix info aid asset pid project
  assume b: "Burns s bid = Some info" "bi_status info = 0" "aid = bi_asset_id info"
    and a: "Assets s aid = Some asset"
    and s': "s' = s\<lparr>Assets := (Assets s)(aid \<mapsto>
              asset\<lparr>as_total_supply := as_total_supply asset - bi_amount info\<rparr>),
            Projects := (Projects s)(pid \<mapsto>
              project\<lparr>cp_total_supply := cp_total_supply project - bi_amount info\<rparr>),
            Burns := (Burns s)(bid \<mapsto> info\<lparr>bi_status := 1\<rparr>),
            ca_events := ca_events s @ [IssueApproved bid]\<rparr>"
  have le: "bi_amount info \<le> as_total_supply asset"
    using ca_exact_bounds(3) [OF assms(2) b(1,2)] a b(3) by (simp add: recorded_supply_def)
  have b': "burning s' j + (if j = aid then unat (bi_amount info) else 0) = burning s j" for j
    using map_sum_replace_nat [of "Burns s" bid info "burning_amount j" "info\<lparr>bi_status := 1\<rparr>"] b
    by (simp add: s' burning_def) (simp add: burning_amount_def split: if_splits)
  have other: "j \<noteq> aid \<Longrightarrow> burning s' j = burning s j" for j
    using b' [of j] by simp
  have own: "burning s' aid + unat (bi_amount info) = burning s aid"
    using b' [of aid] by simp
  have "recorded_supply s' aid = as_total_supply asset - bi_amount info"
    "recorded_supply s aid = as_total_supply asset" "retired s' j = retired s j"
    "j \<noteq> aid \<Longrightarrow> recorded_supply s' j = recorded_supply s j" for j
    using a by (simp_all add: s' retired_def retired_by_def recorded_supply_def)
  moreover have "ca_Balances s' = ca_Balances s" by (simp add: s')
  ultimately show ?thesis
    using ca_exactD [OF assms(2), of aid] own unat_sub_u64 [OF le]
    by (intro ca_exact_change [OF assms(2), of aid]) (simp_all add: other)
qed

lemma ca_transfer_exact_accounts:
  assumes "ca_transfer env og aid b v s = (Ok, s')" and "ca_exact s"
  shows "ca_exact s'"
  using assms(1)
proof (rule ca_transfer_Ok)
  fix a assume le: "v \<le> ca_balance s aid a"
    and s': "s' = (snd (ca_make_transfer aid a b v s))
      \<lparr>ca_events := ca_events s @ [ca_event.Transferred aid a b v (now env)]\<rparr>"
  have "(\<Sum>x\<in>UNIV. unat (ca_balance s aid x)) < 2 ^ 64"
    using ca_exact_bounds(2) [OF assms(2), of aid] by (simp only: holdings_ca_balance)
  with le have "holdings (ca_Balances (snd (ca_make_transfer aid a b v s))) j =
      holdings (ca_Balances s) j" for j
    unfolding holdings_ca_balance by (intro ca_ledger.move_holdings) simp_all
  then show ?thesis
    by (intro ca_exact_same [OF assms(2)]) (simp_all add: s' exact_defs)
qed

lemma neutralize_exact:
  assumes "neutralize env og aid v additional s = (Ok, s')" and "ca_exact s"
  shows "ca_exact s'"
  using assms(1)
proof (rule neutralize_Ok)
  fix a assume le: "v \<le> ca_balance s aid a"
    and s': "s' = s\<lparr>ca_Balances := vmutate (ca_Balances s) (aid, a) (\<lambda>balance. balance - v),
            ca_events := ca_events s @ [Neutralized aid a v (now env)]\<rparr>"
  from le have "v \<le> vget (ca_Balances s) (aid, a)" by (simp add: ca_balance_def)
  from holdings_spent [OF this] ca_exactD [OF assms(2), of aid] show ?thesis
    by (intro ca_exact_change [OF assms(2), of aid]) (simp_all add: s' exact_defs)
qed

lemmas ca_exact_ops =
  submit_project_exact approve_project_exact submit_asset_exact approve_asset_exact
  submit_issue_exact approve_burn_exact ca_transfer_exact_accounts neutralize_exact

lemma ca_exact_step:
  assumes "ca_wf s \<and> ca_exact s" and "burn_id_free env c s \<and> supply_fits c s"
  shows "ca_wf (snd (ca_dispatch env c s)) \<and> ca_exact (snd (ca_dispatch env c s))"
proof
  show "ca_wf (snd (ca_dispatch env c s))" using assms(1) by (simp add: ca_wf_step)
  obtain t og k where c: "c = (t, og, k)" by (cases c)
  have "burn_id_free (env\<lparr>now := t\<rparr>) c s"
    using assms(2) unfolding c by (cases k; cases og) simp_all
  with assms have "ca_exact s'" if "ca_dispatch env c s = (Ok, s')" for s'
    using that unfolding c
    by (cases k) (auto intro: ca_exact_ops submit_burn_exact approve_issue_exact simp del: supply_fits.simps)
  with assms(1) show "ca_exact (snd (ca_dispatch env c s))"
    by (intro ca_checked.snd_step_cases [where P = ca_exact]) auto
qed

interpretation ca_exactness: invariant_run "ca_dispatch env"
    "\<lambda>c s. burn_id_free env c s \<and> supply_fits c s" "\<lambda>s. ca_wf s \<and> ca_exact s" for env
  by unfold_locales (rule ca_exact_step)

section \<open>Properties\<close>

text \<open>
  C12. Carbon credits are conserved, without wrap-around: after any run from genesis in which nobody
  resubmits a pending burn and no approved issue takes an asset's recorded supply past 64 bits, the
  true sum of what all accounts hold of an asset, plus what was ever neutralized, plus what pending
  burns took out, is exactly the recorded supply; so nobody holds more than the supply, and
  approving a pending burn never wraps the supply of its asset.
\<close>

theorem ca_credits_conserved:
  assumes "ok_run (\<lambda>c s. burn_id_free env c s \<and> supply_fits c s) (ca_dispatch env) cs ca_genesis"
  shows "let s = run_calls (ca_dispatch env) cs ca_genesis in
    (\<forall>aid. (\<Sum>who\<in>UNIV. unat (ca_balance s aid who)) + retired s aid + burning s aid
       = unat (recorded_supply s aid)) \<and>
    (\<forall>aid who. ca_balance s aid who \<le> recorded_supply s aid) \<and>
    (\<forall>bid b. Burns s bid = Some b \<and> bi_status b = 0 \<longrightarrow>
       bi_amount b \<le> recorded_supply s (bi_asset_id b))"
proof -
  let ?s = "run_calls (ca_dispatch env) cs ca_genesis"
  have "ca_wf ?s \<and> ca_exact ?s"
    by (rule ca_exactness.run_inv [OF _ assms]) (simp add: ca_wf_genesis ca_exact_genesis)
  then have e: "ca_exact ?s" by simp
  have "ca_balance ?s aid who \<le> recorded_supply ?s aid" for aid who
    using order_trans [OF balance_le_holdings ca_exact_bounds(1) [OF e], of aid who]
    by (simp add: ca_balance_def word_le_nat_alt)
  moreover have "(\<Sum>who\<in>UNIV. unat (ca_balance ?s aid who)) + retired ?s aid + burning ?s aid
      = unat (recorded_supply ?s aid)" for aid
    using ca_exactD [OF e, of aid] by (simp only: holdings_ca_balance)
  ultimately show ?thesis
    unfolding Let_def using ca_exact_bounds(3) [OF e] by blast
qed

theorem ca_credits_conserved_witness:
  "let s = run_calls (ca_dispatch sample_env) carbon_life ca_genesis
   in (\<Sum>who\<in>UNIV. unat (ca_balance s 3001 who)) = 59 \<and> retired s 3001 = 1 \<and>
      burning s 3001 = 0 \<and> recorded_supply s 3001 = 60"
proof -
  let ?s = "run_calls (ca_dispatch sample_env) carbon_life ca_genesis"
  have ok: "ok_run (\<lambda>c s. burn_id_free sample_env c s \<and> supply_fits c s) (ca_dispatch sample_env)
      carbon_life ca_genesis"
    by (simp add: carbon_life_def carbon_setup_def ca_eval recorded_supply_def)
  have "retired ?s 3001 = 1" "recorded_supply ?s 3001 = 60"
    by (simp_all add: carbon_life_def carbon_setup_def ca_eval exact_defs)
  moreover have "burning ?s 3001 = 0"
  proof -
    have "Burns ?s = [5001 \<mapsto> \<lparr>bi_asset_id = 3001, bi_amount = 10, bi_status = 1,
        bi_additional = [0]\<rparr>]"
      by (simp add: carbon_life_def carbon_setup_def ca_eval)
    then show ?thesis by (simp add: burning_def map_sum_insert_nat burning_amount_def)
  qed
  moreover have "(\<Sum>who\<in>UNIV. unat (ca_balance ?s 3001 who)) + retired ?s 3001 + burning ?s 3001
      = unat (recorded_supply ?s 3001)"
    using ca_credits_conserved [OF ok] unfolding Let_def by blast
  ultimately show ?thesis unfolding Let_def by simp
qed

end
