(* ===== verification/Exchange_Deals.thy ===== *)
theory Exchange_Deals
  imports Exchange_Properties
begin

text \<open>
  Deals over time: the book adds up, so an order is exhausted after finitely many deals; and what the two sides of a deal can rely on: a taker of an ASK order pays exactly the
  price and gets the units, a BID order can be cancelled and dealt with as long as the currency
  honours the pot's payments.
\<close>

section \<open>The accounts of an order\<close>

definition left_of :: "hash \<Rightarrow> 'c cx_state \<Rightarrow> nat" where
  "left_of oid w = (case Orders w oid of None \<Rightarrow> 0 | Some order \<Rightarrow> unat (or_left_amount order))"

text \<open>The amounts that a call records for the order: made, taken, and left when it was cancelled.\<close>

fun put_in :: "env \<Rightarrow> ('c, 'x) currency_transfer \<Rightarrow> hash \<Rightarrow> u64 \<times> origin \<times> cx_call \<Rightarrow> 'c cx_state \<Rightarrow> nat" where
  "put_in env transfer oid (t, Signed maker, Make_order aid mid price amount d salt) w =
     (if fst (cx_dispatch env transfer (t, Signed maker, Make_order aid mid price amount d salt) w) = Ok
         \<and> hash_of env (Pre_order maker aid mid price amount d salt) = oid
      then unat amount else 0)"
| "put_in env transfer oid c w = 0"

fun dealt_out :: "env \<Rightarrow> ('c, 'x) currency_transfer \<Rightarrow> hash \<Rightarrow> u64 \<times> origin \<times> cx_call \<Rightarrow> 'c cx_state \<Rightarrow> nat" where
  "dealt_out env transfer oid (t, og, Take_order oid' amount) w =
     (if oid' = oid \<and> fst (cx_dispatch env transfer (t, og, Take_order oid' amount) w) = Ok
      then unat amount else 0)"
| "dealt_out env transfer oid c w = 0"

fun given_back :: "env \<Rightarrow> ('c, 'x) currency_transfer \<Rightarrow> hash \<Rightarrow> u64 \<times> origin \<times> cx_call \<Rightarrow> 'c cx_state \<Rightarrow> nat" where
  "given_back env transfer oid (t, og, Cancel_order oid') w =
     (if oid' = oid \<and> fst (cx_dispatch env transfer (t, og, Cancel_order oid') w) = Ok
      then left_of oid w else 0)"
| "given_back env transfer oid c w = 0"

text \<open>The total of such a quantity over a run.\<close>

fun over_run :: "('call \<Rightarrow> 's \<Rightarrow> nat) \<Rightarrow> ('call \<Rightarrow> 's \<Rightarrow> 'r \<times> 's) \<Rightarrow> 'call list \<Rightarrow> 's \<Rightarrow> nat" where
  "over_run q step [] s = 0"
| "over_run q step (c # cs) s = q c s + over_run q step cs (snd (step c s))"

lemma currency_pay_orders: "currency_pay transfer og b v w = (r, w') \<Longrightarrow> Orders w' = Orders w"
  by (auto simp: currency_pay_def split: prod.splits sum.splits)

lemma make_order_lock_orders:
  assumes "make_order_lock env transfer og maker aid price amount d w = (l, w1)"
  shows "Orders w1 = Orders w"
proof -
  obtain r w2 where p: "currency_pay transfer og (pot_account_id env) (saturating_mul amount price) w
      = (r, w2)" by fastforce
  from assms currency_pay_orders [OF p] show ?thesis
    by (cases r) (auto simp: make_order_lock_def Let_def p split: if_splits)
qed

lemma make_order_book:
  assumes "make_order env transfer og aid mid price amount d salt w = (r, w')"
  shows "if r = Ok then \<exists>maker order. og = Signed maker \<and> or_left_amount order = amount \<and>
      Orders w (hash_of env (Pre_order maker aid mid price amount d salt)) = None \<and>
      Orders w' = (Orders w)(hash_of env (Pre_order maker aid mid price amount d salt) \<mapsto> order)
    else Orders w' = Orders w"
proof (cases og)
  case (Signed maker)
  obtain l w1 where l: "make_order_lock env transfer og maker aid price amount d w = (l, w1)"
    by fastforce
  show ?thesis
  proof (cases l)
    case (Inl e)
    with assms l make_order_lock_orders [OF l] show ?thesis
      by (auto simp: make_order_def Signed Let_def split: if_splits)
  next
    case (Inr locked)
    let ?order = "\<lparr>or_asset_id = aid, or_money_id = mid, or_maker = maker, or_amount = amount,
      or_price = price, or_left_amount = amount, or_direction = d, or_locked_balance = locked,
      or_salt = salt\<rparr>"
    have "r = Ok \<Longrightarrow> Orders w (hash_of env (Pre_order maker aid mid price amount d salt)) = None \<and>
        Orders w' = (Orders w)(hash_of env (Pre_order maker aid mid price amount d salt) \<mapsto> ?order)"
      and "r \<noteq> Ok \<Longrightarrow> Orders w' = Orders w"
      using assms l make_order_lock_orders [OF l] Inr
      by (auto simp: make_order_def Signed cx_deposit_event_def Let_def split: if_splits)
    then show ?thesis using Signed by (auto intro!: exI [of _ ?order])
  qed
qed (use assms in \<open>auto simp: make_order_def\<close>)

lemma take_order_settle_orders:
  assumes "take_order_settle env transfer og taker order amount w = (l, w1)"
  shows "Orders w1 = Orders w \<and> (\<forall>order'. l = Inr order' \<longrightarrow>
    or_left_amount order' = or_left_amount order)"
proof (cases "or_direction order = 0")
  case True
  obtain r w2 where p: "currency_pay transfer og (or_maker order)
      (saturating_mul amount (or_price order)) w = (r, w2)" by fastforce
  from True assms currency_pay_orders [OF p] show ?thesis
    by (cases r) (auto simp: take_order_settle_def Let_def p split: if_splits)
next
  case False
  let ?w = "w\<lparr>carbon := moved (or_asset_id order) taker (or_maker order) amount w\<rparr>"
  obtain r w2 where p: "currency_pay transfer (Signed (pot_account_id env)) taker
      (saturating_mul amount (or_price order)) ?w = (r, w2)" by fastforce
  from False assms currency_pay_orders [OF p] show ?thesis
    by (cases r) (auto simp: take_order_settle_def Let_def p split: if_splits)
qed

lemma take_order_book:
  assumes "take_order env transfer og oid amount w = (r, w')"
  shows "if r = Ok then \<exists>order order'. Orders w oid = Some order \<and> amount \<le> or_left_amount order \<and>
      or_left_amount order' = or_left_amount order \<and>
      Orders w' = remaining_orders oid order' amount (Orders w)
    else Orders w' = Orders w"
proof (cases "\<exists>taker order. og = Signed taker \<and> Orders w oid = Some order \<and>
    amount \<le> or_left_amount order")
  case True
  then obtain taker order where t: "og = Signed taker" "Orders w oid = Some order"
    "amount \<le> or_left_amount order" by blast
  obtain l w1 where s: "take_order_settle env transfer og taker order amount w = (l, w1)"
    by fastforce
  show ?thesis
  proof (cases l)
    case (Inl e)
    then show ?thesis
      using assms take_order_settle_orders [OF s] t s by (auto simp: take_order_def)
  next
    case (Inr order')
    then have "r = Ok \<and> Orders w' = remaining_orders oid order' amount (Orders w)"
      using assms take_order_settle_orders [OF s] t s
      by (auto simp: take_order_def cx_deposit_event_def remaining_orders_def Let_def
          split: if_splits)
    with t Inr take_order_settle_orders [OF s] show ?thesis by auto
  qed
qed (use assms in \<open>auto simp: take_order_def split: option.splits if_splits\<close>)

lemma cancel_order_book:
  assumes "cancel_order env transfer og oid w = (r, w')"
  shows "if r = Ok then Orders w oid \<noteq> None \<and> Orders w' = (Orders w)(oid := None)
    else Orders w' = Orders w"
proof (cases "\<exists>order. og = Signed (or_maker order) \<and> Orders w oid = Some order")
  case True
  then obtain order where o: "og = Signed (or_maker order)" "Orders w oid = Some order" by blast
  obtain l w1 where s: "cancel_order_refund env transfer (or_maker order) order w = (l, w1)"
    by fastforce
  then have "Orders w1 = Orders w"
    using currency_pay_orders by (auto simp: cancel_order_refund_def Let_def split: if_splits)
  with assms o s show ?thesis
    by (cases l) (auto simp: cancel_order_def cx_deposit_event_def Let_def)
qed (use assms in \<open>auto simp: cancel_order_def split: option.splits if_splits\<close>)

lemma left_of_remaining:
  assumes "m oid = Some order" and "amount \<le> or_left_amount order"
    and "or_left_amount order' = or_left_amount order"
  shows "(case remaining_orders oid order' amount m oid of None \<Rightarrow> 0
      | Some o' \<Rightarrow> unat (or_left_amount o')) + unat amount = unat (or_left_amount order)"
  using assms(2,3) unat_sub_u64 [OF assms(2)] by (simp add: remaining_at word_le_nat_alt)

lemma order_accounts_step:
  "left_of oid w + put_in env transfer oid c w =
     dealt_out env transfer oid c w + given_back env transfer oid c w +
     left_of oid (snd (cx_dispatch env transfer c w))"
proof -
  obtain t og k where c: "c = (t, og, k)" by (cases c)
  obtain r w' where d: "cx_dispatch env transfer c w = (r, w')" by fastforce
  show ?thesis
  proof (cases k)
    case (Make_order aid mid price amount dir salt)
    from make_order_book d have b: "if r = Ok then \<exists>maker order. og = Signed maker \<and>
        or_left_amount order = amount \<and>
        Orders w (hash_of env (Pre_order maker aid mid price amount dir salt)) = None \<and>
        Orders w' = (Orders w)(hash_of env (Pre_order maker aid mid price amount dir salt) \<mapsto> order)
      else Orders w' = Orders w"
      unfolding c Make_order cx_dispatch.simps by fastforce
    show ?thesis
    proof (cases "r = Ok")
      case True
      with b obtain maker order where m: "og = Signed maker" "or_left_amount order = amount"
        "Orders w (hash_of env (Pre_order maker aid mid price amount dir salt)) = None"
        "Orders w' = (Orders w)(hash_of env (Pre_order maker aid mid price amount dir salt) \<mapsto> order)"
        by auto
      with True d show ?thesis
        by (cases "hash_of env (Pre_order maker aid mid price amount dir salt) = oid")
          (simp_all add: c Make_order left_of_def)
    next
      case False
      with b d show ?thesis by (cases og) (simp_all add: c Make_order left_of_def)
    qed
  next
    case (Take_order oid' amount)
    from take_order_book d have b: "if r = Ok then \<exists>order order'. Orders w oid' = Some order \<and>
        amount \<le> or_left_amount order \<and> or_left_amount order' = or_left_amount order \<and>
        Orders w' = remaining_orders oid' order' amount (Orders w)
      else Orders w' = Orders w"
      unfolding c Take_order cx_dispatch.simps by fastforce
    show ?thesis
    proof (cases "r = Ok \<and> oid' = oid")
      case True
      with b obtain order order' where "Orders w oid = Some order" "amount \<le> or_left_amount order"
        "or_left_amount order' = or_left_amount order"
        "Orders w' = remaining_orders oid order' amount (Orders w)" by auto
      with True d left_of_remaining [of "Orders w" oid order amount order'] show ?thesis
        by (simp add: c Take_order left_of_def)
    next
      case False
      with b d have "Orders w' oid = Orders w oid"
        by (auto simp: remaining_other split: if_splits)
      with False d show ?thesis by (auto simp: c Take_order left_of_def)
    qed
  next
    case (Cancel_order oid')
    from cancel_order_book d have "if r = Ok then Orders w oid' \<noteq> None \<and>
        Orders w' = (Orders w)(oid' := None) else Orders w' = Orders w"
      unfolding c Cancel_order cx_dispatch.simps by fastforce
    with d show ?thesis by (auto simp: c Cancel_order left_of_def split: if_splits)
  qed
qed

text \<open>
  The book adds up: over every run of exchange calls, whatever the currency does, the amount recorded
  as left of an order at the start and made by successful \<open>make_order\<close> calls is that of successful
  takes, cancellations and what is recorded as left. (That units and money move with them is shown of the pot
  in \<open>Exchange_Properties\<close>.)
\<close>

theorem cx_order_accounts:
  "left_of oid w + over_run (put_in env transfer oid) (cx_dispatch env transfer) cs w =
     over_run (dealt_out env transfer oid) (cx_dispatch env transfer) cs w +
     over_run (given_back env transfer oid) (cx_dispatch env transfer) cs w +
     left_of oid (run_calls (cx_dispatch env transfer) cs w)"
proof (induction cs arbitrary: w)
  case (Cons c cs)
  from Cons.IH [of "snd (cx_dispatch env transfer c w)"] order_accounts_step [of oid w env transfer c]
  show ?case by simp
qed simp

lemma over_run_mono:
  "(\<And>c s. q c s \<le> q' c s) \<Longrightarrow> over_run q step cs s \<le> over_run q' step cs s"
  by (induction cs arbitrary: s) (auto intro: add_mono)

lemma order_accounts_run:
  "over_run (dealt_out env transfer oid) (cx_dispatch env transfer) cs w \<le>
     left_of oid w + over_run (put_in env transfer oid) (cx_dispatch env transfer) cs w"
proof (induction cs arbitrary: w)
  case (Cons c cs)
  from Cons.IH [of "snd (cx_dispatch env transfer c w)"] order_accounts_step [of oid w env transfer c]
  show ?case by simp
qed simp

fun nonzero_deal :: "env \<Rightarrow> ('c, 'x) currency_transfer \<Rightarrow> hash \<Rightarrow> u64 \<times> origin \<times> cx_call \<Rightarrow> 'c cx_state \<Rightarrow> nat" where
  "nonzero_deal env transfer oid (t, og, Take_order oid' amount) w =
     (if oid' = oid \<and> amount \<noteq> 0 \<and>
         fst (cx_dispatch env transfer (t, og, Take_order oid' amount) w) = Ok then 1 else 0)"
| "nonzero_deal env transfer oid c w = 0"

lemma nonzero_deal_le: "nonzero_deal env transfer oid c w \<le> dealt_out env transfer oid c w"
proof -
  obtain t og k where c: "c = (t, og, k)" by (cases c)
  show ?thesis unfolding c
    by (cases k) (auto simp: Suc_le_eq unat_gt_0)
qed

text \<open>
  An order is exhausted: in every run of exchange calls that does not put anything into the
  order again, there are at most as many successful deals of a non-zero amount on it as it has
  units left, whoever takes and in whatever pieces; after that every such take fails.
\<close>

theorem cx_order_exhausted:
  assumes "over_run (put_in env transfer oid) (cx_dispatch env transfer) cs w = 0"
  shows "over_run (nonzero_deal env transfer oid) (cx_dispatch env transfer) cs w \<le> left_of oid w"
  using over_run_mono [of "nonzero_deal env transfer oid" "dealt_out env transfer oid"
      "cx_dispatch env transfer" cs w, OF nonzero_deal_le]
    order_accounts_run [of env transfer oid cs w] assms
  by simp

theorem cx_order_exhausted_witness:
  "let w = run_calls (cx_dispatch sample_env sample_transfer) (take 3 sample_deals) sample_market
   in over_run (nonzero_deal sample_env sample_transfer 6002) (cx_dispatch sample_env sample_transfer)
        (drop 3 sample_deals) w \<le> 10"
proof -
  let ?w = "run_calls (cx_dispatch sample_env sample_transfer) (take 3 sample_deals) sample_market"
  have o: "left_of 6002 ?w = 10"
    by (simp add: left_of_def sample_deals_def cx_op_defs sample_market_carbon ca_balance_def
        vget_def Let_def ca_make_transfer_def vmutate_def sample_transfer_def saturating_mul_def
        has_asset_balances)
  have "over_run (put_in sample_env sample_transfer 6002) (cx_dispatch sample_env sample_transfer)
      (drop 3 sample_deals) ?w = 0"
    by (simp add: sample_deals_def)
  from cx_order_exhausted [OF this] o show ?thesis by (simp add: Let_def)
qed

section \<open>Deals end\<close>

text \<open>The calls that work an order off: a take of a non-zero amount, or a cancellation.\<close>

fun works_off :: "cx_call \<Rightarrow> bool" where
  "works_off (Take_order oid amount) = (amount \<noteq> 0)"
| "works_off (Cancel_order oid) = True"
| "works_off (Make_order _ _ _ _ _ _) = False"

definition worked_off :: "env \<Rightarrow> ('c, 'x) currency_transfer \<Rightarrow> ('c cx_state \<times> 'c cx_state) set" where
  "worked_off env transfer =
     {(w', w). \<exists>t og k. works_off k \<and> cx_dispatch env transfer (t, og, k) w = (Ok, w')}"

definition book_size :: "'c cx_state \<Rightarrow> nat" where
  "book_size w = map_sum (\<lambda>order. Suc (unat (or_left_amount order))) (Orders w)"

lemma book_size_taken:
  assumes "Orders w oid = Some order" and "amount \<le> or_left_amount order" and "amount \<noteq> 0"
    and "or_left_amount order' = or_left_amount order"
    and "Orders w' = remaining_orders oid order' amount (Orders w)"
  shows "book_size w' < book_size w"
proof -
  let ?f = "\<lambda>order. Suc (unat (or_left_amount order))"
  let ?o = "order'\<lparr>or_left_amount := or_left_amount order - amount\<rparr>"
  have "0 < unat amount" using assms(3) by (simp add: unat_gt_0)
  then have "unat (or_left_amount order - amount) < unat (or_left_amount order)"
    using assms(2) by (simp add: unat_sub_u64 word_le_nat_alt)
  then show ?thesis
    using map_sum_replace_nat [of "Orders w" oid order ?f ?o]
      map_sum_remove_nat [of "Orders w" oid order ?f] assms(1,4,5)
    by (simp add: book_size_def remaining_orders_def split: if_splits)
qed

lemma book_size_cancelled:
  assumes "Orders w oid \<noteq> None" and "Orders w' = (Orders w)(oid := None)"
  shows "book_size w' < book_size w"
proof -
  from assms(1) obtain order where "Orders w oid = Some order" by auto
  with map_sum_remove_nat [of "Orders w" oid order "\<lambda>order. Suc (unat (or_left_amount order))"]
  show ?thesis by (simp add: book_size_def assms(2))
qed

text \<open>
  C17. Deals end: there is no infinite sequence of successful calls that take a non-zero amount of
  some order or cancel one, whoever makes them, at whatever times and however the currency behaves.
  Without new orders the order book is worked off in finitely many calls.
\<close>

theorem cx_deals_terminate: "wf (worked_off env transfer)"
proof (rule wf_subset [OF wf_measure])
  show "worked_off env transfer \<subseteq> measure book_size"
  proof
    fix p assume "p \<in> worked_off env transfer"
    then obtain w' w t og k where p: "p = (w', w)" and k: "works_off k"
      and d: "cx_dispatch env transfer (t, og, k) w = (Ok, w')"
      by (auto simp: worked_off_def)
    show "p \<in> measure book_size"
    proof (cases k)
      case (Take_order oid amount)
      from d take_order_book [of "env\<lparr>now := t\<rparr>" transfer og oid amount w Ok w']
      obtain order order' where "Orders w oid = Some order" "amount \<le> or_left_amount order"
        "or_left_amount order' = or_left_amount order"
        "Orders w' = remaining_orders oid order' amount (Orders w)"
        unfolding Take_order by auto
      with k show ?thesis
        using book_size_taken unfolding p Take_order by simp
    next
      case (Cancel_order oid)
      from d cancel_order_book [of "env\<lparr>now := t\<rparr>" transfer og oid w Ok w']
      show ?thesis using book_size_cancelled [of w oid w'] unfolding p Cancel_order by simp
    qed (use k in simp)
  qed
qed

section \<open>Both sides of a deal\<close>

text \<open>
  What the exchange needs of the currency to pay: a transfer out of an account without locks
  succeeds when the account keeps the existential deposit and the receiver has it afterwards,
  within the width of a balance.
\<close>

definition pot_can_pay ::
    "nat \<Rightarrow> ('c \<Rightarrow> account \<Rightarrow> nat) \<Rightarrow> ('c, 'x) currency_transfer \<Rightarrow> account \<Rightarrow> bool" where
  "pot_can_pay ed free transfer pot \<longleftrightarrow>
     (\<forall>b v c. ed + unat v \<le> free c pot \<and> ed \<le> free c b + unat v \<and> free c b + unat v < 2 ^ 128 \<longrightarrow>
        (\<exists>c'. transfer (Signed pot) b v c = (Ok, c')))"

lemma sample_pot_can_pay: "pot_can_pay 10 (\<lambda>c. c) sample_transfer 99"
  by (auto simp: pot_can_pay_def sample_transfer_def)

lemma bid_lock_held:
  assumes "escrowed ed free pot w" and "Orders w oid = Some order" and "or_direction order = 1"
  shows "ed + unat (or_locked_balance order) \<le> free (currency w) pot"
    and "unat (or_locked_balance order) = unat (or_left_amount order) * unat (or_price order)"
    and "or_maker order \<noteq> pot" and "0 < unat (or_locked_balance order)"
proof -
  have wf: "order_wf pot (carbon w) order" and b: "bids_backed ed free pot w"
    using assms(1,2) by (simp_all add: escrowed_def orders_wf_def)
  show "ed + unat (or_locked_balance order) \<le> free (currency w) pot"
    using b bids_locked_cancelled [OF assms(2)] by (simp add: bids_backed_def bid_locked_def)
  show l: "unat (or_locked_balance order) = unat (or_left_amount order) * unat (or_price order)"
    and "or_maker order \<noteq> pot"
    using wf assms(3) by (simp_all add: order_wf_def)
  show "0 < unat (or_locked_balance order)"
    using wf unfolding l by (simp add: order_wf_def unat_gt_0 word_gt_0)
qed

text \<open>A payment out of the pot that the escrow covers is made, and is exact on both sides.\<close>

lemma pot_pays:
  assumes "currency_laws ed free transfer" and "pot_can_pay ed free transfer pot" and "b \<noteq> pot"
    and "ed + unat v \<le> free c pot" and "ed \<le> free c b + unat v" and "free c b + unat v < 2 ^ 128"
  obtains c' where "transfer (Signed pot) b (ucast (v :: u64)) c = (Ok, c')"
    and "free c' b = free c b + unat v" and "free c' pot + unat v = free c pot"
proof -
  let ?v = "ucast v :: u128"
  from assms(2) have "ed + unat ?v \<le> free c pot \<and> ed \<le> free c b + unat ?v \<and>
      free c b + unat ?v < 2 ^ 128 \<longrightarrow> (\<exists>c'. transfer (Signed pot) b ?v c = (Ok, c'))"
    unfolding pot_can_pay_def by blast
  with assms(4-6) obtain c' where t: "transfer (Signed pot) b ?v c = (Ok, c')" by auto
  have "free c' b = free c b + unat v" using currency_receives [OF assms(1) t] assms(3) by simp
  moreover have "free c' pot = free c pot - unat v"
    using currency_pays [OF assms(1) t] assms(3,4) by simp
  ultimately show ?thesis using t assms(4) that by simp
qed

text \<open>The sample market with one order in it.\<close>

definition bid_market :: "(account \<Rightarrow> nat) cx_state" where
  "bid_market = snd (cx_dispatch sample_env sample_transfer
     (32, Signed 2, Make_order 3001 0 30 10 1 2) sample_market)"

definition ask_market :: "(account \<Rightarrow> nat) cx_state" where
  "ask_market = snd (cx_dispatch sample_env sample_transfer
     (30, Signed 1, Make_order 3001 0 7 20 0 1) sample_market)"

lemma sample_market_escrowed: "escrowed 10 (\<lambda>c. c) (pot_account_id sample_env) sample_market"
  using sample_market_holdings by (intro escrowed_initially) simp_all

lemma bid_market_escrowed: "escrowed 10 (\<lambda>c. c) (pot_account_id sample_env) bid_market"
  and ask_market_escrowed: "escrowed 10 (\<lambda>c. c) (pot_account_id sample_env) ask_market"
  unfolding bid_market_def ask_market_def
  by (rule escrowed_step [OF sample_transfer_laws sample_market_escrowed], simp add: cx_ok_def)+

lemma bid_market_eval:
  "Orders bid_market 6002 = Some (new_order 3001 2 30 10 1 300 2)"
  "currency bid_market = (\<lambda>_. 1000)(2 := 700, 99 := 1300)"
  "ca_balance (carbon bid_market) 3001 1 = 40"
  by (simp_all add: bid_market_def cx_op_defs sample_market_carbon new_order_def ca_balance_def
      vget_def Let_def sample_transfer_def saturating_mul_def)

lemma ask_market_eval:
  "Orders ask_market 6001 = Some (new_order 3001 1 7 20 0 0 1)"
  "currency ask_market = (\<lambda>_. 1000)"
  "ca_balance (carbon ask_market) 3001 99 = 20" "ca_balance (carbon ask_market) 3001 2 = 0"
  by (simp_all add: ask_market_def cx_op_defs sample_market_carbon new_order_def ca_balance_def
      vget_def Let_def ca_make_transfer_def vmutate_def)

lemma new_order_simps [simp]:
  "or_asset_id (new_order aid m p v d l salt) = aid" "or_maker (new_order aid m p v d l salt) = m"
  "or_price (new_order aid m p v d l salt) = p" "or_left_amount (new_order aid m p v d l salt) = v"
  "or_direction (new_order aid m p v d l salt) = d"
  "or_locked_balance (new_order aid m p v d l salt) = l"
  by (simp_all add: new_order_def)

text \<open>
  C21. A BID order can be cancelled: in an escrowed state, with a currency that pays out of a funded
  account, the maker of a BID order gets exactly its locked balance back, the pot loses exactly that
  and the order is gone. The maker must end with at least the existential deposit and with at most
  the largest balance, as the currency asks of every receiver.
\<close>

theorem cx_bid_order_cancellable:
  assumes "currency_laws ed free transfer" and "pot_can_pay ed free transfer (pot_account_id env)"
    and "escrowed ed free (pot_account_id env) w" and "Orders w oid = Some order"
    and "or_direction order = 1"
    and "ed \<le> free (currency w) (or_maker order) + unat (or_locked_balance order)"
    and "free (currency w) (or_maker order) + unat (or_locked_balance order) < 2 ^ 128"
  shows "\<exists>w'. cancel_order env transfer (Signed (or_maker order)) oid w = (Ok, w') \<and>
    Orders w' = (Orders w)(oid := None) \<and> carbon w' = carbon w \<and>
    free (currency w') (or_maker order) =
      free (currency w) (or_maker order) + unat (or_locked_balance order) \<and>
    free (currency w') (pot_account_id env) + unat (or_locked_balance order) =
      free (currency w) (pot_account_id env)"
proof -
  note held = bid_lock_held [OF assms(3-5)]
  obtain c' where t: "transfer (Signed (pot_account_id env)) (or_maker order)
        (ucast (or_locked_balance order)) (currency w) = (Ok, c')"
    and "free c' (or_maker order) = free (currency w) (or_maker order) + unat (or_locked_balance order)"
    and "free c' (pot_account_id env) + unat (or_locked_balance order) =
      free (currency w) (pot_account_id env)"
    by (rule pot_pays [OF assms(1,2) held(3,1) assms(6,7)])
  with assms(4,5) show ?thesis
    by (simp add: cancel_order_def cancel_order_refund_def currency_pay_def cx_deposit_event_def
        Let_def)
qed

theorem cx_bid_order_cancellable_witness:
  "\<exists>w'. cancel_order sample_env sample_transfer (Signed 2) 6002 bid_market = (Ok, w') \<and>
     currency w' 2 = 1000 \<and> currency w' 99 = 1000"
proof -
  have "pot_can_pay 10 (\<lambda>c. c) sample_transfer (pot_account_id sample_env)"
    using sample_pot_can_pay by simp
  from cx_bid_order_cancellable [OF sample_transfer_laws this bid_market_escrowed
      bid_market_eval(1)]
  show ?thesis by (auto simp: bid_market_eval(2))
qed

text \<open>
  C20. A BID order is honoured: in an escrowed state, with a currency that pays out of a funded
  account, whoever holds a non-zero amount of at most what is left can sell it to the order: the
  call succeeds, pays the taker exactly amount times price out of the pot, and moves the units to
  the maker.
\<close>

theorem cx_bid_order_honoured:
  assumes "currency_laws ed free transfer" and "pot_can_pay ed free transfer (pot_account_id env)"
    and "escrowed ed free (pot_account_id env) w" and "Orders w oid = Some order"
    and "or_direction order = 1" and "amount \<le> or_left_amount order"
    and "amount \<le> ca_balance (carbon w) (or_asset_id order) a" and "a \<noteq> pot_account_id env"
    and "ed \<le> free (currency w) a + unat amount * unat (or_price order)"
    and "free (currency w) a + unat amount * unat (or_price order) < 2 ^ 128"
  shows "\<exists>w'. take_order env transfer (Signed a) oid amount w = (Ok, w') \<and>
    free (currency w') a = free (currency w) a + unat amount * unat (or_price order) \<and>
    free (currency w') (pot_account_id env) + unat amount * unat (or_price order) =
      free (currency w) (pot_account_id env) \<and>
    carbon w' = moved (or_asset_id order) a (or_maker order) amount w"
proof -
  let ?money = "saturating_mul amount (or_price order)" and ?pot = "pot_account_id env"
  note held = bid_lock_held [OF assms(3-5)]
  note part = exact_part(1,2) [OF held(2) assms(6)]
  have le: "unat ?money \<le> unat (or_locked_balance order)"
    using part(2) by (simp add: word_le_nat_alt)
  obtain c' where t: "transfer (Signed ?pot) a (ucast ?money) (currency w) = (Ok, c')"
    and "free c' a = free (currency w) a + unat ?money"
    and "free c' ?pot + unat ?money = free (currency w) ?pot"
    using pot_pays [OF assms(1,2,8), of ?money "currency w"] le held(1) assms(9,10)
    by (auto simp: part(1))
  moreover have "\<exists>w'. take_order env transfer (Signed a) oid amount w = (Ok, w') \<and>
      currency w' = c' \<and> carbon w' = moved (or_asset_id order) a (or_maker order) amount w"
    using assms(4-7) t
    by (cases "0 < or_left_amount order - amount")
      (simp_all add: take_order_def take_order_settle_def currency_pay_def cx_deposit_event_def
        Let_def)
  ultimately show ?thesis by (auto simp: part(1))
qed

theorem cx_bid_order_honoured_witness:
  "\<exists>w'. take_order sample_env sample_transfer (Signed 1) 6002 4 bid_market = (Ok, w') \<and>
     currency w' 1 = 1120 \<and> currency w' 99 = 1180"
proof -
  have "pot_can_pay 10 (\<lambda>c. c) sample_transfer (pot_account_id sample_env)"
    using sample_pot_can_pay by simp
  from cx_bid_order_honoured [OF sample_transfer_laws this bid_market_escrowed
      bid_market_eval(1), of 4 1]
  show ?thesis by (auto simp: bid_market_eval(2,3))
qed

text \<open>What a payment of the price does to the taker and to everybody but taker and maker.\<close>

lemma ask_taker_pays:
  assumes "currency_laws ed free transfer" and "transfer (Signed a) b (ucast (v :: u64)) c = (Ok, c')"
  shows "a \<noteq> b \<Longrightarrow> unat v \<noteq> 0 \<Longrightarrow> moves ed free a b (unat v) c c'"
    and "x \<noteq> a \<and> x \<noteq> b \<or> a = b \<or> unat v = 0 \<Longrightarrow> free c' x = free c x"
proof -
  have z: "(ucast v :: u128) = 0 \<longleftrightarrow> unat v = 0"
    by (simp only: unat_eq_0 [symmetric] unat_ucast_u128)
  show "moves ed free a b (unat v) c c'" if "a \<noteq> b" "unat v \<noteq> 0"
    using currency_moves [OF assms that(1)] that(2) z by auto
  show "free c' x = free c x" if "x \<noteq> a \<and> x \<noteq> b \<or> a = b \<or> unat v = 0"
  proof (cases "a = b")
    case True
    with assms(2) currency_self [OF assms(1), of a] show ?thesis by simp
  next
    case False
    with currency_moves [OF assms False] that z show ?thesis by (auto simp: moves_def)
  qed
qed

text \<open>
  C19. A deal on an ASK order is exact on both sides: in an escrowed state a successful take of an
  amount whose price fits in 64 bits debits the pot by the amount and credits the taker with it and
  touches no other account's units; the taker has amount times price and pays it to the maker, and
  keeps the exact rest unless that falls below the existential deposit; nobody else's money changes,
  that of the pot included (and none at all when the maker takes); and what is left of the order
  goes down by the amount. The pot always has the units: such a take fails for no other reason than
  the payment.
\<close>

theorem cx_ask_deal_exact:
  assumes "currency_laws ed free transfer" and "escrowed ed free (pot_account_id env) w"
    and "Orders w oid = Some order" and "or_direction order = 0" and "a \<noteq> pot_account_id env"
    and "amount \<le> or_left_amount order" and "unat amount * unat (or_price order) < 2 ^ 64"
  shows "case take_order env transfer (Signed a) oid amount w of
      (Inl e, w') \<Rightarrow> w' = w \<and> (\<exists>x. e = Module_error (Currency_error x))
    | (Inr _, w') \<Rightarrow>
        (let aid = or_asset_id order; pot = pot_account_id env; maker = or_maker order;
             c = currency w; c' = currency w'; n = unat amount * unat (or_price order) in
         unat (ca_balance (carbon w') aid pot) + unat amount = unat (ca_balance (carbon w) aid pot) \<and>
         unat (ca_balance (carbon w') aid a) = unat (ca_balance (carbon w) aid a) + unat amount \<and>
         (\<forall>x. x \<noteq> pot \<and> x \<noteq> a \<longrightarrow> ca_balance (carbon w') aid x = ca_balance (carbon w) aid x) \<and>
         (a \<noteq> maker \<longrightarrow> free c' maker = free c maker + n) \<and>
         (a \<noteq> maker \<and> n \<noteq> 0 \<longrightarrow> n \<le> free c a \<and> free c' a \<le> free c a - n \<and>
            (ed \<le> free c a - n \<longrightarrow> free c' a = free c a - n)) \<and>
         (\<forall>x. x \<noteq> a \<and> x \<noteq> maker \<or> a = maker \<or> n = 0 \<longrightarrow> free c' x = free c x) \<and>
         left_of oid w' + unat amount = left_of oid w)"
proof -
  let ?pot = "pot_account_id env" and ?aid = "or_asset_id order" and ?maker = "or_maker order"
  let ?money = "saturating_mul amount (or_price order)"
  have b: "asks_backed ?pot w" using assms(2) by (simp add: escrowed_def)
  have le: "amount \<le> ca_balance (carbon w) ?aid ?pot"
    using assms(6) ask_left_le [OF b assms(3,4)] by (rule order_trans)
  have h: "(\<Sum>x\<in>UNIV. unat (ca_balance (carbon w) ?aid x)) < 2 ^ 64"
    using asks_backedD(2) [OF b, of ?aid] by (simp only: holdings_ca_balance)
  note units = ca_ledger.move_exact [OF le h, of a]
  have le': "unat amount \<le> unat (ca_balance (carbon w) ?aid ?pot)"
    using le by (simp add: word_le_nat_alt)
  from assms(1) show ?thesis
  proof (cases rule: currency_pay_cases [where og = "Signed a" and b = ?maker and v = ?money and w = w])
    case (failed x)
    with assms(3,4,6) le show ?thesis
      by (simp add: take_order_def take_order_settle_def Let_def)
  next
    case (paid c')
    have money: "unat ?money = unat amount * unat (or_price order)"
      using assms(7) by (rule saturating_mul_exact)
    have maker: "a \<noteq> ?maker \<Longrightarrow> free c' ?maker = free (currency w) ?maker + unat ?money"
      using currency_receives [OF assms(1) paid(2)] by simp
    note taker = ask_taker_pays [OF assms(1) paid(2), unfolded money]
    then have rich: "a \<noteq> ?maker \<Longrightarrow> unat amount * unat (or_price order) \<noteq> 0 \<Longrightarrow>
        moves ed free a ?maker (unat amount * unat (or_price order)) (currency w) c'" by blast
    have others: "x \<noteq> ?pot \<Longrightarrow> x \<noteq> a \<Longrightarrow>
        ca_balance (moved ?aid ?pot a amount w) ?aid x = ca_balance (carbon w) ?aid x" for x
      by (simp add: ca_ledger.bal_move)
    obtain w' where t: "take_order env transfer (Signed a) oid amount w = (Ok, w')"
      and w': "currency w' = c'" "carbon w' = moved ?aid ?pot a amount w"
        "Orders w' = remaining_orders oid order amount (Orders w)"
      using assms(3,4,6) le paid(1)
      by (cases "0 < or_left_amount order - amount")
        (simp_all add: take_order_def take_order_settle_def cx_deposit_event_def
          remaining_orders_def Let_def)
    have "left_of oid w' + unat amount = left_of oid w"
      using left_of_remaining [of "Orders w" oid order amount order] assms(3,6) w'(3)
      by (simp add: left_of_def)
    with t w' units le' maker rich taker(2) others money assms(5) show ?thesis
      unfolding Let_def moves_def by simp
  qed
qed

theorem cx_ask_deal_exact_witness:
  "\<exists>w'. take_order sample_env sample_transfer (Signed 2) 6001 5 ask_market = (Ok, w') \<and>
     unat (ca_balance (carbon w') 3001 2) = 5 \<and> currency w' 1 = 1035 \<and> currency w' 2 = 965 \<and>
     left_of 6001 w' = 15"
proof -
  obtain w' where t: "take_order sample_env sample_transfer (Signed 2) 6001 5 ask_market = (Ok, w')"
    using ask_market_eval
    by (simp add: take_order_def take_order_settle_def currency_pay_def sample_transfer_def
        saturating_mul_def Let_def)
  have "left_of 6001 ask_market = 20" by (simp add: left_of_def ask_market_eval(1))
  with cx_ask_deal_exact [OF sample_transfer_laws ask_market_escrowed ask_market_eval(1), of 2 5] t
  show ?thesis by (auto simp: ask_market_eval Let_def)
qed

end
