(* ===== verification/Runtime_Properties.thy ===== *)
theory Runtime_Properties
  imports Runtime Carbon_Exact Exchange_Deals
begin

text \<open>
  What holds of the three pallets together, beyond the joint invariants of \<open>Runtime\<close>: what a failing
  call leaves behind, what is permanent, and the exact accounting of carbon credits while they are
  also traded.
\<close>

section \<open>Failing calls\<close>

lemma in_runtime_Inl: "in_runtime f r = Inl e \<longleftrightarrow> (\<exists>x. r = Inl x \<and> e = f x)"
  by (cases r) auto

text \<open>
  C23. A failing call of any of the three pallets leaves the whole state as it was, with one
  exception: a take of a BID order that the currency refuses to pay, which leaves the units with
  the maker.
\<close>

theorem runtime_failing_calls:
  assumes "currency_laws ed free transfer"
    and "runtime_dispatch env transfer (t, og, k) r = (Inl e, r')"
  shows "r' = r \<or>
    (\<exists>oid amount order a x. k = Carbon_exchange (Take_order oid amount) \<and> og = Signed a \<and>
       Orders (exchange r) oid = Some order \<and> or_direction order \<noteq> 0 \<and>
       e = Carbon_exchange_error (Module_error (Currency_error x)) \<and>
       r' = r\<lparr>exchange := (exchange r)\<lparr>carbon :=
         moved (or_asset_id order) a (or_maker order) amount (exchange r)\<rparr>\<rparr>)"
proof (cases k)
  case (Carbon_assets j)
  obtain res s where d: "ca_dispatch env (t, og, j) (carbon (exchange r)) = (res, s)" by fastforce
  with assms(2) obtain x where "res = Inl x" and r': "r' = r\<lparr>exchange := (exchange r)\<lparr>carbon := s\<rparr>\<rparr>"
    unfolding Carbon_assets by (auto simp: runtime_dispatch.simps in_runtime_Inl)
  with d ca_checked.fail_unchanged have "s = carbon (exchange r)" by blast
  with r' show ?thesis by simp
next
  case (Standard_assets j)
  obtain res s where d: "sa_dispatch env (t, og, j) (standard r) = (res, s)" by fastforce
  with assms(2) obtain x where "res = Inl x" and r': "r' = r\<lparr>standard := s\<rparr>"
    unfolding Standard_assets by (auto simp: runtime_dispatch.simps in_runtime_Inl)
  with d sa_checked.fail_unchanged have "s = standard r" by blast
  with r' show ?thesis by simp
next
  case (Carbon_exchange j)
  obtain res w where d: "cx_dispatch env transfer (t, og, j) (exchange r) = (res, w)" by fastforce
  with assms(2) obtain x where x: "res = Inl x" "e = Carbon_exchange_error x"
    and r': "r' = r\<lparr>exchange := w\<rparr>"
    unfolding Carbon_exchange by (auto simp: runtime_dispatch.simps in_runtime_Inl)
  from cx_failing_calls [OF assms(1) d [unfolded x(1)]] show ?thesis
  proof (elim disjE exE conjE)
    assume "w = exchange r"
    with r' show ?thesis by simp
  qed (simp add: Carbon_exchange r' x(2))
next
  case (Other_pallet c)
  with assms(2) show ?thesis by (simp add: runtime_dispatch.simps)
qed

theorem runtime_failing_calls_witness:
  "snd (runtime_dispatch sample_env sample_transfer
       (40, Signed 5, Carbon_exchange (Make_order 3001 0 7 20 0 1))
       \<lparr>exchange = sample_market, standard = sa_genesis\<rparr>) =
     \<lparr>exchange = sample_market, standard = sa_genesis\<rparr>"
proof -
  let ?r = "\<lparr>exchange = sample_market, standard = sa_genesis\<rparr>"
  let ?d = "runtime_dispatch sample_env sample_transfer
    (40, Signed 5, Carbon_exchange (Make_order 3001 0 7 20 0 1)) ?r"
  have "?d = (Inl (Carbon_exchange_error (Module_error (Exchange_error InsuffientAsset))), snd ?d)"
    by (simp add: runtime_dispatch.simps make_order_def make_order_lock_def sample_market_carbon
        ca_balance_def vget_def Let_def)
  from runtime_failing_calls [OF sample_transfer_laws this] show ?thesis by auto
qed

section \<open>What is permanent\<close>

definition registry_grows :: "'c runtime_state \<Rightarrow> 'c runtime_state \<Rightarrow> bool" where
  "registry_grows r r' \<longleftrightarrow>
     (\<forall>pid p. Projects (carbon (exchange r)) pid = Some p \<longrightarrow>
        (\<exists>q. Projects (carbon (exchange r')) pid = Some q \<and> project_successor p q)) \<and>
     (\<forall>aid a. Assets (carbon (exchange r)) aid = Some a \<longrightarrow>
        (\<exists>b. Assets (carbon (exchange r')) aid = Some b \<and> asset_successor a b)) \<and>
     (\<forall>aid info. AssetInfos (standard r) aid = Some info \<longrightarrow>
        AssetInfos (standard r') aid = Some info)"

lemma registry_grows_refl: "registry_grows r r"
  by (auto simp: registry_grows_def project_successor_def asset_successor_def)

lemma registry_grows_step:
  assumes "registry_grows r0 r"
  shows "registry_grows r0 (snd (runtime_dispatch env transfer c r))"
proof -
  obtain t og k where c: "c = (t, og, k)" by (cases c)
  show ?thesis
  proof (cases k)
    case (Carbon_assets j)
    with assms show ?thesis
      unfolding c registry_grows_def
      by (simp add: Projects_successor_step Assets_successor_step)
  next
    case (Standard_assets j)
    with assms show ?thesis
      unfolding c registry_grows_def by (simp add: sa_info_kept_step)
  next
    case (Carbon_exchange j)
    have "Projects (carbon (snd (cx_dispatch env transfer (t, og, j) (exchange r)))) =
        Projects (carbon (exchange r))"
      "Assets (carbon (snd (cx_dispatch env transfer (t, og, j) (exchange r)))) =
        Assets (carbon (exchange r))"
      using cx_units_conserved [of "exchange r" env transfer "(t, og, j)"]
      by (simp_all add: Let_def)
    with assms Carbon_exchange show ?thesis unfolding c registry_grows_def by simp
  next
    case (Other_pallet x)
    with assms show ?thesis unfolding c registry_grows_def by simp
  qed
qed

interpretation registered: invariant_run "runtime_dispatch env transfer" "\<lambda>_ _. True"
    "registry_grows r0" for env transfer r0
  by unfold_locales (rule registry_grows_step)

text \<open>
  C24. What is registered is registered for good: whatever calls of the three pallets follow, no
  project, carbon asset or standard asset is removed; a project keeps its symbol, maximal supply and
  owner, a carbon asset its project, vintage and initial supply, a standard asset all of its
  description; and what is approved stays approved.
\<close>

theorem registry_is_permanent:
  "registry_grows r (run_calls (runtime_dispatch env transfer) cs r)"
  by (rule registered.run_inv [OF registry_grows_refl]) simp

section \<open>Carbon credits while they are traded\<close>

text \<open>The side condition of a call, with the recorded supply in place of the balances.\<close>

fun runtime_exact_ok ::
    "env \<Rightarrow> ('c \<Rightarrow> account \<Rightarrow> nat) \<Rightarrow> u64 \<times> origin \<times> 'c eco2_call \<Rightarrow> 'c runtime_state \<Rightarrow> bool" where
  "runtime_exact_ok env free (t, og, Carbon_assets k) r =
     (og \<noteq> Signed (pot_account_id env) \<and> burn_id_free env (t, og, k) (carbon (exchange r))
      \<and> supply_fits (t, og, k) (carbon (exchange r)))"
| "runtime_exact_ok env free c r = runtime_ok env free c r"

lemma issue_fits_exact:
  assumes "ca_exact s" and "supply_fits (t, og, k) s"
  shows "issue_fits k s"
proof (cases k)
  case (Approve_issue iid)
  show ?thesis
  proof (cases "Issues s iid")
    case (Some i)
    with assms(2) ca_exact_bounds(1) [OF assms(1), of "is_asset_id i"] show ?thesis
      unfolding Approve_issue by simp
  qed (simp add: Approve_issue)
qed simp_all

lemma runtime_exact_ok_imp:
  assumes "ca_exact (carbon (exchange r))" and "runtime_exact_ok env free c r"
  shows "runtime_ok env free c r"
proof -
  obtain t og k where c: "c = (t, og, k)" by (cases c)
  show ?thesis
    using assms issue_fits_exact [OF assms(1)] unfolding c by (cases k) auto
qed

lemma exact_moved:
  assumes "ca_exact s" and "v \<le> ca_balance s aid a"
  shows "ca_exact (snd (ca_make_transfer aid a b v s))"
  by (rule ca_exact_same [OF assms(1)])
    (simp_all add: holdings_moved [OF disjI2 [OF assms(2)] ca_exact_bounds(2) [OF assms(1)]]
      exact_defs)

lemma ca_exact_exchange:
  assumes "cx_step env transfer og k w w'" and "ca_exact (carbon w)"
    and "asks_backed (pot_account_id env) w"
  shows "ca_exact (carbon w')"
  using assms(1)
proof cases
  case (step_cancel_ask a oid order es)
  with exact_moved [OF assms(2) ask_left_le [OF assms(3)]] show ?thesis by simp
qed (use assms(2) in \<open>simp_all add: exact_moved\<close>)

lemma runtime_exact_step:
  assumes laws: "currency_laws ed free transfer"
    and inv: "runtime_inv ed free (pot_account_id env) r \<and> ca_exact (carbon (exchange r))"
    and ok: "runtime_exact_ok env free c r"
  shows "runtime_inv ed free (pot_account_id env) (snd (runtime_dispatch env transfer c r)) \<and>
    ca_exact (carbon (exchange (snd (runtime_dispatch env transfer c r))))"
proof
  have "runtime_ok env free c r" using runtime_exact_ok_imp inv ok by blast
  with laws inv show "runtime_inv ed free (pot_account_id env) (snd (runtime_dispatch env transfer c r))"
    by (simp add: runtime_inv_step)
  obtain t og k where c: "c = (t, og, k)" by (cases c)
  show "ca_exact (carbon (exchange (snd (runtime_dispatch env transfer c r))))"
  proof (cases k)
    case (Carbon_assets j)
    with inv ok ca_exact_step [of "carbon (exchange r)" env "(t, og, j)"] show ?thesis
      unfolding c by (simp add: runtime_inv_def carbon_inv_def)
  next
    case (Carbon_exchange j)
    from laws have "cx_step (env\<lparr>now := t\<rparr>) transfer og j (exchange r)
        (snd (cx_dispatch env transfer (t, og, j) (exchange r)))" by (rule cx_dispatch_step)
    from ca_exact_exchange [OF this] inv Carbon_exchange show ?thesis
      unfolding c by (simp add: runtime_inv_def escrowed_def)
  qed (use inv c in simp_all)
qed

interpretation runtime_exact: invariant_run "runtime_dispatch env transfer" "runtime_exact_ok env free"
    "\<lambda>r. currency_laws ed free transfer \<and> runtime_inv ed free (pot_account_id env) r \<and>
       ca_exact (carbon (exchange r))"
    for env transfer ed free
  by unfold_locales (use runtime_exact_step in blast)

text \<open>
  C15. Carbon credits are conserved while they are traded: from genesis with a pot that holds the
  existential deposit, after any run of calls of the three pallets in which no approved issue takes
  an asset's recorded supply past 64 bits (and the other side conditions of the joint invariant
  hold), the recorded supply of an asset is exactly what all accounts hold, what was neutralized
  and what pending burns took out; of what is held, the pot holds at least the units of all ASK
  orders on the asset.
\<close>

theorem runtime_credits_conserved:
  assumes "currency_laws ed free transfer" and "ed \<le> free c (pot_account_id env)"
    and "ok_run (runtime_exact_ok env free) (runtime_dispatch env transfer) cs (runtime_genesis c)"
  shows "let w = exchange (run_calls (runtime_dispatch env transfer) cs (runtime_genesis c));
             s = carbon w
    in (\<Sum>who\<in>UNIV. unat (ca_balance s aid who)) + retired s aid + burning s aid
         = unat (recorded_supply s aid) \<and>
       asks_left aid w \<le> unat (ca_balance s aid (pot_account_id env))"
proof -
  let ?r = "run_calls (runtime_dispatch env transfer) cs (runtime_genesis c)"
  have "currency_laws ed free transfer \<and> runtime_inv ed free (pot_account_id env) ?r \<and>
      ca_exact (carbon (exchange ?r))"
  proof (rule runtime_exact.run_inv [OF _ assms(3)])
    have "ca_exact (carbon (exchange (runtime_genesis c)))"
      by (simp add: runtime_genesis_def ca_exact_genesis)
    with assms(1) runtime_inv_genesis [where free = free, OF assms(2)]
    show "currency_laws ed free transfer \<and>
        runtime_inv ed free (pot_account_id env) (runtime_genesis c) \<and>
        ca_exact (carbon (exchange (runtime_genesis c)))" by blast
  qed
  then have e: "ca_exact (carbon (exchange ?r))"
    and b: "asks_backed (pot_account_id env) (exchange ?r)"
    by (simp_all add: runtime_inv_def escrowed_def)
  show ?thesis
    using ca_exactD [OF e, of aid] asks_backedD(1) [OF b, of aid]
    by (simp only: Let_def holdings_ca_balance)
qed

definition runtime_trading :: "(u64 \<times> origin \<times> (account \<Rightarrow> nat) eco2_call) list" where
  "runtime_trading =
     map (\<lambda>(t, og, k). (t, og, Carbon_assets k)) carbon_setup @
     [(30, Signed 1, Carbon_exchange (Make_order 3001 0 7 20 0 1)),
      (31, Signed 9, Other_pallet (\<lambda>_. 2000)),
      (32, Signed 2, Carbon_exchange (Take_order 6001 5)),
      (33, Signed 1, Carbon_assets (Submit_burn 3001 10 [0])),
      (34, Signed 2, Carbon_assets (Neutralize 3001 2 []))]"

theorem runtime_credits_conserved_witness:
  "let w = exchange (run_calls (runtime_dispatch sample_env sample_transfer) runtime_trading
             (runtime_genesis (\<lambda>_. 1000)))
   in recorded_supply (carbon w) 3001 = 40 \<and> retired (carbon w) 3001 = 2 \<and>
      (\<Sum>who\<in>UNIV. unat (ca_balance (carbon w) 3001 who)) + burning (carbon w) 3001 = 38"
proof -
  let ?r = "run_calls (runtime_dispatch sample_env sample_transfer) runtime_trading
             (runtime_genesis (\<lambda>_. 1000))"
  note ev = runtime_trading_def carbon_setup_def runtime_genesis_def cx_eval sample_transfer_def
    saturating_mul_def cx_ok_def
  have ok: "ok_run (runtime_exact_ok sample_env (\<lambda>c. c)) (runtime_dispatch sample_env sample_transfer)
      runtime_trading (runtime_genesis (\<lambda>_. 1000))"
    by (simp add: ev)
  have "recorded_supply (carbon (exchange ?r)) 3001 = 40" "retired (carbon (exchange ?r)) 3001 = 2"
    by (simp_all add: ev exact_defs)
  moreover have "(\<Sum>who\<in>UNIV. unat (ca_balance (carbon (exchange ?r)) 3001 who)) +
      retired (carbon (exchange ?r)) 3001 + burning (carbon (exchange ?r)) 3001
      = unat (recorded_supply (carbon (exchange ?r)) 3001)"
    using runtime_credits_conserved [OF sample_transfer_laws _ ok, of 3001]
    by (simp add: Let_def del: run_calls.simps)
  ultimately show ?thesis unfolding Let_def by simp
qed

end
