(* ===== verification/Genesis.thy ===== *)
theory Genesis
  imports Runtime_Config
begin

text \<open>
  The chain specifications of the node (\<open>node/src/chain_spec.rs\<close>) and their choice on the command
  line (\<open>load_spec\<close> of \<open>node/src/command.rs\<close>). Key derivation from a seed is a parameter, as is
  the parser of specification files; a slice out of range, which panics, is \<open>None\<close>.
\<close>

section \<open>Keys from seeds\<close>

text \<open>What \<open>Pair::from_string\<close> derives from a URI, one function per kind of key.\<close>

record 'k derivation =
  sr25519_account :: "string \<Rightarrow> account"
  grandpa_id :: "string \<Rightarrow> 'k"
  aura_id :: "string \<Rightarrow> 'k"
  im_online_id :: "string \<Rightarrow> 'k"
  authority_discovery_id :: "string \<Rightarrow> 'k"

definition get_from_seed :: "(string \<Rightarrow> 'a) \<Rightarrow> string \<Rightarrow> 'a" where
  "get_from_seed from_string seed = from_string (''//'' @ seed)"

definition get_account_id_from_seed :: "'k derivation \<Rightarrow> string \<Rightarrow> account" where
  "get_account_id_from_seed d seed = get_from_seed (sr25519_account d) seed"

type_synonym 'k authority = "account \<times> account \<times> 'k \<times> 'k \<times> 'k \<times> 'k"

definition authority_keys_from_seed :: "'k derivation \<Rightarrow> string \<Rightarrow> 'k authority" where
  "authority_keys_from_seed d seed =
     (get_account_id_from_seed d (seed @ ''//stash''),
      get_account_id_from_seed d seed,
      get_from_seed (grandpa_id d) seed,
      get_from_seed (aura_id d) seed,
      get_from_seed (im_online_id d) seed,
      get_from_seed (authority_discovery_id d) seed)"

section \<open>The genesis configuration\<close>

definition COIN :: u128 where "COIN = 1000000000000"
definition STASH :: u128 where "STASH = 1000 * COIN"
definition DEFAULT_PROTOCOL_ID :: string where "DEFAULT_PROTOCOL_ID = ''eco2''"

record 'k SessionKeys =
  sk_grandpa :: 'k
  sk_aura :: 'k
  sk_im_online :: 'k
  sk_authority_discovery :: 'k

definition session_keys :: "'k \<Rightarrow> 'k \<Rightarrow> 'k \<Rightarrow> 'k \<Rightarrow> 'k SessionKeys" where
  "session_keys grandpa aura im_online authority_discovery =
     \<lparr>sk_grandpa = grandpa, sk_aura = aura, sk_im_online = im_online,
      sk_authority_discovery = authority_discovery\<rparr>"

datatype staker_status = Validator | Nominator "account list" | Idle

text \<open>The entries of \<open>GenesisConfig\<close> that are not their defaults.\<close>

record 'k genesis_config =
  gc_code :: bytes
  gc_balances :: "(account \<times> u128) list"
  gc_sudo_key :: account
  gc_members :: "account list"
  gc_session_keys :: "(account \<times> account \<times> 'k SessionKeys) list"
  gc_validator_count :: u32
  gc_minimum_validator_count :: u32
  gc_stakers :: "(account \<times> account \<times> u128 \<times> staker_status) list"
  gc_invulnerables :: "account list"
  gc_slash_reward_percent :: nat

definition testnet_genesis ::
    "bytes \<Rightarrow> 'k authority list \<Rightarrow> account \<Rightarrow> (account \<times> u128) list \<Rightarrow> 'k genesis_config option" where
  "testnet_genesis wasm_binary initial_authorities root_key endowed_accounts =
     (if length endowed_accounts < 4 then None
      else Some \<lparr>
        gc_code = wasm_binary,
        gc_balances = map (\<lambda>k. (fst k, snd k)) endowed_accounts,
        gc_sudo_key = root_key,
        gc_members = map fst (take 3 (drop 1 endowed_accounts)),
        gc_session_keys = map (\<lambda>(stash, controller, grandpa, aura, im_online, discovery).
          (stash, stash, session_keys grandpa aura im_online discovery)) initial_authorities,
        gc_validator_count = 20,
        gc_minimum_validator_count = of_nat (length initial_authorities),
        gc_stakers = map (\<lambda>(stash, controller, _).
          (stash, controller, STASH, Validator)) initial_authorities,
        gc_invulnerables = map fst initial_authorities,
        gc_slash_reward_percent = 10\<rparr>)"

section \<open>The chain specifications\<close>

datatype chain_type = Development | Local

record token_properties =
  ss58_format :: nat
  token_decimals :: nat
  token_symbol :: string

record 'k chain_spec =
  spec_name :: string
  spec_id :: string
  spec_type :: chain_type
  spec_genesis :: "'k genesis_config option"
  spec_protocol_id :: "string option"
  spec_properties :: "token_properties option"

definition development_config :: "'k derivation \<Rightarrow> bytes option \<Rightarrow> string + 'k chain_spec" where
  "development_config d WASM_BINARY =
     (case WASM_BINARY of
        None \<Rightarrow> Inl ''Development wasm binary not available''
      | Some wasm_binary \<Rightarrow> Inr \<lparr>
          spec_name = ''Development'',
          spec_id = ''dev'',
          spec_type = Development,
          spec_genesis = testnet_genesis wasm_binary
            [authority_keys_from_seed d ''Alice'']
            (get_account_id_from_seed d ''Alice'')
            [(get_account_id_from_seed d ''Alice'', 999997000 * COIN),
             (get_account_id_from_seed d ''Bob'', 1000 * COIN),
             (get_account_id_from_seed d ''Charlie'', 1000 * COIN),
             (get_account_id_from_seed d ''Dave'', 1000 * COIN)],
          spec_protocol_id = None,
          spec_properties = None\<rparr>)"

definition local_testnet_config :: "'k derivation \<Rightarrow> bytes option \<Rightarrow> string + 'k chain_spec" where
  "local_testnet_config d WASM_BINARY =
     (case WASM_BINARY of
        None \<Rightarrow> Inl ''Development wasm binary not available''
      | Some wasm_binary \<Rightarrow> Inr \<lparr>
          spec_name = ''ECO2 Local Testnet'',
          spec_id = ''local_testnet'',
          spec_type = Local,
          spec_genesis = testnet_genesis wasm_binary
            [authority_keys_from_seed d ''Alice'', authority_keys_from_seed d ''Bob'']
            (get_account_id_from_seed d ''Alice'')
            [(get_account_id_from_seed d ''Alice'', 999995000 * COIN),
             (get_account_id_from_seed d ''Alice//stash'', 1000 * COIN),
             (get_account_id_from_seed d ''Bob'', 1000 * COIN),
             (get_account_id_from_seed d ''Bob//stash'', 1000 * COIN),
             (get_account_id_from_seed d ''Charlie'', 1000 * COIN),
             (get_account_id_from_seed d ''Dave'', 1000 * COIN)],
          spec_protocol_id = Some DEFAULT_PROTOCOL_ID,
          spec_properties = Some \<lparr>ss58_format = 42, token_decimals = 12, token_symbol = ''ECO2''\<rparr>\<rparr>)"

definition load_spec ::
    "'k derivation \<Rightarrow> bytes option \<Rightarrow> (string \<Rightarrow> string + 'k chain_spec) \<Rightarrow> string
     \<Rightarrow> string + 'k chain_spec" where
  "load_spec d WASM_BINARY from_json_file spec =
     (if spec = ''dev'' then development_config d WASM_BINARY
      else if spec = '''' \<or> spec = ''local'' then local_testnet_config d WASM_BINARY
      else from_json_file spec)"

lemmas genesis_defs =
  development_config_def local_testnet_config_def testnet_genesis_def authority_keys_from_seed_def
  get_account_id_from_seed_def get_from_seed_def COIN_def STASH_def session_keys_def

definition bonds_funded :: "'k genesis_config \<Rightarrow> bool" where
  "bonds_funded g =
     list_all (\<lambda>(stash, controller, bond, status).
       list_ex (\<lambda>(who, amount). who = stash \<and> bond \<le> amount) (gc_balances g)) (gc_stakers g)"

definition endowment :: "'k genesis_config \<Rightarrow> nat" where
  "endowment g = sum_list (map (\<lambda>(who, amount). unat amount) (gc_balances g))"

text \<open>
  The built-in chains have a genesis: no slice is out of range and both endow exactly
  \<open>10 ^ 9\<close> coins in all, and the local testnet funds the stash of every initial validator with
  at least the bond. Without a WASM binary both specifications are errors.
\<close>

theorem builtin_genesis_endowments:
  "(\<exists>spec g. load_spec d (Some wasm) json ''dev'' = Inr spec \<and> spec_genesis spec = Some g \<and>
      endowment g = 10 ^ 9 * unat COIN \<and> length (gc_members g) = 3) \<and>
   (\<exists>spec g. load_spec d (Some wasm) json ''local'' = Inr spec \<and> spec_genesis spec = Some g \<and>
      endowment g = 10 ^ 9 * unat COIN \<and> length (gc_members g) = 3 \<and> bonds_funded g \<and>
      length (gc_stakers g) = unat (gc_minimum_validator_count g)) \<and>
   load_spec d None json ''dev'' = load_spec d None json '''' \<and>
   (\<exists>e. load_spec d None json '''' = Inl e)"
  by (simp add: load_spec_def genesis_defs endowment_def bonds_funded_def)

text \<open>
  The development chain bonds a stash it does not fund: its one validator stakes from
  \<open>//Alice//stash\<close>, and when the seeds derive different accounts that account is not among the
  endowed ones, so the bond of 1000 coins of its genesis stake is backed by nothing.
\<close>

theorem development_bond_unfunded:
  assumes "sr25519_account d ''//Alice//stash'' \<notin>
    {sr25519_account d ''//Alice'', sr25519_account d ''//Bob'', sr25519_account d ''//Charlie'',
     sr25519_account d ''//Dave''}"
  shows "\<exists>spec g. development_config d (Some wasm) = Inr spec \<and> spec_genesis spec = Some g \<and>
    \<not> bonds_funded g"
  using assms by (simp add: genesis_defs bonds_funded_def eq_commute)

definition sample_derivation :: "unit derivation" where
  "sample_derivation = \<lparr>sr25519_account = (\<lambda>uri. of_nat (length uri)), grandpa_id = (\<lambda>_. ()),
     aura_id = (\<lambda>_. ()), im_online_id = (\<lambda>_. ()), authority_discovery_id = (\<lambda>_. ())\<rparr>"

theorem development_bond_unfunded_witness:
  "\<exists>spec g. development_config sample_derivation (Some []) = Inr spec \<and> spec_genesis spec = Some g
     \<and> \<not> bonds_funded g"
  by (rule development_bond_unfunded) (simp add: sample_derivation_def)

text \<open>
  Votes are not monotone in the balance: with the issuance of the built-in genesis, the vote
  conversion truncates the balance that the development chain gives to Alice (99.9997 percent of
  all coins), so she has fewer votes than an account with \<open>4 * 10 ^ 6\<close> coins.
\<close>

theorem vote_conversion_truncates_genesis:
  "\<exists>spec g. development_config d (Some wasm) = Inr spec \<and> spec_genesis spec = Some g \<and>
    (let issuance = of_nat (endowment g); alice = snd (hd (gc_balances g)); x = 4000000 * COIN
     in x < alice \<and> balance_to_vote issuance alice < balance_to_vote issuance x)"
  by (simp add: genesis_defs endowment_def balance_to_vote_def vote_factor_def
      unsigned_minus_1_eq_mask mask_eq_exp_minus_1 Let_def)

text \<open>
  The pot of the exchange is not endowed: when its account is none of the endowed ones, the built-in
  chains start it with nothing, below the existential deposit that the escrow needs.
\<close>

definition genesis_balance :: "'k genesis_config \<Rightarrow> account \<Rightarrow> nat" where
  "genesis_balance g pot =
     sum_list (map (\<lambda>(who, amount). if who = pot then unat amount else 0) (gc_balances g))"

lemma pot_not_endowed:
  assumes "testnet_genesis wasm authorities root endowed = Some g" and "pot \<notin> fst ` set endowed"
  shows "genesis_balance g pot = 0" and "genesis_balance g pot < unat ExistentialDeposit"
proof -
  have "gc_balances g = endowed" using assms(1) by (auto simp: testnet_genesis_def split: if_splits)
  with assms(2) show "genesis_balance g pot = 0"
    by (fastforce simp: genesis_balance_def sum_list_eq_0_iff intro: rev_image_eqI)
  then show "genesis_balance g pot < unat ExistentialDeposit" by (simp add: ExistentialDeposit_def)
qed

text \<open>
  The staking clock as configured: a session is 200 blocks of 6 seconds, 20 minutes, and an era
  is four sessions, 80 minutes; bonding lasts eight eras, less than eleven hours; a slash can still
  be deferred while the stake is bonded; the block time of the constants module and of the runtime
  agree, and the session length given to the im-online pallet is three times the session's.
\<close>

theorem staking_clock:
  "unat Period * unat MILLISECS_PER_BLOCK = 20 * 60 * 1000 \<and>
   unat Period * unat SessionsPerEra * unat MILLISECS_PER_BLOCK = 80 * 60 * 1000 \<and>
   unat BondingDuration * unat SessionsPerEra * unat Period * unat MILLISECS_PER_BLOCK
     < 11 * 60 * 60 * 1000 \<and>
   SlashDeferDuration < BondingDuration \<and> ElectionLookahead < Period \<and>
   MILLISECS_PER_BLOCK = time_MILLISECS_PER_BLOCK \<and> MINUTES = time_MINUTES \<and>
   HOURS = time_HOURS \<and> DAYS = time_DAYS \<and> SessionDuration = 3 * Period"
  by (simp add: time_defs)

end
