(* ===== verification/Runtime_Endowment.thy ===== *)
theory Runtime_Endowment
  imports Runtime_Properties Genesis
begin

text \<open>
  Chains whose pot starts with nothing. No built-in chain specification endows the exchange's pot,
  so the joint invariant of \<open>Runtime\<close> does not hold of their genesis; here it is split at the block
  in which somebody pays the existential deposit into the pot. Until then ASK orders are safe
  without any money in the pot, as long as nobody makes a BID order.
\<close>

section \<open>Before the endowment\<close>

definition no_bids :: "'c cx_state \<Rightarrow> bool" where
  "no_bids w \<longleftrightarrow> (\<forall>oid order. Orders w oid = Some order \<longrightarrow> or_direction order = 0)"

definition ask_inv :: "account \<Rightarrow> 'c runtime_state \<Rightarrow> bool" where
  "ask_inv pot r \<longleftrightarrow> carbon_inv (carbon (exchange r)) \<and> orders_wf pot (exchange r) \<and>
     asks_backed pot (exchange r) \<and> no_bids (exchange r)"

fun makes_bid :: "cx_call \<Rightarrow> bool" where
  "makes_bid (Make_order _ _ _ _ direction _) = (direction = 1)"
| "makes_bid _ = False"

text \<open>The side condition: as that of the joint invariant, without its demands on the currency.\<close>

fun ask_ok :: "env \<Rightarrow> u64 \<times> origin \<times> 'c eco2_call \<Rightarrow> 'c runtime_state \<Rightarrow> bool" where
  "ask_ok env (t, og, Carbon_assets k) r =
     (og \<noteq> Signed (pot_account_id env) \<and> burn_id_free env (t, og, k) (carbon (exchange r))
      \<and> issue_fits k (carbon (exchange r)))"
| "ask_ok env (t, og, Standard_assets k) r = True"
| "ask_ok env (t, og, Carbon_exchange k) r = (og \<noteq> Signed (pot_account_id env) \<and> \<not> makes_bid k)"
| "ask_ok env (t, og, Other_pallet c) r = True"

lemma lock_exact_ask: "\<not> makes_bid k \<Longrightarrow> lock_exact k"
  by (cases k) auto

lemma no_bids_step:
  assumes "cx_step env transfer og k w w'" and "no_bids w" and "\<not> makes_bid k"
  shows "no_bids w'"
  using assms(1)
  by cases (use assms(2,3) in \<open>auto simp: no_bids_def new_order_def remaining_orders_def
      split: if_splits\<close>)

lemma no_bids_locked: "orders_wf pot w \<Longrightarrow> no_bids w \<Longrightarrow> bids_locked w = 0"
  unfolding bids_locked_def map_sum_def
  by (rule sum.neutral)
    (auto simp: bid_locked_def orders_wf_def order_wf_def no_bids_def split: option.split)

lemma ask_parts_carbon_step:
  assumes inv: "ask_inv pot r" and "og \<noteq> Signed pot" and "issue_fits k (carbon (exchange r))"
    and s': "s' = snd (ca_dispatch env (t, og, k) (carbon (exchange r)))"
  shows "orders_wf pot ((exchange r)\<lparr>carbon := s'\<rparr>) \<and>
    asks_backed pot ((exchange r)\<lparr>carbon := s'\<rparr>)"
proof -
  have "escrowed 0 (\<lambda>_ _. bids_locked (exchange r)) pot (exchange r)"
    using inv by (simp add: ask_inv_def escrowed_def bids_backed_def)
  moreover have "ca_wf (carbon (exchange r))" using inv by (simp add: ask_inv_def carbon_inv_def)
  ultimately have "escrowed 0 (\<lambda>_ _. bids_locked (exchange r)) pot ((exchange r)\<lparr>carbon := s'\<rparr>)"
    unfolding s' using assms(2,3) by (rule escrowed_carbon_step)
  then show ?thesis by (simp add: escrowed_def)
qed

lemma ask_inv_step:
  assumes laws: "currency_laws ed free transfer"
    and inv: "ask_inv (pot_account_id env) r" and "ask_ok env c r"
  shows "ask_inv (pot_account_id env) (snd (runtime_dispatch env transfer c r))"
proof -
  let ?pot = "pot_account_id env"
  obtain t og k where c: "c = (t, og, k)" by (cases c)
  show ?thesis
  proof (cases k)
    case (Carbon_assets j)
    with assms(3) c have "og \<noteq> Signed ?pot" "issue_fits j (carbon (exchange r))"
      and "burn_id_free env (t, og, j) (carbon (exchange r))" by simp_all
    with inv ask_parts_carbon_step [OF inv this(1,2) refl, where env = env and t = t]
    show ?thesis
      unfolding c Carbon_assets by (simp add: ask_inv_def carbon_inv_step no_bids_def)
  next
    case (Standard_assets j)
    with inv show ?thesis unfolding c by (simp add: ask_inv_def)
  next
    case (Carbon_exchange j)
    let ?w' = "snd (cx_dispatch env transfer (t, og, j) (exchange r))"
    from laws have st: "cx_step (env\<lparr>now := t\<rparr>) transfer og j (exchange r) ?w'"
      by (rule cx_dispatch_step)
    have pot: "pot_account_id (env\<lparr>now := t\<rparr>) = ?pot" by simp
    have og: "og \<noteq> Signed ?pot" and nb: "\<not> makes_bid j"
      using assms(3) unfolding c Carbon_exchange by simp_all
    have ci: "carbon_inv (carbon (exchange r))" and wf: "orders_wf ?pot (exchange r)"
      and b: "asks_backed ?pot (exchange r)" and n: "no_bids (exchange r)"
      using inv by (simp_all add: ask_inv_def)
    have "orders_wf ?pot ?w'"
      using orders_wf_step [OF st] wf og lock_exact_ask [OF nb] unfolding pot by blast
    moreover have "asks_backed ?pot ?w'"
      using asks_backed_step [OF st] wf b og unfolding pot by blast
    moreover have "carbon_inv (carbon ?w')"
      using ci wf ca_wf_exchange [OF st] carbon_frame_keeps [OF carbon_frame_step [OF st]]
      by (simp add: carbon_inv_def)
    ultimately show ?thesis
      using no_bids_step [OF st n nb] unfolding c Carbon_exchange by (simp add: ask_inv_def)
  next
    case (Other_pallet x)
    with inv show ?thesis
      unfolding c by (simp add: ask_inv_def orders_wf_def asks_backed_def asks_left_def no_bids_def)
  qed
qed

interpretation unfunded: invariant_run "runtime_dispatch env transfer" "ask_ok env"
    "\<lambda>r. currency_laws ed free transfer \<and> ask_inv (pot_account_id env) r"
    for env transfer ed free
  by unfold_locales (use ask_inv_step in blast)

lemma ask_inv_genesis: "ask_inv pot (runtime_genesis c)"
proof -
  have "runtime_inv 0 (\<lambda>_ _. 0) pot (runtime_genesis c)" by (rule runtime_inv_genesis) simp
  then show ?thesis
    by (simp add: ask_inv_def runtime_inv_def escrowed_def) (simp add: no_bids_def runtime_genesis_def)
qed

section \<open>From the endowment on\<close>

lemma endowed_inv:
  assumes "ask_inv pot r" and "ed \<le> free c pot"
  shows "runtime_inv ed free pot (r\<lparr>exchange := (exchange r)\<lparr>currency := c\<rparr>\<rparr>)"
proof -
  have "orders_wf pot (exchange r)" "no_bids (exchange r)"
    using assms(1) by (simp_all add: ask_inv_def)
  then have "map_sum bid_locked (Orders (exchange r)) = 0"
    using no_bids_locked by (simp add: bids_locked_def)
  with assms show ?thesis
    by (simp add: runtime_inv_def escrowed_def bids_backed_def bids_locked_def ask_inv_def
        orders_wf_def asks_backed_def asks_left_def)
qed

text \<open>
  C14. The escrow on a chain whose pot starts with nothing, as the pots of the built-in chains do.
  As long as nobody bids, the carbon storage is well-formed and the pot holds the units of all ASK
  orders whatever happens to its money; once some pallet leaves the existential deposit with the
  pot, BID orders are solvent too over every later run that keeps the side conditions of the joint
  invariant.
\<close>

theorem escrow_from_endowment:
  assumes "currency_laws ed free transfer"
    and "ok_run (ask_ok env) (runtime_dispatch env transfer) before (runtime_genesis c)"
    and "ed \<le> free endowed (pot_account_id env)"
    and "ok_run (runtime_ok env free) (runtime_dispatch env transfer) after
           (run_calls (runtime_dispatch env transfer) (before @ [(t, og, Other_pallet endowed)])
             (runtime_genesis c))"
  shows "let run = \<lambda>cs. exchange (run_calls (runtime_dispatch env transfer) cs (runtime_genesis c));
             pot = pot_account_id env;
             w1 = run before; w2 = run (before @ [(t, og, Other_pallet endowed)] @ after)
    in ca_wf (carbon w1) \<and> (\<forall>aid. asks_left aid w1 \<le> unat (ca_balance (carbon w1) aid pot)) \<and>
       ca_wf (carbon w2) \<and> (\<forall>aid. asks_left aid w2 \<le> unat (ca_balance (carbon w2) aid pot)) \<and>
       ed + bids_locked w2 \<le> free (currency w2) pot"
proof -
  let ?d = "runtime_dispatch env transfer" and ?pot = "pot_account_id env"
  let ?r1 = "run_calls ?d before (runtime_genesis c)"
  let ?r = "snd (?d (t, og, Other_pallet endowed) ?r1)"
  let ?r2 = "run_calls ?d after ?r"
  have r2: "run_calls ?d (before @ [(t, og, Other_pallet endowed)] @ after) (runtime_genesis c) = ?r2"
    by (simp add: run_calls_append)
  have "currency_laws ed free transfer \<and> ask_inv ?pot ?r1"
    by (rule unfunded.run_inv [OF _ assms(2)]) (simp add: assms(1) ask_inv_genesis)
  then have a: "ask_inv ?pot ?r1" by simp
  have "runtime_inv ed free ?pot ?r"
    using endowed_inv [where free = free, OF a assms(3)] by (simp add: runtime_dispatch.simps)
  then have "currency_laws ed free transfer \<and> runtime_inv ed free ?pot ?r2"
    using assms(1,4) by (intro runtime_joint.run_inv) (simp_all add: run_calls_append)
  then have "runtime_inv ed free ?pot ?r2" by simp
  with a show ?thesis
    unfolding Let_def r2 ask_inv_def runtime_inv_def carbon_inv_def escrowed_def asks_backed_def
      bids_backed_def by blast
qed

definition ask_trading :: "(u64 \<times> origin \<times> (account \<Rightarrow> nat) eco2_call) list" where
  "ask_trading =
     map (\<lambda>(t, og, k). (t, og, Carbon_assets k)) carbon_setup @
     [(30, Signed 1, Carbon_exchange (Make_order 3001 0 7 20 0 1)),
      (31, Signed 2, Carbon_exchange (Take_order 6001 5))]"

theorem escrow_from_endowment_witness:
  "let w = exchange (run_calls (runtime_dispatch sample_env sample_transfer)
             (ask_trading @ [(40, Signed 9, Other_pallet ((\<lambda>_. 1000)(99 := 10)))] @
              [(50, Signed 2, Carbon_exchange (Make_order 3001 0 1 20 1 2)),
               (51, Signed 1, Carbon_exchange (Take_order 6002 15))])
             (runtime_genesis ((\<lambda>_. 1000)(99 := 0))))
   in asks_left 3001 w \<le> unat (ca_balance (carbon w) 3001 99) \<and> 10 + bids_locked w \<le> currency w 99"
proof -
  let ?d = "runtime_dispatch sample_env sample_transfer"
  let ?g = "runtime_genesis ((\<lambda>_. 1000)(99 := 0))"
  note ev = ask_trading_def carbon_setup_def runtime_genesis_def cx_eval sample_transfer_def
    saturating_mul_def cx_ok_def
  have before: "ok_run (ask_ok sample_env) ?d ask_trading ?g" by (simp add: ev)
  have after: "ok_run (runtime_ok sample_env (\<lambda>c. c)) ?d
      [(50, Signed 2, Carbon_exchange (Make_order 3001 0 1 20 1 2)),
       (51, Signed 1, Carbon_exchange (Take_order 6002 15))]
      (run_calls ?d (ask_trading @ [(40, Signed 9, Other_pallet ((\<lambda>_. 1000)(99 := 10)))]) ?g)"
    by (simp add: ev)
  show ?thesis
    using escrow_from_endowment [OF sample_transfer_laws before _ after] by (simp add: Let_def)
qed

end
