(* ===== verification/Carbon_Registry.thy ===== *)
theory Carbon_Registry
  imports Carbon_Exact
begin

text \<open>
  What the carbon-assets pallet promises, as a specification: a registry of projects, assets,
  issues and burns over natural numbers and approval flags, and the credits of every account. The
  pallet refines it, call by call and result by result, outside the cases in which the code departs
  from its intent (each proved on its own in \<open>Carbon_Properties\<close>).
\<close>

section \<open>The specification\<close>

record project_entry =
  limit :: nat
  net_issued :: nat
  proprietor :: account
  project_approved :: bool

record asset_entry =
  parent :: hash
  initial :: nat
  asset_approved :: bool

text \<open>An issue or a burn that its owner requests.\<close>

record request =
  on_asset :: hash
  quantity :: nat
  request_approved :: bool

text \<open>There is no supply of an asset: it follows from the credits, what was retired and the burns.\<close>

record registry =
  projects_of :: "hash \<rightharpoonup> project_entry"
  assets_of :: "hash \<rightharpoonup> asset_entry"
  issues_of :: "hash \<rightharpoonup> request"
  burns_of :: "hash \<rightharpoonup> request"
  credits :: "hash \<Rightarrow> account \<Rightarrow> nat"

definition empty_registry :: registry where
  "empty_registry = \<lparr>projects_of = Map.empty, assets_of = Map.empty, issues_of = Map.empty,
     burns_of = Map.empty, credits = (\<lambda>_ _. 0)\<rparr>"

definition set_credit :: "hash \<Rightarrow> account \<Rightarrow> nat \<Rightarrow> registry \<Rightarrow> registry" where
  "set_credit aid who n k = k\<lparr>credits := (credits k)(aid := (credits k aid)(who := n))\<rparr>"

abbreviation project_of_asset :: "registry \<Rightarrow> hash \<Rightarrow> project_entry" where
  "project_of_asset k aid \<equiv> the (projects_of k (parent (the (assets_of k aid))))"

text \<open>Calls by their sender: \<open>signed_by\<close> asks for an account, \<open>by_committee\<close> for the approval origin.\<close>

definition signed_by ::
    "origin \<Rightarrow> (account \<Rightarrow> registry \<Rightarrow> ca_error dispatch_result \<times> registry) \<Rightarrow> registry
     \<Rightarrow> ca_error dispatch_result \<times> registry" where
  "signed_by og f k = (case ensure_signed og of None \<Rightarrow> (Inl BadOrigin, k) | Some who \<Rightarrow> f who k)"

definition by_committee ::
    "env \<Rightarrow> origin \<Rightarrow> (registry \<Rightarrow> ca_error dispatch_result \<times> registry) \<Rightarrow> registry
     \<Rightarrow> ca_error dispatch_result \<times> registry" where
  "by_committee env og f k = (if approve_origin env og then f k else (Inl BadOrigin, k))"

fun registry_spec ::
    "env \<Rightarrow> u64 \<times> origin \<times> ca_call \<Rightarrow> registry \<Rightarrow> ca_error dispatch_result \<times> registry" where
  "registry_spec env (t, og, Submit_project symbol max_supply additional) = signed_by og (\<lambda>who k.
     let pid = hash_of env (Pre_project who symbol max_supply additional) in
     if projects_of k pid \<noteq> None then (Err DuplicatedKey, k)
     else (Ok, k\<lparr>projects_of := (projects_of k)(pid \<mapsto> \<lparr>limit = unat max_supply, net_issued = 0,
       proprietor = who, project_approved = False\<rparr>)\<rparr>))"
| "registry_spec env (t, og, Approve_project pid) = by_committee env og (\<lambda>k.
     case projects_of k pid of None \<Rightarrow> (Err InvalidIndex, k)
     | Some p \<Rightarrow>
         if project_approved p then (Err AlreadyApproved, k)
         else (Ok, k\<lparr>projects_of := (projects_of k)(pid \<mapsto> p\<lparr>project_approved := True\<rparr>)\<rparr>))"
| "registry_spec env (t, og, Submit_asset pid vintage v additional) = signed_by og (\<lambda>who k.
     let aid = hash_of env (Pre_asset who pid vintage v additional) in
     case projects_of k pid of None \<Rightarrow> (Err InvalidIndex, k)
     | Some p \<Rightarrow>
         if \<not> project_approved p then (Err ProjectNotApproved, k)
         else if proprietor p \<noteq> who then (Err PermissionDenied, k)
         else if limit p < unat v + net_issued p then (Err OverIssueLimit, k)
         else if assets_of k aid \<noteq> None then (Err DuplicatedKey, k)
         else (Ok, k\<lparr>assets_of := (assets_of k)(aid \<mapsto>
           \<lparr>parent = pid, initial = unat v, asset_approved = False\<rparr>)\<rparr>))"
| "registry_spec env (t, og, Approve_asset aid) = by_committee env og (\<lambda>k.
     case assets_of k aid of None \<Rightarrow> (Err InvalidIndex, k)
     | Some a \<Rightarrow>
         let p = project_of_asset k aid in
         if asset_approved a then (Err AlreadyApproved, k)
         else if limit p < initial a + net_issued p then (Err OverIssueLimit, k)
         else (Ok, set_credit aid (proprietor p) (credits k aid (proprietor p) + initial a)
           (k\<lparr>assets_of := (assets_of k)(aid \<mapsto> a\<lparr>asset_approved := True\<rparr>)\<rparr>)))"
| "registry_spec env (t, og, Submit_issue aid v additional) = signed_by og (\<lambda>who k.
     let iid = hash_of env (Pre_issue who aid v additional); p = project_of_asset k aid in
     case assets_of k aid of None \<Rightarrow> (Err InvalidIndex, k)
     | Some a \<Rightarrow>
         if \<not> asset_approved a then (Err AssetNotApproved, k)
         else if proprietor p \<noteq> who then (Err PermissionDenied, k)
         else if limit p < unat v + net_issued p then (Err OverIssueLimit, k)
         else if issues_of k iid \<noteq> None then (Err DuplicatedKey, k)
         else (Ok, k\<lparr>issues_of := (issues_of k)(iid \<mapsto>
           \<lparr>on_asset = aid, quantity = unat v, request_approved = False\<rparr>)\<rparr>))"
| "registry_spec env (t, og, Approve_issue iid) = by_committee env og (\<lambda>k.
     case issues_of k iid of None \<Rightarrow> (Err InvalidIndex, k)
     | Some i \<Rightarrow>
         let aid = on_asset i; p = project_of_asset k aid; who = proprietor p in
         if request_approved i then (Err AlreadyApproved, k)
         else if limit p < quantity i + net_issued p then (Err OverIssueLimit, k)
         else (Ok, set_credit aid who (credits k aid who + quantity i)
           (k\<lparr>projects_of := (projects_of k)(parent (the (assets_of k aid)) \<mapsto>
                p\<lparr>net_issued := net_issued p + quantity i\<rparr>),
              issues_of := (issues_of k)(iid \<mapsto> i\<lparr>request_approved := True\<rparr>)\<rparr>)))"
| "registry_spec env (t, og, Submit_burn aid v additional) = signed_by og (\<lambda>who k.
     let bid = hash_of env (Pre_burn who aid v additional) in
     case assets_of k aid of None \<Rightarrow> (Err InvalidIndex, k)
     | Some a \<Rightarrow>
         if \<not> asset_approved a then (Err AssetNotApproved, k)
         else if proprietor (project_of_asset k aid) \<noteq> who then (Err PermissionDenied, k)
         else if burns_of k bid \<noteq> None then (Err DuplicatedKey, k)
         else if credits k aid who < unat v then (Err BalanceLow, k)
         else (Ok, set_credit aid who (credits k aid who - unat v)
           (k\<lparr>burns_of := (burns_of k)(bid \<mapsto>
             \<lparr>on_asset = aid, quantity = unat v, request_approved = False\<rparr>)\<rparr>)))"
| "registry_spec env (t, og, Approve_burn bid) = by_committee env og (\<lambda>k.
     case burns_of k bid of None \<Rightarrow> (Err InvalidIndex, k)
     | Some b \<Rightarrow>
         let p = project_of_asset k (on_asset b) in
         if request_approved b then (Err AlreadyApproved, k)
         else (Ok, k\<lparr>projects_of := (projects_of k)(parent (the (assets_of k (on_asset b))) \<mapsto>
                p\<lparr>net_issued := net_issued p - quantity b\<rparr>),
              burns_of := (burns_of k)(bid \<mapsto> b\<lparr>request_approved := True\<rparr>)\<rparr>))"
| "registry_spec env (t, og, Ca_transfer aid to_acc v) = signed_by og (\<lambda>who k.
     if v = 0 then (Err AmountZero, k)
     else if credits k aid who < unat v then (Err BalanceLow, k)
     else let k' = set_credit aid who (credits k aid who - unat v) k
          in (Ok, set_credit aid to_acc (credits k' aid to_acc + unat v) k'))"
| "registry_spec env (t, og, Neutralize aid v additional) = signed_by og (\<lambda>who k.
     if v = 0 then (Err AmountZero, k)
     else if credits k aid who < unat v then (Err BalanceLow, k)
     else (Ok, set_credit aid who (credits k aid who - unat v) k))"

section \<open>The abstraction\<close>

definition project_entry_of :: "CarbonProject \<Rightarrow> project_entry" where
  "project_entry_of p = \<lparr>limit = unat (cp_max_supply p), net_issued = unat (cp_total_supply p),
     proprietor = cp_owner p, project_approved = (cp_status p = 1)\<rparr>"

definition asset_entry_of :: "CarbonAsset \<Rightarrow> asset_entry" where
  "asset_entry_of a = \<lparr>parent = as_project_id a, initial = unat (as_initial_supply a),
     asset_approved = (as_status a = 1)\<rparr>"

definition issue_of :: "IssueInfo \<Rightarrow> request" where
  "issue_of i = \<lparr>on_asset = is_asset_id i, quantity = unat (is_amount i),
     request_approved = (is_status i = 1)\<rparr>"

definition burn_of :: "BurnInfo \<Rightarrow> request" where
  "burn_of b = \<lparr>on_asset = bi_asset_id b, quantity = unat (bi_amount b),
     request_approved = (bi_status b = 1)\<rparr>"

lemmas entry_defs = project_entry_of_def asset_entry_of_def issue_of_def burn_of_def

definition credits_of :: "(hash \<times> account \<rightharpoonup> u64) \<Rightarrow> hash \<Rightarrow> account \<Rightarrow> nat" where
  "credits_of m aid who = unat (vget m (aid, who))"

definition registry_of :: "ca_state \<Rightarrow> registry" where
  "registry_of s = \<lparr>projects_of = map_option project_entry_of \<circ> Projects s,
     assets_of = map_option asset_entry_of \<circ> Assets s, issues_of = map_option issue_of \<circ> Issues s,
     burns_of = map_option burn_of \<circ> Burns s,
     credits = credits_of (ca_Balances s)\<rparr>"

lemma registry_of_genesis: "registry_of ca_genesis = empty_registry"
  by (simp add: registry_of_def empty_registry_def ca_genesis_def credits_of_def fun_eq_iff)

lemma registry_of_simps [simp]:
  "projects_of (registry_of s) = map_option project_entry_of \<circ> Projects s"
  "assets_of (registry_of s) = map_option asset_entry_of \<circ> Assets s"
  "issues_of (registry_of s) = map_option issue_of \<circ> Issues s"
  "burns_of (registry_of s) = map_option burn_of \<circ> Burns s"
  "credits (registry_of s) = credits_of (ca_Balances s)"
  by (simp_all add: registry_of_def)

lemma unat_ca_balance: "unat (ca_balance s aid who) = credits_of (ca_Balances s) aid who"
  by (simp add: credits_of_def ca_balance_def)

lemma registry_of_update [simp]:
  "registry_of (s\<lparr>Projects := ps\<rparr>) = (registry_of s)\<lparr>projects_of := map_option project_entry_of \<circ> ps\<rparr>"
  "registry_of (s\<lparr>Assets := as\<rparr>) = (registry_of s)\<lparr>assets_of := map_option asset_entry_of \<circ> as\<rparr>"
  "registry_of (s\<lparr>Issues := is\<rparr>) = (registry_of s)\<lparr>issues_of := map_option issue_of \<circ> is\<rparr>"
  "registry_of (s\<lparr>Burns := bs\<rparr>) = (registry_of s)\<lparr>burns_of := map_option burn_of \<circ> bs\<rparr>"
  "registry_of (s\<lparr>ProjectAdditionals := x\<rparr>) = registry_of s"
  "registry_of (s\<lparr>AssetAdditionals := x\<rparr>) = registry_of s"
  "registry_of (s\<lparr>ca_events := es\<rparr>) = registry_of s"
  "registry_of (s\<lparr>ca_Balances := m\<rparr>) = (registry_of s)\<lparr>credits := credits_of m\<rparr>"
  by (auto simp: registry_of_def credits_of_def ca_balance_def fun_eq_iff)

lemma credits_of_upd [simp]:
  "credits_of (m((aid, who) \<mapsto> v)) = (credits_of m)(aid := (credits_of m aid)(who := unat v))"
  by (auto simp: credits_of_def fun_eq_iff)

text \<open>
  The calls on which pallet and specification agree: sums that the code compares with a maximum fit
  in 64 bits, and so does the supply that an approved issue makes; a burn has a fresh id, and when
  it is approved the project's counter covers it.
\<close>

definition sum_fits :: "ca_state \<Rightarrow> hash \<Rightarrow> u64 \<Rightarrow> bool" where
  "sum_fits s pid v = (case Projects s pid of None \<Rightarrow> True
     | Some p \<Rightarrow> unat v + unat (cp_total_supply p) < 2 ^ 64)"

definition asset_sum_fits :: "ca_state \<Rightarrow> hash \<Rightarrow> u64 \<Rightarrow> bool" where
  "asset_sum_fits s aid v = (case Assets s aid of None \<Rightarrow> True
     | Some a \<Rightarrow> sum_fits s (as_project_id a) v)"

fun registry_ok :: "env \<Rightarrow> u64 \<times> origin \<times> ca_call \<Rightarrow> ca_state \<Rightarrow> bool" where
  "registry_ok env (t, og, Submit_asset pid vintage v additional) s = sum_fits s pid v"
| "registry_ok env (t, og, Approve_asset aid) s =
     (case Assets s aid of None \<Rightarrow> True | Some a \<Rightarrow> asset_sum_fits s aid (as_initial_supply a))"
| "registry_ok env (t, og, Submit_issue aid v additional) s = asset_sum_fits s aid v"
| "registry_ok env (t, og, Approve_issue iid) s =
     (case Issues s iid of None \<Rightarrow> True | Some i \<Rightarrow> asset_sum_fits s (is_asset_id i) (is_amount i)
        \<and> unat (recorded_supply s (is_asset_id i)) + unat (is_amount i) < 2 ^ 64)"
| "registry_ok env (t, Signed who, Submit_burn aid v additional) s =
     (let bid = hash_of env (Pre_burn who aid v additional)
      in Burns s bid = None \<and> Projects s bid = None)"
| "registry_ok env (t, og, Approve_burn bid) s = burn_covered (t, og, Approve_burn bid) s"
| "registry_ok env c s = True"

lemma registry_ok_imp:
  assumes "registry_ok env c s"
  shows "burn_id_free env c s \<and> supply_fits c s"
  using assms
  by (cases "(env, c, s)" rule: registry_ok.cases)
    (auto split: option.splits simp: Let_def split: option.split_asm)

section \<open>The refinement\<close>

definition refines_at :: "env \<Rightarrow> u64 \<times> origin \<times> ca_call \<Rightarrow> ca_state \<Rightarrow> bool" where
  "refines_at env c s \<longleftrightarrow> registry_spec env c (registry_of s) =
     (fst (ca_dispatch env c s), registry_of (snd (ca_dispatch env c s)))"

lemma sum_le_iff:
  assumes "unat (v :: u64) + unat w < 2 ^ 64"
  shows "v + w \<le> m \<longleftrightarrow> \<not> unat m < unat v + unat w"
  using unat_add_u64 [OF assms] by (simp add: word_le_nat_alt not_less)

lemmas spec_simps = refines_at_def signed_by_def by_committee_def set_credit_def vmutate_def
  Let_def ca_deposit_event_def

lemma submit_project_refines: "refines_at env (t, og, Submit_project symbol v additional) s"
  by (cases "ensure_signed og")
    (auto simp: spec_simps submit_project_def project_entry_of_def)

lemma approve_project_refines:
  assumes "ca_wf s"
  shows "refines_at env (t, og, Approve_project pid) s"
proof (cases "Projects s pid")
  case (Some p)
  with assms have "cp_status p = 0 \<or> cp_status p = 1" by (auto simp: ca_wf_def wf_projects_def)
  with Some show ?thesis by (auto simp: spec_simps approve_project_def project_entry_of_def)
qed (simp add: spec_simps approve_project_def)

lemma submit_asset_refines:
  assumes "registry_ok env (t, og, Submit_asset pid vintage v additional) s"
  shows "refines_at env (t, og, Submit_asset pid vintage v additional) s"
proof (cases "Projects s pid")
  case (Some p)
  with assms have "unat v + unat (cp_total_supply p) < 2 ^ 64" by (simp add: sum_fits_def)
  from sum_le_iff [OF this] Some show ?thesis
    by (cases "ensure_signed og")
      (auto simp: spec_simps submit_asset_def project_entry_of_def asset_entry_of_def)
qed (cases "ensure_signed og"; simp add: spec_simps submit_asset_def)

text \<open>What well-formed storage holds where the code looks it up.\<close>

lemma wf_asset_entry:
  assumes "ca_wf s" and "Assets s aid = Some a"
  shows "\<exists>p. Projects s (as_project_id a) = Some p \<and> (as_status a = 0 \<or> as_status a = 1) \<and>
    (as_status a = 0 \<longrightarrow> (\<forall>x. vget (ca_Balances s) (aid, x) = 0))"
  using assms
  by (fastforce simp: ca_wf_def wf_assets_def wf_balances_def project_status_def asset_status_def)

lemma wf_issue_entry:
  assumes "ca_wf s" and "Issues s iid = Some i"
  shows "\<exists>a p. Assets s (is_asset_id i) = Some a \<and> Projects s (as_project_id a) = Some p \<and>
    (is_status i = 0 \<or> is_status i = 1)"
proof -
  have "asset_status s (is_asset_id i) = Some 1" "is_status i = 0 \<or> is_status i = 1"
    using assms by (auto simp: ca_wf_def wf_issues_def)
  with wf_asset_entry [OF assms(1)] show ?thesis by (fastforce simp: asset_status_def)
qed

lemma wf_burn_entry:
  assumes "ca_wf s" and "Burns s bid = Some b"
  shows "\<exists>a p. Assets s (bi_asset_id b) = Some a \<and> Projects s (as_project_id a) = Some p \<and>
    (bi_status b = 0 \<or> bi_status b = 1)"
proof -
  have "asset_status s (bi_asset_id b) = Some 1" "bi_status b = 0 \<or> bi_status b = 1"
    using assms by (auto simp: ca_wf_def wf_burns_def)
  with wf_asset_entry [OF assms(1)] show ?thesis by (fastforce simp: asset_status_def)
qed

lemma same_asset:
  assumes "Assets s aid = Some a"
  shows "(map_option asset_entry_of \<circ> Assets s)(aid \<mapsto> \<lparr>parent = as_project_id a,
    initial = unat (as_initial_supply a), asset_approved = (as_status a = 1)\<rparr>) =
    map_option asset_entry_of \<circ> Assets s"
  by (rule fun_upd_idem) (simp add: assms asset_entry_of_def)

lemma approve_asset_refines:
  assumes "ca_wf s" and "registry_ok env (t, og, Approve_asset aid) s"
  shows "refines_at env (t, og, Approve_asset aid) s"
proof (cases "Assets s aid")
  case (Some a)
  obtain p where p: "Projects s (as_project_id a) = Some p" "as_status a = 0 \<or> as_status a = 1"
    "as_status a = 0 \<Longrightarrow> credits_of (ca_Balances s) aid (cp_owner p) = 0"
    using wf_asset_entry [OF assms(1) Some] by (auto simp: credits_of_def)
  have "unat (as_initial_supply a) + unat (cp_total_supply p) < 2 ^ 64"
    using assms(2) Some p(1) by (simp add: asset_sum_fits_def sum_fits_def)
  from sum_le_iff [OF this, of "cp_max_supply p"] Some p show ?thesis
    by (auto simp: spec_simps approve_asset_def entry_defs)
qed (simp add: spec_simps approve_asset_def)

lemma submit_issue_refines:
  assumes "ca_wf s" and "registry_ok env (t, og, Submit_issue aid v additional) s"
  shows "refines_at env (t, og, Submit_issue aid v additional) s"
proof (cases "Assets s aid")
  case (Some a)
  obtain p where p: "Projects s (as_project_id a) = Some p"
    using wf_asset_entry [OF assms(1) Some] by metis
  have "unat v + unat (cp_total_supply p) < 2 ^ 64"
    using assms(2) Some p(1) by (simp add: asset_sum_fits_def sum_fits_def)
  from sum_le_iff [OF this, of "cp_max_supply p"] Some p show ?thesis
    by (cases "ensure_signed og") (auto simp: spec_simps submit_issue_def entry_defs)
qed (cases "ensure_signed og"; simp add: spec_simps submit_issue_def)

lemma approve_issue_refines:
  assumes "ca_wf s" and "ca_exact s" and "registry_ok env (t, og, Approve_issue iid) s"
  shows "refines_at env (t, og, Approve_issue iid) s"
proof (cases "Issues s iid")
  case (Some i)
  obtain a p where l: "Assets s (is_asset_id i) = Some a" "Projects s (as_project_id a) = Some p"
    "is_status i = 0 \<or> is_status i = 1"
    using wf_issue_entry [OF assms(1) Some] by metis
  let ?aid = "is_asset_id i" and ?v = "is_amount i" and ?w = "cp_owner p"
  have sum: "unat ?v + unat (cp_total_supply p) < 2 ^ 64"
    and rec: "unat (recorded_supply s ?aid) + unat ?v < 2 ^ 64"
    using assms(3) Some l by (simp_all add: asset_sum_fits_def sum_fits_def)
  have "unat (cp_total_supply p + ?v) = unat (cp_total_supply p) + unat ?v"
    using sum by (intro unat_add_u64) simp
  moreover have "unat (vget (ca_Balances s) (?aid, ?w)) \<le> unat (recorded_supply s ?aid)"
    using order_trans [OF balance_le_holdings ca_exact_bounds(1) [OF assms(2)]] by simp
  with rec have "unat (vget (ca_Balances s) (?aid, ?w) + ?v) =
      credits_of (ca_Balances s) ?aid ?w + unat ?v"
    unfolding credits_of_def by (intro unat_add_u64) simp
  moreover note sum_le_iff [OF sum, of "cp_max_supply p"]
  ultimately show ?thesis
    using Some l same_asset [OF l(1)]
    by (auto simp: spec_simps approve_issue_def entry_defs intro!: registry.equality)
qed (simp add: spec_simps approve_issue_def)

lemma credit_less_iff: "credits_of m aid who < unat v \<longleftrightarrow> \<not> v \<le> vget m (aid, who)"
  by (simp add: credits_of_def word_le_nat_alt not_le)

lemma credit_minus:
  "v \<le> vget m (aid, who) \<Longrightarrow> unat (vget m (aid, who) - v) = credits_of m aid who - unat v"
  by (simp add: credits_of_def unat_sub_u64)

lemma submit_burn_refines:
  assumes "ca_wf s" and "registry_ok env (t, og, Submit_burn aid v additional) s"
  shows "refines_at env (t, og, Submit_burn aid v additional) s"
proof (cases "ensure_signed og")
  case (Some who)
  then have og: "og = Signed who" by simp
  show ?thesis
  proof (cases "Assets s aid")
    case (Some a)
    obtain p where "Projects s (as_project_id a) = Some p"
      using wf_asset_entry [OF assms(1) Some] by blast
    with Some og assms(2) show ?thesis
      by (auto simp: spec_simps submit_burn_def entry_defs credit_less_iff credit_minus)
  qed (simp add: og spec_simps submit_burn_def)
qed (simp add: spec_simps submit_burn_def)

lemma approve_burn_refines:
  assumes "ca_wf s" and "registry_ok env (t, og, Approve_burn bid) s"
  shows "refines_at env (t, og, Approve_burn bid) s"
proof (cases "Burns s bid")
  case (Some b)
  obtain a p where l: "Assets s (bi_asset_id b) = Some a" "Projects s (as_project_id a) = Some p"
    "bi_status b = 0 \<or> bi_status b = 1"
    using wf_burn_entry [OF assms(1) Some] by blast
  then have "unat (cp_total_supply p - bi_amount b) = unat (cp_total_supply p) - unat (bi_amount b)"
    using assms(2) Some by (intro unat_sub_u64) simp
  then show ?thesis
    using Some l same_asset [OF l(1)]
    by (auto simp: spec_simps approve_burn_def entry_defs intro!: registry.equality)
qed (simp add: spec_simps approve_burn_def)

lemma neutralize_refines: "refines_at env (t, og, Neutralize aid v additional) s"
  by (cases "ensure_signed og")
    (auto simp: spec_simps neutralize_def credit_less_iff credit_minus)

lemma transfer_credits:
  assumes "holdings (ca_Balances s) aid < 2 ^ 64" and "v \<le> vget (ca_Balances s) (aid, a)"
    and k: "k = (credits_of (ca_Balances s))(aid :=
      (credits_of (ca_Balances s) aid)(a := credits_of (ca_Balances s) aid a - unat v))"
  shows "credits_of (ca_Balances (snd (ca_make_transfer aid a b v s))) =
    k(aid := (k aid)(b := k aid b + unat v))"
proof (intro ext)
  fix j x
  have le: "v \<le> ca_balance s aid a" using assms(2) by (simp add: ca_balance_def)
  have fits: "(\<Sum>x\<in>UNIV. unat (ca_balance s aid x)) < 2 ^ 64"
    using assms(1) by (simp only: holdings_ca_balance)
  have "unat v \<le> unat (ca_balance s aid a)" using le by (simp add: word_le_nat_alt)
  with ca_ledger.move_exact [OF le fits, of b]
  show "credits_of (ca_Balances (snd (ca_make_transfer aid a b v s))) j x =
      (k(aid := (k aid)(b := k aid b + unat v))) j x"
    by (cases "a = b") (auto simp: k unat_ca_balance [symmetric] ca_ledger.bal_move)
qed

lemma credit_transfer_refines:
  assumes "ca_exact s"
  shows "refines_at env (t, og, Ca_transfer aid b v) s"
proof (cases "ensure_signed og")
  case (Some a)
  then have og: "og = Signed a" by simp
  obtain s' where m: "ca_make_transfer aid a b v s = (Ok, s')"
    by (metis ca_make_transfer_Ok prod.collapse)
  then have s': "s' = snd (ca_make_transfer aid a b v s)" by simp
  have r: "registry_of s' = (registry_of s)\<lparr>credits := credits_of (ca_Balances s')\<rparr>"
    unfolding s' by (rule registry.equality) simp_all
  show ?thesis
  proof (cases "v = 0 \<or> \<not> v \<le> vget (ca_Balances s) (aid, a)")
    case False
    then have "v \<le> vget (ca_Balances s) (aid, a)" by simp
    from transfer_credits [OF ca_exact_bounds(2) [OF assms] this refl, of b] have "credits_of (ca_Balances s') =
        (let k = (credits_of (ca_Balances s))(aid := (credits_of (ca_Balances s) aid)
               (a := credits_of (ca_Balances s) aid a - unat v))
         in k(aid := (k aid)(b := k aid b + unat v)))"
      unfolding s' Let_def .
    with False show ?thesis
      unfolding og by (simp add: spec_simps ca_transfer_def credit_less_iff m r)
  qed (auto simp: og spec_simps ca_transfer_def credit_less_iff)
qed (simp add: spec_simps ca_transfer_def)

interpretation ca_registry: refinement_run "ca_dispatch env" "registry_ok env"
    "\<lambda>s. ca_wf s \<and> ca_exact s" "registry_spec env" registry_of for env
proof
  fix s :: ca_state and c :: "u64 \<times> origin \<times> ca_call"
  assume inv: "ca_wf s \<and> ca_exact s" and ok: "registry_ok env c s"
  from ca_exact_step [OF inv registry_ok_imp [OF ok]]
  show "ca_wf (snd (ca_dispatch env c s)) \<and> ca_exact (snd (ca_dispatch env c s))" .
  obtain t og k where c: "c = (t, og, k)" by (cases c)
  have "refines_at env (t, og, k) s"
    using inv ok unfolding c
    by (cases k)
      (auto intro: submit_project_refines approve_project_refines submit_asset_refines
        approve_asset_refines submit_issue_refines approve_issue_refines submit_burn_refines
        approve_burn_refines credit_transfer_refines neutralize_refines
        simp del: registry_ok.simps)
  then show "registry_spec env c (registry_of s) =
      (fst (ca_dispatch env c s), registry_of (snd (ca_dispatch env c s)))"
    unfolding c refines_at_def .
qed

text \<open>
  C4. The pallet is a registry of credits: over any run from genesis in which the sums that the code
  compares with a maximum fit in 64 bits, burns have fresh ids and approved burns are covered by the
  counter of their project, every call has the result that the specification over natural numbers
  gives it, and afterwards projects, assets, issues, burns and the credits of every account are what
  the specification says.
\<close>

theorem ca_refines_registry:
  assumes "ok_run (registry_ok env) (ca_dispatch env) cs ca_genesis"
  shows "let s = run_calls (ca_dispatch env) cs ca_genesis;
             k = run_calls (registry_spec env) cs empty_registry
    in run_results (ca_dispatch env) cs ca_genesis = run_results (registry_spec env) cs empty_registry \<and>
       registry_of s = k \<and> (\<forall>aid who. unat (ca_balance s aid who) = credits k aid who)"
proof -
  have "ca_wf ca_genesis \<and> ca_exact ca_genesis" by (simp add: ca_wf_genesis ca_exact_genesis)
  from ca_registry.run_refines [OF this assms] show ?thesis
    by (simp add: Let_def registry_of_genesis unat_ca_balance)
qed

theorem ca_refines_registry_witness:
  "let k = run_calls (registry_spec sample_env) carbon_life empty_registry
   in credits k 3001 1 = 55 \<and> credits k 3001 2 = 4 \<and>
      run_results (registry_spec sample_env) carbon_life empty_registry = [Ok, Ok, Ok, Ok, Ok, Ok, Ok, Ok, Ok, Ok]"
proof -
  let ?s = "run_calls (ca_dispatch sample_env) carbon_life ca_genesis"
  let ?k = "run_calls (registry_spec sample_env) carbon_life empty_registry"
  have "ok_run (registry_ok sample_env) (ca_dispatch sample_env) carbon_life ca_genesis"
    by (simp add: carbon_life_def carbon_setup_def ca_eval recorded_supply_def asset_sum_fits_def
        sum_fits_def)
  from ca_refines_registry [OF this]
  have "run_results (registry_spec sample_env) carbon_life empty_registry =
      run_results (ca_dispatch sample_env) carbon_life ca_genesis"
    and "credits ?k 3001 who = unat (ca_balance ?s 3001 who)" for who
    by (simp_all only: Let_def)
  moreover have "run_results (ca_dispatch sample_env) carbon_life ca_genesis = [Ok, Ok, Ok, Ok, Ok, Ok, Ok, Ok, Ok, Ok]"
    "ca_balance ?s 3001 1 = 55" "ca_balance ?s 3001 2 = 4"
    by (simp_all add: carbon_life_def carbon_setup_def ca_eval)
  ultimately show ?thesis by (simp only: Let_def) simp
qed

end
