(* ===== verification/Exchange_Market.thy ===== *)
theory Exchange_Market
  imports Exchange_Deals Carbon_Registry
begin

text \<open>
  What the carbon exchange promises, as a specification: a book of offers over natural numbers on
  top of the registry of \<open>Carbon_Registry\<close>, with payments that are atomic with the delivery. What an
  order has in escrow is not recorded but follows from it: the units left of an offer to sell, their
  price of an offer to buy. The pallet refines it in escrowed states.
\<close>

section \<open>The specification\<close>

record offer =
  offered_asset :: hash
  offered_by :: account
  unit_price :: nat
  units_left :: nat
  selling :: bool

record 'c market =
  register :: registry
  book :: "hash \<rightharpoonup> offer"
  money :: 'c

definition empty_market :: "'c \<Rightarrow> 'c market" where
  "empty_market c = \<lparr>register = empty_registry, book = Map.empty, money = c\<rparr>"

definition hand_over :: "hash \<Rightarrow> account \<Rightarrow> account \<Rightarrow> nat \<Rightarrow> 'c market \<Rightarrow> 'c market" where
  "hand_over aid a b n m =
     (let k = set_credit aid a (credits (register m) aid a - n) (register m)
      in m\<lparr>register := set_credit aid b (credits k aid b + n) k\<rparr>)"

text \<open>A payment, and what follows when it is made; a refused payment changes nothing.\<close>

definition paying ::
    "('c, 'x) currency_transfer \<Rightarrow> origin \<Rightarrow> account \<Rightarrow> nat \<Rightarrow> ('c market \<Rightarrow> 'c market) \<Rightarrow> 'c market
     \<Rightarrow> 'x cx_failure dispatch_result \<times> 'c market" where
  "paying transfer og dest n f m =
     (case transfer og dest (of_nat n) (money m) of
        (Inl e, c) \<Rightarrow> (Err (Currency_error e), m)
      | (Inr _, c) \<Rightarrow> (Ok, f (m\<lparr>money := c\<rparr>)))"

definition tradable :: "'c market \<Rightarrow> hash \<Rightarrow> bool" where
  "tradable m aid = (case assets_of (register m) aid of None \<Rightarrow> False | Some a \<Rightarrow> asset_approved a)"

definition put_offer :: "hash \<Rightarrow> offer option \<Rightarrow> 'c market \<Rightarrow> 'c market" where
  "put_offer oid f m = m\<lparr>book := (book m)(oid := f)\<rparr>"

definition remaining_offer :: "offer \<Rightarrow> nat \<Rightarrow> offer option" where
  "remaining_offer f n =
     (if n < units_left f then Some (f\<lparr>units_left := units_left f - n\<rparr>) else None)"

fun market_spec ::
    "env \<Rightarrow> ('c, 'x) currency_transfer \<Rightarrow> u64 \<times> origin \<times> cx_call \<Rightarrow> 'c market
     \<Rightarrow> 'x cx_failure dispatch_result \<times> 'c market" where
  "market_spec env transfer (t, Signed who, Make_order aid mid price amount direction salt) m =
     (let oid = hash_of env (Pre_order who aid mid price amount direction salt);
          offer = \<lparr>offered_asset = aid, offered_by = who, unit_price = unat price,
            units_left = unat amount, selling = (direction = 0)\<rparr> in
      if mid \<noteq> 0 then (cx_err InvalidMoneyID, m)
      else if price = 0 then (cx_err PriceZero, m)
      else if amount = 0 then (cx_err AmountZero, m)
      else if \<not> tradable m aid then (cx_err AssetNotExist, m)
      else if book m oid \<noteq> None then (cx_err DuplicatedKey, m)
      else if direction = 0 then
        (if credits (register m) aid who < unat amount then (cx_err InsuffientAsset, m)
         else (Ok, put_offer oid (Some offer)
           (hand_over aid who (pot_account_id env) (unat amount) m)))
      else if direction = 1 then
        paying transfer (Signed who) (pot_account_id env) (unat amount * unat price)
          (put_offer oid (Some offer)) m
      else (cx_err InvalidDirection, m))"
| "market_spec env transfer (t, Signed who, Take_order oid amount) m =
     (case book m oid of None \<Rightarrow> (cx_err InvalidIndex, m)
      | Some f \<Rightarrow>
          let n = unat amount; aid = offered_asset f; maker = offered_by f;
              rest = put_offer oid (remaining_offer f n) in
          if units_left f < n then (cx_err AmountHigh, m)
          else if selling f then
            paying transfer (Signed who) maker (n * unit_price f)
              (\<lambda>m. rest (hand_over aid (pot_account_id env) who n m)) m
          else if credits (register m) aid who < n then (cx_err InsuffientAsset, m)
          else
            paying transfer (Signed (pot_account_id env)) who (n * unit_price f)
              (\<lambda>m. rest (hand_over aid who maker n m)) m)"
| "market_spec env transfer (t, Signed who, Cancel_order oid) m =
     (case book m oid of None \<Rightarrow> (cx_err InvalidIndex, m)
      | Some f \<Rightarrow>
          if offered_by f \<noteq> who then (cx_err PermissionDenied, m)
          else if selling f then
            (Ok, put_offer oid None
              (hand_over (offered_asset f) (pot_account_id env) who (units_left f) m))
          else
            paying transfer (Signed (pot_account_id env)) who (units_left f * unit_price f)
              (put_offer oid None) m)"
| "market_spec env transfer (t, og, k) m = (Inl BadOrigin, m)"

section \<open>The abstraction\<close>

definition offer_of :: "Order \<Rightarrow> offer" where
  "offer_of order = \<lparr>offered_asset = or_asset_id order, offered_by = or_maker order,
     unit_price = unat (or_price order), units_left = unat (or_left_amount order),
     selling = (or_direction order = 0)\<rparr>"

lemma offer_of_simps [simp]:
  "offered_asset (offer_of order) = or_asset_id order"
  "offered_by (offer_of order) = or_maker order"
  "unit_price (offer_of order) = unat (or_price order)"
  "units_left (offer_of order) = unat (or_left_amount order)"
  "selling (offer_of order) = (or_direction order = 0)"
  by (simp_all add: offer_of_def)

definition market_of :: "'c cx_state \<Rightarrow> 'c market" where
  "market_of w = \<lparr>register = registry_of (carbon w), book = map_option offer_of \<circ> Orders w,
     money = currency w\<rparr>"

lemma market_of_simps [simp]:
  "register (market_of w) = registry_of (carbon w)"
  "book (market_of w) = map_option offer_of \<circ> Orders w"
  "money (market_of w) = currency w"
  by (simp_all add: market_of_def)

lemma market_of_update [simp]:
  "market_of (w\<lparr>carbon := s\<rparr>) = (market_of w)\<lparr>register := registry_of s\<rparr>"
  "market_of (w\<lparr>currency := c\<rparr>) = (market_of w)\<lparr>money := c\<rparr>"
  "market_of (w\<lparr>Orders := os\<rparr>) = (market_of w)\<lparr>book := map_option offer_of \<circ> os\<rparr>"
  "market_of (w\<lparr>cx_events := es\<rparr>) = market_of w"
  by (simp_all add: market_of_def)

text \<open>
  The calls on which pallet and specification agree, apart from the side condition of the escrow: a
  take of an ASK order has a price that fits in 64 bits, and the currency does not refuse to pay the
  taker of a BID order out of the pot.
\<close>

fun deal_clean :: "env \<Rightarrow> ('c, 'x) currency_transfer \<Rightarrow> u64 \<times> origin \<times> cx_call \<Rightarrow> 'c cx_state \<Rightarrow> bool" where
  "deal_clean env transfer (t, Signed who, Take_order oid amount) w =
     (case Orders w oid of None \<Rightarrow> True
      | Some order \<Rightarrow>
          if or_direction order = 0
          then amount \<le> or_left_amount order \<longrightarrow> unat amount * unat (or_price order) < 2 ^ 64
          else amount \<le> or_left_amount order \<and> amount \<le> ca_balance (carbon w) (or_asset_id order) who
            \<longrightarrow> fst (transfer (Signed (pot_account_id env)) who
              (ucast (saturating_mul amount (or_price order))) (currency w)) = Ok)"
| "deal_clean env transfer c w = True"

definition market_ok ::
    "env \<Rightarrow> ('c, 'x) currency_transfer \<Rightarrow> u64 \<times> origin \<times> cx_call \<Rightarrow> 'c cx_state \<Rightarrow> bool" where
  "market_ok env transfer c w \<longleftrightarrow> cx_ok env c w \<and> deal_clean env transfer c w"

section \<open>The refinement\<close>

lemma hand_over_refines:
  assumes "asks_backed pot w" and "v \<le> ca_balance (carbon w) aid a"
  shows "market_of (w\<lparr>carbon := moved aid a b v w\<rparr>) = hand_over aid a b (unat v) (market_of w)"
proof -
  have "v \<le> vget (ca_Balances (carbon w)) (aid, a)" using assms(2) by (simp add: ca_balance_def)
  from transfer_credits [OF asks_backedD(2) [OF assms(1)] this refl, of b]
  have "registry_of (moved aid a b v w) = register (hand_over aid a b (unat v) (market_of w))"
    by (intro registry.equality) (simp_all add: hand_over_def set_credit_def Let_def)
  then show ?thesis by (simp add: hand_over_def Let_def)
qed

lemma ucast_u64_of_nat: "(ucast (v :: u64) :: u128) = of_nat (unat v)"
  by simp

lemma paying_refines:
  assumes "currency_laws ed free transfer" and "unat v = n"
  shows "paying transfer og dest n f (market_of w) =
    (case currency_pay transfer og dest v w of
       (Inl e, w') \<Rightarrow> (Inl e, market_of w)
     | (Inr u, w') \<Rightarrow> (Ok, f (market_of w')))"
  using assms(1)
  by (cases rule: currency_pay_cases [where og = og and b = dest and v = v and w = w])
    (simp_all add: paying_def assms(2) [symmetric] ucast_u64_of_nat [symmetric])

lemma tradable_market_of [simp]: "tradable (market_of w) aid = has_asset (carbon w) aid"
  by (simp add: tradable_def has_asset_def asset_entry_of_def split: option.split)

lemma map_option_remove [simp]: "(map_option f \<circ> m)(k := None) = map_option f \<circ> m(k := None)"
  by (simp add: fun_upd_comp)

lemma put_offer_of [simp]:
  "put_offer oid None (market_of w) = market_of (w\<lparr>Orders := (Orders w)(oid := None)\<rparr>)"
  "put_offer oid (Some (offer_of order)) (market_of w) =
     market_of (w\<lparr>Orders := (Orders w)(oid \<mapsto> order)\<rparr>)"
  by (simp_all add: put_offer_def)

lemma put_offer_remaining:
  assumes "amount \<le> or_left_amount order" and "or_left_amount order' = or_left_amount order"
    and "offer_of order' = offer_of order"
  shows "put_offer oid (remaining_offer (offer_of order) (unat amount)) (market_of w) =
    market_of (w\<lparr>Orders := remaining_orders oid order' amount (Orders w)\<rparr>)"
proof -
  have "0 < or_left_amount order - amount \<longleftrightarrow> unat amount < unat (or_left_amount order)"
    using assms(1) by (metis left_minus less_irrefl order_le_less word_gt_0 right_minus_eq word_less_nat_alt)
  moreover have "unat (or_left_amount order - amount) = unat (or_left_amount order) - unat amount"
    using assms(1) by (simp add: unat_sub_u64)
  ultimately show ?thesis
    using assms(2,3)
    by (simp add: remaining_offer_def remaining_orders_def put_offer_def offer_of_def)
qed

definition deal_refines ::
    "env \<Rightarrow> ('c, 'x) currency_transfer \<Rightarrow> u64 \<times> origin \<times> cx_call \<Rightarrow> 'c cx_state \<Rightarrow> bool" where
  "deal_refines env transfer c w \<longleftrightarrow> market_spec env transfer c (market_of w) =
     (fst (cx_dispatch env transfer c w), market_of (snd (cx_dispatch env transfer c w)))"

lemma make_order_refines:
  assumes "currency_laws ed free transfer" and "escrowed ed free (pot_account_id env) w"
    and "lock_exact (Make_order aid mid price amount d salt)"
  shows "deal_refines env transfer (t, og, Make_order aid mid price amount d salt) w"
proof (cases og)
  case (Signed a)
  let ?pot = "pot_account_id env" and ?n = "unat amount * unat price"
  let ?oid = "hash_of env (Pre_order a aid mid price amount d salt)"
  let ?offer = "\<lparr>offered_asset = aid, offered_by = a, unit_price = unat price,
    units_left = unat amount, selling = (d = 0)\<rparr>"
  have offer: "?offer = offer_of (new_order aid a price amount d locked salt)" for locked
    by (simp add: offer_of_def new_order_def)
  have credit: "credits_of (ca_Balances (carbon w)) aid a < unat amount \<longleftrightarrow>
      \<not> amount \<le> ca_balance (carbon w) aid a"
    by (simp add: credit_less_iff ca_balance_def)
  show ?thesis
  proof (cases "mid = 0 \<and> 0 < price \<and> 0 < amount \<and> has_asset (carbon w) aid \<and> Orders w ?oid = None")
    case False
    then show ?thesis
      by (auto simp: Signed deal_refines_def make_order_def Let_def word_gt_0)
  next
    case True
    then have checks: "mid = 0" "price \<noteq> 0" "amount \<noteq> 0" "has_asset (carbon w) aid"
      "Orders w (hash_of env (Pre_order a aid 0 price amount d salt)) = None"
      by (auto simp: word_gt_0)
    note make = Signed deal_refines_def make_order_def make_order_lock_def cx_deposit_event_def
      Let_def word_gt_0 checks(1-4)
    consider "d = 0" | "d = 1" | "d \<noteq> 0" "d \<noteq> 1" by blast
    then show ?thesis
    proof cases
      case 1
      show ?thesis
      proof (cases "amount \<le> ca_balance (carbon w) aid a")
        case le: True
        have "asks_backed ?pot w" using assms(2) by (simp add: escrowed_def)
        from hand_over_refines [OF this le, of ?pot, symmetric] checks(5) le show ?thesis
          by (simp add: 1 make credit put_offer_def offer_of_def)
      qed (use checks(5) in \<open>simp add: 1 make credit\<close>)
    next
      case 2
      have "unat (saturating_mul amount price) = ?n"
        using assms(3) 2 by (simp add: saturating_mul_exact)
      note pay = paying_refines [OF assms(1) this, of "Signed a" ?pot _ w]
      from assms(1) show ?thesis
        by (cases rule: currency_pay_cases [where og = "Signed a" and b = ?pot
              and v = "saturating_mul amount price" and w = w])
          (use checks(5) in \<open>simp_all add: 2 make pay put_offer_def offer_of_def\<close>)
    next
      case 3
      with checks(5) show ?thesis by (simp add: make)
    qed
  qed
qed (simp_all add: deal_refines_def make_order_def)

lemma paid_hand_over:
  assumes "asks_backed pot w" and "v \<le> ca_balance (carbon w) aid a"
  shows "market_of (w\<lparr>currency := c, carbon := moved aid a b v w\<rparr>) =
    hand_over aid a b (unat v) (market_of (w\<lparr>currency := c\<rparr>))"
proof -
  have "asks_backed pot (w\<lparr>currency := c\<rparr>)" using assms(1) by (simp add: asks_backed_def asks_left_def)
  from hand_over_refines [OF this, of v aid a b] assms(2) show ?thesis by (simp del: market_of_update)
qed

lemma few_units: "amount \<le> or_left_amount order \<Longrightarrow> \<not> unat (or_left_amount order) < unat amount"
  by (simp add: word_le_nat_alt)

lemmas take_defs = take_order_def take_order_settle_def currency_pay_def cx_deposit_event_def
  remaining_orders_def Let_def

lemma take_ask_refines:
  assumes laws: "currency_laws ed free transfer" and b: "asks_backed (pot_account_id env) w"
    and t: "Orders w oid = Some order" "amount \<le> or_left_amount order" "or_direction order = 0"
    and "unat amount * unat (or_price order) < 2 ^ 64"
  shows "deal_refines env transfer (t, Signed a, Take_order oid amount) w"
proof -
  let ?pot = "pot_account_id env" and ?aid = "or_asset_id order" and ?maker = "or_maker order"
  let ?money = "saturating_mul amount (or_price order)"
  have le: "amount \<le> ca_balance (carbon w) ?aid ?pot"
    using t(2) ask_left_le [OF b t(1,3)] by (rule order_trans)
  have "unat ?money = unat amount * unat (or_price order)"
    using assms(6) by (simp add: saturating_mul_exact)
  note pay = paying_refines [OF laws this, of "Signed a" ?maker _ w]
  from laws show ?thesis
  proof (cases rule: currency_pay_cases [where og = "Signed a" and b = ?maker and v = ?money and w = w])
    case (paid c')
    let ?w2 = "w\<lparr>currency := c', carbon := moved ?aid ?pot a amount w\<rparr>"
    obtain w' where w': "take_order (env\<lparr>now := t\<rparr>) transfer (Signed a) oid amount w = (Ok, w')"
      "market_of w' = market_of (?w2\<lparr>Orders := remaining_orders oid order amount (Orders w)\<rparr>)"
      using t le paid(2) by (cases "0 < or_left_amount order - amount") (simp_all add: take_defs)
    with put_offer_remaining [OF t(2), of order oid ?w2] paid_hand_over [OF b le, where c = c' and b = a] pay paid(1)
    show ?thesis
      by (simp del: market_of_update add: deal_refines_def t few_units Let_def)
  next
    case (failed e)
    with pay le show ?thesis by (simp add: deal_refines_def t few_units take_defs)
  qed
qed

lemma take_bid_refines:
  assumes laws: "currency_laws ed free transfer" and b: "asks_backed (pot_account_id env) w"
    and t: "Orders w oid = Some order" "amount \<le> or_left_amount order" "or_direction order \<noteq> 0"
    and lock: "unat (or_locked_balance order) = unat (or_left_amount order) * unat (or_price order)"
    and pays: "amount \<le> ca_balance (carbon w) (or_asset_id order) a \<Longrightarrow>
      fst (transfer (Signed (pot_account_id env)) a
        (ucast (saturating_mul amount (or_price order))) (currency w)) = Ok"
  shows "deal_refines env transfer (t, Signed a, Take_order oid amount) w"
proof (cases "amount \<le> ca_balance (carbon w) (or_asset_id order) a")
  case le: True
  let ?pot = "pot_account_id env" and ?aid = "or_asset_id order" and ?maker = "or_maker order"
  let ?money = "saturating_mul amount (or_price order)"
  let ?order = "order\<lparr>or_locked_balance := or_locked_balance order - ?money\<rparr>"
  obtain c' where c': "transfer (Signed ?pot) a (ucast ?money) (currency w) = (Ok, c')"
    using pays [OF le] by (auto simp: prod_eq_iff)
  let ?w2 = "w\<lparr>currency := c', carbon := moved ?aid a ?maker amount w\<rparr>"
  obtain w' where w': "take_order (env\<lparr>now := t\<rparr>) transfer (Signed a) oid amount w = (Ok, w')"
    "market_of w' = market_of (?w2\<lparr>Orders := remaining_orders oid ?order amount (Orders w)\<rparr>)"
    using t le c' by (cases "0 < or_left_amount order - amount") (simp_all add: take_defs)
  with put_offer_remaining [OF t(2), of ?order oid ?w2] paid_hand_over [OF b le, where c = c' and b = ?maker]
    paying_refines [OF laws exact_part(1) [OF lock t(2)], of "Signed ?pot" a _ w] c' le
  show ?thesis
    by (simp del: market_of_update add: deal_refines_def t few_units currency_pay_def credit_less_iff
        ca_balance_def offer_of_def Let_def)
qed (use t in \<open>simp add: deal_refines_def few_units take_defs credit_less_iff ca_balance_def\<close>)

lemma take_order_refines:
  assumes "currency_laws ed free transfer" and "escrowed ed free (pot_account_id env) w"
    and "deal_clean env transfer (t, og, Take_order oid amount) w"
  shows "deal_refines env transfer (t, og, Take_order oid amount) w"
proof (cases "\<exists>a order. og = Signed a \<and> Orders w oid = Some order \<and> amount \<le> or_left_amount order")
  case True
  then obtain a order where t: "og = Signed a" "Orders w oid = Some order"
    "amount \<le> or_left_amount order" by blast
  have b: "asks_backed (pot_account_id env) w" and wf: "order_wf (pot_account_id env) (carbon w) order"
    using assms(2) t(2) by (simp_all add: escrowed_def orders_wf_def)
  show ?thesis
  proof (cases "or_direction order = 0")
    case True
    with assms(3) t take_ask_refines [OF assms(1) b t(2,3)] show ?thesis by simp
  next
    case False
    moreover from this wf
    have "unat (or_locked_balance order) = unat (or_left_amount order) * unat (or_price order)"
      by (auto simp: order_wf_def)
    ultimately show ?thesis
      using assms(3) t take_bid_refines [OF assms(1) b t(2,3)] by simp
  qed
next
  case False
  then show ?thesis
    by (cases og; cases "Orders w oid")
      (auto simp: deal_refines_def take_order_def offer_of_def word_le_nat_alt)
qed

lemma cancel_order_refines:
  assumes "currency_laws ed free transfer" and "escrowed ed free (pot_account_id env) w"
  shows "deal_refines env transfer (t, og, Cancel_order oid) w"
proof (cases "\<exists>order. og = Signed (or_maker order) \<and> Orders w oid = Some order")
  case True
  then obtain order where t: "og = Signed (or_maker order)" "Orders w oid = Some order" by blast
  let ?pot = "pot_account_id env" and ?aid = "or_asset_id order" and ?maker = "or_maker order"
  have b: "asks_backed ?pot w" and wf: "order_wf ?pot (carbon w) order"
    using assms(2) t(2) by (simp_all add: escrowed_def orders_wf_def)
  note cancel = deal_refines_def cancel_order_def cancel_order_refund_def cx_deposit_event_def
    Let_def t
  show ?thesis
  proof (cases "or_direction order = 0")
    case ask: True
    from hand_over_refines [OF b ask_left_le [OF b t(2) ask], of ?maker, symmetric] show ?thesis
      by (simp add: cancel ask put_offer_def)
  next
    case False
    with wf have bid: "or_direction order = 1"
      and lock: "unat (or_locked_balance order) = unat (or_left_amount order) * unat (or_price order)"
      by (auto simp: order_wf_def)
    note pay = paying_refines [OF assms(1) lock, of "Signed ?pot" ?maker _ w]
    from assms(1) show ?thesis
      by (cases rule: currency_pay_cases [where og = "Signed ?pot" and b = ?maker
            and v = "or_locked_balance order" and w = w])
        (simp_all add: cancel bid pay put_offer_def)
  qed
next
  case False
  then show ?thesis
    by (cases og; cases "Orders w oid") (auto simp: deal_refines_def cancel_order_def)
qed

interpretation cx_market: refinement_run "cx_dispatch env transfer" "market_ok env transfer"
    "\<lambda>w. currency_laws ed free transfer \<and> escrowed ed free (pot_account_id env) w"
    "market_spec env transfer" market_of for env transfer ed free
proof
  fix w c
  assume inv: "currency_laws ed free transfer \<and> escrowed ed free (pot_account_id env) w"
    and ok: "market_ok env transfer c w"
  then show "currency_laws ed free transfer \<and>
      escrowed ed free (pot_account_id env) (snd (cx_dispatch env transfer c w))"
    by (intro cx_escrow.step_inv) (simp_all add: market_ok_def)
  obtain t og k where c: "c = (t, og, k)" by (cases c)
  have "deal_refines env transfer (t, og, k) w"
    using inv ok unfolding c
    by (cases k)
      (auto simp: market_ok_def cx_ok_def simp del: deal_clean.simps lock_exact.simps
        intro: make_order_refines take_order_refines cancel_order_refines)
  then show "market_spec env transfer c (market_of w) =
      (fst (cx_dispatch env transfer c w), market_of (snd (cx_dispatch env transfer c w)))"
    unfolding c deal_refines_def .
qed

text \<open>
  C3. The exchange is an order book: from a state without orders, over any run in which the pot
  signs nothing, locks and payments are not saturated and the currency pays takers of BID orders out
  of the pot, every call has the result that the specification gives it, and afterwards the book,
  the credits of every account and the currency are what the specification says.
\<close>

theorem cx_refines_market:
  assumes "currency_laws ed free transfer" and "Orders w = Map.empty"
    and "ed \<le> free (currency w) (pot_account_id env)"
    and "\<forall>aid. holdings (ca_Balances (carbon w)) aid < 2 ^ 64"
    and "ok_run (market_ok env transfer) (cx_dispatch env transfer) cs w"
  shows "let w' = run_calls (cx_dispatch env transfer) cs w;
             m' = run_calls (market_spec env transfer) cs (market_of w)
    in run_results (cx_dispatch env transfer) cs w = run_results (market_spec env transfer) cs (market_of w) \<and>
       book m' = map_option offer_of \<circ> Orders w' \<and> money m' = currency w' \<and>
       (\<forall>aid who. credits (register m') aid who = unat (ca_balance (carbon w') aid who))"
proof -
  have "currency_laws ed free transfer \<and> escrowed ed free (pot_account_id env) w"
    by (intro conjI assms(1) escrowed_initially assms(2-4))
  from cx_market.run_refines [OF this assms(5)] show ?thesis
    by (simp add: Let_def unat_ca_balance)
qed

theorem cx_refines_market_witness:
  "let m = run_calls (market_spec sample_env sample_transfer) sample_deals (market_of sample_market)
   in run_results (market_spec sample_env sample_transfer) sample_deals (market_of sample_market) =
        [Ok, Ok, Ok, Ok, Ok] \<and>
      money m 1 = 1155 \<and> money m 2 = 845 \<and> credits (register m) 3001 2 = 9 \<and> book m 6002 = None"
proof -
  let ?w = "run_calls (cx_dispatch sample_env sample_transfer) sample_deals sample_market"
  have "ok_run (market_ok sample_env sample_transfer) (cx_dispatch sample_env sample_transfer)
      sample_deals sample_market"
    by (simp add: market_ok_def cx_ok_def sample_deals_def cx_op_defs sample_market_carbon
        ca_balance_def vget_def Let_def ca_make_transfer_def vmutate_def sample_transfer_def
        saturating_mul_def has_asset_balances)
  from cx_refines_market [OF sample_transfer_laws _ _ _ this] sample_market_holdings
  have "run_results (market_spec sample_env sample_transfer) sample_deals (market_of sample_market) =
      run_results (cx_dispatch sample_env sample_transfer) sample_deals sample_market"
    and "book (run_calls (market_spec sample_env sample_transfer) sample_deals (market_of sample_market)) =
      map_option offer_of \<circ> Orders ?w"
    and "money (run_calls (market_spec sample_env sample_transfer) sample_deals (market_of sample_market)) =
      currency ?w"
    and "\<And>aid who. credits (register (run_calls (market_spec sample_env sample_transfer) sample_deals
      (market_of sample_market))) aid who = unat (ca_balance (carbon ?w) aid who)"
    by (simp_all only: Let_def sample_market_fields) simp_all
  moreover have "run_results (cx_dispatch sample_env sample_transfer) sample_deals sample_market =
      [Ok, Ok, Ok, Ok, Ok]" "currency ?w 1 = 1155" "currency ?w 2 = 845"
    "ca_balance (carbon ?w) 3001 2 = 9" "Orders ?w 6002 = None"
    by (simp_all add: sample_deals_def cx_op_defs sample_market_carbon
        ca_balance_def vget_def Let_def ca_make_transfer_def vmutate_def sample_transfer_def
        saturating_mul_def has_asset_balances)
  ultimately show ?thesis by (simp only: Let_def) simp
qed

end
