(* ===== verification/Standard_Tokens.thy ===== *)
theory Standard_Tokens
  imports Standard_Assets
begin

text \<open>
  What the standard-assets pallet promises, as a specification over natural numbers, and that the
  pallet refines it; and the pallet's own unit tests, as executable scenarios.
\<close>

section \<open>The specification\<close>

text \<open>
  Tokens: what every account holds of every asset, and what was issued. There is no width, so
  nothing wraps, and no counter of the supply: the supply is what is held.
\<close>

record tokens =
  held :: "hash \<Rightarrow> account \<Rightarrow> nat"
  issued :: "hash \<rightharpoonup> ECRC10"

definition no_tokens :: tokens where
  "no_tokens = \<lparr>held = (\<lambda>_ _. 0), issued = Map.empty\<rparr>"

definition token_supply :: "tokens \<Rightarrow> hash \<Rightarrow> nat" where
  "token_supply k aid = (\<Sum>who\<in>UNIV. held k aid who)"

definition hold :: "hash \<Rightarrow> account \<Rightarrow> nat \<Rightarrow> tokens \<Rightarrow> tokens" where
  "hold aid who n k = k\<lparr>held := (held k)(aid := (held k aid)(who := n))\<rparr>"

fun token_spec :: "env \<Rightarrow> u64 \<times> origin \<times> sa_call \<Rightarrow> tokens \<Rightarrow> sa_error dispatch_result \<times> tokens" where
  "token_spec env (t, Signed who, Sa_issue symbol name decimals max_supply first_supply) k =
     (let aid = hash_of env (Pre_ECRC10 who symbol name decimals max_supply first_supply) in
      if issued k aid \<noteq> None then (Err DuplicatedKey, k)
      else (Ok, hold aid who (unat first_supply) (k\<lparr>issued := (issued k)(aid \<mapsto>
        \<lparr>ec_symbol = symbol, ec_name = name, ec_decimals = decimals,
         ec_max_supply = max_supply\<rparr>)\<rparr>)))"
| "token_spec env (t, Signed who, Sa_transfer aid target amount) k =
     (if amount = 0 then (Err AmountZero, k)
      else if held k aid who < unat amount then (Err BalanceLow, k)
      else let k' = hold aid who (held k aid who - unat amount) k
           in (Ok, hold aid target (held k' aid target + unat amount) k'))"
| "token_spec env (t, Signed who, Sa_mint aid amount) k =
     (Ok, hold aid who (held k aid who + unat amount) k)"
| "token_spec env (t, Signed who, Sa_burn aid amount) k =
     (if amount = 0 then (Err AmountZero, k)
      else if held k aid who < unat amount then (Err BalanceLow, k)
      else (Ok, hold aid who (held k aid who - unat amount) k))"
| "token_spec env (t, og, Sa_burn aid amount) k =
     (if amount = 0 then (Err AmountZero, k) else (Inl BadOrigin, k))"
| "token_spec env (t, og, c) k = (Inl BadOrigin, k)"

definition tokens_of :: "sa_state \<Rightarrow> tokens" where
  "tokens_of s = \<lparr>held = (\<lambda>aid who. unat (sa_balance s aid who)), issued = AssetInfos s\<rparr>"

section \<open>The refinement\<close>

lemma tokens_of_hold:
  assumes "sa_Balances s' = (sa_Balances s)((aid, who) \<mapsto> v)" and "AssetInfos s' = AssetInfos s"
  shows "tokens_of s' = hold aid who (unat v) (tokens_of s)"
  by (auto simp: tokens_of_def hold_def sa_balance_def assms fun_eq_iff)

lemma held_tokens_of [simp]: "held (tokens_of s) aid who = unat (sa_balance s aid who)"
  and issued_tokens_of [simp]: "issued (tokens_of s) = AssetInfos s"
  by (simp_all add: tokens_of_def)

lemma unsigned_refines:
  assumes "\<And>who. og \<noteq> Signed who"
  shows "token_spec env (t, og, k) (tokens_of s) =
    (fst (sa_dispatch env (t, og, k) s), tokens_of (snd (sa_dispatch env (t, og, k) s)))"
  using assms
  by (cases og; cases k) (auto simp: sa_op_defs word_gt_0)

lemma transfer_refines:
  assumes "sa_backed s"
  shows "token_spec env (t, Signed a, Sa_transfer aid b v) (tokens_of s) =
    (fst (sa_transfer env (Signed a) aid b v s), tokens_of (snd (sa_transfer env (Signed a) aid b v s)))"
proof (cases "v = 0 \<or> sa_balance s aid a < v")
  case True
  then show ?thesis
    by (auto simp: sa_transfer_def sa_balance_def Let_def word_less_nat_alt not_le)
next
  case False
  then obtain s' where t: "sa_transfer env (Signed a) aid b v s = (Ok, s')"
    by (auto simp: sa_transfer_def sa_balance_def Let_def not_less)
  then obtain le: "v \<le> sa_balance s aid a"
    and bal: "sa_balance s' = sa_balance (snd (sa_make_transfer aid a b v s))"
    and info: "AssetInfos s' = AssetInfos s"
    by (auto elim: sa_transfer_Ok)
  have exact: "a \<noteq> b \<Longrightarrow> unat (sa_balance s' aid a) = unat (sa_balance s aid a) - unat v"
    "a \<noteq> b \<Longrightarrow> unat (sa_balance s' aid b) = unat (sa_balance s aid b) + unat v"
    using sa_ledger.move_exact [OF le sa_backed_fits [OF assms], of b] by (simp_all add: bal)
  have "unat (sa_balance s' j x) = held (hold aid b (held (hold aid a
      (unat (sa_balance s aid a) - unat v) (tokens_of s)) aid b + unat v)
      (hold aid a (unat (sa_balance s aid a) - unat v) (tokens_of s))) j x" for j x
    using exact le by (cases "a = b") (auto simp: hold_def bal sa_ledger.bal_move word_le_nat_alt)
  then have "tokens_of s' = hold aid b (held (hold aid a
      (unat (sa_balance s aid a) - unat v) (tokens_of s)) aid b + unat v)
      (hold aid a (unat (sa_balance s aid a) - unat v) (tokens_of s))"
    by (simp add: tokens_of_def hold_def info fun_eq_iff)
  with False t show ?thesis by (simp add: Let_def word_less_nat_alt)
qed

lemma issue_refines:
  "token_spec env (t, Signed a, Sa_issue symbol name decimals max_supply first_supply) (tokens_of s) =
    (fst (sa_issue env (Signed a) symbol name decimals max_supply first_supply s),
     tokens_of (snd (sa_issue env (Signed a) symbol name decimals max_supply first_supply s)))"
  by (auto simp: sa_issue_def sa_deposit_event_def tokens_of_def hold_def sa_balance_def Let_def
      fun_eq_iff)

lemma mint_refines:
  assumes "sa_backed s" and "sa_mint_ok (t, Signed a, Sa_mint aid v) s"
  shows "token_spec env (t, Signed a, Sa_mint aid v) (tokens_of s) =
    (fst (sa_mint (Signed a) aid v s), tokens_of (snd (sa_mint (Signed a) aid v s)))"
proof -
  have "unat (sa_balance s aid a) + unat v < 2 ^ 64"
    using assms sa_backed_balance_le [OF assms(1), of aid a] by simp
  then have "unat (vget (sa_Balances s) (aid, a) + v) = unat (sa_balance s aid a) + unat v"
    unfolding sa_balance_def by (rule unat_add_u64)
  then show ?thesis
    by (auto simp: sa_mint_def sa_deposit_event_def tokens_of_def hold_def sa_balance_def
        vmutate_def Let_def fun_eq_iff)
qed

lemma burn_refines:
  "token_spec env (t, Signed a, Sa_burn aid v) (tokens_of s) =
    (fst (sa_burn (Signed a) aid v s), tokens_of (snd (sa_burn (Signed a) aid v s)))"
proof (cases "v = 0 \<or> sa_balance s aid a < v")
  case True
  then show ?thesis
    by (auto simp: sa_burn_def sa_balance_def Let_def word_less_nat_alt not_le word_gt_0)
next
  case False
  then have "unat (vget (sa_Balances s) (aid, a) - v) = unat (sa_balance s aid a) - unat v"
    unfolding sa_balance_def by (intro unat_sub_u64) (simp add: word_le_nat_alt not_less)
  with False show ?thesis
    by (auto simp: sa_burn_def sa_deposit_event_def tokens_of_def hold_def sa_balance_def
        Let_def fun_eq_iff not_less word_gt_0 word_le_nat_alt)
qed

interpretation sa_tokens: refinement_run "sa_dispatch env" sa_mint_ok sa_backed
    "token_spec env" tokens_of for env
proof
  fix s :: sa_state and c :: "u64 \<times> origin \<times> sa_call"
  assume s: "sa_backed s" and ok: "sa_mint_ok c s"
  obtain t og k where c: "c = (t, og, k)" by (cases c)
  show "token_spec env c (tokens_of s) =
      (fst (sa_dispatch env c s), tokens_of (snd (sa_dispatch env c s)))"
  proof (cases og)
    case (Signed a)
    have time: "token_spec env (t, Signed a, k) = token_spec (env\<lparr>now := t\<rparr>) (t, Signed a, k)"
      by (cases k) (simp_all add: fun_eq_iff)
    show ?thesis
      using ok mint_refines [OF s, of t a] transfer_refines [OF s, of "env\<lparr>now := t\<rparr>" t a]
        burn_refines [of _ t a] issue_refines [of "env\<lparr>now := t\<rparr>" t a]
      unfolding c Signed time by (cases k) simp_all
  qed (simp_all add: c unsigned_refines)
qed

lemma tokens_of_genesis: "tokens_of sa_genesis = no_tokens"
  by (simp add: tokens_of_def no_tokens_def sa_genesis_def sa_balance_def fun_eq_iff)

text \<open>
  C7. The pallet is a ledger of unbounded tokens: over any run from genesis in which \<open>mint\<close> is
  used on issued assets and within 64 bits, every call has the result that the specification gives
  it, what accounts hold and what is issued is what the specification says, and the recorded total
  supply of an asset is the sum of what is held of it.
\<close>

theorem sa_refines_token_spec:
  assumes "ok_run sa_mint_ok (sa_dispatch env) cs sa_genesis"
  shows "let s = run_calls (sa_dispatch env) cs sa_genesis;
             k = run_calls (token_spec env) cs no_tokens
    in run_results (sa_dispatch env) cs sa_genesis = run_results (token_spec env) cs no_tokens \<and>
       (\<forall>aid who. unat (sa_balance s aid who) = held k aid who) \<and> AssetInfos s = issued k \<and>
       (\<forall>aid. unat (sa_total_supply s aid) = token_supply k aid)"
proof -
  let ?s = "run_calls (sa_dispatch env) cs sa_genesis"
  have r: "run_results (token_spec env) cs no_tokens = run_results (sa_dispatch env) cs sa_genesis"
    and k: "run_calls (token_spec env) cs no_tokens = tokens_of ?s"
    using sa_tokens.run_refines [OF sa_backed_genesis assms] by (simp_all add: tokens_of_genesis)
  have "sa_backed ?s" using sa_backed_genesis assms by (rule sa_backing.run_inv)
  then have "unat (sa_total_supply ?s aid) = token_supply (tokens_of ?s) aid" for aid
    by (simp add: sa_backed_def token_supply_def holdings_sa_balance)
  with r k show ?thesis by (simp add: Let_def)
qed

theorem sa_refines_token_spec_witness:
  "let k = run_calls (token_spec sample_env) sa_sample_run no_tokens
   in held k 1001 1 = 70 \<and> held k 1001 2 = 0 \<and> token_supply k 1001 = 70 \<and>
      run_results (token_spec sample_env) sa_sample_run no_tokens = [Ok, Ok, Ok, Ok, Err BalanceLow]"
proof -
  let ?s = "run_calls (sa_dispatch sample_env) sa_sample_run sa_genesis"
  have ok: "ok_run sa_mint_ok (sa_dispatch sample_env) sa_sample_run sa_genesis"
    by (simp add: sa_sample_run_def sa_eval)
  have "sa_balance ?s 1001 1 = 70" "sa_balance ?s 1001 2 = 0" "sa_total_supply ?s 1001 = 70"
    "run_results (sa_dispatch sample_env) sa_sample_run sa_genesis = [Ok, Ok, Ok, Ok, Err BalanceLow]"
    by (simp_all add: sa_sample_run_def sa_eval)
  moreover from sa_refines_token_spec [OF ok] have
    "held (run_calls (token_spec sample_env) sa_sample_run no_tokens) 1001 who = unat (sa_balance ?s 1001 who)"
    "token_supply (run_calls (token_spec sample_env) sa_sample_run no_tokens) 1001 = unat (sa_total_supply ?s 1001)"
    "run_results (token_spec sample_env) sa_sample_run no_tokens =
       run_results (sa_dispatch sample_env) sa_sample_run sa_genesis" for who
    by (simp_all add: Let_def)
  ultimately show ?thesis by (simp add: Let_def)
qed

section \<open>The unit tests of the pallet\<close>

text \<open>
  Each test of the module \<open>tests\<close> as a predicate: \<open>assert_eq!\<close> and \<open>assert_ok!\<close> are equations,
  \<open>assert_noop!\<close> asks for the error and for unchanged storage. A test runs in the empty storage.
\<close>

definition new_test_ext :: sa_state where
  "new_test_ext = sa_genesis"

definition assert_noop :: "sa_error dispatch_result \<times> sa_state \<Rightarrow> sa_error \<Rightarrow> sa_state \<Rightarrow> bool" where
  "assert_noop call e s = (fst call = Err e \<and> snd call = s)"

definition issuing_asset_units_to_issuer_should_work :: "env \<Rightarrow> bool" where
  "issuing_asset_units_to_issuer_should_work env =
     (let (aid, r, s) = issue_asset1 env 1 100 new_test_ext
      in r = Ok \<and> sa_balance s aid 1 = 100)"

definition querying_total_supply_should_work :: "env \<Rightarrow> bool" where
  "querying_total_supply_should_work env =
     (let (aid, r, s) = issue_asset1 env 1 100 new_test_ext;
          (r1, s1) = sa_transfer env (Signed 1) aid 2 50 s;
          (r2, s2) = sa_transfer env (Signed 2) aid 3 31 s1;
          (r3, s3) = sa_burn (Signed 3) aid 31 s2
      in r = Ok \<and> sa_balance s aid 1 = 100 \<and>
         r1 = Ok \<and> sa_balance s1 aid 1 = 50 \<and> sa_balance s1 aid 2 = 50 \<and>
         r2 = Ok \<and> sa_balance s2 aid 1 = 50 \<and> sa_balance s2 aid 2 = 19 \<and> sa_balance s2 aid 3 = 31 \<and>
         r3 = Ok \<and> sa_total_supply s3 aid = 69)"

definition transferring_amount_above_available_balance_should_work :: "env \<Rightarrow> bool" where
  "transferring_amount_above_available_balance_should_work env =
     (let (aid, r, s) = issue_asset1 env 1 100 new_test_ext;
          (r1, s1) = sa_transfer env (Signed 1) aid 2 50 s
      in r = Ok \<and> sa_balance s aid 1 = 100 \<and>
         r1 = Ok \<and> sa_balance s1 aid 1 = 50 \<and> sa_balance s1 aid 2 = 50)"

definition transferring_amount_more_than_available_balance_should_not_work :: "env \<Rightarrow> bool" where
  "transferring_amount_more_than_available_balance_should_not_work env =
     (let (aid, r, s) = issue_asset1 env 1 100 new_test_ext;
          (r1, s1) = sa_transfer env (Signed 1) aid 2 50 s;
          (r2, s2) = sa_burn (Signed 1) aid 50 s1
      in r = Ok \<and> sa_balance s aid 1 = 100 \<and>
         r1 = Ok \<and> sa_balance s1 aid 1 = 50 \<and> sa_balance s1 aid 2 = 50 \<and>
         r2 = Ok \<and> sa_balance s2 aid 1 = 0 \<and>
         assert_noop (sa_transfer env (Signed 1) aid 1 50 s2) BalanceLow s2)"

definition transferring_less_than_one_unit_should_not_work :: "env \<Rightarrow> bool" where
  "transferring_less_than_one_unit_should_not_work env =
     (let (aid, r, s) = issue_asset1 env 1 100 new_test_ext
      in r = Ok \<and> sa_balance s aid 1 = 100 \<and>
         assert_noop (sa_transfer env (Signed 1) aid 2 0 s) AmountZero s)"

definition transferring_more_units_than_total_supply_should_not_work :: "env \<Rightarrow> bool" where
  "transferring_more_units_than_total_supply_should_not_work env =
     (let (aid, r, s) = issue_asset1 env 1 100 new_test_ext
      in r = Ok \<and> sa_balance s aid 1 = 100 \<and>
         assert_noop (sa_transfer env (Signed 1) aid 2 101 s) BalanceLow s)"

definition destroying_asset_balance_with_positive_balance_should_work :: "env \<Rightarrow> bool" where
  "destroying_asset_balance_with_positive_balance_should_work env =
     (let (aid, r, s) = issue_asset1 env 1 100 new_test_ext;
          (r1, s1) = sa_burn (Signed 1) aid 100 s
      in r = Ok \<and> sa_balance s aid 1 = 100 \<and> r1 = Ok)"

definition destroying_asset_balance_with_zero_balance_should_not_work :: "env \<Rightarrow> bool" where
  "destroying_asset_balance_with_zero_balance_should_not_work env =
     (let (aid, r, s) = issue_asset1 env 1 100 new_test_ext
      in r = Ok \<and> sa_balance s aid 2 = 0 \<and>
         assert_noop (sa_burn (Signed 2) aid 0 s) AmountZero s)"

definition destroying_asset_balance_with_insufficient_balance_should_not_work :: "env \<Rightarrow> bool" where
  "destroying_asset_balance_with_insufficient_balance_should_not_work env =
     (let (aid, r, s) = issue_asset1 env 1 100 new_test_ext
      in r = Ok \<and> sa_balance s aid 1 = 100 \<and>
         assert_noop (sa_burn (Signed 1) aid 101 s) BalanceLow s)"

text \<open>
  The unit tests of the pallet pass, and not only for the hash function they run with: for
  every hash function, collisions included, and every clock.
\<close>

theorem sa_unit_tests_pass:
  "issuing_asset_units_to_issuer_should_work env \<and>
   querying_total_supply_should_work env \<and>
   transferring_amount_above_available_balance_should_work env \<and>
   transferring_amount_more_than_available_balance_should_not_work env \<and>
   transferring_less_than_one_unit_should_not_work env \<and>
   transferring_more_units_than_total_supply_should_not_work env \<and>
   destroying_asset_balance_with_positive_balance_should_work env \<and>
   destroying_asset_balance_with_zero_balance_should_not_work env \<and>
   destroying_asset_balance_with_insufficient_balance_should_not_work env"
  by (simp add: issuing_asset_units_to_issuer_should_work_def querying_total_supply_should_work_def
      transferring_amount_above_available_balance_should_work_def
      transferring_amount_more_than_available_balance_should_not_work_def
      transferring_less_than_one_unit_should_not_work_def
      transferring_more_units_than_total_supply_should_not_work_def
      destroying_asset_balance_with_positive_balance_should_work_def
      destroying_asset_balance_with_zero_balance_should_not_work_def
      destroying_asset_balance_with_insufficient_balance_should_not_work_def
      assert_noop_def issue_asset1_def new_test_ext_def sa_eval)

end
