(* ===== verification/Runtime_Spec.thy ===== *)
theory Runtime_Spec
  imports Runtime_Endowment Exchange_Market Standard_Tokens
begin

text \<open>
  The specifications of the three pallets put together as the runtime puts the pallets together:
  the exchange trades the credits of the registry, tokens are a ledger of their own, and other
  pallets move money. The runtime refines it, with the calls of all pallets interleaved.
\<close>

record 'c economy =
  trade :: "'c market"
  ledger_of_tokens :: tokens

definition empty_economy :: "'c \<Rightarrow> 'c economy" where
  "empty_economy c = \<lparr>trade = empty_market c, ledger_of_tokens = no_tokens\<rparr>"

fun economy_spec ::
    "env \<Rightarrow> ('c, 'x) currency_transfer \<Rightarrow> u64 \<times> origin \<times> 'c eco2_call \<Rightarrow> 'c economy
     \<Rightarrow> ('x runtime_error + unit) \<times> 'c economy" where
  "economy_spec env transfer (t, og, Carbon_assets k) e =
     (case registry_spec env (t, og, k) (register (trade e)) of (res, g) \<Rightarrow>
        (in_runtime Carbon_assets_error res, e\<lparr>trade := (trade e)\<lparr>register := g\<rparr>\<rparr>))"
| "economy_spec env transfer (t, og, Standard_assets k) e =
     (case token_spec env (t, og, k) (ledger_of_tokens e) of (res, l) \<Rightarrow>
        (in_runtime Standard_assets_error res, e\<lparr>ledger_of_tokens := l\<rparr>))"
| "economy_spec env transfer (t, og, Carbon_exchange k) e =
     (case market_spec env transfer (t, og, k) (trade e) of (res, m) \<Rightarrow>
        (in_runtime Carbon_exchange_error res, e\<lparr>trade := m\<rparr>))"
| "economy_spec env transfer (t, og, Other_pallet c) e =
     (Ok, e\<lparr>trade := (trade e)\<lparr>money := c\<rparr>\<rparr>)"

definition economy_of :: "'c runtime_state \<Rightarrow> 'c economy" where
  "economy_of r = \<lparr>trade = market_of (exchange r), ledger_of_tokens = tokens_of (standard r)\<rparr>"

text \<open>
  The side condition of a call is that of its pallet; other pallets leave the pot what it has.
\<close>

fun economy_ok ::
    "env \<Rightarrow> ('c, 'x) currency_transfer \<Rightarrow> ('c \<Rightarrow> account \<Rightarrow> nat) \<Rightarrow> u64 \<times> origin \<times> 'c eco2_call
     \<Rightarrow> 'c runtime_state \<Rightarrow> bool" where
  "economy_ok env transfer free (t, og, Carbon_assets k) r =
     (og \<noteq> Signed (pot_account_id env) \<and> registry_ok env (t, og, k) (carbon (exchange r)))"
| "economy_ok env transfer free (t, og, Standard_assets k) r = sa_mint_ok (t, og, k) (standard r)"
| "economy_ok env transfer free (t, og, Carbon_exchange k) r =
     market_ok env transfer (t, og, k) (exchange r)"
| "economy_ok env transfer free (t, og, Other_pallet c) r =
     (free (currency (exchange r)) (pot_account_id env) \<le> free c (pot_account_id env))"

lemma economy_ok_imp:
  assumes "economy_ok env transfer free c r"
  shows "runtime_exact_ok env free c r"
  using assms
proof (cases "(env, transfer, free, c, r)" rule: economy_ok.cases)
  case (1 env transfer free t og k r)
  with assms registry_ok_imp [of env "(t, og, k)" "carbon (exchange r)"] show ?thesis by simp
qed (use assms in \<open>simp_all add: market_ok_def\<close>)

definition economy_inv :: "nat \<Rightarrow> ('c \<Rightarrow> account \<Rightarrow> nat) \<Rightarrow> account \<Rightarrow> 'c runtime_state \<Rightarrow> bool" where
  "economy_inv ed free pot r \<longleftrightarrow> runtime_inv ed free pot r \<and> ca_exact (carbon (exchange r)) \<and>
     sa_backed (standard r)"

lemma sa_backed_step:
  assumes "sa_backed (standard r)" and "economy_ok env transfer free c r"
  shows "sa_backed (standard (snd (runtime_dispatch env transfer c r)))"
proof -
  obtain t og k where c: "c = (t, og, k)" by (cases c)
  show ?thesis
    using assms sa_backing.step_inv [of "standard r" "(t, og, _)" env]
    unfolding c by (cases k) (simp_all add: runtime_dispatch.simps case_prod_unfold)
qed

lemma economy_step_refines:
  assumes laws: "currency_laws ed free transfer" and inv: "economy_inv ed free (pot_account_id env) r"
    and ok: "economy_ok env transfer free c r"
  shows "economy_spec env transfer c (economy_of r) =
    (fst (runtime_dispatch env transfer c r), economy_of (snd (runtime_dispatch env transfer c r)))"
proof -
  obtain t og k where c: "c = (t, og, k)" by (cases c)
  have inv': "ca_wf (carbon (exchange r)) \<and> ca_exact (carbon (exchange r))"
    "currency_laws ed free transfer \<and> escrowed ed free (pot_account_id env) (exchange r)"
    "sa_backed (standard r)"
    using laws inv by (simp_all add: economy_inv_def runtime_inv_def carbon_inv_def)
  show ?thesis
  proof (cases k)
    case (Carbon_assets j)
    with ok c ca_registry.step_refines [OF inv'(1), of env "(t, og, j)"] show ?thesis
      by (simp add: economy_of_def runtime_dispatch.simps split: prod.split)
  next
    case (Standard_assets j)
    with ok c sa_tokens.step_refines [OF inv'(3), of "(t, og, j)" env] show ?thesis
      by (simp add: economy_of_def runtime_dispatch.simps split: prod.split)
  next
    case (Carbon_exchange j)
    with ok c cx_market.step_refines [OF inv'(2), of "(t, og, j)"] show ?thesis
      by (simp add: economy_of_def runtime_dispatch.simps split: prod.split)
  next
    case (Other_pallet x)
    then show ?thesis by (simp add: c economy_of_def runtime_dispatch.simps)
  qed
qed

interpretation runtime_economy: refinement_run "runtime_dispatch env transfer" "economy_ok env transfer free"
    "\<lambda>r. currency_laws ed free transfer \<and> economy_inv ed free (pot_account_id env) r"
    "economy_spec env transfer" economy_of for env transfer ed free
proof
  fix r c
  assume i: "currency_laws ed free transfer \<and> economy_inv ed free (pot_account_id env) r"
    and ok: "economy_ok env transfer free c r"
  with runtime_exact_step [of ed free transfer env r c] economy_ok_imp [OF ok] sa_backed_step [OF _ ok]
  show "currency_laws ed free transfer \<and>
      economy_inv ed free (pot_account_id env) (snd (runtime_dispatch env transfer c r))"
    by (simp add: economy_inv_def)
  from i ok show "economy_spec env transfer c (economy_of r) =
      (fst (runtime_dispatch env transfer c r), economy_of (snd (runtime_dispatch env transfer c r)))"
    by (intro economy_step_refines) blast+
qed

lemma economy_inv_genesis:
  assumes "ed \<le> free c pot"
  shows "economy_inv ed free pot (runtime_genesis c)"
  using runtime_inv_genesis [where free = free, OF assms]
  by (simp add: economy_inv_def) (simp add: runtime_genesis_def ca_exact_genesis sa_backed_genesis)

lemma economy_of_genesis: "economy_of (runtime_genesis c) = empty_economy c"
  by (simp add: economy_of_def empty_economy_def empty_market_def market_of_def runtime_genesis_def
      registry_of_genesis tokens_of_genesis)

text \<open>
  C2. The three pallets together are what their specifications say, however their calls interleave:
  from genesis with a pot that holds the existential deposit, over any run that keeps the side
  conditions of the three refinements, every call has the result that the specification gives it,
  and afterwards the registry, the book of offers, every account's credits and tokens and the
  currency are those of the specification.
\<close>

theorem runtime_refines_economy:
  assumes "currency_laws ed free transfer" and "ed \<le> free c (pot_account_id env)"
    and "ok_run (economy_ok env transfer free) (runtime_dispatch env transfer) cs (runtime_genesis c)"
  shows "let r = run_calls (runtime_dispatch env transfer) cs (runtime_genesis c);
             e = run_calls (economy_spec env transfer) cs (empty_economy c)
    in run_results (runtime_dispatch env transfer) cs (runtime_genesis c) =
         run_results (economy_spec env transfer) cs (empty_economy c) \<and>
       register (trade e) = registry_of (carbon (exchange r)) \<and>
       book (trade e) = map_option offer_of \<circ> Orders (exchange r) \<and>
       money (trade e) = currency (exchange r) \<and>
       ledger_of_tokens e = tokens_of (standard r)"
proof -
  from assms(1) economy_inv_genesis [where free = free, OF assms(2)] have "currency_laws ed free transfer \<and>
      economy_inv ed free (pot_account_id env) (runtime_genesis c)" by simp
  from runtime_economy.run_refines [OF this assms(3), unfolded economy_of_genesis] show ?thesis
    by (simp add: Let_def economy_of_def)
qed

definition trading_day :: "(u64 \<times> origin \<times> (account \<Rightarrow> nat) eco2_call) list" where
  "trading_day = runtime_trading @
     [(35, Signed 1, Standard_assets (Sa_issue [65] [66] 8 1000 100)),
      (36, Signed 1, Standard_assets (Sa_transfer 1001 3 60))]"

theorem runtime_refines_economy_witness:
  "let e = run_calls (economy_spec sample_env sample_transfer) trading_day (empty_economy (\<lambda>_. 1000))
   in list_all (\<lambda>res. res = Ok) (run_results (economy_spec sample_env sample_transfer) trading_day
        (empty_economy (\<lambda>_. 1000))) \<and>
      credits (register (trade e)) 3001 2 = 3 \<and> money (trade e) 1 = 2035 \<and>
      held (ledger_of_tokens e) 1001 3 = 60"
proof -
  let ?d = "runtime_dispatch sample_env sample_transfer" and ?g = "runtime_genesis (\<lambda>_. 1000)"
  let ?e = "economy_spec sample_env sample_transfer" and ?start = "empty_economy (\<lambda>_. 1000)"
  note ev = trading_day_def runtime_trading_def carbon_setup_def runtime_genesis_def cx_eval sa_eval
    sample_transfer_def saturating_mul_def
  have "ok_run (economy_ok sample_env sample_transfer (\<lambda>c. c)) ?d trading_day ?g"
    by (simp add: ev market_ok_def cx_ok_def asset_sum_fits_def sum_fits_def recorded_supply_def)
  from runtime_refines_economy [OF sample_transfer_laws _ this]
  have "run_results ?e trading_day ?start = run_results ?d trading_day ?g"
    and "register (trade (run_calls ?e trading_day ?start)) = registry_of (carbon (exchange (run_calls ?d trading_day ?g)))"
    and "money (trade (run_calls ?e trading_day ?start)) = currency (exchange (run_calls ?d trading_day ?g))"
    and "ledger_of_tokens (run_calls ?e trading_day ?start) = tokens_of (standard (run_calls ?d trading_day ?g))"
    by (simp_all only: Let_def)
  moreover have "list_all (\<lambda>res. res = Ok) (run_results ?d trading_day ?g)"
    "credits_of (ca_Balances (carbon (exchange (run_calls ?d trading_day ?g)))) 3001 2 = 3"
    "currency (exchange (run_calls ?d trading_day ?g)) 1 = 2035"
    "sa_balance (standard (run_calls ?d trading_day ?g)) 1001 3 = 60"
    by (simp_all add: ev credits_of_def runtime_dispatch.simps)
  ultimately show ?thesis by (simp only: Let_def registry_of_simps held_tokens_of) simp
qed

end
