(* ===== verification/Runtime_Provenance.thy ===== *)
theory Runtime_Provenance
  imports Runtime_Properties "HOL-Library.Sublist"
begin

text \<open>
  Where carbon credits come from: the history of a run is the list of its successful calls, and
  whatever the storage shows of projects and assets is traced back to calls of the history, their
  senders and their order. No side condition is asked of the run.
\<close>

section \<open>The history of a run\<close>

fun history :: "('call \<Rightarrow> 's \<Rightarrow> ('e + unit) \<times> 's) \<Rightarrow> 'call list \<Rightarrow> 's \<Rightarrow> 'call list" where
  "history step [] s = []"
| "history step (c # cs) s =
     (if fst (step c s) = Ok then c # history step cs (snd (step c s))
      else history step cs (snd (step c s)))"

lemma history_append:
  "history step (cs @ ds) s = history step cs s @ history step ds (run_calls step cs s)"
  by (induction cs arbitrary: s) simp_all

lemma subseq_later: "subseq ks h \<Longrightarrow> subseq ks (h @ h')"
  by (rule subseq_rev_drop_many)

lemma subseq_now: "subseq ks h \<Longrightarrow> subseq (ks @ [k]) (h @ [k])"
  by simp

text \<open>The calls of the carbon pallet in a history.\<close>

definition carbon_calls :: "(u64 \<times> origin \<times> 'c eco2_call) list \<Rightarrow> (u64 \<times> origin \<times> ca_call) list" where
  "carbon_calls = List.map_filter
     (\<lambda>(t, og, k). case k of Carbon_assets j \<Rightarrow> Some (t, og, j) | _ \<Rightarrow> None)"

lemma carbon_calls_simps [simp]:
  "carbon_calls [] = []"
  "carbon_calls ((t, og, Carbon_assets j) # h) = (t, og, j) # carbon_calls h"
  "carbon_calls ((t, og, Standard_assets x) # h) = carbon_calls h"
  "carbon_calls ((t, og, Carbon_exchange y) # h) = carbon_calls h"
  "carbon_calls ((t, og, Other_pallet z) # h) = carbon_calls h"
  by (simp_all add: carbon_calls_def map_filter_simps)

lemma carbon_calls_append: "carbon_calls (h @ h') = carbon_calls h @ carbon_calls h'"
  by (simp add: carbon_calls_def List.map_filter_def)

section \<open>The calls that make a credit\<close>

definition submits_project ::
    "env \<Rightarrow> account \<Rightarrow> hash \<Rightarrow> u64 \<times> origin \<times> ca_call \<Rightarrow> bool" where
  "submits_project env owner pid k \<longleftrightarrow> (\<exists>t symbol max_supply additional.
     k = (t, Signed owner, Submit_project symbol max_supply additional) \<and>
     hash_of env (Pre_project owner symbol max_supply additional) = pid)"

definition approves_project :: "env \<Rightarrow> hash \<Rightarrow> u64 \<times> origin \<times> ca_call \<Rightarrow> bool" where
  "approves_project env pid k \<longleftrightarrow> (\<exists>t og.
     k = (t, og, Approve_project pid) \<and> approve_origin env og)"

definition submits_asset ::
    "env \<Rightarrow> account \<Rightarrow> hash \<Rightarrow> hash \<Rightarrow> u64 \<times> origin \<times> ca_call \<Rightarrow> bool" where
  "submits_asset env owner pid aid k \<longleftrightarrow> (\<exists>t vintage supply additional.
     k = (t, Signed owner, Submit_asset pid vintage supply additional) \<and>
     hash_of env (Pre_asset owner pid vintage supply additional) = aid)"

definition approves_asset :: "env \<Rightarrow> hash \<Rightarrow> u64 \<times> origin \<times> ca_call \<Rightarrow> bool" where
  "approves_asset env aid k \<longleftrightarrow> (\<exists>t og.
     k = (t, og, Approve_asset aid) \<and> approve_origin env og)"

lemmas call_defs = submits_project_def approves_project_def submits_asset_def approves_asset_def

text \<open>The trace of a project and of an asset in a history, up to what it shows.\<close>

definition project_trace ::
    "env \<Rightarrow> (u64 \<times> origin \<times> ca_call) list \<Rightarrow> hash \<Rightarrow> account \<Rightarrow> bool \<Rightarrow> bool" where
  "project_trace env h pid owner approved \<longleftrightarrow>
     (\<exists>k1. submits_project env owner pid k1 \<and> subseq [k1] h \<and>
        (approved \<longrightarrow> (\<exists>k2. approves_project env pid k2 \<and> subseq [k1, k2] h)))"

definition asset_trace ::
    "env \<Rightarrow> (u64 \<times> origin \<times> ca_call) list \<Rightarrow> hash \<Rightarrow> account \<Rightarrow> hash \<Rightarrow> bool \<Rightarrow> bool" where
  "asset_trace env h pid owner aid approved \<longleftrightarrow>
     (\<exists>k1 k2 k3. submits_project env owner pid k1 \<and> approves_project env pid k2 \<and>
        submits_asset env owner pid aid k3 \<and> subseq [k1, k2, k3] h \<and>
        (approved \<longrightarrow> (\<exists>k4. approves_asset env aid k4 \<and> subseq [k1, k2, k3, k4] h)))"

lemma project_trace_later: "project_trace env h pid owner b \<Longrightarrow> project_trace env (h @ h') pid owner b"
  unfolding project_trace_def by (blast intro: subseq_later)

lemma asset_trace_later: "asset_trace env h pid owner aid b \<Longrightarrow> asset_trace env (h @ h') pid owner aid b"
  unfolding asset_trace_def by (blast intro: subseq_later)

lemma project_trace_new:
  assumes "submits_project env owner pid k"
  shows "project_trace env (h @ [k]) pid owner False"
proof -
  have "subseq [k] (h @ [k])" by (simp add: subseq_singleton_left)
  with assms show ?thesis unfolding project_trace_def by blast
qed

lemma project_trace_approved:
  assumes "project_trace env h pid owner b" and "approves_project env pid k"
  shows "project_trace env (h @ [k]) pid owner True"
proof -
  from assms(1) obtain k1 where k1: "submits_project env owner pid k1" "subseq [k1] h"
    unfolding project_trace_def by blast
  then have "subseq [k1] (h @ [k])" "subseq [k1, k] (h @ [k])"
    using subseq_now [of "[k1]" h k] subseq_later [of "[k1]" h "[k]"] by simp_all
  with k1 assms(2) show ?thesis unfolding project_trace_def by blast
qed

lemma asset_trace_new:
  assumes "project_trace env h pid owner True" and "submits_asset env owner pid aid k"
  shows "asset_trace env (h @ [k]) pid owner aid False"
proof -
  from assms(1) obtain k1 k2 where k: "submits_project env owner pid k1" "approves_project env pid k2"
    "subseq [k1, k2] h" unfolding project_trace_def by blast
  then have "subseq [k1, k2, k] (h @ [k])" using subseq_now [of "[k1, k2]" h k] by simp
  with k assms(2) show ?thesis unfolding asset_trace_def by blast
qed

lemma asset_trace_approved:
  assumes "asset_trace env h pid owner aid b" and "approves_asset env aid k"
  shows "asset_trace env (h @ [k]) pid owner aid True"
proof -
  from assms(1) obtain k1 k2 k3 where k: "submits_project env owner pid k1" "approves_project env pid k2"
    "submits_asset env owner pid aid k3" "subseq [k1, k2, k3] h" unfolding asset_trace_def by blast
  then have "subseq [k1, k2, k3] (h @ [k])" "subseq [k1, k2, k3, k] (h @ [k])"
    using subseq_now [of "[k1, k2, k3]" h k] subseq_later [of "[k1, k2, k3]" h "[k]"] by simp_all
  with k assms(2) show ?thesis unfolding asset_trace_def by blast
qed

text \<open>The carbon storage \<open>s\<close> is traced when all its projects and assets are.\<close>

definition projects_traced :: "env \<Rightarrow> (u64 \<times> origin \<times> ca_call) list \<Rightarrow> ca_state \<Rightarrow> bool" where
  "projects_traced env h s \<longleftrightarrow> (\<forall>pid p. Projects s pid = Some p \<longrightarrow>
     project_trace env h pid (cp_owner p) (cp_status p = 1))"

definition assets_traced :: "env \<Rightarrow> (u64 \<times> origin \<times> ca_call) list \<Rightarrow> ca_state \<Rightarrow> bool" where
  "assets_traced env h s \<longleftrightarrow> (\<forall>aid a p. Assets s aid = Some a \<longrightarrow>
     Projects s (as_project_id a) = Some p \<longrightarrow>
     asset_trace env h (as_project_id a) (cp_owner p) aid (as_status a = 1))"

text \<open>What a successful call can have done to a project and to an asset.\<close>

lemma project_change:
  assumes "ca_dispatch env (t, og, k) s = (Ok, s')" and "Projects s' pid = Some p"
  shows "(\<exists>q. Projects s pid = Some q \<and> cp_owner p = cp_owner q \<and> cp_status p = cp_status q) \<or>
    submits_project env (cp_owner p) pid (t, og, k) \<and> cp_status p = 0 \<or>
    (\<exists>q. Projects s pid = Some q \<and> cp_owner p = cp_owner q \<and>
       approves_project env pid (t, og, k))"
proof (cases k)
  case (Approve_project x)
  with assms show ?thesis
    by (cases "x = pid") (auto elim!: approve_project_Ok simp: approves_project_def)
qed (use assms in \<open>auto elim!: ca_Ok_elims split: if_splits simp: submits_project_def\<close>)

lemma asset_change:
  assumes "ca_dispatch env (t, og, k) s = (Ok, s')" and "Assets s' aid = Some a"
  shows "(\<exists>b. Assets s aid = Some b \<and> as_project_id a = as_project_id b \<and> as_status a = as_status b) \<or>
    (\<exists>p. Projects s (as_project_id a) = Some p \<and> cp_status p = 1 \<and> as_status a = 0 \<and>
       submits_asset env (cp_owner p) (as_project_id a) aid (t, og, k)) \<or>
    (\<exists>b. Assets s aid = Some b \<and> as_project_id a = as_project_id b \<and>
       approves_asset env aid (t, og, k))"
proof (cases k)
  case (Approve_asset x)
  with assms show ?thesis
    by (cases "x = aid") (auto elim!: approve_asset_Ok simp: approves_asset_def)
next
  case (Submit_asset pid vintage v additional)
  with assms show ?thesis
    by (auto elim!: submit_asset_Ok split: if_splits simp: submits_asset_def)
qed (use assms in \<open>auto elim!: ca_Ok_elims split: if_splits\<close>)

lemma owner_kept:
  assumes "ca_dispatch env (t, og, k) s = (Ok, s')" and "Projects s pid = Some q"
    and "Projects s' pid = Some p"
  shows "cp_owner p = cp_owner q"
  using assms by (cases k) (auto elim!: ca_Ok_elims split: if_splits)

lemma projects_traced_step:
  assumes ok: "ca_dispatch env (t, og, k) s = (Ok, s')" and tr: "projects_traced env h s"
  shows "projects_traced env (h @ [(t, og, k)]) s'"
  unfolding projects_traced_def
proof (intro allI impI)
  fix pid p assume p: "Projects s' pid = Some p"
  have old: "project_trace env h pid (cp_owner q) (cp_status q = 1)" if "Projects s pid = Some q" for q
    using tr that by (simp add: projects_traced_def)
  from project_change [OF ok p]
  show "project_trace env (h @ [(t, og, k)]) pid (cp_owner p) (cp_status p = 1)"
  proof (elim disjE exE conjE)
    fix q assume "Projects s pid = Some q" "cp_owner p = cp_owner q" "cp_status p = cp_status q"
    with project_trace_later [OF old] show ?thesis by simp
  next
    assume "submits_project env (cp_owner p) pid (t, og, k)" "cp_status p = 0"
    with project_trace_new show ?thesis by simp
  next
    fix q assume "Projects s pid = Some q" "cp_owner p = cp_owner q"
      and "approves_project env pid (t, og, k)"
    with project_trace_approved [OF old] have
      "project_trace env (h @ [(t, og, k)]) pid (cp_owner p) True" by simp
    then show ?thesis unfolding project_trace_def by blast
  qed
qed

lemma assets_traced_step:
  assumes ok: "ca_dispatch env (t, og, k) s = (Ok, s')" and wf: "ca_wf s"
    and ptr: "projects_traced env h s" and tr: "assets_traced env h s"
  shows "assets_traced env (h @ [(t, og, k)]) s'"
  unfolding assets_traced_def
proof (intro allI impI)
  fix aid a p assume a: "Assets s' aid = Some a" and p: "Projects s' (as_project_id a) = Some p"
  have old: "asset_trace env h (as_project_id b) (cp_owner p) aid (as_status b = 1)"
    if b: "Assets s aid = Some b" "as_project_id a = as_project_id b" for b
  proof -
    obtain q where q: "Projects s (as_project_id b) = Some q"
      using wf b by (fastforce simp: ca_wf_def wf_assets_def project_status_def)
    with owner_kept [OF ok q] p b(2) have "cp_owner p = cp_owner q" by simp
    with tr b q show ?thesis by (simp add: assets_traced_def)
  qed
  from asset_change [OF ok a]
  show "asset_trace env (h @ [(t, og, k)]) (as_project_id a) (cp_owner p) aid (as_status a = 1)"
  proof (elim disjE exE conjE)
    fix b assume "Assets s aid = Some b" "as_project_id a = as_project_id b" "as_status a = as_status b"
    with asset_trace_later [OF old] show ?thesis by simp
  next
    fix q assume q: "Projects s (as_project_id a) = Some q" "cp_status q = 1" and "as_status a = 0"
      and sub: "submits_asset env (cp_owner q) (as_project_id a) aid (t, og, k)"
    have "project_trace env h (as_project_id a) (cp_owner q) (cp_status q = 1)"
      using ptr q(1) by (simp add: projects_traced_def)
    then have "project_trace env h (as_project_id a) (cp_owner q) True" using q(2) by simp
    from asset_trace_new [OF this sub] \<open>as_status a = 0\<close> owner_kept [OF ok q(1) p]
    show ?thesis by simp
  next
    fix b assume "Assets s aid = Some b" "as_project_id a = as_project_id b"
      and "approves_asset env aid (t, og, k)"
    with asset_trace_approved [OF old] have
      "asset_trace env (h @ [(t, og, k)]) (as_project_id a) (cp_owner p) aid True" by simp
    then show ?thesis unfolding asset_trace_def by blast
  qed
qed

section \<open>Over the runs of the three pallets\<close>

definition orders_listed :: "'c cx_state \<Rightarrow> bool" where
  "orders_listed w \<longleftrightarrow>
     (\<forall>oid order. Orders w oid = Some order \<longrightarrow> has_asset (carbon w) (or_asset_id order))"

lemma listed_exchange_step:
  assumes "cx_step env transfer og k w w'" and wf: "ca_wf (carbon w)" and "orders_listed w"
  shows "ca_wf (carbon w') \<and> orders_listed w'"
proof -
  have a: "has_asset (carbon w) (or_asset_id order)" if "Orders w oid = Some order" for oid order
    using assms(3) that by (simp add: orders_listed_def)
  have "ca_wf (carbon w')" using assms(1) by cases (use wf a in \<open>auto intro!: ca_wf_moved\<close>)
  moreover have "orders_listed w'"
    unfolding orders_listed_def using assms(1)
    by cases (use a in \<open>auto simp: new_order_def remaining_orders_def split: if_splits\<close>)
  ultimately show ?thesis ..
qed

definition traced ::
    "env \<Rightarrow> (u64 \<times> origin \<times> ca_call) list \<Rightarrow> 'c runtime_state \<Rightarrow> bool" where
  "traced env h r \<longleftrightarrow> ca_wf (carbon (exchange r)) \<and> orders_listed (exchange r) \<and>
     projects_traced env h (carbon (exchange r)) \<and> assets_traced env h (carbon (exchange r))"

lemma traced_step:
  assumes laws: "currency_laws ed free transfer" and tr: "traced env (carbon_calls h) r"
  shows "traced env (carbon_calls (h @ history (runtime_dispatch env transfer) [c] r))
    (snd (runtime_dispatch env transfer c r))"
proof -
  obtain t og k where c: "c = (t, og, k)" by (cases c)
  show ?thesis
  proof (cases k)
    case (Carbon_assets j)
    obtain res s' where d: "ca_dispatch env (t, og, j) (carbon (exchange r)) = (res, s')" by fastforce
    show ?thesis
    proof (cases res)
      case (Inl e)
      with d ca_checked.fail_unchanged have "s' = carbon (exchange r)" by blast
      with tr d Inl show ?thesis
        by (simp add: c Carbon_assets runtime_dispatch.simps)
    next
      case (Inr u)
      with d have ok: "ca_dispatch env (t, og, j) (carbon (exchange r)) = (Ok, s')" by simp
      have wf: "ca_wf s'" using ca_wf_step [of "carbon (exchange r)" env "(t, og, j)"] tr d
        by (simp add: traced_def)
      have "orders_listed ((exchange r)\<lparr>carbon := s'\<rparr>)"
        using tr has_asset_kept [of "carbon (exchange r)" _ env "(t, og, j)"] d
        by (simp add: traced_def orders_listed_def)
      with wf tr projects_traced_step [OF ok] assets_traced_step [OF ok] ok show ?thesis
        by (simp add: c Carbon_assets runtime_dispatch.simps carbon_calls_append traced_def)
    qed
  next
    case (Carbon_exchange j)
    let ?w' = "snd (cx_dispatch env transfer (t, og, j) (exchange r))"
    from laws have "cx_step (env\<lparr>now := t\<rparr>) transfer og j (exchange r) ?w'" by (rule cx_dispatch_step)
    from listed_exchange_step [OF this] tr have "ca_wf (carbon ?w') \<and> orders_listed ?w'"
      by (simp add: traced_def)
    moreover have "Projects (carbon ?w') = Projects (carbon (exchange r))"
      "Assets (carbon ?w') = Assets (carbon (exchange r))"
      using cx_units_conserved [of "exchange r" env transfer "(t, og, j)"] by (simp_all add: Let_def)
    ultimately show ?thesis
      using tr
      by (simp add: c Carbon_exchange carbon_calls_append traced_def projects_traced_def
          assets_traced_def)
  qed (use tr in \<open>simp_all add: c carbon_calls_append traced_def orders_listed_def\<close>)
qed

lemma traced_run:
  assumes "currency_laws ed free transfer"
  shows "traced env (carbon_calls (history (runtime_dispatch env transfer) cs (runtime_genesis c)))
    (run_calls (runtime_dispatch env transfer) cs (runtime_genesis c))"
proof (induction cs rule: rev_induct)
  case Nil
  then show ?case
    by (simp add: traced_def runtime_genesis_def ca_wf_genesis orders_listed_def projects_traced_def
        assets_traced_def ca_genesis_def [THEN arg_cong [where f = Projects]]
        ca_genesis_def [THEN arg_cong [where f = Assets]])
next
  case (snoc k cs)
  from traced_step [OF assms snoc, of k] show ?case
    by (simp only: history_append run_calls_append run_calls.simps)
qed

text \<open>
  C11. Every carbon credit has its papers. With the runtime's approval origin, over any run of calls of
  the three pallets from genesis: if somebody holds units of an asset, or an order is on it, then the
  successful calls of the run contain, in this order, the submission of a project, its approval, the
  submission of the asset for that project and the approval of the asset; project and asset were
  submitted by the account that owns the project still, and both approvals came from the root or from
  more than half of the carbon committee.
\<close>

theorem credits_have_papers:
  assumes "currency_laws ed free transfer" and "approve_origin env = carbon_approve_origin more_than"
    and "w = exchange (run_calls (runtime_dispatch env transfer) cs (runtime_genesis c))"
    and "ca_balance (carbon w) aid who \<noteq> 0 \<or>
      (\<exists>oid order. Orders w oid = Some order \<and> or_asset_id order = aid)"
  shows "\<exists>pid p t1 symbol max_supply x t2 og2 t3 vintage v y t4 og4.
    Projects (carbon w) pid = Some p \<and>
    hash_of env (Pre_project (cp_owner p) symbol max_supply x) = pid \<and>
    hash_of env (Pre_asset (cp_owner p) pid vintage v y) = aid \<and>
    subseq [(t1, Signed (cp_owner p), Submit_project symbol max_supply x),
            (t2, og2, Approve_project pid),
            (t3, Signed (cp_owner p), Submit_asset pid vintage v y),
            (t4, og4, Approve_asset aid)]
      (carbon_calls (history (runtime_dispatch env transfer) cs (runtime_genesis c))) \<and>
    (\<forall>og \<in> {og2, og4}. og = Root \<or> (\<exists>m. og = Carbon_committee_origin m \<and> more_than 1 2 m))"
proof -
  have tr: "traced env (carbon_calls (history (runtime_dispatch env transfer) cs (runtime_genesis c)))
      (run_calls (runtime_dispatch env transfer) cs (runtime_genesis c))"
    using assms(1) by (rule traced_run)
  have "has_asset (carbon w) aid"
    using assms(4) tr unfolding assms(3)
    by (auto simp: traced_def orders_listed_def ca_wf_def wf_balances_def has_asset_iff ca_balance_def)
  then obtain a where a: "Assets (carbon w) aid = Some a" "as_status a = 1"
    by (auto simp: has_asset_def split: option.splits)
  then obtain p where p: "Projects (carbon w) (as_project_id a) = Some p"
    using tr unfolding assms(3) by (fastforce simp: traced_def ca_wf_def wf_assets_def project_status_def)
  let ?h = "carbon_calls (history (runtime_dispatch env transfer) cs (runtime_genesis c))"
  have "asset_trace env ?h (as_project_id a) (cp_owner p) aid (as_status a = 1)"
    using tr a(1) p unfolding assms(3) by (simp add: traced_def assets_traced_def)
  with a(2) obtain k1 k2 k3 k4 where
      k: "submits_project env (cp_owner p) (as_project_id a) k1" "approves_project env (as_project_id a) k2"
        "submits_asset env (cp_owner p) (as_project_id a) aid k3" "approves_asset env aid k4"
      and sub: "subseq [k1, k2, k3, k4] ?h"
    unfolding asset_trace_def by blast
  have origin: "og = Root \<or> (\<exists>m. og = Carbon_committee_origin m \<and> more_than 1 2 m)"
    if "approve_origin env og" for og
    using that unfolding assms(2) by (cases og) (simp_all add: carbon_approve_origin_def)
  from k(1) obtain t1 symbol max_supply x where
    k1: "k1 = (t1, Signed (cp_owner p), Submit_project symbol max_supply x)"
      "hash_of env (Pre_project (cp_owner p) symbol max_supply x) = as_project_id a"
    unfolding submits_project_def by blast
  from k(3) obtain t3 vintage v y where
    k3: "k3 = (t3, Signed (cp_owner p), Submit_asset (as_project_id a) vintage v y)"
      "hash_of env (Pre_asset (cp_owner p) (as_project_id a) vintage v y) = aid"
    unfolding submits_asset_def by blast
  from k(2) obtain t2 og2 where k2: "k2 = (t2, og2, Approve_project (as_project_id a))"
    "approve_origin env og2" unfolding approves_project_def by blast
  from k(4) obtain t4 og4 where k4: "k4 = (t4, og4, Approve_asset aid)" "approve_origin env og4"
    unfolding approves_asset_def by blast
  have "\<forall>og \<in> {og2, og4}. og = Root \<or> (\<exists>m. og = Carbon_committee_origin m \<and> more_than 1 2 m)"
    using origin [OF k2(2)] origin [OF k4(2)] by blast
  with p k1(2) k3(2) sub show ?thesis unfolding k1(1) k2(1) k3(1) k4(1) by blast
qed

theorem credits_have_papers_witness:
  "let env = sample_env\<lparr>approve_origin := carbon_approve_origin (\<lambda>_ _ _. True)\<rparr>;
       cs = (9, Signed 7, Carbon_assets (Approve_project 2001)) #
         map (\<lambda>(t, og, k). (t, og, Carbon_assets k)) carbon_setup
   in \<exists>k1 k2 k3 t4 og4. subseq [k1, k2, k3, (t4, og4, Approve_asset 3001)]
        (carbon_calls (history (runtime_dispatch env sample_transfer) cs (runtime_genesis (\<lambda>_. 1000)))) \<and>
      (og4 = Root \<or> (\<exists>m. og4 = Carbon_committee_origin m))"
proof -
  let ?env = "sample_env\<lparr>approve_origin := carbon_approve_origin (\<lambda>_ _ _. True)\<rparr>"
  let ?cs = "(9, Signed 7, Carbon_assets (Approve_project 2001)) #
    map (\<lambda>(t, og, k). (t, og, Carbon_assets k)) carbon_setup"
  let ?d = "runtime_dispatch ?env sample_transfer" and ?g = "runtime_genesis (\<lambda>_. 1000)"
  have units: "ca_balance (carbon (exchange (run_calls ?d ?cs ?g))) 3001 1 \<noteq> 0"
    by (simp add: carbon_setup_def runtime_genesis_def ca_eval carbon_approve_origin_def)
  have env: "approve_origin ?env = carbon_approve_origin (\<lambda>_ _ _. True)" by simp
  note papers = credits_have_papers [OF sample_transfer_laws env refl disjI1 [OF units]]
  from papers show ?thesis
    unfolding Let_def by (elim exE conjE) (intro exI conjI, assumption, (simp only: ball_simps, blast)?)
qed

end
