(* ===== verification/Runtime_Governance.thy ===== *)
theory Runtime_Governance
  imports Runtime_Config
begin

text \<open>
  Who governs what in the runtime (\<open>runtime/src/lib.rs\<close>): the parameters of the governance
  pallets, the origins that each governance right asks for, and the split of fees. The collectives'
  shares and the splitting of an imbalance are framework code: the parameters \<open>at_least\<close>,
  \<open>more_than\<close>, \<open>is_member\<close> and \<open>ration\<close>.
\<close>

section \<open>Parameters of the governance pallets\<close>

record democracy_parameters =
  de_LaunchPeriod :: u32
  de_VotingPeriod :: u32
  de_FastTrackVotingPeriod :: u32
  de_MinimumDeposit :: u128
  de_InstantAllowed :: bool
  de_EnactmentPeriod :: u32
  de_CooloffPeriod :: u32
  de_PreimageByteDeposit :: u128
  de_MaxVotes :: u32

definition democracy_params :: democracy_parameters where
  "democracy_params = \<lparr>
     de_LaunchPeriod = 7 * 24 * 60 * MINUTES,
     de_VotingPeriod = 7 * 24 * 60 * MINUTES,
     de_FastTrackVotingPeriod = 3 * 24 * 60 * MINUTES,
     de_MinimumDeposit = 100 * DOLLARS,
     de_InstantAllowed = False,
     de_EnactmentPeriod = 8 * 24 * 60 * MINUTES,
     de_CooloffPeriod = 7 * 24 * 60 * MINUTES,
     de_PreimageByteDeposit = 1 * CENTS,
     de_MaxVotes = 100\<rparr>"

record elections_parameters =
  el_CandidacyBond :: u128
  el_VotingBond :: u128
  el_TermDuration :: u32
  el_DesiredMembers :: u32
  el_DesiredRunnersUp :: u32
  el_ElectionsPhragmenModuleId :: string
  el_CouncilMaxMembers :: u32

definition elections_params :: elections_parameters where
  "elections_params = \<lparr>
     el_CandidacyBond = 1000 * DOLLARS,
     el_VotingBond = 10 * DOLLARS,
     el_TermDuration = 28 * DAYS,
     el_DesiredMembers = 13,
     el_DesiredRunnersUp = 7,
     el_ElectionsPhragmenModuleId = ''phrelect'',
     el_CouncilMaxMembers = 100\<rparr>"

text \<open>\<open>Permill\<close> and \<open>Percent\<close> are their numbers of parts per million and per hundred.\<close>

record treasury_parameters =
  tr_ProposalBond :: nat
  tr_ProposalBondMinimum :: u128
  tr_SpendPeriod :: u32
  tr_Burn :: nat
  tr_TipCountdown :: u32
  tr_TipFindersFee :: nat
  tr_TipReportDepositBase :: u128
  tr_DataDepositPerByte :: u128
  tr_BountyDepositBase :: u128
  tr_BountyDepositPayoutDelay :: u32
  tr_TreasuryModuleId :: string
  tr_BountyUpdatePeriod :: u32
  tr_MaximumReasonLength :: u32
  tr_BountyCuratorDeposit :: nat
  tr_BountyValueMinimum :: u128

definition treasury_params :: treasury_parameters where
  "treasury_params = \<lparr>
     tr_ProposalBond = 5 * 10000,
     tr_ProposalBondMinimum = 1000 * DOLLARS,
     tr_SpendPeriod = 14 * DAYS,
     tr_Burn = 0 * 10000,
     tr_TipCountdown = 1 * DAYS,
     tr_TipFindersFee = 20,
     tr_TipReportDepositBase = 1 * DOLLARS,
     tr_DataDepositPerByte = 1 * CENTS,
     tr_BountyDepositBase = 10 * DOLLARS,
     tr_BountyDepositPayoutDelay = 7 * DAYS,
     tr_TreasuryModuleId = ''py/trsry'',
     tr_BountyUpdatePeriod = 14 * DAYS,
     tr_MaximumReasonLength = 16384,
     tr_BountyCuratorDeposit = 50 * 10000,
     tr_BountyValueMinimum = 100 * DOLLARS\<rparr>"

record identity_parameters =
  id_BasicDeposit :: u128
  id_FieldDeposit :: u128
  id_SubAccountDeposit :: u128
  id_MaxSubAccounts :: u32
  id_MaxAdditionalFields :: u32
  id_MaxRegistrars :: u32

definition identity_params :: identity_parameters where
  "identity_params = \<lparr>
     id_BasicDeposit = 5 * DOLLARS,
     id_FieldDeposit = 250 * CENTS,
     id_SubAccountDeposit = 1 * DOLLARS,
     id_MaxSubAccounts = 100,
     id_MaxAdditionalFields = 100,
     id_MaxRegistrars = 20\<rparr>"

record recovery_parameters =
  re_ConfigDepositBase :: u128
  re_FriendDepositFactor :: u128
  re_MaxFriends :: u16
  re_RecoveryDeposit :: u128

definition recovery_params :: recovery_parameters where
  "recovery_params = \<lparr>
     re_ConfigDepositBase = 5 * DOLLARS,
     re_FriendDepositFactor = 50 * CENTS,
     re_MaxFriends = 9,
     re_RecoveryDeposit = 5 * DOLLARS\<rparr>"

record council_parameters =
  co_CouncilMotionDuration :: u32
  co_CouncilMaxProposals :: u32

definition council_params :: council_parameters where
  "council_params = \<lparr>
     co_CouncilMotionDuration = 7 * DAYS,
     co_CouncilMaxProposals = 100\<rparr>"

record carbon_committee_parameters =
  cc_CarbonMotionDuration :: u32
  cc_CarbonMaxProposals :: u32
  cc_CarbonMaxMembers :: u32

definition carbon_committee_params :: carbon_committee_parameters where
  "carbon_committee_params = \<lparr>
     cc_CarbonMotionDuration = 7 * DAYS,
     cc_CarbonMaxProposals = 100,
     cc_CarbonMaxMembers = 100\<rparr>"

section \<open>Origins\<close>

text \<open>
  \<open>EnsureProportionAtLeast<n, d>\<close> and \<open>EnsureProportionMoreThan<n, d>\<close> of the council: its origin
  carries the share of its members that agreed, which the predicates \<open>at_least\<close> and \<open>more_than\<close>
  compare with \<open>n / d\<close>. \<open>EnsureOneOf\<close> accepts what either of its two parts accepts.
\<close>

type_synonym share_test = "nat \<Rightarrow> nat \<Rightarrow> collective_origin \<Rightarrow> bool"

fun ensure_root :: "origin \<Rightarrow> bool" where
  "ensure_root Root = True"
| "ensure_root _ = False"

fun ensure_council :: "(collective_origin \<Rightarrow> bool) \<Rightarrow> origin \<Rightarrow> bool" where
  "ensure_council test (Council_origin c) = test c"
| "ensure_council test _ = False"

definition ensure_one_of :: "(origin \<Rightarrow> bool) \<Rightarrow> (origin \<Rightarrow> bool) \<Rightarrow> origin \<Rightarrow> bool" where
  "ensure_one_of l r og \<longleftrightarrow> l og \<or> r og"

definition more_than_half_council :: "share_test \<Rightarrow> origin \<Rightarrow> bool" where
  "more_than_half_council more_than = ensure_one_of ensure_root (ensure_council (more_than 1 2))"

definition slash_cancel_origin :: "share_test \<Rightarrow> origin \<Rightarrow> bool" where
  "slash_cancel_origin at_least = ensure_one_of ensure_root (ensure_council (at_least 3 4))"

definition external_origin :: "share_test \<Rightarrow> origin \<Rightarrow> bool" where
  "external_origin at_least = ensure_council (at_least 1 2)"

definition external_majority_origin :: "share_test \<Rightarrow> origin \<Rightarrow> bool" where
  "external_majority_origin at_least = ensure_one_of (ensure_council (at_least 3 5)) ensure_root"

definition fast_track_origin :: "share_test \<Rightarrow> origin \<Rightarrow> bool" where
  "fast_track_origin at_least = ensure_one_of (ensure_council (at_least 3 4)) ensure_root"

definition instant_origin :: "origin \<Rightarrow> bool" where "instant_origin og = False"

definition external_default_origin :: "share_test \<Rightarrow> origin \<Rightarrow> bool" where
  "external_default_origin at_least = ensure_one_of (ensure_council (at_least 1 1)) ensure_root"

definition cancellation_origin :: "share_test \<Rightarrow> origin \<Rightarrow> bool" where
  "cancellation_origin at_least = ensure_one_of (ensure_council (at_least 2 3)) ensure_root"

definition veto_origin :: "origin \<Rightarrow> bool" where "veto_origin og = False"

definition operational_preimage_origin :: "(collective_origin \<Rightarrow> bool) \<Rightarrow> origin \<Rightarrow> bool" where
  "operational_preimage_origin is_member = ensure_council is_member"

definition treasury_approve_origin :: "share_test \<Rightarrow> origin \<Rightarrow> bool" where
  "treasury_approve_origin at_least = ensure_one_of ensure_root (ensure_council (at_least 3 5))"

definition root_or_half_council :: "share_test \<Rightarrow> origin \<Rightarrow> bool" where
  "root_or_half_council more_than = ensure_one_of ensure_root (ensure_council (more_than 1 2))"

lemmas origin_defs =
  ensure_one_of_def more_than_half_council_def slash_cancel_origin_def external_origin_def
  external_majority_origin_def fast_track_origin_def instant_origin_def
  external_default_origin_def cancellation_origin_def veto_origin_def
  operational_preimage_origin_def treasury_approve_origin_def root_or_half_council_def

text \<open>
  The documented meaning of the two predicates, for an origin that \<open>ayes\<close> of \<open>seats\<close> members agreed
  to: the share is compared by cross-multiplication, and nobody agrees in an empty collective.
\<close>

definition share_laws ::
    "(collective_origin \<Rightarrow> nat) \<Rightarrow> (collective_origin \<Rightarrow> nat) \<Rightarrow> share_test \<Rightarrow> share_test \<Rightarrow> bool" where
  "share_laws ayes seats at_least more_than \<longleftrightarrow>
     (\<forall>n d c. at_least n d c = (n * seats c \<le> ayes c * d)) \<and>
     (\<forall>n d c. more_than n d c = (n * seats c < ayes c * d)) \<and> (\<forall>c. 0 < seats c)"

text \<open>
  The powers of the council are nested: with the documented meaning of shares, whoever may make
  a default-carries referendum may fast-track and cancel slashes; whoever may fast-track may cancel
  a referendum; whoever may cancel one may make it majority-carries and approve treasury spending;
  whoever may do that may act as half of the council; and no signed account may do any of it.
\<close>

theorem council_powers_nested:
  assumes "share_laws ayes seats at_least more_than"
  shows "(external_default_origin at_least og \<longrightarrow>
      fast_track_origin at_least og \<and> slash_cancel_origin at_least og) \<and>
    (fast_track_origin at_least og \<longrightarrow> cancellation_origin at_least og) \<and>
    (cancellation_origin at_least og \<longrightarrow>
      external_majority_origin at_least og \<and> treasury_approve_origin at_least og) \<and>
    (treasury_approve_origin at_least og \<longrightarrow> root_or_half_council more_than og) \<and>
    \<not> root_or_half_council more_than (Signed a)"
proof -
  have at: "at_least n d c \<longleftrightarrow> n * seats c \<le> ayes c * d"
    and more: "more_than n d c \<longleftrightarrow> n * seats c < ayes c * d" and pos: "0 < seats c" for n d c
    using assms by (simp_all add: share_laws_def)
  have "at_least 1 1 c \<Longrightarrow> at_least 3 4 c" "at_least 3 4 c \<Longrightarrow> at_least 2 3 c"
    "at_least 2 3 c \<Longrightarrow> at_least 3 5 c" "at_least 3 5 c \<Longrightarrow> more_than 1 2 c" for c
    using pos [of c] by (simp_all add: at more)
  then show ?thesis by (cases og) (simp_all add: origin_defs)
qed

theorem council_powers_nested_witness:
  "\<not> root_or_half_council (\<lambda>n d c. n * 4 < 3 * d) (Signed 1) \<and>
   (\<forall>c. cancellation_origin (\<lambda>n d c. n * 4 \<le> 3 * d) (Council_origin c))"
proof -
  have laws: "share_laws (\<lambda>_. 3) (\<lambda>_. 4) (\<lambda>n d c. n * 4 \<le> 3 * d) (\<lambda>n d c. n * 4 < 3 * d)"
    by (simp add: share_laws_def)
  have "fast_track_origin (\<lambda>n d c. n * 4 \<le> 3 * d) (Council_origin c)" for c
    by (simp add: origin_defs)
  with council_powers_nested [OF laws, of "Council_origin _" 1] show ?thesis by blast
qed

section \<open>Fees and tips\<close>

text \<open>
  \<open>DealWithFees\<close>: the first imbalance is the fees, the second the tips; each is rationed 80 to 20
  between treasury and author (the pair of the result). The runtime does not install it.
\<close>

fun deal_with_fees :: "(nat \<Rightarrow> nat \<Rightarrow> nat \<Rightarrow> nat \<times> nat) \<Rightarrow> nat list \<Rightarrow> nat \<times> nat" where
  "deal_with_fees ration [] = (0, 0)"
| "deal_with_fees ration [fees] = ration fees 80 20"
| "deal_with_fees ration (fees # tips # _) =
     (let split = ration fees 80 20; tip_split = ration tips 80 20
      in (fst split + fst tip_split, snd split + snd tip_split))"

lemma deal_with_fees_conserves:
  assumes "\<And>amount a b. fst (ration amount a b) + snd (ration amount a b) = amount"
  shows "fst (deal_with_fees ration fees_then_tips) + snd (deal_with_fees ration fees_then_tips) =
    sum_list (take 2 fees_then_tips)"
proof (cases fees_then_tips)
  case (Cons fees tl)
  show ?thesis
  proof (cases tl)
    case Nil
    with Cons assms show ?thesis by simp
  next
    case (Cons tips rest)
    with \<open>fees_then_tips = fees # tl\<close> assms [of fees 80 20] assms [of tips 80 20]
    show ?thesis by (simp add: Let_def)
  qed
qed simp

text \<open>
  \<open>Author\<close> pays an imbalance to the author of the block, and \<open>on_unbalanceds\<close> hands the two parts
  over, the treasury's first, when there are fees at all. The treasury's handler, the current author
  and \<open>resolve_creating\<close> of the balances pallet are parameters; the framework calls
  \<open>on_nonzero_unbalanced\<close> only for a non-zero imbalance.
\<close>

definition on_nonzero_unbalanced ::
    "('c \<Rightarrow> account) \<Rightarrow> (account \<Rightarrow> nat \<Rightarrow> 'c \<Rightarrow> 'c) \<Rightarrow> nat \<Rightarrow> 'c \<Rightarrow> 'c" where
  "on_nonzero_unbalanced author resolve_creating amount c = resolve_creating (author c) amount c"

definition on_unbalanceds ::
    "(nat \<Rightarrow> nat \<Rightarrow> nat \<Rightarrow> nat \<times> nat) \<Rightarrow> (nat \<Rightarrow> 'c \<Rightarrow> 'c) \<Rightarrow> ('c \<Rightarrow> account) \<Rightarrow>
     (account \<Rightarrow> nat \<Rightarrow> 'c \<Rightarrow> 'c) \<Rightarrow> nat list \<Rightarrow> 'c \<Rightarrow> 'c" where
  "on_unbalanceds ration treasury author resolve_creating fees_then_tips c =
     (case fees_then_tips of
        [] \<Rightarrow> c
      | _ \<Rightarrow>
          let split = deal_with_fees ration fees_then_tips;
              c1 = treasury (fst split) c
          in if snd split = 0 then c1
             else on_nonzero_unbalanced author resolve_creating (snd split) c1)"

text \<open>No money is made or lost: what treasury and author receive is the fees and the tips.\<close>

lemma on_unbalanceds_conserves:
  assumes "\<And>amount a b. fst (ration amount a b) + snd (ration amount a b) = amount"
    and "\<And>v c. money (treasury v c) = money c + v"
    and "\<And>a v c. money (resolve_creating a v c) = money c + (v :: nat)"
  shows "money (on_unbalanceds ration treasury author resolve_creating fees_then_tips c) =
    money c + sum_list (take 2 fees_then_tips)"
  using deal_with_fees_conserves [of ration fees_then_tips, OF assms(1)]
  by (cases fees_then_tips)
    (simp_all add: on_unbalanceds_def on_nonzero_unbalanced_def Let_def assms(2,3))

section \<open>The governance clock\<close>

lemma governance_periods:
  "unat (de_LaunchPeriod democracy_params) * unat MILLISECS_PER_BLOCK = 7 * 24 * 3600 * 1000"
  "unat (de_EnactmentPeriod democracy_params) * unat MILLISECS_PER_BLOCK = 8 * 24 * 3600 * 1000"
  "unat (el_TermDuration elections_params) * unat MILLISECS_PER_BLOCK = 28 * 24 * 3600 * 1000"
  "unat (tr_SpendPeriod treasury_params) * unat MILLISECS_PER_BLOCK = 14 * 24 * 3600 * 1000"
  "unat (cc_CarbonMotionDuration carbon_committee_params) * unat MILLISECS_PER_BLOCK
     = 7 * 24 * 3600 * 1000"
  by (simp_all add: democracy_params_def elections_params_def treasury_params_def
      carbon_committee_params_def time_defs)

lemma votes_end_before_enactment:
  "de_FastTrackVotingPeriod democracy_params < de_VotingPeriod democracy_params"
  "de_VotingPeriod democracy_params < de_EnactmentPeriod democracy_params"
  by (simp_all add: democracy_params_def time_defs)

lemma elected_members_fit:
  "el_DesiredMembers elections_params + el_DesiredRunnersUp elections_params
     \<le> el_CouncilMaxMembers elections_params"
  by (simp add: elections_params_def)

end
