(* ===== verification/Runtime_Pallets.thy ===== *)
theory Runtime_Pallets
  imports Runtime_Calls Runtime_Governance
begin

text \<open>
  The composition of the runtime (\<open>runtime/src/lib.rs\<close>) as data: the pallets that
  \<open>construct_runtime!\<close> lists, and every \<open>impl \<dots> for Runtime\<close> with the types it binds. An
  implementation is the list of its items in the order of the code; a binding is \<open>()\<close>, the runtime
  itself (\<open>Self\<close>), one of the types that \<open>construct_runtime!\<close> makes of all pallets (the outer call,
  event and origin), pallets of the runtime, a parameter declared by \<open>parameter_types!\<close>, an origin
  guard, another type by name, or a generic type applied to bindings.
\<close>

section \<open>The pallets\<close>

datatype pallet =
    Pallet_System | Pallet_Utility | Pallet_Aura | Pallet_Timestamp | Pallet_Authorship
  | Pallet_Indices | Pallet_Balances | Pallet_TransactionPayment | Pallet_Staking
  | Pallet_Session | Pallet_Democracy | Pallet_Council | Pallet_Elections | Pallet_Grandpa
  | Pallet_Treasury | Pallet_Sudo | Pallet_ImOnline | Pallet_AuthorityDiscovery | Pallet_Offences
  | Pallet_Historical | Pallet_RandomnessCollectiveFlip | Pallet_Identity | Pallet_Recovery
  | Pallet_Scheduler | Pallet_Proxy | Pallet_Multisig | Pallet_CarbonCommittee
  | Pallet_CarbonMembership | Pallet_CarbonAssets | Pallet_StandardAssets | Pallet_CarbonExchange

datatype pallet_instance = Instance1 | Instance2

datatype part = Module | Call | Storage | Config | Event | Inherent | Origin_part | ValidateUnsigned

text \<open>The rows of \<open>construct_runtime!\<close>: the pallet, the instance of its crate, its parts, its index.\<close>

definition construct_runtime ::
    "(pallet \<times> pallet_instance option \<times> part list \<times> u8) list" where
  "construct_runtime =
     [(Pallet_System, None, [Module, Call, Config, Storage, Event], 0),
      (Pallet_Utility, None, [Module, Call, Event], 1),
      (Pallet_Aura, None, [Module, Config, Inherent], 2),
      (Pallet_Timestamp, None, [Module, Call, Storage, Inherent], 3),
      (Pallet_Authorship, None, [Module, Call, Storage, Inherent], 4),
      (Pallet_Indices, None, [Module, Call, Storage, Config, Event], 5),
      (Pallet_Balances, None, [Module, Call, Storage, Config, Event], 6),
      (Pallet_TransactionPayment, None, [Module, Storage], 7),
      (Pallet_Staking, None, [Module, Call, Config, Storage, Event, ValidateUnsigned], 8),
      (Pallet_Session, None, [Module, Call, Storage, Event, Config], 9),
      (Pallet_Democracy, None, [Module, Call, Storage, Config, Event], 10),
      (Pallet_Council, Some Instance1, [Module, Call, Storage, Origin_part, Event, Config], 11),
      (Pallet_Elections, None, [Module, Call, Storage, Event, Config], 12),
      (Pallet_Grandpa, None, [Module, Call, Storage, Config, Event, ValidateUnsigned], 13),
      (Pallet_Treasury, None, [Module, Call, Storage, Config, Event], 14),
      (Pallet_Sudo, None, [Module, Call, Config, Storage, Event], 15),
      (Pallet_ImOnline, None, [Module, Call, Storage, Event, ValidateUnsigned, Config], 16),
      (Pallet_AuthorityDiscovery, None, [Module, Call, Config], 17),
      (Pallet_Offences, None, [Module, Call, Storage, Event], 18),
      (Pallet_Historical, None, [Module], 19),
      (Pallet_RandomnessCollectiveFlip, None, [Module, Call, Storage], 20),
      (Pallet_Identity, None, [Module, Call, Storage, Event], 21),
      (Pallet_Recovery, None, [Module, Call, Storage, Event], 22),
      (Pallet_Scheduler, None, [Module, Call, Storage, Event], 24),
      (Pallet_Proxy, None, [Module, Call, Storage, Event], 25),
      (Pallet_Multisig, None, [Module, Call, Storage, Event], 26),
      (Pallet_CarbonCommittee, Some Instance2, [Module, Call, Storage, Origin_part, Event, Config], 27),
      (Pallet_CarbonMembership, Some Instance1, [Module, Call, Storage, Event, Config], 28),
      (Pallet_CarbonAssets, None, [Module, Call, Storage, Event], 29),
      (Pallet_StandardAssets, None, [Module, Call, Storage, Event], 30),
      (Pallet_CarbonExchange, None, [Module, Call, Storage, Event], 31)]"

fun pallet_of_call :: "'k runtime_call \<Rightarrow> pallet" where
  "pallet_of_call (Call_System _) = Pallet_System"
| "pallet_of_call (Call_Utility _) = Pallet_Utility"
| "pallet_of_call (Call_Timestamp _) = Pallet_Timestamp"
| "pallet_of_call (Call_Authorship _) = Pallet_Authorship"
| "pallet_of_call (Call_Indices _) = Pallet_Indices"
| "pallet_of_call (Call_Balances _) = Pallet_Balances"
| "pallet_of_call (Call_Staking _) = Pallet_Staking"
| "pallet_of_call (Call_Session _) = Pallet_Session"
| "pallet_of_call (Call_Democracy _) = Pallet_Democracy"
| "pallet_of_call (Call_Council _) = Pallet_Council"
| "pallet_of_call (Call_Elections _) = Pallet_Elections"
| "pallet_of_call (Call_Grandpa _) = Pallet_Grandpa"
| "pallet_of_call (Call_Treasury _) = Pallet_Treasury"
| "pallet_of_call (Call_Sudo _) = Pallet_Sudo"
| "pallet_of_call (Call_ImOnline _) = Pallet_ImOnline"
| "pallet_of_call (Call_AuthorityDiscovery _) = Pallet_AuthorityDiscovery"
| "pallet_of_call (Call_Offences _) = Pallet_Offences"
| "pallet_of_call (Call_RandomnessCollectiveFlip _) = Pallet_RandomnessCollectiveFlip"
| "pallet_of_call (Call_Identity _) = Pallet_Identity"
| "pallet_of_call (Call_Recovery _) = Pallet_Recovery"
| "pallet_of_call (Call_Scheduler _) = Pallet_Scheduler"
| "pallet_of_call (Call_Proxy _) = Pallet_Proxy"
| "pallet_of_call (Call_Multisig _) = Pallet_Multisig"
| "pallet_of_call (Call_CarbonCommittee _) = Pallet_CarbonCommittee"
| "pallet_of_call (Call_CarbonMembership _) = Pallet_CarbonMembership"
| "pallet_of_call (Call_CarbonAssets _) = Pallet_CarbonAssets"
| "pallet_of_call (Call_StandardAssets _) = Pallet_StandardAssets"
| "pallet_of_call (Call_CarbonExchange _) = Pallet_CarbonExchange"

section \<open>Guards\<close>

text \<open>
  The origin checks a configuration can be built from: those of the system pallet, which can also
  let accounts or unsigned calls through, and those of the collective pallet that the source names,
  with the collective they ask.
\<close>

datatype guard =
    Ensure_root
  | Ensure_signed
  | Ensure_signed_by "account list"
  | Ensure_none
  | Ensure_never
  | Ensure_member pallet_instance
  | Ensure_at_least nat nat pallet_instance
  | Ensure_more_than nat nat pallet_instance
  | Ensure_one_of guard guard

fun collective_test ::
    "pallet_instance \<Rightarrow> (collective_origin \<Rightarrow> bool) \<Rightarrow> origin \<Rightarrow> bool" where
  "collective_test Instance1 test (Council_origin c) = test c"
| "collective_test Instance2 test (Carbon_committee_origin c) = test c"
| "collective_test _ _ _ = False"

fun guard_accepts ::
    "share_test \<Rightarrow> share_test \<Rightarrow> (collective_origin \<Rightarrow> bool) \<Rightarrow> guard \<Rightarrow> origin \<Rightarrow> bool" where
  "guard_accepts at_least more_than is_member Ensure_root og = ensure_root og"
| "guard_accepts at_least more_than is_member Ensure_signed og = (ensure_signed og \<noteq> None)"
| "guard_accepts at_least more_than is_member (Ensure_signed_by who) og =
     (case ensure_signed og of Some a \<Rightarrow> a \<in> set who | None \<Rightarrow> False)"
| "guard_accepts at_least more_than is_member Ensure_none og = (og = Unsigned)"
| "guard_accepts at_least more_than is_member Ensure_never og = False"
| "guard_accepts at_least more_than is_member (Ensure_member i) og = collective_test i is_member og"
| "guard_accepts at_least more_than is_member (Ensure_at_least n d i) og =
     collective_test i (at_least n d) og"
| "guard_accepts at_least more_than is_member (Ensure_more_than n d i) og =
     collective_test i (more_than n d) og"
| "guard_accepts at_least more_than is_member (Ensure_one_of l r) og =
     (guard_accepts at_least more_than is_member l og \<or>
      guard_accepts at_least more_than is_member r og)"

definition CouncilCollective :: pallet_instance where "CouncilCollective = Instance1"
definition CarbonCollective :: pallet_instance where "CarbonCollective = Instance2"

definition MoreThanHalfCouncil :: guard where
  "MoreThanHalfCouncil = Ensure_one_of Ensure_root (Ensure_more_than 1 2 CouncilCollective)"

definition EnsureRootOrHalfCouncil :: guard where
  "EnsureRootOrHalfCouncil = Ensure_one_of Ensure_root (Ensure_more_than 1 2 CouncilCollective)"

section \<open>The implementations\<close>

datatype binding =
    Void
  | Itself
  | Outer_call
  | Outer_event
  | Outer_origin
  | Outer_caller
  | Outer_pallet_info
  | Pallets "pallet list"
  | Parameter string
  | Guard guard
  | Type string
  | Applied string "binding list"

type_synonym trait_impl = "(string \<times> binding) list"

definition system_impl :: trait_impl where
  "system_impl =
     [(''BaseCallFilter'', Void), (''AccountId'', Type ''AccountId''), (''Call'', Outer_call),
      (''Lookup'', Type ''IdentityLookup<AccountId>''), (''Index'', Type ''Index''),
      (''BlockNumber'', Type ''BlockNumber''), (''Hash'', Type ''Hash''),
      (''Hashing'', Type ''BlakeTwo256''),
      (''Header'', Type ''generic::Header<BlockNumber, BlakeTwo256>''), (''Event'', Outer_event),
      (''Origin'', Outer_origin), (''BlockHashCount'', Parameter ''BlockHashCount''),
      (''MaximumBlockWeight'', Parameter ''MaximumBlockWeight''),
      (''DbWeight'', Type ''RocksDbWeight''),
      (''BlockExecutionWeight'', Type ''BlockExecutionWeight''),
      (''ExtrinsicBaseWeight'', Type ''ExtrinsicBaseWeight''),
      (''MaximumExtrinsicWeight'', Parameter ''MaximumExtrinsicWeight''),
      (''MaximumBlockLength'', Parameter ''MaximumBlockLength''),
      (''AvailableBlockRatio'', Parameter ''AvailableBlockRatio''),
      (''Version'', Parameter ''Version''), (''PalletInfo'', Outer_pallet_info),
      (''OnNewAccount'', Void), (''OnKilledAccount'', Void),
      (''AccountData'', Type ''pallet_balances::AccountData<Balance>''), (''SystemWeightInfo'', Void)]"

definition utility_impl :: trait_impl where
  "utility_impl =
     [(''Event'', Outer_event), (''Call'', Outer_call), (''WeightInfo'', Void)]"

definition multisig_impl :: trait_impl where
  "multisig_impl =
     [(''Event'', Outer_event), (''Call'', Outer_call),
      (''Currency'', Pallets [Pallet_Balances]), (''DepositBase'', Parameter ''DepositBase''),
      (''DepositFactor'', Parameter ''DepositFactor''),
      (''MaxSignatories'', Parameter ''MaxSignatories''), (''WeightInfo'', Void)]"

definition proxy_impl :: trait_impl where
  "proxy_impl =
     [(''Event'', Outer_event), (''Call'', Outer_call),
      (''Currency'', Pallets [Pallet_Balances]), (''ProxyType'', Type ''ProxyType''),
      (''ProxyDepositBase'', Parameter ''ProxyDepositBase''),
      (''ProxyDepositFactor'', Parameter ''ProxyDepositFactor''),
      (''MaxProxies'', Parameter ''MaxProxies''), (''WeightInfo'', Void),
      (''MaxPending'', Parameter ''MaxPending''), (''CallHasher'', Type ''BlakeTwo256''),
      (''AnnouncementDepositBase'', Parameter ''AnnouncementDepositBase''),
      (''AnnouncementDepositFactor'', Parameter ''AnnouncementDepositFactor'')]"

definition scheduler_impl :: trait_impl where
  "scheduler_impl =
     [(''Event'', Outer_event), (''Origin'', Outer_origin),
      (''PalletsOrigin'', Outer_caller), (''Call'', Outer_call),
      (''MaximumWeight'', Parameter ''MaximumSchedulerWeight''),
      (''ScheduleOrigin'', Guard Ensure_root),
      (''MaxScheduledPerBlock'', Parameter ''MaxScheduledPerBlock''), (''WeightInfo'', Void)]"

definition indices_impl :: trait_impl where
  "indices_impl =
     [(''AccountIndex'', Type ''AccountIndex''), (''Currency'', Pallets [Pallet_Balances]),
      (''Deposit'', Parameter ''IndexDeposit''), (''Event'', Outer_event), (''WeightInfo'', Void)]"

definition authorship_impl :: trait_impl where
  "authorship_impl =
     [(''FindAuthor'', Applied ''pallet_session::FindAccountFromAuthorIndex''
         [Itself, Pallets [Pallet_Aura]]),
      (''UncleGenerations'', Parameter ''UncleGenerations''), (''FilterUncle'', Void),
      (''EventHandler'', Pallets [Pallet_Staking, Pallet_ImOnline])]"

text \<open>The session keys are made of the keys of four pallets (\<open>impl_opaque_keys!\<close>).\<close>

definition SessionKeys_type :: binding where
  "SessionKeys_type = Applied ''SessionKeys''
     [Pallets [Pallet_Grandpa, Pallet_Aura, Pallet_ImOnline, Pallet_AuthorityDiscovery]]"

definition session_impl :: trait_impl where
  "session_impl =
     [(''Event'', Outer_event),
      (''ValidatorId'', Applied ''frame_system::Trait::AccountId'' [Itself]),
      (''ValidatorIdOf'', Applied ''pallet_staking::StashOf'' [Itself]),
      (''ShouldEndSession'', Applied ''pallet_session::PeriodicSessions''
         [Parameter ''Period'', Parameter ''Offset'']),
      (''NextSessionRotation'', Applied ''pallet_session::PeriodicSessions''
         [Parameter ''Period'', Parameter ''Offset'']),
      (''SessionManager'', Applied ''pallet_session::historical::NoteHistoricalRoot''
         [Itself, Pallets [Pallet_Staking]]),
      (''SessionHandler'', Applied ''OpaqueKeys::KeyTypeIdProviders'' [SessionKeys_type]),
      (''Keys'', SessionKeys_type),
      (''DisabledValidatorsThreshold'', Parameter ''DisabledValidatorsThreshold''),
      (''WeightInfo'', Void)]"

definition historical_impl :: trait_impl where
  "historical_impl =
     [(''FullIdentification'', Applied ''pallet_staking::Exposure''
         [Type ''AccountId'', Type ''Balance'']),
      (''FullIdentificationOf'', Applied ''pallet_staking::ExposureOf'' [Itself])]"

definition staking_impl :: trait_impl where
  "staking_impl =
     [(''Currency'', Pallets [Pallet_Balances]), (''UnixTime'', Pallets [Pallet_Timestamp]),
      (''CurrencyToVote'', Type ''CurrencyToVoteHandler''),
      (''RewardRemainder'', Pallets [Pallet_Treasury]), (''Event'', Outer_event),
      (''Slash'', Pallets [Pallet_Treasury]), (''Reward'', Void),
      (''SessionsPerEra'', Parameter ''SessionsPerEra''),
      (''BondingDuration'', Parameter ''BondingDuration''),
      (''SlashDeferDuration'', Parameter ''SlashDeferDuration''),
      (''SlashCancelOrigin'', Guard
         (Ensure_one_of Ensure_root (Ensure_at_least 3 4 CouncilCollective))),
      (''SessionInterface'', Itself), (''RewardCurve'', Parameter ''RewardCurve''),
      (''NextNewSession'', Pallets [Pallet_Session]),
      (''ElectionLookahead'', Parameter ''ElectionLookahead''), (''Call'', Outer_call),
      (''MaxIterations'', Parameter ''MaxIterations''),
      (''MinSolutionScoreBump'', Parameter ''MinSolutionScoreBump''),
      (''MaxNominatorRewardedPerValidator'', Parameter ''MaxNominatorRewardedPerValidator''),
      (''UnsignedPriority'', Parameter ''StakingUnsignedPriority''), (''WeightInfo'', Void)]"

definition democracy_impl :: trait_impl where
  "democracy_impl =
     [(''Proposal'', Outer_call), (''Event'', Outer_event),
      (''Currency'', Pallets [Pallet_Balances]), (''EnactmentPeriod'', Parameter ''EnactmentPeriod''),
      (''LaunchPeriod'', Parameter ''LaunchPeriod''), (''VotingPeriod'', Parameter ''VotingPeriod''),
      (''MinimumDeposit'', Parameter ''MinimumDeposit''),
      (''ExternalOrigin'', Guard (Ensure_at_least 1 2 CouncilCollective)),
      (''ExternalMajorityOrigin'', Guard
         (Ensure_one_of (Ensure_at_least 3 5 CouncilCollective) Ensure_root)),
      (''FastTrackOrigin'', Guard
         (Ensure_one_of (Ensure_at_least 3 4 CouncilCollective) Ensure_root)),
      (''InstantOrigin'', Guard Ensure_never), (''InstantAllowed'', Parameter ''InstantAllowed''),
      (''FastTrackVotingPeriod'', Parameter ''FastTrackVotingPeriod''),
      (''ExternalDefaultOrigin'', Guard
         (Ensure_one_of (Ensure_at_least 1 1 CouncilCollective) Ensure_root)),
      (''CancellationOrigin'', Guard
         (Ensure_one_of (Ensure_at_least 2 3 CouncilCollective) Ensure_root)),
      (''VetoOrigin'', Guard Ensure_never), (''CooloffPeriod'', Parameter ''CooloffPeriod''),
      (''PreimageByteDeposit'', Parameter ''PreimageByteDeposit''),
      (''OperationalPreimageOrigin'', Guard (Ensure_member CouncilCollective)),
      (''Slash'', Pallets [Pallet_Treasury]), (''Scheduler'', Pallets [Pallet_Scheduler]),
      (''PalletsOrigin'', Outer_caller), (''MaxVotes'', Parameter ''MaxVotes''),
      (''WeightInfo'', Void)]"

definition elections_impl :: trait_impl where
  "elections_impl =
     [(''Event'', Outer_event), (''ModuleId'', Parameter ''ElectionsPhragmenModuleId''),
      (''Currency'', Pallets [Pallet_Balances]), (''ChangeMembers'', Pallets [Pallet_Council]),
      (''InitializeMembers'', Pallets [Pallet_Council]),
      (''CurrencyToVote'', Type ''CurrencyToVoteHandler''),
      (''CandidacyBond'', Parameter ''CandidacyBond''), (''VotingBond'', Parameter ''VotingBond''),
      (''LoserCandidate'', Void), (''BadReport'', Void), (''KickedMember'', Void),
      (''DesiredMembers'', Parameter ''DesiredMembers''),
      (''DesiredRunnersUp'', Parameter ''DesiredRunnersUp''),
      (''TermDuration'', Parameter ''TermDuration''), (''WeightInfo'', Void)]"

definition treasury_impl :: trait_impl where
  "treasury_impl =
     [(''ModuleId'', Parameter ''TreasuryModuleId''), (''Currency'', Pallets [Pallet_Balances]),
      (''ApproveOrigin'', Guard (Ensure_one_of Ensure_root (Ensure_at_least 3 5 CouncilCollective))),
      (''RejectOrigin'', Guard EnsureRootOrHalfCouncil), (''Tippers'', Pallets [Pallet_Elections]),
      (''TipCountdown'', Parameter ''TipCountdown''),
      (''TipFindersFee'', Parameter ''TipFindersFee''),
      (''TipReportDepositBase'', Parameter ''TipReportDepositBase''),
      (''DataDepositPerByte'', Parameter ''DataDepositPerByte''), (''Event'', Outer_event),
      (''OnSlash'', Void), (''ProposalBond'', Parameter ''ProposalBond''),
      (''ProposalBondMinimum'', Parameter ''ProposalBondMinimum''),
      (''SpendPeriod'', Parameter ''SpendPeriod''), (''Burn'', Parameter ''Burn''),
      (''BountyDepositBase'', Parameter ''BountyDepositBase''),
      (''BountyDepositPayoutDelay'', Parameter ''BountyDepositPayoutDelay''),
      (''BountyUpdatePeriod'', Parameter ''BountyUpdatePeriod''),
      (''BountyCuratorDeposit'', Parameter ''BountyCuratorDeposit''),
      (''BountyValueMinimum'', Parameter ''BountyValueMinimum''),
      (''MaximumReasonLength'', Parameter ''MaximumReasonLength''), (''BurnDestination'', Void),
      (''WeightInfo'', Void)]"

definition signing_types_impl :: trait_impl where
  "signing_types_impl =
     [(''Public'', Type ''<Signature as traits::Verify>::Signer''),
      (''Signature'', Type ''Signature'')]"

definition send_transaction_types_impl :: trait_impl where
  "send_transaction_types_impl =
     [(''Extrinsic'', Applied ''generic::UncheckedExtrinsic''
         [Type ''Address'', Outer_call, Type ''Signature'', Type ''SignedExtra'']), (''OverarchingCall'', Outer_call)]"

definition im_online_impl :: trait_impl where
  "im_online_impl =
     [(''AuthorityId'', Type ''ImOnlineId''), (''Event'', Outer_event),
      (''SessionDuration'', Parameter ''SessionDuration''),
      (''ReportUnresponsiveness'', Pallets [Pallet_Offences]),
      (''UnsignedPriority'', Parameter ''ImOnlineUnsignedPriority''), (''WeightInfo'', Void)]"

definition offences_impl :: trait_impl where
  "offences_impl =
     [(''Event'', Outer_event),
      (''IdentificationTuple'', Applied ''pallet_session::historical::IdentificationTuple'' [Itself]),
      (''OnOffenceHandler'', Pallets [Pallet_Staking]),
      (''WeightSoftLimit'', Parameter ''OffencesWeightSoftLimit'')]"

definition authority_discovery_impl :: trait_impl where "authority_discovery_impl = []"

definition identity_impl :: trait_impl where
  "identity_impl =
     [(''Event'', Outer_event), (''Currency'', Pallets [Pallet_Balances]),
      (''BasicDeposit'', Parameter ''BasicDeposit''), (''FieldDeposit'', Parameter ''FieldDeposit''),
      (''SubAccountDeposit'', Parameter ''SubAccountDeposit''),
      (''MaxSubAccounts'', Parameter ''MaxSubAccounts''),
      (''MaxAdditionalFields'', Parameter ''MaxAdditionalFields''),
      (''MaxRegistrars'', Parameter ''MaxRegistrars''), (''Slashed'', Pallets [Pallet_Treasury]),
      (''ForceOrigin'', Guard EnsureRootOrHalfCouncil),
      (''RegistrarOrigin'', Guard EnsureRootOrHalfCouncil), (''WeightInfo'', Void)]"

definition recovery_impl :: trait_impl where
  "recovery_impl =
     [(''Event'', Outer_event), (''Call'', Outer_call),
      (''Currency'', Pallets [Pallet_Balances]),
      (''ConfigDepositBase'', Parameter ''ConfigDepositBase''),
      (''FriendDepositFactor'', Parameter ''FriendDepositFactor''),
      (''MaxFriends'', Parameter ''MaxFriends''), (''RecoveryDeposit'', Parameter ''RecoveryDeposit'')]"

definition aura_impl :: trait_impl where "aura_impl = [(''AuthorityId'', Type ''AuraId'')]"

definition grandpa_impl :: trait_impl where
  "grandpa_impl =
     [(''Event'', Outer_event), (''Call'', Outer_call), (''KeyOwnerProofSystem'', Void),
      (''KeyOwnerProof'', Applied
         ''KeyOwnerProofSystem<(KeyTypeId, GrandpaId)>::Proof'' [Void]),
      (''KeyOwnerIdentification'', Applied
         ''KeyOwnerProofSystem<(KeyTypeId, GrandpaId,)>::IdentificationTuple'' [Void]),
      (''HandleEquivocation'', Void), (''WeightInfo'', Void)]"

definition timestamp_impl :: trait_impl where
  "timestamp_impl =
     [(''Moment'', Type ''u64''), (''OnTimestampSet'', Pallets [Pallet_Aura]),
      (''MinimumPeriod'', Parameter ''MinimumPeriod''), (''WeightInfo'', Void)]"

definition balances_impl :: trait_impl where
  "balances_impl =
     [(''MaxLocks'', Parameter ''MaxLocks''), (''Balance'', Type ''Balance''),
      (''Event'', Outer_event), (''DustRemoval'', Void),
      (''ExistentialDeposit'', Parameter ''ExistentialDeposit''),
      (''AccountStore'', Pallets [Pallet_System]), (''WeightInfo'', Void)]"

definition transaction_payment_impl :: trait_impl where
  "transaction_payment_impl =
     [(''Currency'', Pallets [Pallet_Balances]), (''OnTransactionPayment'', Void),
      (''TransactionByteFee'', Parameter ''TransactionByteFee''),
      (''WeightToFee'', Type ''IdentityFee<Balance>''), (''FeeMultiplierUpdate'', Void)]"

definition sudo_impl :: trait_impl where
  "sudo_impl =
     [(''Event'', Outer_event), (''Call'', Outer_call)]"

definition council_impl :: trait_impl where
  "council_impl =
     [(''Origin'', Outer_origin), (''Proposal'', Outer_call), (''Event'', Outer_event),
      (''MotionDuration'', Parameter ''CouncilMotionDuration''),
      (''MaxProposals'', Parameter ''CouncilMaxProposals''),
      (''MaxMembers'', Parameter ''CouncilMaxMembers''),
      (''DefaultVote'', Type ''pallet_collective::PrimeDefaultVote''), (''WeightInfo'', Void)]"

definition carbon_membership_impl :: trait_impl where
  "carbon_membership_impl =
     [(''Event'', Outer_event), (''AddOrigin'', Guard MoreThanHalfCouncil),
      (''RemoveOrigin'', Guard MoreThanHalfCouncil), (''SwapOrigin'', Guard MoreThanHalfCouncil),
      (''ResetOrigin'', Guard MoreThanHalfCouncil), (''PrimeOrigin'', Guard MoreThanHalfCouncil),
      (''MembershipInitialized'', Pallets [Pallet_CarbonCommittee]),
      (''MembershipChanged'', Pallets [Pallet_CarbonCommittee])]"

definition carbon_committee_impl :: trait_impl where
  "carbon_committee_impl =
     [(''Origin'', Outer_origin), (''Proposal'', Outer_call), (''Event'', Outer_event),
      (''MotionDuration'', Parameter ''CarbonMotionDuration''),
      (''MaxProposals'', Parameter ''CarbonMaxProposals''),
      (''MaxMembers'', Parameter ''CarbonMaxMembers''),
      (''DefaultVote'', Type ''pallet_collective::PrimeDefaultVote''), (''WeightInfo'', Void)]"

definition standard_assets_impl :: trait_impl where
  "standard_assets_impl =
     [(''Event'', Outer_event)]"

definition carbon_assets_impl :: trait_impl where
  "carbon_assets_impl =
     [(''Event'', Outer_event),
      (''ApproveOrigin'', Guard (Ensure_one_of Ensure_root (Ensure_more_than 1 2 CarbonCollective)))]"

definition carbon_exchange_impl :: trait_impl where
  "carbon_exchange_impl =
     [(''Event'', Outer_event)]"

text \<open>
  The implementation of each pallet; the signing types belong to the system pallet, and the source
  of randomness asks for no configuration.
\<close>

fun impl_of :: "pallet \<Rightarrow> trait_impl" where
  "impl_of Pallet_System = system_impl @ signing_types_impl @ send_transaction_types_impl"
| "impl_of Pallet_Utility = utility_impl"
| "impl_of Pallet_Aura = aura_impl"
| "impl_of Pallet_Timestamp = timestamp_impl"
| "impl_of Pallet_Authorship = authorship_impl"
| "impl_of Pallet_Indices = indices_impl"
| "impl_of Pallet_Balances = balances_impl"
| "impl_of Pallet_TransactionPayment = transaction_payment_impl"
| "impl_of Pallet_Staking = staking_impl"
| "impl_of Pallet_Session = session_impl"
| "impl_of Pallet_Democracy = democracy_impl"
| "impl_of Pallet_Council = council_impl"
| "impl_of Pallet_Elections = elections_impl"
| "impl_of Pallet_Grandpa = grandpa_impl"
| "impl_of Pallet_Treasury = treasury_impl"
| "impl_of Pallet_Sudo = sudo_impl"
| "impl_of Pallet_ImOnline = im_online_impl"
| "impl_of Pallet_AuthorityDiscovery = authority_discovery_impl"
| "impl_of Pallet_Offences = offences_impl"
| "impl_of Pallet_Historical = historical_impl"
| "impl_of Pallet_RandomnessCollectiveFlip = []"
| "impl_of Pallet_Identity = identity_impl"
| "impl_of Pallet_Recovery = recovery_impl"
| "impl_of Pallet_Scheduler = scheduler_impl"
| "impl_of Pallet_Proxy = proxy_impl"
| "impl_of Pallet_Multisig = multisig_impl"
| "impl_of Pallet_CarbonCommittee = carbon_committee_impl"
| "impl_of Pallet_CarbonMembership = carbon_membership_impl"
| "impl_of Pallet_CarbonAssets = carbon_assets_impl"
| "impl_of Pallet_StandardAssets = standard_assets_impl"
| "impl_of Pallet_CarbonExchange = carbon_exchange_impl"

lemmas impl_defs =
  system_impl_def utility_impl_def multisig_impl_def proxy_impl_def scheduler_impl_def
  indices_impl_def authorship_impl_def session_impl_def historical_impl_def staking_impl_def
  democracy_impl_def elections_impl_def treasury_impl_def signing_types_impl_def
  send_transaction_types_impl_def im_online_impl_def offences_impl_def
  authority_discovery_impl_def identity_impl_def recovery_impl_def aura_impl_def grandpa_impl_def
  timestamp_impl_def balances_impl_def transaction_payment_impl_def sudo_impl_def council_impl_def
  carbon_membership_impl_def carbon_committee_impl_def standard_assets_impl_def
  carbon_assets_impl_def carbon_exchange_impl_def SessionKeys_type_def CouncilCollective_def CarbonCollective_def
  MoreThanHalfCouncil_def EnsureRootOrHalfCouncil_def

end
