(* ===== verification/Runtime_Wiring.thy ===== *)
theory Runtime_Wiring
  imports Runtime_Pallets Runtime
begin

text \<open>
  Who may use which privilege of the runtime: the origin guards that the implementations of
  \<open>Runtime_Pallets\<close> bind to the privileges of the pallets, and whom they let through.
\<close>

section \<open>Privileges\<close>

text \<open>The guards of the configuration are the origins of \<open>Runtime_Governance\<close>.\<close>

lemma collective_test_council: "collective_test CouncilCollective = ensure_council"
proof (intro ext)
  fix test og show "collective_test CouncilCollective test og = ensure_council test og"
    by (cases og) (simp_all add: CouncilCollective_def)
qed

lemma guards_are_origins:
  "\<exists>g. map_of (impl_of Pallet_Staking) ''SlashCancelOrigin'' = Some (Guard g) \<and>
     guard_accepts at_least more_than is_member g = slash_cancel_origin at_least"
  "\<exists>g. map_of (impl_of Pallet_Democracy) ''ExternalOrigin'' = Some (Guard g) \<and>
     guard_accepts at_least more_than is_member g = external_origin at_least"
  "\<exists>g. map_of (impl_of Pallet_Democracy) ''ExternalMajorityOrigin'' = Some (Guard g) \<and>
     guard_accepts at_least more_than is_member g = external_majority_origin at_least"
  "\<exists>g. map_of (impl_of Pallet_Democracy) ''FastTrackOrigin'' = Some (Guard g) \<and>
     guard_accepts at_least more_than is_member g = fast_track_origin at_least"
  "\<exists>g. map_of (impl_of Pallet_Democracy) ''CancellationOrigin'' = Some (Guard g) \<and>
     guard_accepts at_least more_than is_member g = cancellation_origin at_least"
  "\<exists>g. map_of (impl_of Pallet_Treasury) ''ApproveOrigin'' = Some (Guard g) \<and>
     guard_accepts at_least more_than is_member g = treasury_approve_origin at_least"
  "\<exists>g. map_of (impl_of Pallet_Identity) ''ForceOrigin'' = Some (Guard g) \<and>
     guard_accepts at_least more_than is_member g = root_or_half_council more_than"
  "\<exists>g. map_of (impl_of Pallet_CarbonMembership) ''AddOrigin'' = Some (Guard g) \<and>
     guard_accepts at_least more_than is_member g = more_than_half_council more_than"
  by (simp_all add: impl_defs fun_eq_iff origin_defs
      collective_test_council [unfolded CouncilCollective_def])

lemma carbon_guard:
  "guard_accepts at_least more_than is_member
     (Ensure_one_of Ensure_root (Ensure_more_than 1 2 CarbonCollective)) = carbon_approve_origin more_than"
proof
  fix og
  show "guard_accepts at_least more_than is_member
     (Ensure_one_of Ensure_root (Ensure_more_than 1 2 CarbonCollective)) og =
     carbon_approve_origin more_than og"
    by (cases og) (simp_all add: CarbonCollective_def carbon_approve_origin_def)
qed

lemma committee_only:
  "carbon_approve_origin more_than Root"
  "\<not> carbon_approve_origin more_than (Signed a)" "\<not> carbon_approve_origin more_than Unsigned"
  "\<not> carbon_approve_origin more_than (Council_origin c)"
  "carbon_approve_origin more_than (Carbon_committee_origin c) \<longleftrightarrow> more_than 1 2 c"
  by (simp_all add: carbon_approve_origin_def)

text \<open>
  The privileges of a pallet: the items of its implementation whose name ends in \<open>Origin\<close>, but for
  the two that name the type of the runtime's origin. Every one is bound to an origin guard, and
  protects dispatchables of the pallet.
\<close>

definition privileges :: "pallet \<Rightarrow> string list" where
  "privileges p = filter (\<lambda>item. drop (length item - 6) item = ''Origin'' \<and>
     item \<notin> {''Origin'', ''PalletsOrigin''}) (map fst (impl_of p))"

lemma privileges_table:
  "privileges p =
    (case p of
       Pallet_Staking \<Rightarrow> [''SlashCancelOrigin'']
     | Pallet_Democracy \<Rightarrow>
         [''ExternalOrigin'', ''ExternalMajorityOrigin'', ''FastTrackOrigin'', ''InstantOrigin'',
          ''ExternalDefaultOrigin'', ''CancellationOrigin'', ''VetoOrigin'',
          ''OperationalPreimageOrigin'']
     | Pallet_Treasury \<Rightarrow> [''ApproveOrigin'', ''RejectOrigin'']
     | Pallet_Identity \<Rightarrow> [''ForceOrigin'', ''RegistrarOrigin'']
     | Pallet_Scheduler \<Rightarrow> [''ScheduleOrigin'']
     | Pallet_CarbonMembership \<Rightarrow>
         [''AddOrigin'', ''RemoveOrigin'', ''SwapOrigin'', ''ResetOrigin'', ''PrimeOrigin'']
     | Pallet_CarbonAssets \<Rightarrow> [''ApproveOrigin'']
     | _ \<Rightarrow> [])"
  by (cases p) (simp_all add: privileges_def impl_defs)

text \<open>The guards in a normal form, in which they can be compared.\<close>

lemma guard_table:
  "map_of staking_impl ''SlashCancelOrigin'' =
     Some (Guard (Ensure_one_of Ensure_root (Ensure_at_least 3 4 Instance1)))"
  "map_of democracy_impl ''ExternalOrigin'' = Some (Guard (Ensure_at_least 1 2 Instance1))"
  "map_of democracy_impl ''ExternalMajorityOrigin'' =
     Some (Guard (Ensure_one_of (Ensure_at_least 3 5 Instance1) Ensure_root))"
  "map_of democracy_impl ''FastTrackOrigin'' =
     Some (Guard (Ensure_one_of (Ensure_at_least 3 4 Instance1) Ensure_root))"
  "map_of democracy_impl ''InstantOrigin'' = Some (Guard Ensure_never)"
  "map_of democracy_impl ''ExternalDefaultOrigin'' =
     Some (Guard (Ensure_one_of (Ensure_at_least 1 1 Instance1) Ensure_root))"
  "map_of democracy_impl ''CancellationOrigin'' =
     Some (Guard (Ensure_one_of (Ensure_at_least 2 3 Instance1) Ensure_root))"
  "map_of democracy_impl ''VetoOrigin'' = Some (Guard Ensure_never)"
  "map_of democracy_impl ''OperationalPreimageOrigin'' = Some (Guard (Ensure_member Instance1))"
  "map_of treasury_impl ''ApproveOrigin'' =
     Some (Guard (Ensure_one_of Ensure_root (Ensure_at_least 3 5 Instance1)))"
  "map_of treasury_impl ''RejectOrigin'' = Some (Guard EnsureRootOrHalfCouncil)"
  "map_of identity_impl ''ForceOrigin'' = Some (Guard EnsureRootOrHalfCouncil)"
  "map_of identity_impl ''RegistrarOrigin'' = Some (Guard EnsureRootOrHalfCouncil)"
  "map_of scheduler_impl ''ScheduleOrigin'' = Some (Guard Ensure_root)"
  "map_of carbon_membership_impl ''AddOrigin'' = Some (Guard MoreThanHalfCouncil)"
  "map_of carbon_membership_impl ''RemoveOrigin'' = Some (Guard MoreThanHalfCouncil)"
  "map_of carbon_membership_impl ''SwapOrigin'' = Some (Guard MoreThanHalfCouncil)"
  "map_of carbon_membership_impl ''ResetOrigin'' = Some (Guard MoreThanHalfCouncil)"
  "map_of carbon_membership_impl ''PrimeOrigin'' = Some (Guard MoreThanHalfCouncil)"
  "map_of carbon_assets_impl ''ApproveOrigin'' =
     Some (Guard (Ensure_one_of Ensure_root (Ensure_more_than 1 2 CarbonCollective)))"
  by (simp_all add: staking_impl_def democracy_impl_def treasury_impl_def identity_impl_def
      scheduler_impl_def carbon_membership_impl_def carbon_assets_impl_def CouncilCollective_def)

text \<open>
  C13. No privilege of the runtime is an account's: every privilege of every pallet is bound to a
  guard and, of all the guards there are, to one that lets no signed and no unsigned origin through,
  whatever the collectives' tests say. The root passes all but two that are the council's alone and the two that
  are nobody's (no instant referendum, no veto). The powers of the two collectives are disjoint,
  though the council appoints the committee through the membership pallet: more than half of the
  committee passes \<open>ApproveOrigin\<close> of the carbon pallet and no other guard; the council can pass
  every guard but that one, the scheduler's and nobody's. And the guard of the carbon pallet is the
  approval origin of that pallet's model.
\<close>

theorem privileges_separated:
  assumes "item \<in> set (privileges p)"
  shows "\<exists>g. map_of (impl_of p) item = Some (Guard g) \<and>
    (\<forall>at_least more_than is_member.
       let passes = guard_accepts at_least more_than is_member g in
       (\<forall>a. \<not> passes (Signed a)) \<and> \<not> passes Unsigned \<and>
       (passes Root \<longleftrightarrow> item \<notin> {''ExternalOrigin'', ''OperationalPreimageOrigin'',
          ''InstantOrigin'', ''VetoOrigin''}) \<and>
       (\<forall>c. passes (Carbon_committee_origin c) \<longleftrightarrow> p = Pallet_CarbonAssets \<and> more_than 1 2 c) \<and>
       (\<forall>c. passes (Council_origin c) \<longrightarrow> p \<notin> {Pallet_CarbonAssets, Pallet_Scheduler}) \<and>
       (p = Pallet_CarbonAssets \<longrightarrow> passes = carbon_approve_origin more_than)) \<and>
    (\<forall>c. guard_accepts (\<lambda>_ _ _. True) (\<lambda>_ _ _. True) (\<lambda>_. True) g (Council_origin c) \<longleftrightarrow>
       p \<notin> {Pallet_CarbonAssets, Pallet_Scheduler} \<and> item \<notin> {''InstantOrigin'', ''VetoOrigin''})"
  using assms
  by (cases p; simp only: privileges_table pallet.case list.set insert_iff empty_iff)
    (elim disjE; simp add: guard_table carbon_guard committee_only MoreThanHalfCouncil_def
      EnsureRootOrHalfCouncil_def CouncilCollective_def Let_def del: One_nat_def)+

theorem privileges_separated_witness:
  "\<exists>g. map_of (impl_of Pallet_CarbonAssets) ''ApproveOrigin'' = Some (Guard g) \<and>
     (\<forall>a c. \<not> guard_accepts (\<lambda>_ _ _. True) (\<lambda>_ _ _. True) (\<lambda>_. True) g (Signed a) \<and>
        guard_accepts (\<lambda>_ _ _. True) (\<lambda>_ _ _. True) (\<lambda>_. True) g (Carbon_committee_origin c) \<and>
        \<not> guard_accepts (\<lambda>_ _ _. True) (\<lambda>_ _ _. True) (\<lambda>_. True) g (Council_origin c))"
proof -
  have "''ApproveOrigin'' \<in> set (privileges Pallet_CarbonAssets)" by (simp add: privileges_table)
  from privileges_separated [OF this] obtain g where
    "map_of (impl_of Pallet_CarbonAssets) ''ApproveOrigin'' = Some (Guard g)"
    "\<forall>at_least more_than is_member.
       guard_accepts at_least more_than is_member g = carbon_approve_origin more_than"
    by (auto simp: Let_def)
  then show ?thesis by (auto simp: carbon_approve_origin_def)
qed

section \<open>Calls and rows\<close>

text \<open>The index that a call is encoded with is that of its pallet's row, which lists calls.\<close>

lemma call_row:
  "\<exists>i parts. (pallet_of_call c, i, parts, pallet_index c) \<in> set construct_runtime \<and> Call \<in> set parts"
  by (cases c) (simp_all add: construct_runtime_def)

end
