(* ===== verification/Runtime_Limits.thy ===== *)
theory Runtime_Limits
  imports Runtime_Config
begin

text \<open>
  The remaining parameters of the runtime (\<open>runtime/src/lib.rs\<close>): block and weight limits, the
  limits of the multisig, proxy, scheduler, session, staking, offences and balances pallets, and the
  reward curve. A \<open>Perbill\<close> is its number of parts per billion; \<open>p * w\<close> on weights, which the
  framework computes, is exact for the values used here. The weight of a second of computation is
  the framework's constant \<open>WEIGHT_PER_SECOND\<close>, a parameter.
\<close>

section \<open>Fractions\<close>

type_synonym perbill = nat

definition perbill_from_percent :: "nat \<Rightarrow> perbill" where
  "perbill_from_percent n = min n 100 * 10000000"

definition perbill_of :: "perbill \<Rightarrow> nat \<Rightarrow> nat" where
  "perbill_of p w = w * p div 1000000000"

section \<open>Block limits\<close>

record system_parameters =
  sy_BlockHashCount :: u32
  sy_MaximumBlockWeight :: nat
  sy_AvailableBlockRatio :: perbill
  sy_MaximumExtrinsicWeight :: nat
  sy_MaximumBlockLength :: u32

definition system_params :: "nat \<Rightarrow> system_parameters" where
  "system_params WEIGHT_PER_SECOND =
     (let MaximumBlockWeight = 2 * WEIGHT_PER_SECOND;
          AvailableBlockRatio = perbill_from_percent 75 in
      \<lparr>sy_BlockHashCount = 2400,
       sy_MaximumBlockWeight = MaximumBlockWeight,
       sy_AvailableBlockRatio = AvailableBlockRatio,
       sy_MaximumExtrinsicWeight =
         perbill_of (AvailableBlockRatio - perbill_from_percent 10) MaximumBlockWeight,
       sy_MaximumBlockLength = 5 * 1024 * 1024\<rparr>)"

section \<open>Limits of the pallets\<close>

record multisig_parameters =
  mu_DepositBase :: u128
  mu_DepositFactor :: u128
  mu_MaxSignatories :: u16

definition multisig_params :: multisig_parameters where
  "multisig_params = \<lparr>mu_DepositBase = deposit 1 88, mu_DepositFactor = deposit 0 32,
     mu_MaxSignatories = 100\<rparr>"

record proxy_parameters =
  px_ProxyDepositBase :: u128
  px_ProxyDepositFactor :: u128
  px_MaxProxies :: u16
  px_AnnouncementDepositBase :: u128
  px_AnnouncementDepositFactor :: u128
  px_MaxPending :: u16

definition proxy_params :: proxy_parameters where
  "proxy_params = \<lparr>px_ProxyDepositBase = deposit 1 8, px_ProxyDepositFactor = deposit 0 33,
     px_MaxProxies = 32, px_AnnouncementDepositBase = deposit 1 8,
     px_AnnouncementDepositFactor = deposit 0 66, px_MaxPending = 32\<rparr>"

record scheduler_parameters =
  sc_MaximumSchedulerWeight :: nat
  sc_MaxScheduledPerBlock :: u32

definition scheduler_params :: "nat \<Rightarrow> scheduler_parameters" where
  "scheduler_params WEIGHT_PER_SECOND = \<lparr>
     sc_MaximumSchedulerWeight = perbill_of (perbill_from_percent 80)
       (sy_MaximumBlockWeight (system_params WEIGHT_PER_SECOND)),
     sc_MaxScheduledPerBlock = 50\<rparr>"

definition IndexDeposit :: u128 where "IndexDeposit = 1 * DOLLARS"
definition UncleGenerations :: u32 where "UncleGenerations = 5"

record session_parameters =
  se_Period :: u32
  se_Offset :: u32
  se_DisabledValidatorsThreshold :: perbill

definition session_params :: session_parameters where
  "session_params = \<lparr>se_Period = 20 * MINUTES, se_Offset = 0,
     se_DisabledValidatorsThreshold = perbill_from_percent 33\<rparr>"

record reward_curve =
  rc_min_inflation :: nat
  rc_max_inflation :: nat
  rc_ideal_stake :: nat
  rc_falloff :: nat
  rc_max_piece_count :: nat
  rc_test_precision :: nat

definition CURVE :: reward_curve where
  "CURVE = \<lparr>rc_min_inflation = 25000, rc_max_inflation = 100000, rc_ideal_stake = 500000,
     rc_falloff = 50000, rc_max_piece_count = 40, rc_test_precision = 5000\<rparr>"

record staking_parameters =
  st_SessionsPerEra :: u32
  st_BondingDuration :: u32
  st_SlashDeferDuration :: u32
  st_RewardCurve :: reward_curve
  st_ElectionLookahead :: u32
  st_MaxNominatorRewardedPerValidator :: u32
  st_MaxIterations :: u32
  st_MinSolutionScoreBump :: perbill

definition staking_params :: staking_parameters where
  "staking_params = \<lparr>st_SessionsPerEra = 4, st_BondingDuration = 2 * 4,
     st_SlashDeferDuration = 4, st_RewardCurve = CURVE,
     st_ElectionLookahead = EPOCH_DURATION_IN_BLOCKS div 4,
     st_MaxNominatorRewardedPerValidator = 128, st_MaxIterations = 5,
     st_MinSolutionScoreBump = 5 * 1000000000 div 10000\<rparr>"

record priority_parameters =
  pr_SessionDuration :: u32
  pr_ImOnlineUnsignedPriority :: u64
  pr_StakingUnsignedPriority :: u64

definition priority_params :: priority_parameters where
  "priority_params = \<lparr>pr_SessionDuration = ucast EPOCH_DURATION_IN_SLOTS,
     pr_ImOnlineUnsignedPriority = - 1, pr_StakingUnsignedPriority = (- 1) div 2\<rparr>"

definition OffencesWeightSoftLimit :: "nat \<Rightarrow> nat" where
  "OffencesWeightSoftLimit WEIGHT_PER_SECOND =
     perbill_of (perbill_from_percent 60) (sy_MaximumBlockWeight (system_params WEIGHT_PER_SECOND))"

record balances_parameters =
  ba_ExistentialDeposit :: u128
  ba_MaxLocks :: u32

definition balances_params :: balances_parameters where
  "balances_params = \<lparr>ba_ExistentialDeposit = 500, ba_MaxLocks = 50\<rparr>"

definition TransactionByteFee :: u128 where "TransactionByteFee = 1"

lemmas limit_defs =
  perbill_from_percent_def perbill_of_def system_params_def scheduler_params_def
  session_params_def CURVE_def staking_params_def priority_params_def OffencesWeightSoftLimit_def
  multisig_params_def proxy_params_def balances_params_def IndexDeposit_def

section \<open>How the limits relate\<close>

lemma perbill_of_mono: "p \<le> q \<Longrightarrow> perbill_of p w \<le> perbill_of q w"
  unfolding perbill_of_def by (intro div_le_mono mult_le_mono2)

text \<open>
  An extrinsic fits into what is available to normal transactions with the reserve for
  initialization on top; scheduled calls and reported offences never ask for more than a block;
  a heartbeat is preferred to an election solution; session and election windows are those of the
  single constants.
\<close>

lemma limits_consistent:
  "sy_MaximumExtrinsicWeight (system_params w) \<le>
     perbill_of (sy_AvailableBlockRatio (system_params w)) (sy_MaximumBlockWeight (system_params w))"
  "OffencesWeightSoftLimit w \<le> sc_MaximumSchedulerWeight (scheduler_params w)"
  "sc_MaximumSchedulerWeight (scheduler_params w) \<le> sy_MaximumBlockWeight (system_params w)"
  "pr_StakingUnsignedPriority priority_params < pr_ImOnlineUnsignedPriority priority_params"
  "se_Period session_params = Period" "st_ElectionLookahead staking_params < se_Period session_params"
  "rc_min_inflation CURVE \<le> rc_max_inflation CURVE"
proof -
  show "sy_MaximumExtrinsicWeight (system_params w) \<le>
     perbill_of (sy_AvailableBlockRatio (system_params w)) (sy_MaximumBlockWeight (system_params w))"
    by (simp add: system_params_def Let_def perbill_of_mono)
  show "OffencesWeightSoftLimit w \<le> sc_MaximumSchedulerWeight (scheduler_params w)"
    by (simp add: OffencesWeightSoftLimit_def scheduler_params_def perbill_from_percent_def
        perbill_of_mono)
  show "sc_MaximumSchedulerWeight (scheduler_params w) \<le> sy_MaximumBlockWeight (system_params w)"
    by (simp add: limit_defs Let_def)
  show "pr_StakingUnsignedPriority priority_params < pr_ImOnlineUnsignedPriority priority_params"
    by (simp add: priority_params_def)
  show "se_Period session_params = Period" by (simp add: session_params_def Period_def)
  show "st_ElectionLookahead staking_params < se_Period session_params"
    by (simp add: staking_params_def session_params_def time_defs)
  show "rc_min_inflation CURVE \<le> rc_max_inflation CURVE" by (simp add: CURVE_def)
qed

end
