(* ===== verification/Standard_Mock.thy ===== *)
theory Standard_Mock
  imports Runtime_Pallets Runtime_Limits
begin

text \<open>
  The runtime that the unit tests of \<open>pallets/standard-assets/src/lib.rs\<close> run the pallet in: its
  parameters and implementations, written as those of \<open>Runtime_Pallets\<close>, and how they compare with
  the real runtime's. A trait has the same items wherever it is implemented.
\<close>

record test_parameters =
  te_BlockHashCount :: u64
  te_MaximumBlockWeight :: nat
  te_MaximumBlockLength :: u32
  te_AvailableBlockRatio :: perbill
  te_MinimumPeriod :: u64

definition test_params :: test_parameters where
  "test_params = \<lparr>te_BlockHashCount = 250, te_MaximumBlockWeight = 1024,
     te_MaximumBlockLength = 2 * 1024, te_AvailableBlockRatio = perbill_from_percent 100,
     te_MinimumPeriod = 1000\<rparr>"

definition test_system_impl :: trait_impl where
  "test_system_impl =
     [(''BaseCallFilter'', Void), (''Origin'', Outer_origin), (''Index'', Type ''u64''),
      (''Call'', Void), (''BlockNumber'', Type ''u64''), (''Hash'', Type ''H256''),
      (''Hashing'', Type ''BlakeTwo256''), (''AccountId'', Type ''u64''),
      (''Lookup'', Type ''IdentityLookup<Self::AccountId>''), (''Header'', Type ''Header''),
      (''Event'', Void), (''BlockHashCount'', Parameter ''BlockHashCount''),
      (''MaximumBlockWeight'', Parameter ''MaximumBlockWeight''), (''DbWeight'', Void),
      (''BlockExecutionWeight'', Void), (''ExtrinsicBaseWeight'', Void),
      (''MaximumExtrinsicWeight'', Parameter ''MaximumBlockWeight''),
      (''AvailableBlockRatio'', Parameter ''AvailableBlockRatio''),
      (''MaximumBlockLength'', Parameter ''MaximumBlockLength''), (''Version'', Void),
      (''ModuleToIndex'', Void), (''AccountData'', Void), (''OnNewAccount'', Void),
      (''OnKilledAccount'', Void), (''SystemWeightInfo'', Void)]"

definition test_timestamp_impl :: trait_impl where
  "test_timestamp_impl =
     [(''Moment'', Type ''u64''), (''OnTimestampSet'', Void),
      (''MinimumPeriod'', Parameter ''MinimumPeriod''), (''WeightInfo'', Void)]"

definition test_assets_impl :: trait_impl where "test_assets_impl = [(''Event'', Void)]"

text \<open>
  The two implementations of the system pallet's trait do not have the same items: the test runtime
  binds \<open>ModuleToIndex\<close>, the runtime \<open>PalletInfo\<close>. Both are built against the same version of the
  trait, so the unit tests do not compile. The other two traits agree.
\<close>

lemma mock_runtime_outdated:
  "filter (\<lambda>item. item \<notin> fst ` set system_impl) (map fst test_system_impl) = [''ModuleToIndex'']"
  "filter (\<lambda>item. item \<notin> fst ` set test_system_impl) (map fst system_impl) = [''PalletInfo'']"
  "map fst test_timestamp_impl = map fst timestamp_impl"
  "map fst test_assets_impl = map fst standard_assets_impl"
  by (simp_all add: test_system_impl_def system_impl_def test_timestamp_impl_def timestamp_impl_def
      test_assets_impl_def standard_assets_impl_def)

end
