(* ===== verification/Carbon_Lifeline.thy ===== *)
theory Carbon_Lifeline
  imports Carbon_Exact
begin

text \<open>
  The life of a carbon asset from its project to its units: the calls that a project owner and the
  committee make one after the other all succeed, whatever else is in the storage.
\<close>

definition lifeline ::
    "account \<Rightarrow> origin \<Rightarrow> bytes \<Rightarrow> u64 \<Rightarrow> bytes \<Rightarrow> hash \<Rightarrow> bytes \<Rightarrow> u64 \<Rightarrow> bytes \<Rightarrow> hash \<Rightarrow> u64 \<Rightarrow> bytes \<Rightarrow> hash
     \<Rightarrow> (u64 \<times> origin \<times> ca_call) list" where
  "lifeline owner committee symbol max_supply doc pid vintage initial_supply asset_doc aid amount
     issue_doc iid =
     [(1, Signed owner, Submit_project symbol max_supply doc),
      (2, committee, Approve_project pid),
      (3, Signed owner, Submit_asset pid vintage initial_supply asset_doc),
      (4, committee, Approve_asset aid),
      (5, Signed owner, Submit_issue aid amount issue_doc),
      (6, committee, Approve_issue iid)]"

text \<open>
  C26. From project to units: if the ids of a project, of an asset of it and of an issue of that asset
  are not taken, and the initial supply and the issued amount are each within the maximum, then the
  owner's submissions and the committee's approvals all succeed, one after the other; the owner then
  holds the initial supply and the issue, which is also the asset's recorded supply (in 64-bit
  arithmetic), and project and asset are approved.
\<close>

theorem ca_lifeline_completes:
  assumes "approve_origin env committee"
    and "pid = hash_of env (Pre_project owner symbol max_supply doc)" "Projects s pid = None"
    and "aid = hash_of env (Pre_asset owner pid vintage initial_supply asset_doc)"
      "Assets s aid = None"
    and "iid = hash_of env (Pre_issue owner aid amount issue_doc)" "Issues s iid = None"
    and "initial_supply \<le> max_supply" "amount \<le> max_supply"
  shows "let cs = lifeline owner committee symbol max_supply doc pid vintage initial_supply asset_doc
             aid amount issue_doc iid;
           s' = run_calls (ca_dispatch env) cs s
    in run_results (ca_dispatch env) cs s = replicate 6 Ok \<and>
       ca_balance s' aid owner = initial_supply + amount \<and>
       recorded_supply s' aid = initial_supply + amount \<and>
       project_status s' pid = Some 1 \<and> has_asset s' aid"
  using assms
  by (simp add: lifeline_def ca_op_defs Let_def vget_def vmutate_def ca_balance_def
      recorded_supply_def project_status_def has_asset_def numeral_eq_Suc)

theorem ca_lifeline_completes_witness:
  "let cs = lifeline 1 Root [80] 100 [0] 2001 [50] 40 [0] 3001 30 [0] 4001;
       s' = run_calls (ca_dispatch sample_env) cs ca_genesis
   in run_results (ca_dispatch sample_env) cs ca_genesis = replicate 6 Ok \<and>
      ca_balance s' 3001 1 = 70 \<and> has_asset s' 3001"
  using ca_lifeline_completes [of sample_env Root 2001 1 "[80]" 100 "[0]" ca_genesis 3001 "[50]" 40
      "[0]" 4001 30 "[0]"]
  by (simp add: ca_genesis_def Let_def)

end
