(* ===== verification/Runtime_Api.thy ===== *)
theory Runtime_Api
  imports Genesis
begin

text \<open>
  The interface of the runtime towards the node (\<open>runtime/src/lib.rs\<close>): its version, the two
  structures of session keys, and \<open>impl_runtime_apis!\<close>. The executive and the pallets that a method
  hands over to are parameters (the record \<open>modules\<close>); blocks, headers, extrinsics and the other
  values that are only passed on have the type \<open>'v\<close>, the storage under a call the type \<open>'st\<close>.
\<close>

section \<open>Versions\<close>

record runtime_version =
  ver_spec_name :: string
  ver_impl_name :: string
  ver_authoring_version :: u32
  ver_spec_version :: u32
  ver_impl_version :: u32
  ver_transaction_version :: u32

definition VERSION :: runtime_version where
  "VERSION = \<lparr>ver_spec_name = ''eco2'', ver_impl_name = ''eco2'', ver_authoring_version = 1,
     ver_spec_version = 1, ver_impl_version = 1, ver_transaction_version = 1\<rparr>"

record native_version =
  runtime_version_of :: runtime_version
  can_author_with_versions :: "u32 list"

definition native_version :: native_version where
  "native_version = \<lparr>runtime_version_of = VERSION, can_author_with_versions = []\<rparr>"

section \<open>Session keys\<close>

text \<open>
  \<open>impl_opaque_keys!\<close> is declared twice: \<open>opaque::SessionKeys\<close>, which the session-keys API uses,
  and \<open>SessionKeys\<close>, the \<open>Keys\<close> of the session pallet. The macro gives a structure its fields in
  order; key generation and the codec of a structure of keys are parameters.
\<close>

datatype key_type = Aura_key | Grandpa_key | Im_online_key | Authority_discovery_key

definition opaque_session_keys :: "key_type list" where
  "opaque_session_keys = [Aura_key, Grandpa_key]"

definition session_keys_of_pallet :: "key_type list" where
  "session_keys_of_pallet = [Grandpa_key, Aura_key, Im_online_key, Authority_discovery_key]"

record key_codec =
  generate_public :: "key_type \<Rightarrow> bytes option \<Rightarrow> bytes"
  encode_keys :: "bytes list \<Rightarrow> bytes"
  decode_keys :: "nat \<Rightarrow> bytes \<Rightarrow> bytes list option"

text \<open>
  What is documented of them: a public key of each of the four types has 32 bytes; a structure of
  keys takes the bytes of its keys and decodes to them; fewer bytes do not decode.
\<close>

definition key_codec_laws :: "key_codec \<Rightarrow> bool" where
  "key_codec_laws kc \<longleftrightarrow>
     (\<forall>t seed. length (generate_public kc t seed) = 32) \<and>
     (\<forall>ks. list_all (\<lambda>k. length k = 32) ks \<longrightarrow>
        decode_keys kc (length ks) (encode_keys kc ks) = Some ks \<and>
        length (encode_keys kc ks) = 32 * length ks) \<and>
     (\<forall>n bs. length bs < 32 * n \<longrightarrow> decode_keys kc n bs = None)"

definition generate_session_keys :: "key_codec \<Rightarrow> bytes option \<Rightarrow> bytes" where
  "generate_session_keys kc seed =
     encode_keys kc (map (\<lambda>t. generate_public kc t seed) opaque_session_keys)"

definition decode_session_keys :: "key_codec \<Rightarrow> bytes \<Rightarrow> (bytes \<times> key_type) list option" where
  "decode_session_keys kc encoded =
     map_option (\<lambda>ks. zip ks opaque_session_keys)
       (decode_keys kc (length opaque_session_keys) encoded)"

text \<open>The argument \<open>keys\<close> of \<open>set_keys\<close> of the session pallet, as it is decoded from a call.\<close>

definition decode_set_keys :: "key_codec \<Rightarrow> bytes \<Rightarrow> (bytes \<times> key_type) list option" where
  "decode_set_keys kc encoded =
     map_option (\<lambda>ks. zip ks session_keys_of_pallet)
       (decode_keys kc (length session_keys_of_pallet) encoded)"

section \<open>The runtime APIs\<close>

record ('v, 'st) modules =
  executive_execute_block :: "'v \<Rightarrow> 'st \<Rightarrow> 'st"
  executive_initialize_block :: "'v \<Rightarrow> 'st \<Rightarrow> 'st"
  runtime_metadata :: 'v
  executive_apply_extrinsic :: "'v \<Rightarrow> 'st \<Rightarrow> 'v \<times> 'st"
  executive_finalize_block :: "'st \<Rightarrow> 'v \<times> 'st"
  create_extrinsics :: "'v \<Rightarrow> 'st \<Rightarrow> 'v list \<times> 'st"
  check_extrinsics :: "'v \<Rightarrow> 'v \<Rightarrow> 'st \<Rightarrow> 'v \<times> 'st"
  random_seed_of_pallet :: "'st \<Rightarrow> 'v \<times> 'st"
  executive_validate_transaction :: "'v \<Rightarrow> 'v \<Rightarrow> 'st \<Rightarrow> 'v \<times> 'st"
  executive_offchain_worker :: "'v \<Rightarrow> 'st \<Rightarrow> 'st"
  aura_slot_duration :: "'st \<Rightarrow> u64 \<times> 'st"
  aura_authorities :: "'st \<Rightarrow> 'v list \<times> 'st"
  keys_of_runtime :: key_codec
  grandpa_authorities_of_pallet :: "'st \<Rightarrow> 'v \<times> 'st"
  system_account_nonce :: "account \<Rightarrow> 'st \<Rightarrow> u32 \<times> 'st"
  payment_query_info :: "'v \<Rightarrow> u32 \<Rightarrow> 'st \<Rightarrow> 'v \<times> 'st"

datatype 'v api_request =
    Version
  | Execute_block 'v
  | Initialize_block 'v
  | Metadata
  | Apply_extrinsic 'v
  | Finalize_block
  | Inherent_extrinsics 'v
  | Check_inherents 'v 'v
  | Random_seed
  | Validate_transaction 'v 'v
  | Offchain_worker 'v
  | Slot_duration_api
  | Authorities
  | Generate_session_keys "bytes option"
  | Decode_session_keys bytes
  | Grandpa_authorities
  | Submit_report_equivocation_unsigned_extrinsic 'v 'v
  | Generate_key_ownership_proof u64 'v
  | Account_nonce account
  | Query_info 'v u32

datatype 'v api_response =
    Unit_response
  | Version_response runtime_version
  | Value 'v
  | Values "'v list"
  | Millis u64
  | Nonce u32
  | Keys bytes
  | Raw_keys "(bytes \<times> key_type) list option"
  | Reported "unit option"
  | Ownership_proof "'v option"

fun runtime_api :: "('v, 'st) modules \<Rightarrow> 'v api_request \<Rightarrow> 'st \<Rightarrow> 'v api_response \<times> 'st" where
  "runtime_api m Version st = (Version_response VERSION, st)"
| "runtime_api m (Execute_block block) st = (Unit_response, executive_execute_block m block st)"
| "runtime_api m (Initialize_block header) st =
     (Unit_response, executive_initialize_block m header st)"
| "runtime_api m Metadata st = (Value (runtime_metadata m), st)"
| "runtime_api m (Apply_extrinsic xt) st = apfst Value (executive_apply_extrinsic m xt st)"
| "runtime_api m Finalize_block st = apfst Value (executive_finalize_block m st)"
| "runtime_api m (Inherent_extrinsics data) st = apfst Values (create_extrinsics m data st)"
| "runtime_api m (Check_inherents block data) st = apfst Value (check_extrinsics m data block st)"
| "runtime_api m Random_seed st = apfst Value (random_seed_of_pallet m st)"
| "runtime_api m (Validate_transaction source tx) st =
     apfst Value (executive_validate_transaction m source tx st)"
| "runtime_api m (Offchain_worker header) st =
     (Unit_response, executive_offchain_worker m header st)"
| "runtime_api m Slot_duration_api st = apfst Millis (aura_slot_duration m st)"
| "runtime_api m Authorities st = apfst Values (aura_authorities m st)"
| "runtime_api m (Generate_session_keys seed) st =
     (Keys (generate_session_keys (keys_of_runtime m) seed), st)"
| "runtime_api m (Decode_session_keys encoded) st =
     (Raw_keys (decode_session_keys (keys_of_runtime m) encoded), st)"
| "runtime_api m Grandpa_authorities st = apfst Value (grandpa_authorities_of_pallet m st)"
| "runtime_api m (Submit_report_equivocation_unsigned_extrinsic proof owner) st =
     (Reported None, st)"
| "runtime_api m (Generate_key_ownership_proof set_id authority) st = (Ownership_proof None, st)"
| "runtime_api m (Account_nonce who) st = apfst Nonce (system_account_nonce m who st)"
| "runtime_api m (Query_info uxt len) st = apfst Value (payment_query_info m uxt len st)"

section \<open>Benchmarks\<close>

text \<open>
  \<open>dispatch_benchmark\<close>: \<open>add_benchmark!\<close> is a parameter; it adds the batches of a pallet to those
  collected so far, or fails. The whitelisted storage keys are those of the block number, the total
  issuance, the execution phase, the event count and the events.
\<close>

definition benchmark_whitelist :: "string list" where
  "benchmark_whitelist =
     [''26aa394eea5630e07c48ae0c9558cef702a5c1b19ab7a04f536c519aca4983ac'',
      ''c2261276cc9d1f8598ea4b6a74b15c2f57c875e4cff74148e4628f264b974c80'',
      ''26aa394eea5630e07c48ae0c9558cef7ff553b5a9862a516939d82b3d3d8661a'',
      ''26aa394eea5630e07c48ae0c9558cef70a98fdbe9ce6c55837576c60c7af3850'',
      ''26aa394eea5630e07c48ae0c9558cef780d41e5e16056765bc8461851072c9d7'']"

fun add_benchmarks ::
    "(string \<Rightarrow> 'b list \<Rightarrow> string + 'b list) \<Rightarrow> string list \<Rightarrow> 'b list \<Rightarrow> string + 'b list" where
  "add_benchmarks add [] batches = Inr batches"
| "add_benchmarks add (name # names) batches =
     (case add name batches of Inl e \<Rightarrow> Inl e | Inr batches' \<Rightarrow> add_benchmarks add names batches')"

definition dispatch_benchmark ::
    "('c \<Rightarrow> string list \<Rightarrow> string \<Rightarrow> 'b list \<Rightarrow> string + 'b list) \<Rightarrow> 'c \<Rightarrow> string + 'b list" where
  "dispatch_benchmark add_benchmark config =
     (let add = add_benchmark config benchmark_whitelist in
      case add_benchmarks add [''frame_system'', ''pallet_balances'', ''pallet_timestamp''] [] of
        Inl e \<Rightarrow> Inl e
      | Inr batches \<Rightarrow>
          if batches = [] then Inl ''Benchmark not found for this pallet.'' else Inr batches)"

section \<open>Properties\<close>

lemma generated_keys_length:
  assumes "key_codec_laws kc"
  shows "list_all (\<lambda>k. length k = 32) (map (\<lambda>t. generate_public kc t seed) ts)"
  using assms by (simp add: key_codec_laws_def list_all_iff)

text \<open>
  C30. The session-keys API agrees with itself and not with the session pallet: the keys that
  \<open>generate_session_keys\<close> makes decode to the Aura and the Grandpa key in that order, but they are
  no value of the \<open>Keys\<close> of \<open>set_keys\<close>, which asks for four keys: no node can register with the
  keys that its own runtime generates.
\<close>

theorem generated_session_keys:
  assumes "key_codec_laws kc"
  shows "decode_session_keys kc (generate_session_keys kc seed) =
      Some [(generate_public kc Aura_key seed, Aura_key),
            (generate_public kc Grandpa_key seed, Grandpa_key)] \<and>
    decode_set_keys kc (generate_session_keys kc seed) = None"
proof -
  let ?ks = "map (\<lambda>t. generate_public kc t seed) opaque_session_keys"
  have "list_all (\<lambda>k. length k = 32) ?ks" by (rule generated_keys_length [OF assms])
  with assms have "decode_keys kc (length ?ks) (encode_keys kc ?ks) = Some ?ks"
    and len: "length (encode_keys kc ?ks) = 32 * length ?ks"
    unfolding key_codec_laws_def by blast+
  moreover have "length (encode_keys kc ?ks) < 32 * length session_keys_of_pallet"
    unfolding len by (simp add: opaque_session_keys_def session_keys_of_pallet_def)
  with assms have "decode_keys kc (length session_keys_of_pallet) (encode_keys kc ?ks) = None"
    unfolding key_codec_laws_def by blast
  ultimately show ?thesis
    by (simp add: generate_session_keys_def decode_session_keys_def decode_set_keys_def
        opaque_session_keys_def session_keys_of_pallet_def)
qed

fun split_keys :: "nat \<Rightarrow> bytes \<Rightarrow> bytes list option" where
  "split_keys 0 bs = Some []"
| "split_keys (Suc n) bs =
     (if length bs < 32 then None else map_option ((#) (take 32 bs)) (split_keys n (drop 32 bs)))"

definition sample_codec :: key_codec where
  "sample_codec = \<lparr>generate_public = (\<lambda>t seed. replicate 32 (case t of Aura_key \<Rightarrow> 7 | _ \<Rightarrow> 9)),
     encode_keys = concat, decode_keys = split_keys\<rparr>"

lemma split_keys_concat:
  "list_all (\<lambda>k. length k = 32) ks \<Longrightarrow> split_keys (length ks) (concat ks) = Some ks \<and>
     length (concat ks) = 32 * length ks"
  by (induction ks) auto

lemma split_keys_short: "length bs < 32 * n \<Longrightarrow> split_keys n bs = None"
  by (induction n arbitrary: bs) auto

lemma sample_codec_laws: "key_codec_laws sample_codec"
  unfolding key_codec_laws_def sample_codec_def key_codec.simps
  using split_keys_concat split_keys_short by simp

theorem generated_session_keys_witness:
  "decode_session_keys sample_codec (generate_session_keys sample_codec None) =
     Some [(replicate 32 7, Aura_key), (replicate 32 9, Grandpa_key)] \<and>
   decode_set_keys sample_codec (generate_session_keys sample_codec None) = None"
  using generated_session_keys [OF sample_codec_laws, of None] by (simp add: sample_codec_def)

text \<open>
  Misbehaviour goes unreported and the chain's own pallets unmeasured: an equivocation report and
  a key-ownership proof are answered by nothing and change no state, and a benchmark of a pallet
  other than the three framework pallets, for which no batch is added, is an error.
\<close>

theorem unsupported_requests:
  assumes "\<And>name batches. name \<in> {''frame_system'', ''pallet_balances'', ''pallet_timestamp''} \<Longrightarrow>
    add_benchmark config benchmark_whitelist name batches = Inr batches"
  shows "runtime_api m (Submit_report_equivocation_unsigned_extrinsic proof owner) st =
      (Reported None, st) \<and>
    runtime_api m (Generate_key_ownership_proof set_id authority) st = (Ownership_proof None, st) \<and>
    dispatch_benchmark add_benchmark config = Inl ''Benchmark not found for this pallet.''"
  by (simp add: dispatch_benchmark_def assms)

theorem unsupported_requests_witness:
  "dispatch_benchmark (\<lambda>pallet _ name bs. if name = pallet then Inr (name # bs) else Inr bs)
     ''pallet_carbon_assets'' = Inl ''Benchmark not found for this pallet.''"
  by (rule unsupported_requests [THEN conjunct2, THEN conjunct2]) auto

text \<open>The slot duration that the node reads is the block time, as \<open>pallet_aura\<close> doubles the period.\<close>

lemma slot_duration_is_block_time:
  assumes "aura_slot_duration m st = (MinimumPeriod * 2, st)"
  shows "runtime_api m Slot_duration_api st = (Millis MILLISECS_PER_BLOCK, st)"
  using assms by (simp add: time_defs)

end
