(* ===== verification/Node_Service.thy ===== *)
theory Node_Service
  imports Eco2_Prelude
begin

text \<open>
  The wiring of the node (\<open>node/src/service.rs\<close>, \<open>node/src/rpc.rs\<close>): what a full and a light client
  consist of and in which order they are put together. The framework's objects are symbolic: each
  is the term of the constructor that made it, so two of them are equal exactly when they were made
  in the same way from the same parts, and a \<open>clone\<close> of an \<open>Arc\<close> is the object itself. The calls
  of the framework with an effect or a possible failure are recorded in a trace, and the parameter
  \<open>fails\<close> decides which of them return an error; \<open>?\<close> then ends the construction with that error.
\<close>

section \<open>The framework's objects\<close>

text \<open>
  The fields of \<open>Configuration\<close> that the service reads; \<open>is_authority\<close>, \<open>is_network_authority\<close>
  and \<open>is_light\<close> are what the configured role answers.
\<close>

record configuration =
  pool_options :: string
  prometheus_registry :: "string option"
  offchain_worker_enabled :: bool
  is_light :: bool
  is_authority :: bool
  is_network_authority :: bool
  force_authoring :: bool
  node_name :: string
  disable_grandpa :: bool

datatype node_client = Full_client configuration | Light_client configuration
datatype backend = Full_backend configuration | Light_backend configuration
datatype keystore = Full_keystore configuration | Light_keystore configuration
datatype task_manager = Full_task_manager configuration | Light_task_manager configuration
datatype on_demand = On_demand configuration
datatype select_chain = Longest_chain backend
datatype inherents = Inherent_data_providers
datatype telemetry = Telemetry_connection_sinks

datatype transaction_pool =
    Full_pool string "string option" task_manager node_client
  | Light_pool string "string option" task_manager node_client on_demand

datatype grandpa_import =
    Grandpa_block_import node_client node_client select_chain
  | Light_block_import node_client backend node_client on_demand

datatype grandpa_link = Grandpa_link node_client node_client select_chain

datatype block_import = Aura_block_import grandpa_import node_client | Plain_import grandpa_import

datatype can_author = Can_author_with_native_version node_client | Never_can_author

text \<open>The arguments of \<open>sc_consensus_aura::import_queue\<close>; the queue is the term of its arguments.\<close>

record import_queue =
  iq_slot_duration :: node_client
  iq_block_import :: block_import
  iq_justification_import :: "grandpa_import option"
  iq_finality_proof_import :: "grandpa_import option"
  iq_client :: node_client
  iq_inherents :: inherents
  iq_spawner :: task_manager
  iq_registry :: "string option"
  iq_can_author :: can_author

text \<open>\<open>BuildNetworkParams\<close>; the network, its status sinks and its starter are terms of these.\<close>

datatype finality_provider = Grandpa_finality_proof_provider backend node_client

record network_params =
  nw_config :: configuration
  nw_client :: node_client
  nw_pool :: transaction_pool
  nw_spawner :: task_manager
  nw_import_queue :: import_queue
  nw_on_demand :: "on_demand option"
  nw_block_announce_validator :: "unit option"
  nw_finality_request :: "grandpa_import option"
  nw_finality_provider :: "finality_provider option"

datatype network = Network network_params
datatype status_sinks = Network_status_sinks network_params
datatype rpc_sender = System_rpc_tx network_params
datatype network_starter = Network_starter network_params

record partial_components =
  pc_client :: node_client
  pc_backend :: backend
  pc_task_manager :: task_manager
  pc_import_queue :: import_queue
  pc_keystore :: keystore
  pc_select_chain :: select_chain
  pc_transaction_pool :: transaction_pool
  pc_inherents :: inherents
  pc_other :: "block_import \<times> grandpa_link"

section \<open>The RPC extensions\<close>

record full_deps =
  fd_client :: node_client
  fd_pool :: transaction_pool
  fd_deny_unsafe :: bool

datatype rpc_extension =
    System_api node_client transaction_pool bool
  | Transaction_payment_api node_client

definition create_full :: "full_deps \<Rightarrow> rpc_extension list" where
  "create_full deps =
     (let io = [];
          io = io @ [System_api (fd_client deps) (fd_pool deps) (fd_deny_unsafe deps)];
          io = io @ [Transaction_payment_api (fd_client deps)]
      in io)"

section \<open>Calls of the framework\<close>

record spawn_params =
  sp_network :: network
  sp_client :: node_client
  sp_keystore :: keystore
  sp_task_manager :: task_manager
  sp_pool :: transaction_pool
  sp_telemetry :: telemetry
  sp_rpc_extensions_builder :: "bool \<Rightarrow> rpc_extension list"
  sp_on_demand :: "on_demand option"
  sp_remote_blockchain :: "backend option"
  sp_backend :: backend
  sp_network_status_sinks :: status_sinks
  sp_system_rpc_tx :: rpc_sender
  sp_config :: configuration

datatype proposer = Proposer_factory node_client transaction_pool "string option"

record aura_params =
  au_slot_duration :: node_client
  au_client :: node_client
  au_select_chain :: select_chain
  au_block_import :: block_import
  au_proposer :: proposer
  au_network :: network
  au_inherents :: inherents
  au_force_authoring :: bool
  au_keystore :: keystore
  au_can_author :: can_author

record grandpa_config =
  gc_gossip_duration_millis :: nat
  gc_justification_period :: u32
  gc_name :: "string option"
  gc_observer_enabled :: bool
  gc_keystore :: "keystore option"
  gc_is_authority :: bool

text \<open>
  \<open>VotingRulesBuilder::default().build()\<close> and \<open>SharedVoterState::empty()\<close> of the Grandpa library.
\<close>

datatype voting_rules_builder = Default_voting_rules
datatype voting_rule = Build_voting_rules voting_rules_builder
datatype shared_voter_state = Empty_voter_state

record grandpa_params =
  gp_config :: grandpa_config
  gp_link :: grandpa_link
  gp_network :: network
  gp_inherents :: inherents
  gp_telemetry_on_connect :: "telemetry option"
  gp_voting_rule :: voting_rule
  gp_registry :: "string option"
  gp_shared_voter_state :: shared_voter_state

datatype task = Aura_task aura_params | Grandpa_voter_task grandpa_params

datatype service_call =
    New_full_parts configuration
  | New_light_parts configuration
  | Grandpa_import grandpa_import
  | Slot_duration node_client
  | Aura_import_queue import_queue
  | Build_network network_params
  | Build_offchain_workers configuration backend task_manager node_client network
  | Spawn_tasks spawn_params
  | Start_aura aura_params
  | Run_grandpa_voter grandpa_params
  | Setup_disabled_grandpa node_client inherents network
  | Spawn_essential_blocking task_manager string task
  | Start_network network_starter

text \<open>The calls whose result is no \<open>Result\<close>.\<close>

fun infallible :: "service_call \<Rightarrow> bool" where
  "infallible (Build_offchain_workers _ _ _ _ _) = True"
| "infallible (Spawn_essential_blocking _ _ _) = True"
| "infallible (Start_network _) = True"
| "infallible _ = False"

text \<open>A computation of the service: the calls made so far, to a result and the calls made.\<close>

type_synonym 'a service = "service_call list \<Rightarrow> (string + 'a) \<times> service_call list"
type_synonym failure = "service_call \<Rightarrow> string option"

definition done_with :: "'a \<Rightarrow> 'a service" where
  "done_with a calls = (Inr a, calls)"

definition perform :: "failure \<Rightarrow> service_call \<Rightarrow> 'a \<Rightarrow> 'a service" where
  "perform fails c a calls =
     (case (if infallible c then None else fails c) of
        None \<Rightarrow> (Inr a, calls @ [c])
      | Some e \<Rightarrow> (Inl e, calls @ [c]))"

definition andthen :: "'a service \<Rightarrow> ('a \<Rightarrow> 'b service) \<Rightarrow> 'b service" where
  "andthen m f calls =
     (case m calls of (Inl e, calls') \<Rightarrow> (Inl e, calls') | (Inr a, calls') \<Rightarrow> f a calls')"

definition only_if :: "bool \<Rightarrow> unit service \<Rightarrow> unit service" where
  "only_if b m = (if b then m else done_with ())"

section \<open>service.rs\<close>

definition new_partial :: "failure \<Rightarrow> configuration \<Rightarrow> partial_components service" where
  "new_partial fails config =
     (let inherent_data_providers = Inherent_data_providers in
      andthen (perform fails (New_full_parts config)
        (Full_client config, Full_backend config, Full_keystore config, Full_task_manager config))
      (\<lambda>(client, backend, keystore, task_manager).
      let select_chain = Longest_chain backend;
          transaction_pool = Full_pool (pool_options config) (prometheus_registry config)
            task_manager client in
      andthen (perform fails (Grandpa_import (Grandpa_block_import client client select_chain))
        (Grandpa_block_import client client select_chain, Grandpa_link client client select_chain))
      (\<lambda>(grandpa_block_import, grandpa_link).
      let aura_block_import = Aura_block_import grandpa_block_import client in
      andthen (perform fails (Slot_duration client) client) (\<lambda>slot_duration.
      let queue = \<lparr>
            iq_slot_duration = slot_duration,
            iq_block_import = aura_block_import,
            iq_justification_import = Some grandpa_block_import,
            iq_finality_proof_import = None,
            iq_client = client,
            iq_inherents = inherent_data_providers,
            iq_spawner = task_manager,
            iq_registry = prometheus_registry config,
            iq_can_author = Can_author_with_native_version client\<rparr> in
      andthen (perform fails (Aura_import_queue queue) queue) (\<lambda>import_queue.
      done_with \<lparr>
        pc_client = client,
        pc_backend = backend,
        pc_task_manager = task_manager,
        pc_import_queue = import_queue,
        pc_keystore = keystore,
        pc_select_chain = select_chain,
        pc_transaction_pool = transaction_pool,
        pc_inherents = inherent_data_providers,
        pc_other = (aura_block_import, grandpa_link)\<rparr>)))))"

definition full_rpc_builder :: "node_client \<Rightarrow> transaction_pool \<Rightarrow> bool \<Rightarrow> rpc_extension list" where
  "full_rpc_builder client pool deny_unsafe =
     create_full \<lparr>fd_client = client, fd_pool = pool, fd_deny_unsafe = deny_unsafe\<rparr>"

definition start_authoring ::
    "failure \<Rightarrow> partial_components \<Rightarrow> network \<Rightarrow> bool \<Rightarrow> string option \<Rightarrow> unit service" where
  "start_authoring fails p network force registry =
     (let proposer = Proposer_factory (pc_client p) (pc_transaction_pool p) registry;
          can_author_with = Can_author_with_native_version (pc_client p) in
      andthen (perform fails (Slot_duration (pc_client p)) (pc_client p)) (\<lambda>slot_duration.
      let aura = \<lparr>
            au_slot_duration = slot_duration,
            au_client = pc_client p,
            au_select_chain = pc_select_chain p,
            au_block_import = fst (pc_other p),
            au_proposer = proposer,
            au_network = network,
            au_inherents = pc_inherents p,
            au_force_authoring = force,
            au_keystore = pc_keystore p,
            au_can_author = can_author_with\<rparr> in
      andthen (perform fails (Start_aura aura) (Aura_task aura)) (\<lambda>task.
      perform fails (Spawn_essential_blocking (pc_task_manager p) ''aura'' task) ())))"

definition start_grandpa ::
    "failure \<Rightarrow> partial_components \<Rightarrow> network \<Rightarrow> grandpa_config \<Rightarrow> bool \<Rightarrow> string option \<Rightarrow>
     telemetry \<Rightarrow> unit service" where
  "start_grandpa fails p network grandpa_config enable_grandpa registry sinks =
     (if enable_grandpa then
        let params = \<lparr>
              gp_config = grandpa_config,
              gp_link = snd (pc_other p),
              gp_network = network,
              gp_inherents = pc_inherents p,
              gp_telemetry_on_connect = Some sinks,
              gp_voting_rule = Build_voting_rules Default_voting_rules,
              gp_registry = registry,
              gp_shared_voter_state = Empty_voter_state\<rparr> in
        andthen (perform fails (Run_grandpa_voter params) (Grandpa_voter_task params)) (\<lambda>task.
        perform fails (Spawn_essential_blocking (pc_task_manager p) ''grandpa-voter'' task) ())
      else perform fails (Setup_disabled_grandpa (pc_client p) (pc_inherents p) network) ())"

definition new_full :: "failure \<Rightarrow> configuration \<Rightarrow> task_manager service" where
  "new_full fails config =
     andthen (new_partial fails config) (\<lambda>p.
     let client = pc_client p; task_manager = pc_task_manager p;
         provider = Grandpa_finality_proof_provider (pc_backend p) client;
         params = \<lparr>
           nw_config = config,
           nw_client = client,
           nw_pool = pc_transaction_pool p,
           nw_spawner = task_manager,
           nw_import_queue = pc_import_queue p,
           nw_on_demand = None,
           nw_block_announce_validator = None,
           nw_finality_request = None,
           nw_finality_provider = Some provider\<rparr> in
     andthen (perform fails (Build_network params)
       (Network params, Network_status_sinks params, System_rpc_tx params, Network_starter params))
     (\<lambda>(network, network_status_sinks, system_rpc_tx, network_starter).
     andthen (only_if (offchain_worker_enabled config)
       (perform fails
         (Build_offchain_workers config (pc_backend p) task_manager client network) ())) (\<lambda>_.
     let enable_grandpa = (\<not> disable_grandpa config);
         registry = prometheus_registry config;
         sinks = Telemetry_connection_sinks in
     andthen (perform fails (Spawn_tasks \<lparr>
         sp_network = network,
         sp_client = client,
         sp_keystore = pc_keystore p,
         sp_task_manager = task_manager,
         sp_pool = pc_transaction_pool p,
         sp_telemetry = sinks,
         sp_rpc_extensions_builder = full_rpc_builder client (pc_transaction_pool p),
         sp_on_demand = None,
         sp_remote_blockchain = None,
         sp_backend = pc_backend p,
         sp_network_status_sinks = network_status_sinks,
         sp_system_rpc_tx = system_rpc_tx,
         sp_config = config\<rparr>) ()) (\<lambda>_.
     andthen (only_if (is_authority config)
       (start_authoring fails p network (force_authoring config) registry)) (\<lambda>_.
     let keystore = (if is_authority config then Some (pc_keystore p) else None);
         grandpa_config = \<lparr>
           gc_gossip_duration_millis = 333,
           gc_justification_period = 512,
           gc_name = Some (node_name config),
           gc_observer_enabled = False,
           gc_keystore = keystore,
           gc_is_authority = is_network_authority config\<rparr> in
     andthen (start_grandpa fails p network grandpa_config enable_grandpa registry sinks) (\<lambda>_.
     andthen (perform fails (Start_network network_starter) ()) (\<lambda>_.
     done_with task_manager)))))))"

definition new_light :: "failure \<Rightarrow> configuration \<Rightarrow> task_manager service" where
  "new_light fails config =
     andthen (perform fails (New_light_parts config)
       (Light_client config, Light_backend config, Light_keystore config,
        Light_task_manager config, On_demand config))
     (\<lambda>(client, backend, keystore, task_manager, on_demand).
     let transaction_pool = Light_pool (pool_options config) (prometheus_registry config)
           task_manager client on_demand;
         import = Light_block_import client backend client on_demand in
     andthen (perform fails (Grandpa_import import) import) (\<lambda>grandpa_block_import.
     let finality_proof_import = grandpa_block_import;
         finality_proof_request_builder = finality_proof_import in
     andthen (perform fails (Slot_duration client) client) (\<lambda>slot_duration.
     let queue = \<lparr>
           iq_slot_duration = slot_duration,
           iq_block_import = Plain_import grandpa_block_import,
           iq_justification_import = None,
           iq_finality_proof_import = Some finality_proof_import,
           iq_client = client,
           iq_inherents = Inherent_data_providers,
           iq_spawner = task_manager,
           iq_registry = prometheus_registry config,
           iq_can_author = Never_can_author\<rparr> in
     andthen (perform fails (Aura_import_queue queue) queue) (\<lambda>import_queue.
     let provider = Grandpa_finality_proof_provider backend client;
         params = \<lparr>
           nw_config = config,
           nw_client = client,
           nw_pool = transaction_pool,
           nw_spawner = task_manager,
           nw_import_queue = import_queue,
           nw_on_demand = Some on_demand,
           nw_block_announce_validator = None,
           nw_finality_request = Some finality_proof_request_builder,
           nw_finality_provider = Some provider\<rparr> in
     andthen (perform fails (Build_network params)
       (Network params, Network_status_sinks params, System_rpc_tx params, Network_starter params))
     (\<lambda>(network, network_status_sinks, system_rpc_tx, network_starter).
     andthen (only_if (offchain_worker_enabled config)
       (perform fails (Build_offchain_workers config backend task_manager client network) ()))
     (\<lambda>_.
     andthen (perform fails (Spawn_tasks \<lparr>
         sp_network = network,
         sp_client = client,
         sp_keystore = keystore,
         sp_task_manager = task_manager,
         sp_pool = transaction_pool,
         sp_telemetry = Telemetry_connection_sinks,
         sp_rpc_extensions_builder = (\<lambda>_. []),
         sp_on_demand = Some on_demand,
         sp_remote_blockchain = Some backend,
         sp_backend = backend,
         sp_network_status_sinks = network_status_sinks,
         sp_system_rpc_tx = system_rpc_tx,
         sp_config = config\<rparr>) ()) (\<lambda>_.
     andthen (perform fails (Start_network network_starter) ()) (\<lambda>_.
     done_with task_manager))))))))"

section \<open>The plan of a node\<close>

text \<open>
  The specification: a node is a list of calls that its configuration determines, made in order up
  to the first one that fails. \<open>full_parts\<close> are the components that the calls of a full node share.
\<close>

fun run_plan :: "failure \<Rightarrow> service_call list \<Rightarrow> 'a \<Rightarrow> 'a service" where
  "run_plan fails [] a calls = (Inr a, calls)"
| "run_plan fails (c # cs) a calls =
     (case (if infallible c then None else fails c) of
        None \<Rightarrow> run_plan fails cs a (calls @ [c])
      | Some e \<Rightarrow> (Inl e, calls @ [c]))"

definition full_parts :: "configuration \<Rightarrow> partial_components" where
  "full_parts config =
     (let client = Full_client config; backend = Full_backend config;
          chain = Longest_chain backend; import = Grandpa_block_import client client chain;
          aura_import = Aura_block_import import client in
      \<lparr>pc_client = client, pc_backend = backend, pc_task_manager = Full_task_manager config,
       pc_import_queue = \<lparr>
         iq_slot_duration = client, iq_block_import = aura_import,
         iq_justification_import = Some import, iq_finality_proof_import = None,
         iq_client = client, iq_inherents = Inherent_data_providers,
         iq_spawner = Full_task_manager config, iq_registry = prometheus_registry config,
         iq_can_author = Can_author_with_native_version client\<rparr>,
       pc_keystore = Full_keystore config, pc_select_chain = chain,
       pc_transaction_pool = Full_pool (pool_options config) (prometheus_registry config)
         (Full_task_manager config) client,
       pc_inherents = Inherent_data_providers,
       pc_other = (aura_import, Grandpa_link client client chain)\<rparr>)"

definition partial_plan :: "configuration \<Rightarrow> service_call list" where
  "partial_plan config =
     [New_full_parts config,
      Grandpa_import (Grandpa_block_import (Full_client config) (Full_client config)
        (Longest_chain (Full_backend config))),
      Slot_duration (Full_client config),
      Aura_import_queue (pc_import_queue (full_parts config))]"

lemma run_plan_append:
  "run_plan fails (cs @ ds) b calls =
     andthen (run_plan fails cs a) (\<lambda>_. run_plan fails ds b) calls"
  by (induction cs arbitrary: calls) (simp_all add: andthen_def split: option.splits)

lemma new_partial_plan: "new_partial fails config =
    run_plan fails (partial_plan config) (full_parts config)"
  by (rule ext) (simp add: new_partial_def partial_plan_def full_parts_def Let_def andthen_def
      perform_def done_with_def split: option.splits)


text \<open>The calls that follow the first parts, in terms of the parts and of the network they build.\<close>

definition full_network :: "configuration \<Rightarrow> network_params" where
  "full_network config =
     (let p = full_parts config in
      \<lparr>nw_config = config, nw_client = pc_client p, nw_pool = pc_transaction_pool p,
       nw_spawner = pc_task_manager p, nw_import_queue = pc_import_queue p, nw_on_demand = None,
       nw_block_announce_validator = None, nw_finality_request = None,
       nw_finality_provider =
         Some (Grandpa_finality_proof_provider (pc_backend p) (pc_client p))\<rparr>)"

definition full_tasks :: "configuration \<Rightarrow> spawn_params" where
  "full_tasks config =
     (let p = full_parts config in
      \<lparr>sp_network = Network (full_network config), sp_client = pc_client p,
       sp_keystore = pc_keystore p, sp_task_manager = pc_task_manager p,
       sp_pool = pc_transaction_pool p, sp_telemetry = Telemetry_connection_sinks,
       sp_rpc_extensions_builder = full_rpc_builder (pc_client p) (pc_transaction_pool p),
       sp_on_demand = None, sp_remote_blockchain = None, sp_backend = pc_backend p,
       sp_network_status_sinks = Network_status_sinks (full_network config),
       sp_system_rpc_tx = System_rpc_tx (full_network config), sp_config = config\<rparr>)"

definition full_aura :: "configuration \<Rightarrow> aura_params" where
  "full_aura config =
     (let p = full_parts config in
      \<lparr>au_slot_duration = pc_client p, au_client = pc_client p,
       au_select_chain = pc_select_chain p, au_block_import = fst (pc_other p),
       au_proposer = Proposer_factory (pc_client p) (pc_transaction_pool p)
         (prometheus_registry config),
       au_network = Network (full_network config), au_inherents = pc_inherents p,
       au_force_authoring = force_authoring config, au_keystore = pc_keystore p,
       au_can_author = Can_author_with_native_version (pc_client p)\<rparr>)"

definition full_voter :: "configuration \<Rightarrow> grandpa_params" where
  "full_voter config =
     (let p = full_parts config in
      \<lparr>gp_config = \<lparr>gc_gossip_duration_millis = 333, gc_justification_period = 512,
         gc_name = Some (node_name config), gc_observer_enabled = False,
         gc_keystore = (if is_authority config then Some (pc_keystore p) else None),
         gc_is_authority = is_network_authority config\<rparr>,
       gp_link = snd (pc_other p), gp_network = Network (full_network config),
       gp_inherents = pc_inherents p,
       gp_telemetry_on_connect = Some Telemetry_connection_sinks,
       gp_voting_rule = Build_voting_rules Default_voting_rules,
       gp_registry = prometheus_registry config,
       gp_shared_voter_state = Empty_voter_state\<rparr>)"

definition full_plan :: "configuration \<Rightarrow> service_call list" where
  "full_plan config =
     (let p = full_parts config; net = Network (full_network config) in
      partial_plan config @ [Build_network (full_network config)] @
      (if offchain_worker_enabled config
       then [Build_offchain_workers config (pc_backend p) (pc_task_manager p) (pc_client p) net]
       else []) @
      [Spawn_tasks (full_tasks config)] @
      (if is_authority config
       then [Slot_duration (pc_client p), Start_aura (full_aura config),
             Spawn_essential_blocking (pc_task_manager p) ''aura'' (Aura_task (full_aura config))]
       else []) @
      (if disable_grandpa config
       then [Setup_disabled_grandpa (pc_client p) (pc_inherents p) net]
       else [Run_grandpa_voter (full_voter config),
             Spawn_essential_blocking (pc_task_manager p) ''grandpa-voter''
               (Grandpa_voter_task (full_voter config))]) @
      [Start_network (Network_starter (full_network config))])"

definition light_network :: "configuration \<Rightarrow> network_params" where
  "light_network config =
     (let client = Light_client config; backend = Light_backend config;
          import = Light_block_import client backend client (On_demand config) in
      \<lparr>nw_config = config, nw_client = client,
       nw_pool = Light_pool (pool_options config) (prometheus_registry config)
         (Light_task_manager config) client (On_demand config),
       nw_spawner = Light_task_manager config,
       nw_import_queue = \<lparr>
         iq_slot_duration = client, iq_block_import = Plain_import import,
         iq_justification_import = None, iq_finality_proof_import = Some import,
         iq_client = client, iq_inherents = Inherent_data_providers,
         iq_spawner = Light_task_manager config, iq_registry = prometheus_registry config,
         iq_can_author = Never_can_author\<rparr>,
       nw_on_demand = Some (On_demand config), nw_block_announce_validator = None,
       nw_finality_request = Some import,
       nw_finality_provider = Some (Grandpa_finality_proof_provider backend client)\<rparr>)"

definition light_plan :: "configuration \<Rightarrow> service_call list" where
  "light_plan config =
     (let params = light_network config; client = Light_client config in
      [New_light_parts config,
       Grandpa_import (Light_block_import client (Light_backend config) client (On_demand config)),
       Slot_duration client, Aura_import_queue (nw_import_queue params), Build_network params] @
      (if offchain_worker_enabled config
       then [Build_offchain_workers config (Light_backend config) (Light_task_manager config)
               client (Network params)]
       else []) @
      [Spawn_tasks \<lparr>
         sp_network = Network params, sp_client = client,
         sp_keystore = Light_keystore config, sp_task_manager = Light_task_manager config,
         sp_pool = nw_pool params, sp_telemetry = Telemetry_connection_sinks,
         sp_rpc_extensions_builder = (\<lambda>_. []), sp_on_demand = Some (On_demand config),
         sp_remote_blockchain = Some (Light_backend config), sp_backend = Light_backend config,
         sp_network_status_sinks = Network_status_sinks params,
         sp_system_rpc_tx = System_rpc_tx params, sp_config = config\<rparr>,
       Start_network (Network_starter params)])"

lemma run_plan_cases:
  obtains calls' where "run_plan fails cs a calls = (Inr a, calls')"
  | e calls' where "run_plan fails cs a calls = (Inl e, calls')"
proof -
  have "\<exists>r calls'. run_plan fails cs a calls = (r, calls') \<and> (r = Inr a \<or> (\<exists>e. r = Inl e))"
    by (induction cs arbitrary: calls) (auto split: option.splits)
  then show ?thesis using that by blast
qed

lemma new_full_plan: "new_full fails config =
    run_plan fails (full_plan config) (Full_task_manager config)"
proof (rule ext)
  fix calls
  let ?p = "full_parts config"
  have fields: "pc_client ?p = Full_client config" "pc_task_manager ?p = Full_task_manager config"
    by (simp_all add: full_parts_def Let_def)
  note defs = andthen_def perform_def done_with_def only_if_def start_authoring_def
    start_grandpa_def full_network_def full_tasks_def full_aura_def full_voter_def fields Let_def
  consider (ok) calls' where "run_plan fails (partial_plan config) ?p calls = (Inr ?p, calls')"
    | (err) e calls' where "run_plan fails (partial_plan config) ?p calls = (Inl e, calls')"
    by (rule run_plan_cases)
  then show "new_full fails config calls =
      run_plan fails (full_plan config) (Full_task_manager config) calls"
  proof cases
    case ok
    then show ?thesis
      unfolding new_full_def new_partial_plan full_plan_def Let_def run_plan_append [where a = ?p]
      by (cases "is_authority config"; cases "disable_grandpa config";
          cases "offchain_worker_enabled config")
        (simp_all add: defs split: option.splits)
  next
    case err
    then show ?thesis
      unfolding new_full_def new_partial_plan full_plan_def Let_def run_plan_append [where a = ?p]
      by (simp add: andthen_def)
  qed
qed

lemma new_light_plan: "new_light fails config =
    run_plan fails (light_plan config) (Light_task_manager config)"
  by (rule ext) (simp add: new_light_def light_plan_def light_network_def Let_def andthen_def
      perform_def done_with_def only_if_def split: option.splits)

section \<open>What a node does\<close>

text \<open>A plan without a failing call is carried out; otherwise it stops at the first failing call.\<close>

definition call_ok :: "failure \<Rightarrow> service_call \<Rightarrow> bool" where
  "call_ok fails c \<longleftrightarrow> infallible c \<or> fails c = None"

definition calls_made :: "failure \<Rightarrow> service_call list \<Rightarrow> service_call list" where
  "calls_made fails cs = takeWhile (call_ok fails) cs @ take 1 (dropWhile (call_ok fails) cs)"

definition plan_result :: "failure \<Rightarrow> service_call list \<Rightarrow> 'a \<Rightarrow> string + 'a" where
  "plan_result fails cs a =
     (case dropWhile (call_ok fails) cs of [] \<Rightarrow> Inr a | c # _ \<Rightarrow> Inl (the (fails c)))"

lemma run_plan_eq:
  "run_plan fails cs a calls = (plan_result fails cs a, calls @ calls_made fails cs)"
  by (induction cs arbitrary: calls)
    (auto simp: plan_result_def calls_made_def call_ok_def split: option.splits)

lemma calls_made_subset: "c \<in> set (calls_made fails cs) \<Longrightarrow> c \<in> set cs"
  by (induction cs) (auto simp: calls_made_def split: if_splits)

lemma calls_made_list_all: "list_all P cs \<Longrightarrow> list_all P (calls_made fails cs)"
  using calls_made_subset by (auto simp: list_all_iff)

lemma plan_result_Inr: "plan_result fails cs a = Inr b \<longleftrightarrow> list_all (call_ok fails) cs \<and> b = a"
  by (induction cs) (auto simp: plan_result_def)

lemma no_failure: "plan_result (\<lambda>_. None) cs a = Inr a"
  by (simp add: plan_result_Inr call_ok_def list_all_iff)

lemma calls_made_all: "list_all (call_ok fails) cs \<Longrightarrow> calls_made fails cs = cs"
  by (induction cs) (auto simp: calls_made_def)

lemma last_call_made:
  assumes "infallible z" and "z \<notin> set cs"
  shows "z \<in> set (calls_made fails (cs @ [z])) \<longleftrightarrow> list_all (call_ok fails) cs"
  using assms(2)
proof (induction cs)
  case Nil
  from assms(1) show ?case by (simp add: calls_made_def call_ok_def)
next
  case (Cons c cs)
  then show ?case by (cases "call_ok fails c") (simp_all add: calls_made_def)
qed

text \<open>
  Building a node follows a plan that its configuration determines: \<open>new_full\<close> and \<open>new_light\<close>
  make the calls of the plan in order, stop at the first one that fails with its error, and return
  the task manager exactly when none fails.
\<close>

theorem node_follows_plan:
  "new_full fails config [] =
     (plan_result fails (full_plan config) (Full_task_manager config),
      calls_made fails (full_plan config)) \<and>
   new_light fails config [] =
     (plan_result fails (light_plan config) (Light_task_manager config),
      calls_made fails (light_plan config))"
  by (simp add: new_full_plan new_light_plan run_plan_eq)

lemma full_plan_last:
  obtains cs where "full_plan config = cs @ [Start_network (Network_starter (full_network config))]"
    and "\<And>n. Start_network n \<notin> set cs"
proof
  let ?cs = "butlast (full_plan config)"
  show "full_plan config = ?cs @ [Start_network (Network_starter (full_network config))]"
    by (simp add: full_plan_def Let_def butlast_append)
  show "Start_network n \<notin> set ?cs" for n
    by (simp add: full_plan_def partial_plan_def Let_def butlast_append)
qed

lemma light_plan_last:
  obtains cs where "light_plan config = cs @ [Start_network (Network_starter (light_network config))]"
    and "\<And>n. Start_network n \<notin> set cs"
proof
  let ?cs = "butlast (light_plan config)"
  show "light_plan config = ?cs @ [Start_network (Network_starter (light_network config))]"
    by (simp add: light_plan_def Let_def butlast_append)
  show "Start_network n \<notin> set ?cs" for n
    by (simp add: light_plan_def Let_def butlast_append)
qed

lemma plan_starts_network_last:
  fixes fails :: failure and a :: 'a
  assumes plan: "plan = cs @ [Start_network n]" and fresh: "\<And>n. Start_network n \<notin> set cs"
  defines "r \<equiv> plan_result fails plan a" and "calls \<equiv> calls_made fails plan"
  shows "((\<exists>m. Start_network m \<in> set calls) \<longleftrightarrow> \<not> isl r) \<and>
    (\<not> isl r \<longleftrightarrow> (\<exists>pre m. calls = pre @ [Start_network m] \<and> calls = plan))"
proof -
  have "\<not> isl r \<longleftrightarrow> list_all (call_ok fails) plan"
    using plan_result_Inr [of fails plan a] unfolding r_def
    by (metis isl_def sum.collapse(2) sum.disc(2))
  also have "\<dots> \<longleftrightarrow> list_all (call_ok fails) cs" by (simp add: plan call_ok_def)
  also have "\<dots> \<longleftrightarrow> Start_network n \<in> set calls"
    using last_call_made [of "Start_network n" cs fails] fresh by (simp add: plan calls_def)
  finally have ok: "\<not> isl r \<longleftrightarrow> Start_network n \<in> set calls" .
  have one: "m = n" if "Start_network m \<in> set calls" for m
    using that calls_made_subset [of "Start_network m" fails plan] fresh
    by (auto simp: plan calls_def)
  have all: "\<not> isl r \<Longrightarrow> calls = plan"
    using \<open>\<not> isl r \<longleftrightarrow> list_all (call_ok fails) plan\<close> calls_made_all [of fails plan]
    by (simp add: calls_def)
  show ?thesis using ok one all plan by fastforce
qed

text \<open>
  C28. A node joins the network only when it is complete: among the calls of \<open>new_full\<close> and of
  \<open>new_light\<close> the network is started exactly when the construction succeeds, and it is then the
  last call, after every other call of the plan.
\<close>

theorem network_starts_last:
  "(let (r, calls) = new_full fails config [] in
     ((\<exists>n. Start_network n \<in> set calls) \<longleftrightarrow> \<not> isl r) \<and>
     (\<not> isl r \<longleftrightarrow> (\<exists>pre n. calls = pre @ [Start_network n] \<and> calls = full_plan config))) \<and>
   (let (r, calls) = new_light fails config [] in
     ((\<exists>n. Start_network n \<in> set calls) \<longleftrightarrow> \<not> isl r) \<and>
     (\<not> isl r \<longleftrightarrow> (\<exists>pre n. calls = pre @ [Start_network n] \<and> calls = light_plan config)))"
proof -
  obtain cs where f: "full_plan config = cs @ [Start_network (Network_starter (full_network config))]"
    and fn: "\<And>n. Start_network n \<notin> set cs" by (rule full_plan_last) blast
  obtain ds where l: "light_plan config = ds @ [Start_network (Network_starter (light_network config))]"
    and ln: "\<And>n. Start_network n \<notin> set ds" by (rule light_plan_last) blast
  show ?thesis
    unfolding new_full_plan new_light_plan run_plan_eq append_Nil Let_def prod.case
    by (intro conjI [OF plan_starts_network_last [OF f fn] plan_starts_network_last [OF l ln]])
qed

text \<open>
  C27. Authoring and voting follow the role. A full node starts Aura only as an authority, with its
  own client deciding by the native version whether it may author, and hands its keys to Grandpa
  only as an authority; Grandpa votes only when it is not disabled. A full node that is complete
  authors exactly as an authority, and either votes or has Grandpa set up as disabled.
\<close>

theorem consensus_follows_role:
  assumes "new_full fails config [] = (r, calls)"
  shows "(\<forall>a. Start_aura a \<in> set calls \<longrightarrow>
      is_authority config \<and> au_can_author a = Can_author_with_native_version (au_client a)) \<and>
    (\<forall>g. Run_grandpa_voter g \<in> set calls \<longrightarrow> \<not> disable_grandpa config \<and>
      (gc_keystore (gp_config g) \<noteq> None \<longleftrightarrow> is_authority config) \<and>
      gc_is_authority (gp_config g) = is_network_authority config) \<and>
    (\<not> isl r \<longrightarrow> ((\<exists>a. Start_aura a \<in> set calls) \<longleftrightarrow> is_authority config) \<and>
      ((\<exists>g. Run_grandpa_voter g \<in> set calls) \<longleftrightarrow> \<not> disable_grandpa config) \<and>
      ((\<exists>c i n. Setup_disabled_grandpa c i n \<in> set calls) \<longleftrightarrow> disable_grandpa config))"
proof -
  have c: "calls = calls_made fails (full_plan config)"
    and r: "r = plan_result fails (full_plan config) (Full_task_manager config)"
    using assms by (simp_all add: new_full_plan run_plan_eq)
  note plan = full_plan_def partial_plan_def Let_def
  have a: "Start_aura a \<in> set (full_plan config) \<longleftrightarrow> is_authority config \<and> a = full_aura config"
    and g: "Run_grandpa_voter g \<in> set (full_plan config) \<longleftrightarrow>
      \<not> disable_grandpa config \<and> g = full_voter config"
    and d: "(\<exists>c i n. Setup_disabled_grandpa c i n \<in> set (full_plan config)) \<longleftrightarrow>
      disable_grandpa config" for a g
    by (auto simp: plan)
  have fields: "au_can_author (full_aura config) =
      Can_author_with_native_version (au_client (full_aura config))"
    "gc_keystore (gp_config (full_voter config)) \<noteq> None \<longleftrightarrow> is_authority config"
    "gc_is_authority (gp_config (full_voter config)) = is_network_authority config"
    by (simp_all add: full_aura_def full_voter_def Let_def)
  have sub: "k \<in> set (full_plan config)" if "k \<in> set calls" for k
    using that calls_made_subset by (simp add: c)
  have all: "set calls = set (full_plan config)" if "\<not> isl r"
  proof -
    from that obtain tm where "r = Inr tm" by (cases r) simp_all
    then show ?thesis using plan_result_Inr calls_made_all unfolding c r by metis
  qed
  show ?thesis
  proof (intro conjI allI impI)
    fix k assume "Start_aura k \<in> set calls"
    then have "is_authority config \<and> k = full_aura config" using sub a by blast
    then show "is_authority config" "au_can_author k = Can_author_with_native_version (au_client k)"
      using fields(1) by simp_all
  next
    fix k assume "Run_grandpa_voter k \<in> set calls"
    then have "\<not> disable_grandpa config \<and> k = full_voter config" using sub g by blast
    then show "\<not> disable_grandpa config"
      "gc_keystore (gp_config k) \<noteq> None \<longleftrightarrow> is_authority config"
      "gc_is_authority (gp_config k) = is_network_authority config"
      using fields(2,3) by simp_all
  qed (simp_all add: all a g d)
qed

definition sample_config :: configuration where
  "sample_config = \<lparr>pool_options = [], prometheus_registry = None,
     offchain_worker_enabled = True, is_light = False, is_authority = True,
     is_network_authority = True, force_authoring = False, node_name = ''alice'',
     disable_grandpa = False\<rparr>"

theorem consensus_follows_role_witness:
  "(\<exists>a. Start_aura a \<in> set (snd (new_full (\<lambda>_. None) sample_config []))) \<and>
   \<not> (\<exists>a. Start_aura a \<in> set (snd (new_full (\<lambda>_. None) (sample_config\<lparr>is_authority := False\<rparr>) [])))"
proof -
  have r: "\<not> isl (fst (new_full (\<lambda>_. None) sample_config []))"
    by (simp add: new_full_plan run_plan_eq no_failure)
  have "(\<exists>a. Start_aura a \<in> set (snd (new_full (\<lambda>_. None) sample_config []))) \<longleftrightarrow>
      is_authority sample_config"
    using consensus_follows_role
      [of "\<lambda>_. None" sample_config, OF prod.collapse [symmetric]] r by blast
  moreover have "\<forall>a. Start_aura a \<in>
      set (snd (new_full (\<lambda>_. None) (sample_config\<lparr>is_authority := False\<rparr>) [])) \<longrightarrow>
      is_authority (sample_config\<lparr>is_authority := False\<rparr>)"
    using consensus_follows_role
      [of "\<lambda>_. None" "sample_config\<lparr>is_authority := False\<rparr>", OF prod.collapse [symmetric]]
    by blast
  ultimately show ?thesis by (simp add: sample_config_def)
qed

text \<open>
  A light node takes no part in consensus: it starts no authoring, runs no Grandpa voter and no
  essential task, its import queue may never author, and it serves no RPC extension.
\<close>

theorem light_node_is_passive:
  "list_all (\<lambda>c. case c of
      Start_aura _ \<Rightarrow> False | Run_grandpa_voter _ \<Rightarrow> False | Spawn_essential_blocking _ _ _ \<Rightarrow> False
    | Aura_import_queue q \<Rightarrow> iq_can_author q = Never_can_author
    | Spawn_tasks p \<Rightarrow> sp_rpc_extensions_builder p deny_unsafe = [] \<and>
        sp_on_demand p = Some (On_demand config)
    | _ \<Rightarrow> True) (snd (new_light fails config []))"
proof -
  show ?thesis
    unfolding new_light_plan run_plan_eq snd_conv append_Nil
    by (rule calls_made_list_all) (simp add: light_plan_def light_network_def Let_def)
qed

text \<open>The clients that a call of the construction uses, directly or through its parts.\<close>

fun pool_client :: "transaction_pool \<Rightarrow> node_client" where
  "pool_client (Full_pool _ _ _ c) = c"
| "pool_client (Light_pool _ _ _ c _) = c"

fun import_clients :: "grandpa_import \<Rightarrow> node_client list" where
  "import_clients (Grandpa_block_import c d _) = [c, d]"
| "import_clients (Light_block_import c _ d _) = [c, d]"

fun block_import_clients :: "block_import \<Rightarrow> node_client list" where
  "block_import_clients (Aura_block_import i c) = c # import_clients i"
| "block_import_clients (Plain_import i) = import_clients i"

definition queue_clients :: "import_queue \<Rightarrow> node_client list" where
  "queue_clients q = iq_slot_duration q # iq_client q # block_import_clients (iq_block_import q)"

definition network_clients :: "network_params \<Rightarrow> node_client list" where
  "network_clients p =
     nw_client p # pool_client (nw_pool p) # queue_clients (nw_import_queue p) @
     (case nw_finality_provider p of
        None \<Rightarrow> [] | Some (Grandpa_finality_proof_provider _ c) \<Rightarrow> [c])"

fun of_network :: "network \<Rightarrow> node_client list" where
  "of_network (Network p) = network_clients p"

fun rpc_client :: "rpc_extension \<Rightarrow> node_client list" where
  "rpc_client (System_api c pool _) = [c, pool_client pool]"
| "rpc_client (Transaction_payment_api c) = [c]"

fun proposer_clients :: "proposer \<Rightarrow> node_client list" where
  "proposer_clients (Proposer_factory c pool _) = [c, pool_client pool]"

fun link_clients :: "grandpa_link \<Rightarrow> node_client list" where
  "link_clients (Grandpa_link c d _) = [c, d]"

fun clients_of :: "service_call \<Rightarrow> node_client list" where
  "clients_of (New_full_parts _) = []"
| "clients_of (New_light_parts _) = []"
| "clients_of (Grandpa_import i) = import_clients i"
| "clients_of (Slot_duration c) = [c]"
| "clients_of (Aura_import_queue q) = queue_clients q"
| "clients_of (Build_network p) = network_clients p"
| "clients_of (Build_offchain_workers _ _ _ c n) = c # of_network n"
| "clients_of (Spawn_tasks p) = sp_client p # pool_client (sp_pool p) # of_network (sp_network p) @
     concat (map rpc_client (sp_rpc_extensions_builder p True @ sp_rpc_extensions_builder p False))"
| "clients_of (Start_aura a) = au_slot_duration a # au_client a # of_network (au_network a) @
     proposer_clients (au_proposer a) @ block_import_clients (au_block_import a)"
| "clients_of (Run_grandpa_voter g) = link_clients (gp_link g) @ of_network (gp_network g)"
| "clients_of (Setup_disabled_grandpa c _ n) = c # of_network n"
| "clients_of (Spawn_essential_blocking _ _ _) = []"
| "clients_of (Start_network (Network_starter p)) = network_clients p"

text \<open>
  A node has one client: every part of a full node (block import, import queue, transaction
  pool, network, offchain workers, RPC extensions, authoring, Grandpa) uses the client of
  \<open>new_full_parts\<close>, and every part of a light node the one of \<open>new_light_parts\<close>.
\<close>

theorem one_client_per_node:
  "list_all (\<lambda>c. list_all ((=) (Full_client config)) (clients_of c)) (snd (new_full fails config [])) \<and>
   list_all (\<lambda>c. list_all ((=) (Light_client config)) (clients_of c)) (snd (new_light fails config []))"
  unfolding new_full_plan new_light_plan run_plan_eq snd_conv append_Nil
proof (intro conjI calls_made_list_all)
  show "list_all (\<lambda>c. list_all ((=) (Full_client config)) (clients_of c)) (full_plan config)"
    by (simp add: full_plan_def partial_plan_def full_parts_def full_network_def full_tasks_def
        full_aura_def full_voter_def full_rpc_builder_def create_full_def queue_clients_def
        network_clients_def Let_def)
  show "list_all (\<lambda>c. list_all ((=) (Light_client config)) (clients_of c)) (light_plan config)"
    by (simp add: light_plan_def light_network_def queue_clients_def network_clients_def Let_def)
qed

end
