(* ===== verification/Node_Command.thy ===== *)
theory Node_Command
  imports Runtime_Api Node_Service
begin

text \<open>
  The command line of the node (\<open>node/src/cli.rs\<close>, \<open>run\<close> of \<open>node/src/command.rs\<close>): which job a
  command line starts. The runner and the jobs of \<open>sc_cli\<close> are parameters (the record \<open>node_env\<close>),
  the constructors of the service are those of \<open>Node_Service\<close>; a failing step, \<open>?\<close> in the code,
  ends the run with its error. A run keeps the calls that the service made.
\<close>

section \<open>The command line\<close>

datatype 'cmd subcommand =
    BuildSpec 'cmd | CheckBlock 'cmd | ExportBlocks 'cmd | ExportState 'cmd | ImportBlocks 'cmd
  | PurgeChain 'cmd | Revert 'cmd | Benchmark 'cmd

record 'cmd cli =
  cli_subcommand :: "'cmd subcommand option"
  cli_run :: 'cmd

text \<open>
  What the node says of itself; the strings that the build takes from its environment are
  parameters. The native version that the runner reports is that of the runtime.
\<close>

record build_env =
  SUBSTRATE_CLI_IMPL_VERSION :: string
  CARGO_PKG_DESCRIPTION :: string
  CARGO_PKG_AUTHORS :: string

record cli_info =
  impl_name :: string
  impl_version :: string
  cli_description :: string
  cli_author :: string
  support_url :: string
  copyright_start_year :: int

definition substrate_cli :: "build_env \<Rightarrow> cli_info" where
  "substrate_cli b = \<lparr>
     impl_name = ''Substrate Node'',
     impl_version = SUBSTRATE_CLI_IMPL_VERSION b,
     cli_description = CARGO_PKG_DESCRIPTION b,
     cli_author = CARGO_PKG_AUTHORS b,
     support_url = ''support.anonymous.an'',
     copyright_start_year = 2020\<rparr>"

definition native_runtime_version :: "'k chain_spec \<Rightarrow> runtime_version" where
  "native_runtime_version spec = VERSION"

lemma one_version:
  "native_runtime_version spec = runtime_version_of native_version"
  "runtime_api m Version st = (Version_response (native_runtime_version spec), st)"
  by (simp_all add: native_runtime_version_def native_version_def)

text \<open>
  \<open>create_runner\<close> makes the configuration of a command; the jobs are what \<open>cmd.run\<close> of each
  subcommand does with what it is given, and \<open>run_until_exit\<close> keeps a started node running.
\<close>

record ('cmd, 'r) node_env =
  create_runner :: "'cmd \<Rightarrow> string + configuration"
  build_spec_job :: "'cmd \<Rightarrow> configuration \<Rightarrow> string + 'r"
  check_block_job :: "'cmd \<Rightarrow> node_client \<Rightarrow> import_queue \<Rightarrow> task_manager \<Rightarrow> string + 'r"
  export_blocks_job :: "'cmd \<Rightarrow> node_client \<Rightarrow> configuration \<Rightarrow> task_manager \<Rightarrow> string + 'r"
  export_state_job :: "'cmd \<Rightarrow> node_client \<Rightarrow> configuration \<Rightarrow> task_manager \<Rightarrow> string + 'r"
  import_blocks_job :: "'cmd \<Rightarrow> node_client \<Rightarrow> import_queue \<Rightarrow> task_manager \<Rightarrow> string + 'r"
  purge_chain_job :: "'cmd \<Rightarrow> configuration \<Rightarrow> string + 'r"
  revert_job :: "'cmd \<Rightarrow> node_client \<Rightarrow> backend \<Rightarrow> task_manager \<Rightarrow> string + 'r"
  benchmark_job :: "'cmd \<Rightarrow> configuration \<Rightarrow> string + 'r"
  run_until_exit :: "task_manager \<Rightarrow> string + 'r"
  runtime_benchmarks :: bool
  service_failure :: failure

definition result_of :: "string + 'a \<Rightarrow> 'a service" where
  "result_of r calls = (r, calls)"

definition run :: "('cmd, 'r) node_env \<Rightarrow> 'cmd cli \<Rightarrow> 'r service" where
  "run n cli =
     (case cli_subcommand cli of
        Some (BuildSpec cmd) \<Rightarrow>
          andthen (result_of (create_runner n cmd)) (\<lambda>config.
          result_of (build_spec_job n cmd config))
      | Some (CheckBlock cmd) \<Rightarrow>
          andthen (result_of (create_runner n cmd)) (\<lambda>config.
          andthen (new_partial (service_failure n) config) (\<lambda>p.
          result_of (check_block_job n cmd (pc_client p) (pc_import_queue p) (pc_task_manager p))))
      | Some (ExportBlocks cmd) \<Rightarrow>
          andthen (result_of (create_runner n cmd)) (\<lambda>config.
          andthen (new_partial (service_failure n) config) (\<lambda>p.
          result_of (export_blocks_job n cmd (pc_client p) config (pc_task_manager p))))
      | Some (ExportState cmd) \<Rightarrow>
          andthen (result_of (create_runner n cmd)) (\<lambda>config.
          andthen (new_partial (service_failure n) config) (\<lambda>p.
          result_of (export_state_job n cmd (pc_client p) config (pc_task_manager p))))
      | Some (ImportBlocks cmd) \<Rightarrow>
          andthen (result_of (create_runner n cmd)) (\<lambda>config.
          andthen (new_partial (service_failure n) config) (\<lambda>p.
          result_of (import_blocks_job n cmd (pc_client p) (pc_import_queue p) (pc_task_manager p))))
      | Some (PurgeChain cmd) \<Rightarrow>
          andthen (result_of (create_runner n cmd)) (\<lambda>config.
          result_of (purge_chain_job n cmd config))
      | Some (Revert cmd) \<Rightarrow>
          andthen (result_of (create_runner n cmd)) (\<lambda>config.
          andthen (new_partial (service_failure n) config) (\<lambda>p.
          result_of (revert_job n cmd (pc_client p) (pc_backend p) (pc_task_manager p))))
      | Some (Benchmark cmd) \<Rightarrow>
          if runtime_benchmarks n
          then andthen (result_of (create_runner n cmd)) (\<lambda>config.
               result_of (benchmark_job n cmd config))
          else result_of (Inl ''Benchmarking wasn't enabled when building the node. You can enable it with `--features runtime-benchmarks`.'')
      | None \<Rightarrow>
          andthen (result_of (create_runner n (cli_run cli))) (\<lambda>config.
          andthen (if is_light config then new_light (service_failure n) config
                   else new_full (service_failure n) config) (\<lambda>task_manager.
          result_of (run_until_exit n task_manager))))"

lemma andthen_result_of [simp]:
  "andthen (result_of (Inr a)) f = f a" "andthen (result_of (Inl e)) f calls = (Inl e, calls)"
  by (auto simp: andthen_def result_of_def)

lemma snd_andthen_result_of: "snd (andthen m (\<lambda>a. result_of (f a)) calls) = snd (m calls)"
  by (simp add: andthen_def result_of_def split: prod.splits sum.splits)

text \<open>The calls by which a node serves the network or takes part in consensus.\<close>

definition serving_call :: "service_call \<Rightarrow> bool" where
  "serving_call c = (case c of
     Build_network _ \<Rightarrow> True | Build_offchain_workers _ _ _ _ _ \<Rightarrow> True | Spawn_tasks _ \<Rightarrow> True
   | Start_aura _ \<Rightarrow> True | Run_grandpa_voter _ \<Rightarrow> True | Spawn_essential_blocking _ _ _ \<Rightarrow> True
   | Setup_disabled_grandpa _ _ _ \<Rightarrow> True | Start_network _ \<Rightarrow> True | _ \<Rightarrow> False)"

lemma partial_plan_serves_nothing: "list_all (\<lambda>c. \<not> serving_call c) (partial_plan config)"
  by (simp add: partial_plan_def serving_call_def)

lemma new_partial_serves_nothing:
  "list_all (\<lambda>c. \<not> serving_call c) (snd (new_partial fails config []))"
  unfolding new_partial_plan run_plan_eq snd_conv append_Nil
  by (rule calls_made_list_all [OF partial_plan_serves_nothing])

lemma subcommand_serves_nothing:
  assumes "cli_subcommand cli = Some c"
  shows "list_all (\<lambda>c. \<not> serving_call c) (snd (run n cli []))"
proof (cases c)
  case (BuildSpec cmd)
  then show ?thesis
    by (cases "create_runner n cmd") (simp_all add: run_def assms result_of_def)
next
  case (CheckBlock cmd)
  then show ?thesis
    by (cases "create_runner n cmd")
      (simp_all add: run_def assms snd_andthen_result_of new_partial_serves_nothing)
next
  case (ExportBlocks cmd)
  then show ?thesis
    by (cases "create_runner n cmd")
      (simp_all add: run_def assms snd_andthen_result_of new_partial_serves_nothing)
next
  case (ExportState cmd)
  then show ?thesis
    by (cases "create_runner n cmd")
      (simp_all add: run_def assms snd_andthen_result_of new_partial_serves_nothing)
next
  case (ImportBlocks cmd)
  then show ?thesis
    by (cases "create_runner n cmd")
      (simp_all add: run_def assms snd_andthen_result_of new_partial_serves_nothing)
next
  case (PurgeChain cmd)
  then show ?thesis
    by (cases "create_runner n cmd") (simp_all add: run_def assms result_of_def)
next
  case (Revert cmd)
  then show ?thesis
    by (cases "create_runner n cmd")
      (simp_all add: run_def assms snd_andthen_result_of new_partial_serves_nothing)
next
  case (Benchmark cmd)
  then show ?thesis
    by (cases "create_runner n cmd") (simp_all add: run_def assms result_of_def)
qed

text \<open>
  C29. What a command line starts: without a subcommand the node of the configured role, light or
  full; with one no node at all, at most the first parts of a full client. Nothing starts when the
  runner cannot be made, and no subcommand joins the network or takes part in consensus.
\<close>

theorem run_starts_what_is_asked:
  "let calls = snd (run n cli []); fails = service_failure n in
     (cli_subcommand cli \<noteq> None \<longrightarrow> list_all (\<lambda>c. \<not> serving_call c) calls) \<and>
     (\<forall>config. cli_subcommand cli = None \<and> create_runner n (cli_run cli) = Inr config \<longrightarrow>
        calls = calls_made fails (if is_light config then light_plan config else full_plan config)) \<and>
     (cli_subcommand cli = None \<and> isl (create_runner n (cli_run cli)) \<longrightarrow> calls = [])"
proof (cases "cli_subcommand cli")
  case (Some c)
  then show ?thesis using subcommand_serves_nothing [OF Some] by simp
next
  case None
  then show ?thesis
    by (cases "create_runner n (cli_run cli)")
      (simp_all add: run_def snd_andthen_result_of new_light_plan new_full_plan run_plan_eq)
qed

definition sample_node :: "(configuration, unit) node_env" where
  "sample_node = \<lparr>create_runner = Inr, build_spec_job = (\<lambda>_ _. Inr ()),
     check_block_job = (\<lambda>_ _ _ _. Inr ()), export_blocks_job = (\<lambda>_ _ _ _. Inr ()),
     export_state_job = (\<lambda>_ _ _ _. Inr ()), import_blocks_job = (\<lambda>_ _ _ _. Inr ()),
     purge_chain_job = (\<lambda>_ _. Inr ()), revert_job = (\<lambda>_ _ _ _. Inr ()),
     benchmark_job = (\<lambda>_ _. Inr ()), run_until_exit = (\<lambda>_. Inr ()),
     runtime_benchmarks = False, service_failure = (\<lambda>_. None)\<rparr>"

theorem run_starts_what_is_asked_witness:
  "snd (run sample_node \<lparr>cli_subcommand = None, cli_run = sample_config\<rparr> []) =
     full_plan sample_config \<and>
   \<not> (\<exists>n. Start_network n \<in> set (snd (run sample_node
        \<lparr>cli_subcommand = Some (Revert sample_config), cli_run = sample_config\<rparr> [])))"
proof -
  note thm1 = run_starts_what_is_asked
    [of sample_node "\<lparr>cli_subcommand = None, cli_run = sample_config\<rparr>"]
  note thm2 = run_starts_what_is_asked
    [of sample_node "\<lparr>cli_subcommand = Some (Revert sample_config), cli_run = sample_config\<rparr>"]
  have "\<not> is_light sample_config" "create_runner sample_node sample_config = Inr sample_config"
    "calls_made (service_failure sample_node) cs = cs" for cs
    by (simp_all add: sample_config_def sample_node_def calls_made_all call_ok_def list_all_iff)
  with thm1 have "snd (run sample_node \<lparr>cli_subcommand = None, cli_run = sample_config\<rparr> []) =
      full_plan sample_config" by (simp add: Let_def)
  moreover have "\<not> serving_call c" if "c \<in> set (snd (run sample_node
      \<lparr>cli_subcommand = Some (Revert sample_config), cli_run = sample_config\<rparr> []))" for c
    using thm2 that by (simp add: Let_def list_all_iff)
  ultimately show ?thesis by (fastforce simp: serving_call_def)
qed

end
