(* ===== verification/Build_Scripts.thy ===== *)
theory Build_Scripts
  imports Eco2_Prelude
begin

text \<open>
  The build scripts: \<open>node/build.rs\<close> writes the keys that name the version of the node and asks for a
  rebuild when the commit changes; \<open>runtime/build.rs\<close> has the runtime compiled to WebAssembly. What
  the steps do is the build environment's, the parameters; a step of the node's script can fail (it
  panics), which ends the script.
\<close>

section \<open>The node\<close>

record 'w build_utils =
  generate_cargo_keys :: "'w \<Rightarrow> 'w option"
  rerun_if_git_head_changed :: "'w \<Rightarrow> 'w option"

definition node_build_main :: "'w build_utils \<Rightarrow> 'w \<Rightarrow> 'w option" where
  "node_build_main u w = Option.bind (generate_cargo_keys u w) (rerun_if_git_head_changed u)"

section \<open>The runtime\<close>

text \<open>The builder's methods: each takes the builder that the one before returned.\<close>

record ('b, 'w) wasm_builder =
  wasm_builder_new :: 'b
  with_current_project :: "'b \<Rightarrow> 'b"
  with_wasm_builder_from_crates :: "string \<Rightarrow> 'b \<Rightarrow> 'b"
  export_heap_base :: "'b \<Rightarrow> 'b"
  import_memory :: "'b \<Rightarrow> 'b"
  build :: "'b \<Rightarrow> 'w \<Rightarrow> 'w option"

definition runtime_build_main :: "('b, 'w) wasm_builder \<Rightarrow> 'w \<Rightarrow> 'w option" where
  "runtime_build_main b =
     build b (import_memory b (export_heap_base b (with_wasm_builder_from_crates b ''2.0.0''
       (with_current_project b (wasm_builder_new b)))))"

end
