(* ===== verification/Spec2Isabelle.thy ===== *)
theory Spec2Isabelle
  imports Runtime_Spec Runtime_Endowment Runtime_Provenance Runtime_Wiring Standard_Mock Carbon_Lifeline
    Node_Command Build_Scripts
begin

text \<open>
  A verification development for the ECO2 ledger, a Substrate chain for carbon credits.

  \<^bold>\<open>The program.\<close> The runtime (\<open>runtime/src\<close>) composes framework pallets with three pallets of the
  repository. \<open>pallets/standard-assets\<close> holds fungible assets that anybody issues.
  \<open>pallets/carbon-assets\<close> holds carbon projects and their assets: owners submit projects, assets,
  issues and burns, the carbon committee approves them, holders transfer units and neutralize them.
  \<open>pallets/carbon-exchange\<close> is an order book on top of it: ASK orders escrow units of a carbon asset
  in a pot account (it calls \<open>make_transfer\<close>, \<open>balance\<close> and \<open>has_asset\<close> of the carbon pallet), BID
  orders escrow the native currency (it calls \<open>transfer\<close> of \<open>pallet_balances\<close>). The node
  (\<open>node/src\<close>) makes the genesis of the built-in chains and starts the client.

  \<^bold>\<open>Theories.\<close>
  \<^item> \<open>Eco2_Prelude\<close>: integer widths, storage maps, dispatch results, 64-bit arithmetic, sums over all
    accounts (\<open>units\<close> modulo \<open>2 ^ 64\<close>, \<open>holdings\<close> exact), runs of calls.
  \<^item> \<open>Frame\<close>: what the framework provides, as parameters: origins, the hash of an identifier's
    preimage, the clock, the approval origin, the pot's account, the currency and its laws.
  \<^item> \<open>Interfaces\<close>: the contracts as locales: \<open>ledger\<close>, \<open>approval\<close>, \<open>checked_dispatch\<close>,
    \<open>invariant_run\<close>, \<open>refinement_run\<close>.
  \<^item> \<open>Standard_Assets\<close>: \<open>pallets/standard-assets/src/lib.rs\<close>, one definition per function
    (\<open>sa_issue\<close> for \<open>issue\<close>, and so on), with its properties; \<open>Standard_Tokens\<close>: the specification
    of unbounded tokens that the pallet refines, and the pallet's unit tests as scenarios;
    \<open>Standard_Mock\<close>: the runtime of those tests.
  \<^item> \<open>Carbon_Assets\<close>: \<open>pallets/carbon-assets/src/lib.rs\<close>; \<open>Carbon_Lifecycle\<close>: one rule per successful
    call, the interpretations of the contracts; \<open>Carbon_Invariants\<close>: well-formed storage;
    \<open>Carbon_Accounting\<close>: where units are and what a project's counter counts; \<open>Carbon_Properties\<close>:
    the properties; \<open>Carbon_Exact\<close>: the accounting in natural numbers; \<open>Carbon_Lifeline\<close>: the way
    from a project to its units; \<open>Carbon_Registry\<close>: the registry of credits that the pallet refines.
  \<^item> \<open>Carbon_Exchange\<close>: \<open>pallets/carbon-exchange/src/lib.rs\<close>; the branches of \<open>make_order\<close>,
    \<open>take_order\<close> and \<open>cancel_order\<close> on the direction are definitions of their own;
    \<open>Exchange_Escrow\<close>: the calls as a step relation and the escrow invariants;
    \<open>Exchange_Properties\<close>: the properties; \<open>Exchange_Deals\<close>: the end of deals, and what both sides of a
    deal can rely on; \<open>Exchange_Market\<close>: the order book that the pallet refines.
  \<^item> \<open>Runtime_Config\<close>: \<open>runtime/src/constants.rs\<close>, \<open>impls.rs\<close> and constants of \<open>lib.rs\<close>;
    \<open>Runtime_Calls\<close>: the outer call and the proxy filter; \<open>Runtime\<close>: the three pallets over their
    joint state, with their joint properties in \<open>Runtime_Properties\<close>, the escrow of a pot that starts
    with nothing in \<open>Runtime_Endowment\<close>, where credits come from in \<open>Runtime_Provenance\<close> and their
    joint specification in \<open>Runtime_Spec\<close>;
    \<open>Runtime_Governance\<close>: governance parameters, origins and the fee split of \<open>lib.rs\<close>;
    \<open>Runtime_Limits\<close>: its other parameters; \<open>Runtime_Pallets\<close>: \<open>construct_runtime!\<close> and every
    \<open>impl\<close> of a pallet's trait as data (\<open>staking_impl\<close> for \<open>impl pallet_staking::Trait\<close>, and so on),
    \<open>Runtime_Wiring\<close>: who may use which privilege; \<open>Runtime_Api\<close>: version, session keys and
    \<open>impl_runtime_apis!\<close>.
  \<^item> \<open>Genesis\<close>: \<open>node/src/chain_spec.rs\<close> and \<open>load_spec\<close> of \<open>node/src/command.rs\<close>;
    \<open>Node_Service\<close>: \<open>new_partial\<close>, \<open>new_full\<close>, \<open>new_light\<close> of \<open>node/src/service.rs\<close> and
    \<open>create_full\<close> of \<open>node/src/rpc.rs\<close>, as the framework calls they make; \<open>Node_Command\<close>:
    \<open>node/src/cli.rs\<close> and \<open>run\<close> of \<open>command.rs\<close>, the job each command line starts;
    \<open>Build_Scripts\<close>: \<open>node/build.rs\<close> and \<open>runtime/build.rs\<close>.

  \<^bold>\<open>State and operations.\<close> A pallet's storage is a record, one field per storage map (a partial
  function) and its event log; the zero default of a \<open>map => u64\<close> is read by \<open>vget\<close>. A call maps the
  environment, the origin and the arguments to a result and the state it leaves, on the error paths
  too: the framework version in use does not roll a failing call back. The checks are in the order of
  the code. \<open>+\<close> and \<open>-\<close> on \<open>u64\<close> wrap, as in the release profile. A run is a list of calls with
  their block time and origin.

  \<^bold>\<open>Specifications.\<close> Each pallet refines a specification over natural numbers: \<open>token_spec\<close> (holdings),
  \<open>registry_spec\<close> (projects, assets, issues, burns and credits) and \<open>market_spec\<close> (a book of offers
  with atomic deals, in which what is in escrow follows from the book). \<open>economy_spec\<close> puts them
  together as the runtime puts the pallets together. The abstraction functions \<open>tokens_of\<close>,
  \<open>registry_of\<close>, \<open>market_of\<close> and \<open>economy_of\<close> read the storage; the refinements are functional, on
  every branch and error, and lift to runs by the locale \<open>refinement_run\<close>.

  \<^bold>\<open>What is shown.\<close> For the carbon pallet: it refines the registry; the storage is well-formed after
  every run; the units of an asset are held, neutralized or in pending burns, modulo \<open>2 ^ 64\<close> always
  and exactly as long as issues fit; the committee alone approves; balances change for a reason;
  when approvals succeed. For the exchange: it refines the order book; the escrow is solvent over
  every run, and what the pot holds changes exactly with what the orders escrow; deals end; ASK and
  BID orders can be cancelled and dealt with, for exactly their price; orders change for a reason. For the standard pallet: it
  refines a ledger of unbounded tokens as long as \<open>mint\<close> is used on issued assets within 64 bits,
  and its unit tests pass for every hash function. For the runtime: the invariants hold and the
  specifications are refined jointly over interleaved calls, also from the moment on in which a pot
  that starts with nothing, as on the built-in chains, is endowed; failing calls change nothing but
  for one case, what is registered is permanent, and every credit goes back to a project and an asset
  that its owner submitted and the committee or the root approved; proxy types include one another as
  their filters do; no privilege is an account's and those of council and committee are disjoint; the
  powers of the council are nested. For the node: its construction follows a
  plan, consensus follows the role, a light node is passive, the network is started last and only by
  a complete node, and no subcommand starts it. Where the code departs from its intent the
  development proves that too: initial supplies are not counted against a project's maximum,
  approved burns and issues wrap the counter, a pending burn can be submitted twice, a BID deal is
  not atomic, a saturated lock is overdrawn, a pot that was never endowed can be reaped with locks
  in it, \<open>mint\<close> ignores the maximum and the issuer, generated session keys do not fit the session
  pallet, the vote conversion truncates the largest balance, the development genesis bonds an
  unfunded stash and the runtime of the unit tests is written for another version of the framework.

  \<^bold>\<open>Hypotheses.\<close> About the hash function nothing is assumed (collisions included). The currency is
  assumed to behave as its documentation says (\<open>currency_laws\<close>, and \<open>pot_can_pay\<close> where a payment has
  to succeed); \<open>sample_transfer\<close> is an instance of both. \<open>key_codec_laws\<close> and \<open>share_laws\<close> state the
  codec of session keys and the shares of a collective; \<open>reaps\<close> states that a payment which leaves its
  sender less than the existential deposit takes the rest of its balance. The side conditions of the
  run theorems (\<open>sa_mint_ok\<close>, \<open>burn_id_free\<close>, \<open>burn_covered\<close>, \<open>supply_fits\<close>, \<open>cx_ok\<close>, \<open>runtime_ok\<close>, \<open>ask_ok\<close>,
  \<open>registry_ok\<close>, \<open>market_ok\<close>, \<open>economy_ok\<close>) exclude the calls whose misbehaviour is proved separately,
  and calls signed by the pot, for which no key exists. No definition needs fuel: every one
  terminates structurally.

  \<^bold>\<open>Not modelled.\<close> Weights and the charging of fees, so also the signed extensions of a transaction
  and the executive; the framework pallets, whose calls are opaque (what they change of the joint state
  of the three pallets is an arbitrary step on the currency, and the calls that they dispatch are
  calls of the run); the dispatch of the outer call that \<open>construct_runtime!\<close> generates; key derivation
  and parsing of specification files (parameters); what the framework's objects of a node do once
  they are started; the native executor macro; and what the build environment does in the steps of
  the build scripts.
\<close>

section \<open>Properties of the three pallets together\<close>

text \<open>
  C1. The runtime as a whole, from genesis with a pot that holds the existential deposit: after any
  run of calls of the three pallets, in any order and with anything other pallets do to the currency
  in between, the carbon storage is well-formed, every asset's units are accounted for, the pot holds
  the units of all ASK orders and the locks of all BID orders, and every order is on an approved
  asset. The run may not: sign as the pot, reuse the id of a pending burn, approve an issue that
  takes an asset's balances past 64 bits, bid for more than 64 bits of money, or take currency out
  of the pot by other means.
\<close>

theorem runtime_invariants:
  assumes "currency_laws ed free transfer" and "ed \<le> free c (pot_account_id env)"
    and "ok_run (runtime_ok env free) (runtime_dispatch env transfer) cs (runtime_genesis c)"
  shows "let r = run_calls (runtime_dispatch env transfer) cs (runtime_genesis c);
             w = exchange r; s = carbon w; pot = pot_account_id env
    in ca_wf s \<and>
       (\<forall>aid. units (ca_Balances s) aid + neutralized s aid + pending_burns s aid
          = recorded_supply s aid) \<and>
       (\<forall>aid. asks_left aid w \<le> unat (ca_balance s aid pot)) \<and>
       ed + bids_locked w \<le> free (currency w) pot \<and>
       (\<forall>oid order. Orders w oid = Some order \<longrightarrow> has_asset s (or_asset_id order))"
proof -
  let ?r = "run_calls (runtime_dispatch env transfer) cs (runtime_genesis c)"
  have "currency_laws ed free transfer \<and> runtime_inv ed free (pot_account_id env) ?r"
    by (rule runtime_joint.run_inv [OF _ assms(3)])
      (simp add: assms(1) runtime_inv_genesis [where free = free, OF assms(2)])
  then show ?thesis
    by (simp add: Let_def runtime_inv_def carbon_inv_def ca_accounted_def escrowed_def
        asks_backed_def bids_backed_def orders_wf_def order_wf_def)
qed

definition runtime_sample :: "(u64 \<times> origin \<times> (account \<Rightarrow> nat) eco2_call) list" where
  "runtime_sample =
     map (\<lambda>(t, og, k). (t, og, Carbon_assets k)) carbon_setup @
     [(20, Signed 5, Standard_assets (Sa_issue [65] [66] 8 1000 100)),
      (30, Signed 1, Carbon_exchange (Make_order 3001 0 7 20 0 1)),
      (31, Signed 9, Other_pallet (\<lambda>_. 2000)),
      (32, Signed 2, Carbon_exchange (Take_order 6001 5)),
      (33, Signed 1, Carbon_assets (Submit_burn 3001 10 [0])),
      (34, Root, Carbon_assets (Approve_burn 5001))]"

theorem runtime_invariants_witness:
  "let r = run_calls (runtime_dispatch sample_env sample_transfer) runtime_sample
             (runtime_genesis (\<lambda>_. 1000));
       s = carbon (exchange r)
   in ca_balance s 3001 99 = 15 \<and> asks_left 3001 (exchange r) \<le> 15 \<and>
      units (ca_Balances s) 3001 + neutralized s 3001 + pending_burns s 3001 = 30"
proof -
  let ?r = "run_calls (runtime_dispatch sample_env sample_transfer) runtime_sample
             (runtime_genesis (\<lambda>_. 1000))"
  let ?s = "carbon (exchange ?r)"
  note ev = runtime_sample_def carbon_setup_def runtime_genesis_def cx_eval sample_transfer_def
    saturating_mul_def cx_ok_def
  have ok: "ok_run (runtime_ok sample_env (\<lambda>c. c)) (runtime_dispatch sample_env sample_transfer)
      runtime_sample (runtime_genesis (\<lambda>_. 1000))"
    by (simp add: ev)
  have b: "ca_balance ?s 3001 99 = 15" "recorded_supply ?s 3001 = 30"
    by (simp_all add: ev recorded_supply_def)
  from runtime_invariants [OF sample_transfer_laws _ ok]
  have "asks_left 3001 (exchange ?r) \<le> unat (ca_balance ?s 3001 99)"
    and "units (ca_Balances ?s) 3001 + neutralized ?s 3001 + pending_burns ?s 3001
      = recorded_supply ?s 3001"
    by (simp_all add: Let_def)
  with b show ?thesis by (simp add: Let_def)
qed

text \<open>
  No carbon credits without the committee: with the runtime's approval origin, whatever accounts
  sign and whatever the council decides, after any run of calls of the three pallets from genesis
  there is no asset, nobody holds a unit and there is no order; projects are at most submitted.
\<close>

theorem no_credits_without_committee:
  assumes "approve_origin env = carbon_approve_origin more_than"
    and "list_all (\<lambda>(t, og, k). case og of Signed _ \<Rightarrow> True | Council_origin _ \<Rightarrow> True
           | Unsigned \<Rightarrow> True | _ \<Rightarrow> False) cs"
  shows "let w = exchange (run_calls (runtime_dispatch env transfer) cs (runtime_genesis c))
    in Assets (carbon w) = Map.empty \<and> (\<forall>aid x. ca_balance (carbon w) aid x = 0) \<and>
       Orders w = Map.empty \<and> (\<forall>pid. project_status (carbon w) pid \<noteq> Some 1)"
proof -
  let ?r = "run_calls (runtime_dispatch env transfer) cs (runtime_genesis c)"
  have "list_all (\<lambda>k. \<not> approve_origin env (fst (snd k))) cs"
    using assms(2) unfolding assms(1) list_all_iff
    by (auto simp: carbon_approve_origin_def split: origin.splits)
  then have "ok_run (\<lambda>c _. \<not> approve_origin env (fst (snd c))) (runtime_dispatch env transfer) cs
      (runtime_genesis c)" by (rule ok_run_list_all)
  moreover have "nothing_approved (runtime_genesis c)"
    using ca_wf_genesis
    by (simp add: nothing_approved_def runtime_genesis_def project_status_def ca_genesis_def)
  ultimately have n: "nothing_approved ?r" by (intro unapproved.run_inv)
  then have "Orders (exchange ?r) = Map.empty \<and>
      (\<forall>pid. project_status (carbon (exchange ?r)) pid \<noteq> Some 1)"
    by (simp add: nothing_approved_def)
  with nothing_approved_assets [OF n] nothing_approved_units [OF n]
  show ?thesis by (simp add: Let_def)
qed

theorem no_credits_without_committee_witness:
  "let env = sample_env\<lparr>approve_origin := carbon_approve_origin (\<lambda>_ _ _. False)\<rparr>;
       w = exchange (run_calls (runtime_dispatch env sample_transfer)
             [(10, Signed 1, Carbon_assets (Submit_project [80] 100 [0])),
              (11, Signed 1, Carbon_assets (Approve_project 2001)),
              (12, Signed 1, Carbon_assets (Submit_asset 2001 [50] 40 [0]))]
             (runtime_genesis (\<lambda>_. 1000)))
   in Assets (carbon w) = Map.empty \<and> project_status (carbon w) 2001 \<noteq> Some 1"
proof -
  let ?env = "sample_env\<lparr>approve_origin := carbon_approve_origin (\<lambda>_ _ _. False)\<rparr>"
  show ?thesis
    using no_credits_without_committee [of ?env "\<lambda>_ _ _. False"
        "[(10, Signed 1, Carbon_assets (Submit_project [80] 100 [0])),
              (11, Signed 1, Carbon_assets (Approve_project 2001)),
              (12, Signed 1, Carbon_assets (Submit_asset 2001 [50] 40 [0]))]"
        sample_transfer "\<lambda>_. 1000"]
    by (simp add: Let_def)
qed

end
